(* ===== verification/Js.thy ===== *)
theory Js
  imports Prelude
begin

text \<open>
  The JavaScript values that cross the wire, and the operations of the language and its
  standard library that the services use on them: property access, object rest
  (\<^verbatim>\<open>const { a, ...rest } = ob\<close>), \<^verbatim>\<open>String.prototype\<close> operations, and
  \<^verbatim>\<open>JSON.stringify\<close>.

  Strings are lists of characters with codes below 256. Numbers are exact: \<open>Fin q\<close> for a
  finite number, and the three values that are not finite. How a finite number is printed is a
  parameter (\<open>numstr\<close>) wherever a printed number can be observed.
\<close>

section \<open>Values\<close>

datatype jsnum = Fin rat | NaN | PosInf | NegInf

datatype jsval =
    JUndefined
  | JNull
  | JBool bool
  | JNum jsnum
  | JStr string
  | JArr "jsval list"
  | JObj "(string \<times> jsval) list"

type_synonym jsobj = "(string \<times> jsval) list"

definition jint :: "int \<Rightarrow> jsval" where
  "jint i = JNum (Fin (of_int i))"

text \<open>\<^verbatim>\<open>Number.isFinite\<close>, and a number that is an integer of the safe range.\<close>

fun is_finite_num :: "jsnum \<Rightarrow> bool" where
  "is_finite_num (Fin q) = True"
| "is_finite_num _ = False"

fun is_safe_int :: "jsnum \<Rightarrow> bool" where
  "is_safe_int (Fin q) = (of_int \<lfloor>q\<rfloor> = q \<and> \<bar>q\<bar> \<le> 9007199254740991)"
| "is_safe_int _ = False"

lemma is_safe_int_of_int [simp]:
  "is_safe_int (Fin (of_int i)) \<longleftrightarrow> \<bar>i\<bar> \<le> 9007199254740991"
proof -
  have "(\<bar>of_int i\<bar> \<le> (9007199254740991 :: rat)) = (of_int \<bar>i\<bar> \<le> (of_int 9007199254740991 :: rat))"
    by simp
  also have "\<dots> = (\<bar>i\<bar> \<le> 9007199254740991)" by (simp only: of_int_le_iff)
  finally show ?thesis by simp
qed

section \<open>Objects\<close>

text \<open>Reading a property: an absent one is undefined.\<close>

definition jget :: "jsobj \<Rightarrow> string \<Rightarrow> jsval" where
  "jget ob k = (case map_of ob k of None \<Rightarrow> JUndefined | Some v \<Rightarrow> v)"

lemma jget_simps [simp]:
  "jget [] k = JUndefined"
  "jget ((k', v) # ob) k = (if k' = k then v else jget ob k)"
  by (auto simp: jget_def)

definition has_key :: "string \<Rightarrow> jsobj \<Rightarrow> bool" where
  "has_key k ob = (k \<in> set (map fst ob))"

lemma has_key_simps [simp]:
  "\<not> has_key k []"
  "has_key k ((k', v) # ob) \<longleftrightarrow> k' = k \<or> has_key k ob"
  by (auto simp: has_key_def)

lemma jget_absent: "\<not> has_key k ob \<Longrightarrow> jget ob k = JUndefined"
  by (induction ob) auto

lemma has_key_jget: "jget ob k \<noteq> JUndefined \<Longrightarrow> has_key k ob"
  using jget_absent by blast

text \<open>The object of a pattern's rest element: every property but the named ones.\<close>

definition obj_rest :: "string list \<Rightarrow> jsobj \<Rightarrow> jsobj" where
  "obj_rest ks ob = filter (\<lambda>(k, v). k \<notin> set ks) ob"

lemma has_key_obj_rest [simp]: "has_key k (obj_rest ks ob) \<longleftrightarrow> has_key k ob \<and> k \<notin> set ks"
  by (induction ob) (auto simp: obj_rest_def)

lemma jget_obj_rest [simp]: "jget (obj_rest ks ob) k = (if k \<in> set ks then JUndefined else jget ob k)"
  by (induction ob) (auto simp: obj_rest_def split: if_splits)

text \<open>A property read where the type says string: anything else counts as undefined.\<close>

fun as_string :: "jsval \<Rightarrow> string option" where
  "as_string (JStr s) = Some s"
| "as_string _ = None"

fun as_obj :: "jsval \<Rightarrow> jsobj option" where
  "as_obj (JObj ob) = Some ob"
| "as_obj _ = None"

text \<open>
  Reading a property of any value, \<open>None\<close> for the exception: null and undefined throw, a value that
  is not an object has none of the properties the source reads (it never reads a built-in one).
\<close>

fun member :: "jsval \<Rightarrow> string \<Rightarrow> jsval option" where
  "member JUndefined k = None"
| "member JNull k = None"
| "member (JObj ob) k = Some (jget ob k)"
| "member _ k = Some JUndefined"

text \<open>
  The text of an optional property: present with its value, or left out, as
  \<^verbatim>\<open>JSON.stringify\<close> leaves out an undefined property.
\<close>

fun opt_field :: "string \<Rightarrow> jsval option \<Rightarrow> jsobj" where
  "opt_field k None = []"
| "opt_field k (Some v) = [(k, v)]"

lemma opt_field_keys [simp]:
  "has_key k (opt_field k' x) \<longleftrightarrow> k = k' \<and> x \<noteq> None"
  "jget (opt_field k' x) k = (if k = k' then nullish x JUndefined else JUndefined)"
  by (cases x; auto)+

lemma jget_append: "jget (ob @ p) k = (if has_key k ob then jget ob k else jget p k)"
  by (induction ob) auto

lemma has_key_append [simp]: "has_key k (ob @ p) \<longleftrightarrow> has_key k ob \<or> has_key k p"
  by (auto simp: has_key_def)

section \<open>Strings\<close>

text \<open>The white space and line terminators of \<^verbatim>\<open>trim\<close>, among the codes below 256.\<close>

definition js_space :: "char \<Rightarrow> bool" where
  "js_space c = (c \<in> set [CHR 0x09, CHR 0x0A, CHR 0x0B, CHR 0x0C, CHR 0x0D, CHR 0x20, CHR 0xA0])"

definition js_trim :: "string \<Rightarrow> string" where
  "js_trim s = rev (dropWhile js_space (rev (dropWhile js_space s)))"

definition startsWith :: "string \<Rightarrow> string \<Rightarrow> bool" where
  "startsWith pre s = (take (length pre) s = pre)"

lemma startsWith_append: "startsWith pre s \<longleftrightarrow> (\<exists>t. s = pre @ t)"
  by (metis append_eq_conv_conj append_take_drop_id startsWith_def)

text \<open>Decimal text of an integer, as a template literal prints it (magnitude below \<open>10 ^ 21\<close>).\<close>

fun show_nat :: "nat \<Rightarrow> string" where
  "show_nat n = (if n < 10 then [char_of (48 + n)]
     else show_nat (n div 10) @ [char_of (48 + n mod 10)])"

declare show_nat.simps [simp del]

definition show_int :: "int \<Rightarrow> string" where
  "show_int i = (if i < 0 then CHR ''-'' # show_nat (nat (- i)) else show_nat (nat i))"

section \<open>JSON.stringify\<close>

definition LF :: char where "LF = CHR 0x0A"

definition hex_digit :: "nat \<Rightarrow> char" where
  "hex_digit n = ''0123456789abcdef'' ! (n mod 16)"

text \<open>The quoting of one character of a string.\<close>

definition json_char :: "char \<Rightarrow> string" where
  "json_char c =
     (if c = CHR 0x22 then [CHR 0x5C, CHR 0x22]
      else if c = CHR 0x5C then [CHR 0x5C, CHR 0x5C]
      else if c = CHR 0x08 then [CHR 0x5C, CHR ''b'']
      else if c = CHR 0x0C then [CHR 0x5C, CHR ''f'']
      else if c = LF then [CHR 0x5C, CHR ''n'']
      else if c = CHR 0x0D then [CHR 0x5C, CHR ''r'']
      else if c = CHR 0x09 then [CHR 0x5C, CHR ''t'']
      else if (of_char c :: nat) < 32
        then [CHR 0x5C, CHR ''u'', CHR ''0'', CHR ''0'', hex_digit (of_char c div 16), hex_digit (of_char c)]
      else [c])"

definition json_quote :: "string \<Rightarrow> string" where
  "json_quote s = [CHR 0x22] @ concat (map json_char s) @ [CHR 0x22]"

text \<open>
  \<^verbatim>\<open>JSON.stringify(v)\<close>, with \<open>None\<close> for undefined. An undefined array element prints as null,
  an undefined property is left out, a number that is not finite prints as null.
\<close>

fun JSON_stringify :: "(rat \<Rightarrow> string) \<Rightarrow> jsval \<Rightarrow> string option" where
  "JSON_stringify numstr JUndefined = None"
| "JSON_stringify numstr JNull = Some ''null''"
| "JSON_stringify numstr (JBool b) = Some (if b then ''true'' else ''false'')"
| "JSON_stringify numstr (JNum (Fin q)) = Some (numstr q)"
| "JSON_stringify numstr (JNum _) = Some ''null''"
| "JSON_stringify numstr (JStr s) = Some (json_quote s)"
| "JSON_stringify numstr (JArr vs) =
     Some (''['' @ js_join '','' (map (\<lambda>v. nullish (JSON_stringify numstr v) ''null'') vs) @ '']'')"
| "JSON_stringify numstr (JObj ob) =
     Some (''{'' @ js_join '','' (concat (map (\<lambda>(k, v).
       case JSON_stringify numstr v of None \<Rightarrow> [] | Some t \<Rightarrow> [json_quote k @ '':'' @ t]) ob)) @ ''}'')"

section \<open>A JSON text never spans lines\<close>

lemma hex_digit_not_LF: "hex_digit n \<noteq> LF"
proof -
  have "n mod 16 < 16" by simp
  then have "n mod 16 \<in> set [0..<16]" by simp
  then show ?thesis by (auto simp: hex_digit_def LF_def upt_rec)
qed

lemma LF_json_char: "LF \<notin> set (json_char c)"
  using hex_digit_not_LF [of "of_char c div 16"] hex_digit_not_LF [of "of_char c"]
  by (auto simp: json_char_def LF_def)

lemma LF_json_quote [simp]: "LF \<notin> set (json_quote s)"
  using LF_json_char by (auto simp: json_quote_def LF_def)

lemma set_js_join: "set (js_join sep xs) \<subseteq> set sep \<union> \<Union> (set ` set xs)"
  by (induction sep xs rule: js_join.induct) auto

lemma LF_js_join: "LF \<notin> set sep \<Longrightarrow> (\<And>x. x \<in> set xs \<Longrightarrow> LF \<notin> set x) \<Longrightarrow> LF \<notin> set (js_join sep xs)"
  using set_js_join by fastforce

text \<open>
  The text of a value contains no line feed, whatever the strings in it contain, as long as
  the text of a number contains none.
\<close>

lemma stringify_no_LF:
  assumes "\<forall>q. LF \<notin> set (numstr q)" and "JSON_stringify numstr v = Some t"
  shows "LF \<notin> set t"
  using assms
proof (induction numstr v arbitrary: t rule: JSON_stringify.induct)
  case (7 numstr vs)
  have "LF \<notin> set (js_join '','' (map (\<lambda>v. nullish (JSON_stringify numstr v) ''null'') vs))"
  proof (rule LF_js_join)
    fix x assume "x \<in> set (map (\<lambda>v. nullish (JSON_stringify numstr v) ''null'') vs)"
    then obtain v where v: "v \<in> set vs" "x = nullish (JSON_stringify numstr v) ''null''" by auto
    then show "LF \<notin> set x"
      using "7.IH" "7.prems"(1) by (cases "JSON_stringify numstr v") (auto simp: LF_def)
  qed (simp add: LF_def)
  with "7.prems" show ?case by (auto simp: LF_def)
next
  case (8 numstr ob)
  have "LF \<notin> set (js_join '','' (concat (map (\<lambda>(k, v).
      case JSON_stringify numstr v of None \<Rightarrow> [] | Some t \<Rightarrow> [json_quote k @ '':'' @ t]) ob)))"
  proof (rule LF_js_join)
    fix x assume "x \<in> set (concat (map (\<lambda>(k, v).
      case JSON_stringify numstr v of None \<Rightarrow> [] | Some t \<Rightarrow> [json_quote k @ '':'' @ t]) ob))"
    then obtain k v u where "(k, v) \<in> set ob" "JSON_stringify numstr v = Some u"
      "x = json_quote k @ '':'' @ u"
      by (fastforce split: option.splits)
    then show "LF \<notin> set x" using "8.IH" [of "(k, v)"] "8.prems"(1) LF_json_quote [of k] by (auto simp: LF_def)
  qed (simp add: LF_def)
  with "8.prems" show ?case by (auto simp: LF_def)
qed (use LF_json_quote in \<open>auto simp: LF_def split: if_splits\<close>)

end
