(* ===== verification/Zod.thy ===== *)
theory Zod
  imports Js
begin

text \<open>
  The schema language the services and the web application declare their payloads in. A schema
  of the source is a value of type \<open>zschema\<close>, one constructor for each combinator that the
  source calls. The library that runs the schemas is not part of the repository: every
  definition that validates takes \<open>safeParse\<close> as an argument, and the locale \<open>zod\<close> states what
  the library documents about it. The documented reading of a schema is \<open>zod_reads\<close>; it says
  nothing about which issues a failed parse reports, only that there is one.
\<close>

datatype strcheck = MinLen nat string | TrimStr

datatype numcheck = IsInt | IsPositive | MinNum int

datatype zschema =
    ZString "strcheck list"
  | ZNumber "numcheck list"
  | ZBoolean
  | ZUnknown
  | ZEnum "string list"
  | ZLiteral string
  | ZArray "(nat \<times> string) option" zschema
  | ZRecord zschema
  | ZOptional zschema
  | ZNullable zschema
  | ZObject bool "(string \<times> zschema) list"

record zissue =
  zi_path :: "string list"
  zi_message :: string

datatype zresult = ZSuccess jsval | ZFailure "zissue list"

section \<open>The documented reading of a schema\<close>

text \<open>String checks run in the order they are chained; \<^verbatim>\<open>trim\<close> changes the value.\<close>

fun str_checks :: "strcheck list \<Rightarrow> string \<Rightarrow> string option" where
  "str_checks [] s = Some s"
| "str_checks (MinLen n m # cs) s = (if n \<le> length s then str_checks cs s else None)"
| "str_checks (TrimStr # cs) s = str_checks cs (js_trim s)"

fun num_check :: "jsnum \<Rightarrow> numcheck \<Rightarrow> bool" where
  "num_check n IsInt = is_safe_int n"
| "num_check (Fin q) IsPositive = (0 < q)"
| "num_check (Fin q) (MinNum m) = (of_int m \<le> q)"
| "num_check _ _ = False"

text \<open>
  The output of a successful parse, \<open>None\<close> for a failure. A strict object refuses unknown
  properties, another object drops them; a property that the input lacks is read as undefined
  and does not appear in the output.
\<close>

fun zod_reads :: "zschema \<Rightarrow> jsval \<Rightarrow> jsval option" where
  "zod_reads (ZString cs) v =
     (case v of JStr s \<Rightarrow> map_option JStr (str_checks cs s) | _ \<Rightarrow> None)"
| "zod_reads (ZNumber cs) v =
     (case v of JNum n \<Rightarrow> if is_finite_num n \<and> list_all (num_check n) cs then Some v else None
      | _ \<Rightarrow> None)"
| "zod_reads ZBoolean v = (case v of JBool b \<Rightarrow> Some v | _ \<Rightarrow> None)"
| "zod_reads ZUnknown v = Some v"
| "zod_reads (ZEnum xs) v = (case v of JStr s \<Rightarrow> if s \<in> set xs then Some v else None | _ \<Rightarrow> None)"
| "zod_reads (ZLiteral x) v = (if v = JStr x then Some v else None)"
| "zod_reads (ZArray m s) v =
     (case v of
        JArr vs \<Rightarrow> if (case m of None \<Rightarrow> True | Some (n, msg) \<Rightarrow> n \<le> length vs)
          then map_option JArr (those (map (zod_reads s) vs)) else None
      | _ \<Rightarrow> None)"
| "zod_reads (ZRecord s) v =
     (case v of
        JObj ob \<Rightarrow> map_option JObj (those (map (\<lambda>(k, x). map_option (Pair k) (zod_reads s x)) ob))
      | _ \<Rightarrow> None)"
| "zod_reads (ZOptional s) v = (if v = JUndefined then Some v else zod_reads s v)"
| "zod_reads (ZNullable s) v = (if v = JNull then Some v else zod_reads s v)"
| "zod_reads (ZObject strict flds) v =
     (case v of
        JObj ob \<Rightarrow>
          if strict \<and> \<not> list_all (\<lambda>kv. fst kv \<in> set (map fst flds)) ob then None
          else map_option (\<lambda>rs. JObj (filter (\<lambda>kv. has_key (fst kv) ob) rs))
            (those (map (\<lambda>(k, s). map_option (Pair k) (zod_reads s (jget ob k))) flds))
      | _ \<Rightarrow> None)"

text \<open>What the library promises of \<^verbatim>\<open>schema.safeParse(value)\<close>.\<close>

locale zod =
  fixes safeParse :: "zschema \<Rightarrow> jsval \<Rightarrow> zresult"
  assumes parse_success: "zod_reads s v = Some w \<Longrightarrow> safeParse s v = ZSuccess w"
    and parse_failure: "zod_reads s v = None \<Longrightarrow> \<exists>is. is \<noteq> [] \<and> safeParse s v = ZFailure is"
begin

lemma parse_cases:
  obtains (accepted) w where "zod_reads s v = Some w" "safeParse s v = ZSuccess w"
  | (refused) "is" where "zod_reads s v = None" "is \<noteq> []" "safeParse s v = ZFailure is"
  using parse_success parse_failure by (cases "zod_reads s v") blast+

lemma parse_success_iff: "safeParse s v = ZSuccess w \<longleftrightarrow> zod_reads s v = Some w"
  by (rule parse_cases [of s v]) auto

end

text \<open>An instance of the interface: one issue, at the root, for every failed parse.\<close>

definition zod_reference :: "zschema \<Rightarrow> jsval \<Rightarrow> zresult" where
  "zod_reference s v =
     (case zod_reads s v of
        Some w \<Rightarrow> ZSuccess w
      | None \<Rightarrow> ZFailure [\<lparr>zi_path = [], zi_message = ''Invalid input''\<rparr>])"

interpretation zref: zod zod_reference
  by unfold_locales (auto simp: zod_reference_def)

section \<open>Reading objects\<close>

lemma those_map_Some: "those (map f xs) = Some ys \<longleftrightarrow> list_all2 (\<lambda>x y. f x = Some y) xs ys"
proof (induction xs arbitrary: ys)
  case Nil
  then show ?case by auto
next
  case (Cons x xs)
  then show ?case by (cases ys) (auto split: option.splits)
qed

lemma those_map_None: "those (map f xs) = None \<longleftrightarrow> (\<exists>x\<in>set xs. f x = None)"
  by (induction xs) (auto split: option.splits)

text \<open>
  Shape of an accepted object: every declared property of the input reads, the output holds
  exactly the declared properties that the input has, and a strict schema has seen no other.
\<close>

lemma read_fields:
  assumes "list_all2 (\<lambda>(k, s) y. map_option (Pair k) (zod_reads s (jget ob k)) = Some y) flds rs"
    and "distinct (map fst flds)" and "(k, s) \<in> set flds"
  shows "zod_reads s (jget ob k) = Some (jget rs k)"
  using assms
proof (induction flds rs rule: list_all2_induct)
  case Nil
  then show ?case by simp
next
  case (Cons f fs y ys)
  then show ?case by (cases f; cases y) (auto simp: image_iff split: if_splits)
qed

lemma read_fields_keys:
  assumes "list_all2 (\<lambda>(k, s) y. map_option (Pair k) (zod_reads s (jget ob k)) = Some y) flds rs"
  shows "map fst rs = map fst flds"
  using assms by (induction flds rs rule: list_all2_induct) auto

lemma jget_filter_keys: "jget (filter (\<lambda>kv. P (fst kv)) ob) k = (if P k then jget ob k else JUndefined)"
  by (induction ob) (auto split: if_splits)

lemma has_key_filter_keys: "has_key k (filter (\<lambda>kv. P (fst kv)) ob) \<longleftrightarrow> P k \<and> has_key k ob"
  by (induction ob) auto

lemma zod_reads_ObjectE:
  assumes "zod_reads (ZObject strict flds) v = Some w" and "distinct (map fst flds)"
  obtains ob ob' where "v = JObj ob" "w = JObj ob'"
    "\<And>k s. (k, s) \<in> set flds \<Longrightarrow> has_key k ob \<Longrightarrow> zod_reads s (jget ob k) = Some (jget ob' k)"
    "\<And>k s. (k, s) \<in> set flds \<Longrightarrow> \<not> has_key k ob \<Longrightarrow>
       zod_reads s JUndefined \<noteq> None \<and> jget ob' k = JUndefined"
    "\<And>k. has_key k ob' \<longleftrightarrow> has_key k ob \<and> k \<in> set (map fst flds)"
    "\<And>k. strict \<Longrightarrow> has_key k ob \<Longrightarrow> k \<in> set (map fst flds)"
proof -
  from assms(1) obtain ob where v: "v = JObj ob" by (cases v) auto
  from assms(1) v have ok: "\<not> strict \<or> list_all (\<lambda>kv. fst kv \<in> set (map fst flds)) ob"
    by (auto split: if_splits)
  from assms(1) v obtain rs where
    "those (map (\<lambda>(k, s). map_option (Pair k) (zod_reads s (jget ob k))) flds) = Some rs"
    and w: "w = JObj (filter (\<lambda>kv. has_key (fst kv) ob) rs)"
    by (auto split: if_splits)
  then have rs: "list_all2 (\<lambda>(k, s) y. map_option (Pair k) (zod_reads s (jget ob k)) = Some y) flds rs"
    unfolding those_map_Some by (simp add: case_prod_unfold)
  show ?thesis
  proof (rule that [OF v w])
    fix k s assume ks: "(k, s) \<in> set flds"
    from read_fields [OF rs assms(2) this]
    have r: "zod_reads s (jget ob k) = Some (jget rs k)" .
    show "has_key k ob \<Longrightarrow> zod_reads s (jget ob k) = Some (jget (filter (\<lambda>kv. has_key (fst kv) ob) rs) k)"
      using r jget_filter_keys [of "\<lambda>k. has_key k ob" rs k] by simp
    show "\<not> has_key k ob \<Longrightarrow> zod_reads s JUndefined \<noteq> None \<and>
        jget (filter (\<lambda>kv. has_key (fst kv) ob) rs) k = JUndefined"
      using r jget_filter_keys [of "\<lambda>k. has_key k ob" rs k] by (simp add: jget_absent)
  next
    fix k
    show "has_key k (filter (\<lambda>kv. has_key (fst kv) ob) rs) \<longleftrightarrow> has_key k ob \<and> k \<in> set (map fst flds)"
      using has_key_filter_keys [of k "\<lambda>k. has_key k ob" rs] read_fields_keys [OF rs]
      by (simp add: has_key_def)
    show "strict \<Longrightarrow> has_key k ob \<Longrightarrow> k \<in> set (map fst flds)"
      using ok by (auto simp: has_key_def list_all_iff)
  qed
qed

lemma zod_reads_not_object: "(\<And>ob. v \<noteq> JObj ob) \<Longrightarrow> zod_reads (ZObject strict flds) v = None"
  by (cases v) auto

lemma zod_reads_unknown_key:
  assumes "has_key k ob" and "k \<notin> set (map fst flds)"
  shows "zod_reads (ZObject True flds) (JObj ob) = None"
  using assms by (auto simp: has_key_def list_all_iff)

lemma zod_reads_bad_field:
  assumes "(k, s) \<in> set flds" and "zod_reads s (jget ob k) = None"
  shows "zod_reads (ZObject strict flds) (JObj ob) = None"
proof -
  have "\<exists>x\<in>set flds. (case x of (k, s) \<Rightarrow> map_option (Pair k) (zod_reads s (jget ob k))) = None"
    using assms by force
  then show ?thesis by (simp add: those_map_None)
qed

text \<open>An optional string reads as a string or as undefined.\<close>

lemma zod_reads_opt_string:
  "zod_reads (ZOptional (ZString [])) x = Some y \<Longrightarrow> y = x \<and> (x = JUndefined \<or> (\<exists>s. x = JStr s))"
  by (auto split: if_splits jsval.splits)

lemma zod_reads_min_string:
  "zod_reads (ZString [MinLen n m]) x = Some y \<longleftrightarrow> y = x \<and> (\<exists>s. x = JStr s \<and> n \<le> length s)"
  by (auto split: if_splits jsval.splits)

end
