(* ===== verification/Hub_Types.thy ===== *)
theory Hub_Types
  imports Zod
begin

text \<open>
  The broadcast service (\<^verbatim>\<open>services/broadcast/src\<close>), its data: event types, channels and the
  event that goes over the wire (\<^verbatim>\<open>types.ts\<close>), the payload schemas of the producers
  (\<^verbatim>\<open>schemas.ts\<close>), requests and responses, and the body validation that every ingest route
  starts with (\<^verbatim>\<open>validate.ts\<close>).
\<close>

section \<open>types.ts\<close>

datatype EventType =
    AIRPORT_ARRIVAL
  | HOTEL_CONFIRM
  | HOTEL_CANCEL
  | BEACH_FULL
  | BEACH_AVAILABLE
  | CRAB_ORDER_PLACED
  | CRAB_SOLD_OUT
  | PARROT_CURSED
  | PUBLIC_ANNOUNCEMENT
  | ADMIN_ANNOUNCEMENT

fun event_type_str :: "EventType \<Rightarrow> string" where
  "event_type_str AIRPORT_ARRIVAL = ''airport.arrival''"
| "event_type_str HOTEL_CONFIRM = ''hotel.reservation_confirmed''"
| "event_type_str HOTEL_CANCEL = ''hotel.reservation_cancelled''"
| "event_type_str BEACH_FULL = ''beach.activity_full''"
| "event_type_str BEACH_AVAILABLE = ''beach.activity_available''"
| "event_type_str CRAB_ORDER_PLACED = ''crab.order_placed''"
| "event_type_str CRAB_SOLD_OUT = ''crab.sold_out''"
| "event_type_str PARROT_CURSED = ''parrot.cursed''"
| "event_type_str PUBLIC_ANNOUNCEMENT = ''public.announcement''"
| "event_type_str ADMIN_ANNOUNCEMENT = ''admin.announcement''"

datatype ChannelId = Airport | Hotel | Beach | Crab | Parrot | Broadcast | ResortWide

fun channel_str :: "ChannelId \<Rightarrow> string" where
  "channel_str Airport = ''airport''"
| "channel_str Hotel = ''hotel''"
| "channel_str Beach = ''beach''"
| "channel_str Crab = ''crab''"
| "channel_str Parrot = ''parrot''"
| "channel_str Broadcast = ''broadcast''"
| "channel_str ResortWide = ''resort-wide''"

text \<open>\<^verbatim>\<open>Object.values(ChannelId)\<close>, in declaration order.\<close>

definition ALL_CHANNELS :: "ChannelId list" where
  "ALL_CHANNELS = [Airport, Hotel, Beach, Crab, Parrot, Broadcast, ResortWide]"

record IslandEvent =
  ie_id :: string
  ie_channel :: ChannelId
  ie_event_type :: EventType
  ie_message :: string
  ie_sender :: string
  ie_guest_id :: "string option"
  ie_guest_name :: "string option"
  ie_data :: "jsobj option"

text \<open>The object that is written to listeners: an optional property that is undefined is absent.\<close>

definition event_obj :: "IslandEvent \<Rightarrow> jsobj" where
  "event_obj ev =
     [(''id'', JStr (ie_id ev)), (''channel'', JStr (channel_str (ie_channel ev))),
      (''event_type'', JStr (event_type_str (ie_event_type ev))),
      (''message'', JStr (ie_message ev)), (''sender'', JStr (ie_sender ev))]
     @ opt_field ''guest_id'' (map_option JStr (ie_guest_id ev))
     @ opt_field ''guest_name'' (map_option JStr (ie_guest_name ev))
     @ opt_field ''data'' (map_option JObj (ie_data ev))"

section \<open>schemas.ts\<close>

definition BaseFields :: "(string \<times> zschema) list" where
  "BaseFields =
     [(''message'', ZOptional (ZString [])),
      (''guest_id'', ZOptional (ZString [])),
      (''guest_name'', ZOptional (ZString []))]"

definition AirportArrivalSchema :: zschema where
  "AirportArrivalSchema = ZObject True (BaseFields @
     [(''gate'', ZOptional (ZString [])),
      (''passport_type'', ZOptional (ZString []))])"

definition HotelEventSchema :: zschema where
  "HotelEventSchema = ZObject True (BaseFields @
     [(''reservation_id'', ZOptional (ZString [])),
      (''room_type'', ZOptional (ZString [])),
      (''guest_count'', ZOptional (ZNumber [])),
      (''check_in_day'', ZOptional (ZNumber [])),
      (''check_out_day'', ZOptional (ZNumber []))])"

definition BeachEventSchema :: zschema where
  "BeachEventSchema = ZObject True (BaseFields @
     [(''activity'', ZOptional (ZString []))])"

definition CrabOrderLineSchema :: zschema where
  "CrabOrderLineSchema = ZObject False
     [(''item_id'', ZString []),
      (''name'', ZString []),
      (''emoji'', ZOptional (ZString [])),
      (''qty'', ZNumber [])]"

definition CrabOrderSchema :: zschema where
  "CrabOrderSchema = ZObject True (BaseFields @
     [(''order_id'', ZOptional (ZString [])),
      (''items'', ZOptional (ZArray None CrabOrderLineSchema)),
      (''total'', ZOptional (ZNumber []))])"

definition CrabSoldOutSchema :: zschema where
  "CrabSoldOutSchema = ZObject True (BaseFields @
     [(''item_id'', ZOptional (ZString [])),
      (''name'', ZOptional (ZString []))])"

definition CursedEventSchema :: zschema where
  "CursedEventSchema = ZObject True
     [(''guest_id'', ZString [MinLen 1 ''guest_id is required'']),
      (''message'', ZString [MinLen 1 ''message is required'']),
      (''triggered_word'', ZArray (Some (1, ''triggered_word is required'')) (ZString []))]"

definition PublicAnnouncementSchema :: zschema where
  "PublicAnnouncementSchema = ZObject True
     [(''guestName'', ZString [MinLen 1 ''guestName is required'']),
      (''message'', ZString [MinLen 1 ''message is required''])]"

definition AdminAnnouncementSchema :: zschema where
  "AdminAnnouncementSchema = ZObject True
     [(''message'', ZString [MinLen 1 ''message is required'']),
      (''sender'', ZOptional (ZString []))]"

lemmas schema_defs =
  BaseFields_def AirportArrivalSchema_def HotelEventSchema_def BeachEventSchema_def
  CrabOrderLineSchema_def CrabOrderSchema_def CrabSoldOutSchema_def CursedEventSchema_def
  PublicAnnouncementSchema_def AdminAnnouncementSchema_def

section \<open>Requests and responses\<close>

text \<open>
  What the handlers read of a request: \<^verbatim>\<open>req.header(name)\<close> (names in lower case),
  \<^verbatim>\<open>req.query\<close> and the parsed \<^verbatim>\<open>req.body\<close>. A handler ends with a JSON response, or keeps
  the response open as an event stream.
\<close>

record request =
  rq_header :: "string \<Rightarrow> string option"
  rq_query :: "string \<Rightarrow> jsval"
  rq_body :: jsval

datatype response = Json nat jsval | EventStream

type_synonym environment = "string \<Rightarrow> string option"

definition error_response :: "nat \<Rightarrow> string \<Rightarrow> response" where
  "error_response status msg = Json status (JObj [(''error'', JStr msg)])"

section \<open>validate.ts\<close>

definition invalid_payload :: "zissue list \<Rightarrow> response" where
  "invalid_payload is = Json 400 (JObj
     [(''error'', JStr ''Invalid payload''),
      (''details'', JArr (map (\<lambda>i. JObj
         [(''path'', JStr (js_join ''.'' (zi_path i))), (''message'', JStr (zi_message i))]) is))])"

text \<open>\<open>Inl\<close> is the response that has been sent when the parse fails; the caller returns then.\<close>

definition parseBody ::
  "(zschema \<Rightarrow> jsval \<Rightarrow> zresult) \<Rightarrow> zschema \<Rightarrow> request \<Rightarrow> response + jsval" where
  "parseBody safeParse schema req =
     (case safeParse schema (rq_body req) of
        ZFailure is \<Rightarrow> Inl (invalid_payload is)
      | ZSuccess data \<Rightarrow> Inr data)"

text \<open>The validated object: every schema of the service is an object schema.\<close>

fun body_obj :: "jsval \<Rightarrow> jsobj" where
  "body_obj (JObj ob) = ob"
| "body_obj _ = []"

section \<open>Facts about the data\<close>

lemma channel_str_inj: "channel_str c = channel_str d \<longleftrightarrow> c = d"
  by (cases c; cases d) simp_all

lemma event_type_str_inj: "event_type_str c = event_type_str d \<longleftrightarrow> c = d"
  by (cases c; cases d) simp_all

lemma ALL_CHANNELS_complete [simp]: "c \<in> set ALL_CHANNELS"
  by (cases c) (simp_all add: ALL_CHANNELS_def)

lemma jget_event_obj:
  "jget (event_obj ev) ''id'' = JStr (ie_id ev)"
  "jget (event_obj ev) ''channel'' = JStr (channel_str (ie_channel ev))"
  "jget (event_obj ev) ''event_type'' = JStr (event_type_str (ie_event_type ev))"
  "jget (event_obj ev) ''message'' = JStr (ie_message ev)"
  "jget (event_obj ev) ''sender'' = JStr (ie_sender ev)"
  "jget (event_obj ev) ''guest_id'' = nullish (map_option JStr (ie_guest_id ev)) JUndefined"
  "jget (event_obj ev) ''guest_name'' = nullish (map_option JStr (ie_guest_name ev)) JUndefined"
  "jget (event_obj ev) ''data'' = nullish (map_option JObj (ie_data ev)) JUndefined"
  by (simp_all add: event_obj_def jget_append)

end
