(* ===== verification/Hub_Auth.thy ===== *)
theory Hub_Auth
  imports Hub_Types
begin

text \<open>
  Access control of the broadcast service: the passcode check in front of the admin route
  (\<^verbatim>\<open>adminAuth.ts\<close>) and the identification of a listener from its token (\<^verbatim>\<open>serviceAuth.ts\<close>).
  The process environment is read on every call, so it is an argument.
\<close>

section \<open>adminAuth.ts\<close>

text \<open>\<open>None\<close> is the call of \<^verbatim>\<open>next()\<close>.\<close>

definition requireAdmin :: "environment \<Rightarrow> request \<Rightarrow> response option" where
  "requireAdmin env req =
     (let configured = env ''ADMIN_PASSCODE'';
          provided = rq_header req ''x-admin-passcode''
      in if \<not> truthy_str configured \<or> \<not> truthy_str provided \<or> provided \<noteq> configured
         then Some (error_response 401 ''Admin authentication required'')
         else None)"

section \<open>serviceAuth.ts\<close>

record ServiceIdentity =
  si_name :: string
  si_allowedChannels :: "ChannelId set"

text \<open>\<^verbatim>\<open>Object.entries(SERVICE_REGISTRY)\<close>: name, variable of the environment, channels.\<close>

definition SERVICE_REGISTRY :: "(string \<times> string \<times> ChannelId list) list" where
  "SERVICE_REGISTRY =
     [(''frontend'', ''FE_TOKEN'', ALL_CHANNELS),
      (''hotel'', ''HOTEL_TOKEN'', []),
      (''beach'', ''BEACH_TOKEN'', [Hotel]),
      (''airport'', ''AIRPORT_TOKEN'', []),
      (''parrot'', ''PARROT_TOKEN'', [])]"

definition extractToken :: "request \<Rightarrow> string option" where
  "extractToken req =
     (case rq_header req ''authorization'' of
        Some auth \<Rightarrow>
          if startsWith ''Bearer '' auth then Some (js_trim (drop 7 auth))
          else (if truthy_str (rq_header req ''x-service-token'')
                then rq_header req ''x-service-token''
                else as_string (rq_query req ''token''))
      | None \<Rightarrow>
          (if truthy_str (rq_header req ''x-service-token'')
           then rq_header req ''x-service-token''
           else as_string (rq_query req ''token'')))"

text \<open>The loop over the registry: the first entry whose configured token is the caller's.\<close>

fun identify_loop ::
  "environment \<Rightarrow> string \<Rightarrow> (string \<times> string \<times> ChannelId list) list \<Rightarrow> ServiceIdentity option" where
  "identify_loop env token [] = None"
| "identify_loop env token ((name, envVar, allowed) # rest) =
     (if truthy_str (env envVar) \<and> Some token = env envVar
      then Some \<lparr>si_name = name, si_allowedChannels = set allowed\<rparr>
      else identify_loop env token rest)"

definition identifyService :: "environment \<Rightarrow> request \<Rightarrow> ServiceIdentity option" where
  "identifyService env req =
     (case extractToken req of
        None \<Rightarrow> None
      | Some token \<Rightarrow> if token = [] then None else identify_loop env token SERVICE_REGISTRY)"

section \<open>Facts\<close>

lemma requireAdmin_passes:
  "requireAdmin env req = None \<longleftrightarrow>
     (\<exists>p. p \<noteq> [] \<and> env ''ADMIN_PASSCODE'' = Some p \<and> rq_header req ''x-admin-passcode'' = Some p)"
  by (auto simp: requireAdmin_def Let_def truthy_str_def split: option.splits)

lemma requireAdmin_refuses:
  "requireAdmin env req \<noteq> None \<Longrightarrow>
     requireAdmin env req = Some (error_response 401 ''Admin authentication required'')"
  by (auto simp: requireAdmin_def Let_def)

lemma identify_loop_Some:
  "identify_loop env token reg = Some ident \<Longrightarrow>
     \<exists>name envVar allowed. (name, envVar, allowed) \<in> set reg \<and> env envVar = Some token \<and>
       token \<noteq> [] \<and> ident = \<lparr>si_name = name, si_allowedChannels = set allowed\<rparr>"
proof (induction reg)
  case Nil
  then show ?case by simp
next
  case (Cons e reg)
  obtain name v allowed where e: "e = (name, v, allowed)" by (cases e)
  show ?case
  proof (cases "truthy_str (env v) \<and> Some token = env v")
    case True
    with Cons.prems e have "ident = \<lparr>si_name = name, si_allowedChannels = set allowed\<rparr>" by simp
    with True e show ?thesis by (metis list.set_intros(1) truthy_str_simps(2))
  next
    case False
    with Cons.prems e have "identify_loop env token reg = Some ident" by simp
    from Cons.IH [OF this] show ?thesis by (metis list.set_intros(2))
  qed
qed

text \<open>
  A caller is identified only by the token configured for the service it is identified as, and
  it is given exactly the channels the registry grants that service.
\<close>

lemma identifyService_Some:
  assumes "identifyService env req = Some ident"
  obtains name envVar allowed token where
    "(name, envVar, allowed) \<in> set SERVICE_REGISTRY" "extractToken req = Some token"
    "token \<noteq> []" "env envVar = Some token"
    "ident = \<lparr>si_name = name, si_allowedChannels = set allowed\<rparr>"
proof -
  from assms obtain token where t: "extractToken req = Some token" "token \<noteq> []"
      "identify_loop env token SERVICE_REGISTRY = Some ident"
    by (auto simp: identifyService_def split: option.splits if_splits)
  from identify_loop_Some [OF t(3)] t(1,2) show ?thesis by (auto intro: that)
qed

text \<open>The services that may receive anything at all, and what they may receive.\<close>

lemma identity_channels:
  assumes "identifyService env req = Some ident" and "c \<in> si_allowedChannels ident"
  shows "si_name ident = ''frontend'' \<or> si_name ident = ''beach'' \<and> c = Hotel"
  using assms(1)
proof (rule identifyService_Some)
  fix name envVar allowed token
  assume "(name, envVar, allowed) \<in> set SERVICE_REGISTRY"
    and "ident = \<lparr>si_name = name, si_allowedChannels = set allowed\<rparr>"
  moreover have "list_all (\<lambda>(name, envVar, allowed).
      name = ''frontend'' \<or> name = ''beach'' \<and> allowed = [Hotel] \<or> allowed = []) SERVICE_REGISTRY"
    by (simp add: SERVICE_REGISTRY_def)
  ultimately show ?thesis using assms(2) by (fastforce simp: list_all_iff)
qed

end
