(* ===== verification/Hub_Bus.thy ===== *)
theory Hub_Bus
  imports Hub_Auth
begin

text \<open>
  The list of connected listeners and the delivery of an event to them (\<^verbatim>\<open>eventBus.ts\<close>).
  A response object is known by a number; \<open>wire\<close> is what has been written to each of them,
  chunk by chunk, and \<open>console\<close> is the log.
\<close>

section \<open>eventBus.ts\<close>

record ConnectedClient =
  cc_res :: nat
  cc_allowedChannels :: "ChannelId set"

record bus =
  clients :: "ConnectedClient list"
  wire :: "nat \<Rightarrow> string list"
  console :: "string list"

definition empty_bus :: bus where
  "empty_bus = \<lparr>clients = [], wire = (\<lambda>_. []), console = []\<rparr>"

definition hello :: string where
  "hello = '': connected'' @ [LF, LF]"

text \<open>The frame of an event: one \<^verbatim>\<open>data:\<close> line and the empty line that ends it.\<close>

definition event_frame :: "(rat \<Rightarrow> string) \<Rightarrow> IslandEvent \<Rightarrow> string" where
  "event_frame numstr ev =
     ''data: '' @ nullish (JSON_stringify numstr (JObj (event_obj ev))) ''undefined'' @ [LF, LF]"

definition res_write :: "nat \<Rightarrow> string \<Rightarrow> (nat \<Rightarrow> string list) \<Rightarrow> (nat \<Rightarrow> string list)" where
  "res_write r chunk w = w(r := w r @ [chunk])"

definition addClient :: "nat \<Rightarrow> ChannelId set \<Rightarrow> bus \<Rightarrow> bus" where
  "addClient r allowed b =
     b\<lparr>wire := res_write r hello (wire b),
       clients := clients b @ [\<lparr>cc_res = r, cc_allowedChannels = allowed\<rparr>]\<rparr>"

definition removeClient :: "nat \<Rightarrow> bus \<Rightarrow> bus" where
  "removeClient r b =
     (case findIndex (\<lambda>c. cc_res c = r) (clients b) of
        None \<Rightarrow> b
      | Some index \<Rightarrow> b\<lparr>clients := splice1 index (clients b)\<rparr>)"

text \<open>The loop of \<^verbatim>\<open>broadcast\<close> over the connected clients.\<close>

fun broadcast_loop ::
  "(rat \<Rightarrow> string) \<Rightarrow> IslandEvent \<Rightarrow> ConnectedClient list \<Rightarrow> (nat \<Rightarrow> string list) \<Rightarrow> (nat \<Rightarrow> string list)" where
  "broadcast_loop numstr ev [] w = w"
| "broadcast_loop numstr ev (client # rest) w =
     broadcast_loop numstr ev rest
       (if ie_channel ev \<in> cc_allowedChannels client
        then res_write (cc_res client) (event_frame numstr ev) w else w)"

definition broadcast :: "(rat \<Rightarrow> string) \<Rightarrow> IslandEvent \<Rightarrow> bus \<Rightarrow> bus" where
  "broadcast numstr ev b =
     b\<lparr>wire := broadcast_loop numstr ev (clients b) (wire b),
       console := console b @ [''Broadcasted: '' @ event_type_str (ie_event_type ev)]\<rparr>"

section \<open>What a bus promises\<close>

text \<open>
  The abstract bus has no list: a response object is subscribed to a set of channels or not at
  all, and publishing appends the frame to every response whose subscription has the channel.
\<close>

record pubsub =
  subscription :: "nat \<rightharpoonup> ChannelId set"
  received :: "nat \<Rightarrow> string list"

definition subscribe :: "nat \<Rightarrow> ChannelId set \<Rightarrow> pubsub \<Rightarrow> pubsub" where
  "subscribe r allowed p =
     p\<lparr>subscription := (subscription p)(r \<mapsto> allowed), received := res_write r hello (received p)\<rparr>"

definition unsubscribe :: "nat \<Rightarrow> pubsub \<Rightarrow> pubsub" where
  "unsubscribe r p = p\<lparr>subscription := (subscription p)(r := None)\<rparr>"

definition listens :: "pubsub \<Rightarrow> nat \<Rightarrow> ChannelId \<Rightarrow> bool" where
  "listens p r c = (case subscription p r of None \<Rightarrow> False | Some S \<Rightarrow> c \<in> S)"

definition publish :: "(rat \<Rightarrow> string) \<Rightarrow> IslandEvent \<Rightarrow> pubsub \<Rightarrow> pubsub" where
  "publish numstr ev p =
     p\<lparr>received := (\<lambda>r. received p r @ (if listens p r (ie_channel ev) then [event_frame numstr ev] else []))\<rparr>"

definition bus_abs :: "bus \<Rightarrow> pubsub" where
  "bus_abs b =
     \<lparr>subscription = map_of (map (\<lambda>c. (cc_res c, cc_allowedChannels c)) (clients b)),
      received = wire b\<rparr>"

text \<open>A response object is in the list at most once.\<close>

definition bus_inv :: "bus \<Rightarrow> bool" where
  "bus_inv b = distinct (map cc_res (clients b))"

definition connected :: "bus \<Rightarrow> nat \<Rightarrow> bool" where
  "connected b r = (r \<in> set (map cc_res (clients b)))"

section \<open>The operations keep the invariant and implement the promise\<close>

lemma empty_bus_inv [simp]: "bus_inv empty_bus"
  by (simp add: bus_inv_def empty_bus_def)

lemma bus_abs_empty [simp]: "bus_abs empty_bus = \<lparr>subscription = Map.empty, received = (\<lambda>_. [])\<rparr>"
  by (simp add: bus_abs_def empty_bus_def)

lemma addClient_inv: "bus_inv b \<Longrightarrow> \<not> connected b r \<Longrightarrow> bus_inv (addClient r allowed b)"
  by (auto simp: bus_inv_def addClient_def connected_def)

lemma removeClient_clients:
  "bus_inv b \<Longrightarrow> removeClient r b = b\<lparr>clients := filter (\<lambda>c. cc_res c \<noteq> r) (clients b)\<rparr>"
  using splice1_findIndex_distinct [of cc_res "clients b" r]
  by (auto simp: removeClient_def bus_inv_def split: option.splits)

lemma removeClient_inv: "bus_inv b \<Longrightarrow> bus_inv (removeClient r b)"
  by (simp add: removeClient_clients) (simp add: bus_inv_def distinct_map_filter)

lemma broadcast_inv: "bus_inv b \<Longrightarrow> bus_inv (broadcast numstr ev b)"
  by (simp add: bus_inv_def broadcast_def)

lemma connected_simps [simp]:
  "connected (addClient r allowed b) s \<longleftrightarrow> s = r \<or> connected b s"
  "connected (broadcast numstr ev b) s \<longleftrightarrow> connected b s"
  by (auto simp: connected_def addClient_def broadcast_def)

lemma connected_removeClient:
  "bus_inv b \<Longrightarrow> connected (removeClient r b) s \<longleftrightarrow> connected b s \<and> s \<noteq> r"
  by (auto simp: connected_def removeClient_clients)

text \<open>
  The loop writes the frame once to each client of the list that is allowed the channel, and
  nothing to anyone else.
\<close>

lemma broadcast_loop_other:
  "r \<notin> set (map cc_res cs) \<Longrightarrow> broadcast_loop numstr ev cs w r = w r"
  by (induction cs arbitrary: w) (auto simp: res_write_def)

lemma broadcast_loop_wire:
  assumes "distinct (map cc_res cs)"
  shows "broadcast_loop numstr ev cs w r =
    w r @ (case map_of (map (\<lambda>c. (cc_res c, cc_allowedChannels c)) cs) r of
        None \<Rightarrow> [] | Some S \<Rightarrow> if ie_channel ev \<in> S then [event_frame numstr ev] else [])"
  using assms
proof (induction cs arbitrary: w)
  case Nil
  then show ?case by simp
next
  case (Cons c cs)
  show ?case
  proof (cases "cc_res c = r")
    case True
    with Cons.prems have "r \<notin> set (map cc_res cs)" by auto
    with True show ?thesis by (simp add: broadcast_loop_other res_write_def)
  next
    case False
    with Cons show ?thesis by (auto simp: res_write_def)
  qed
qed

lemma map_of_filter_clients:
  "distinct (map cc_res cs) \<Longrightarrow>
   map_of (map (\<lambda>c. (cc_res c, cc_allowedChannels c)) (filter (\<lambda>c. cc_res c \<noteq> r) cs))
   = (map_of (map (\<lambda>c. (cc_res c, cc_allowedChannels c)) cs))(r := None)"
  by (induction cs) (auto simp: fun_eq_iff map_of_eq_None_iff image_iff)

lemma addClient_abs:
  assumes "\<not> connected b r"
  shows "bus_abs (addClient r allowed b) = subscribe r allowed (bus_abs b)"
proof -
  have "map_of (map (\<lambda>c. (cc_res c, cc_allowedChannels c)) (clients b)) r = None"
    using assms by (auto simp: connected_def map_of_eq_None_iff)
  then show ?thesis
    by (auto simp: bus_abs_def addClient_def subscribe_def fun_eq_iff map_add_def split: option.splits)
qed

lemma removeClient_abs: "bus_inv b \<Longrightarrow> bus_abs (removeClient r b) = unsubscribe r (bus_abs b)"
  by (simp add: removeClient_clients) (simp add: bus_abs_def unsubscribe_def bus_inv_def map_of_filter_clients)

lemma broadcast_abs: "bus_inv b \<Longrightarrow> bus_abs (broadcast numstr ev b) = publish numstr ev (bus_abs b)"
  by (auto simp: bus_abs_def broadcast_def publish_def listens_def bus_inv_def fun_eq_iff
      broadcast_loop_wire split: option.splits)

text \<open>A frame is one line and its terminator, so a listener reads exactly one message from it.\<close>

lemma event_frame_single_line:
  assumes "\<forall>q. LF \<notin> set (numstr q)"
  shows "\<exists>line. event_frame numstr ev = line @ [LF, LF] \<and> LF \<notin> set line \<and> startsWith ''data: '' line"
proof -
  obtain t where t: "JSON_stringify numstr (JObj (event_obj ev)) = Some t" by simp
  with assms have "LF \<notin> set t" by (rule stringify_no_LF)
  then have "LF \<notin> set (''data: '' @ t)" by (auto simp: LF_def)
  moreover have "event_frame numstr ev = (''data: '' @ t) @ [LF, LF]"
    using t by (simp add: event_frame_def)
  ultimately show ?thesis by (auto simp: startsWith_append)
qed

end
