(* ===== verification/Hub_Routes.thy ===== *)
theory Hub_Routes
  imports Hub_Bus
begin

text \<open>
  The HTTP surface of the broadcast service: one definition for each route handler
  (\<^verbatim>\<open>routes/*.ts\<close>), the route table of \<^verbatim>\<open>app.ts\<close>, the correlation id of
  \<^verbatim>\<open>requestLogger.ts\<close>, and the service as a machine that reacts to requests and to
  connections that close. The identifier that \<^verbatim>\<open>uuid()\<close> returns is an argument.
\<close>

definition success_response :: response where
  "success_response = Json 200 (JObj [(''success'', JBool True)])"

section \<open>Ingest routes\<close>

subsection \<open>routes/airport.ts\<close>

definition airport_arrival ::
  "(zschema \<Rightarrow> jsval \<Rightarrow> zresult) \<Rightarrow> (rat \<Rightarrow> string) \<Rightarrow> string \<Rightarrow> request \<Rightarrow> bus \<Rightarrow> bus \<times> response" where
  "airport_arrival safeParse numstr uuid req b =
     (case parseBody safeParse AirportArrivalSchema req of
        Inl sent \<Rightarrow> (b, sent)
      | Inr body \<Rightarrow>
          (let message = as_string (jget (body_obj body) ''message'');
               guest_id = as_string (jget (body_obj body) ''guest_id'');
               guest_name = as_string (jget (body_obj body) ''guest_name'');
               data = obj_rest [''message'', ''guest_id'', ''guest_name''] (body_obj body)
           in (broadcast numstr
                 \<lparr>ie_id = uuid,
                  ie_channel = Airport,
                  ie_event_type = AIRPORT_ARRIVAL,
                  ie_message = nullish message ''A guest arrived at the airport.'',
                  ie_sender = ''airport'',
                  ie_guest_id = guest_id,
                  ie_guest_name = guest_name,
                  ie_data = Some data\<rparr> b,
               success_response)))"

subsection \<open>routes/hotel.ts\<close>

definition hotel_confirm ::
  "(zschema \<Rightarrow> jsval \<Rightarrow> zresult) \<Rightarrow> (rat \<Rightarrow> string) \<Rightarrow> string \<Rightarrow> request \<Rightarrow> bus \<Rightarrow> bus \<times> response" where
  "hotel_confirm safeParse numstr uuid req b =
     (case parseBody safeParse HotelEventSchema req of
        Inl sent \<Rightarrow> (b, sent)
      | Inr body \<Rightarrow>
          (let message = as_string (jget (body_obj body) ''message'');
               guest_id = as_string (jget (body_obj body) ''guest_id'');
               guest_name = as_string (jget (body_obj body) ''guest_name'');
               data = obj_rest [''message'', ''guest_id'', ''guest_name''] (body_obj body)
           in (broadcast numstr
                 \<lparr>ie_id = uuid,
                  ie_channel = Hotel,
                  ie_event_type = HOTEL_CONFIRM,
                  ie_message = nullish message ''A reservation was confirmed.'',
                  ie_sender = ''hotel'',
                  ie_guest_id = guest_id,
                  ie_guest_name = guest_name,
                  ie_data = Some data\<rparr> b,
               success_response)))"

definition hotel_cancel ::
  "(zschema \<Rightarrow> jsval \<Rightarrow> zresult) \<Rightarrow> (rat \<Rightarrow> string) \<Rightarrow> string \<Rightarrow> request \<Rightarrow> bus \<Rightarrow> bus \<times> response" where
  "hotel_cancel safeParse numstr uuid req b =
     (case parseBody safeParse HotelEventSchema req of
        Inl sent \<Rightarrow> (b, sent)
      | Inr body \<Rightarrow>
          (let message = as_string (jget (body_obj body) ''message'');
               guest_id = as_string (jget (body_obj body) ''guest_id'');
               guest_name = as_string (jget (body_obj body) ''guest_name'');
               data = obj_rest [''message'', ''guest_id'', ''guest_name''] (body_obj body)
           in (broadcast numstr
                 \<lparr>ie_id = uuid,
                  ie_channel = Hotel,
                  ie_event_type = HOTEL_CANCEL,
                  ie_message = nullish message ''A reservation was cancelled.'',
                  ie_sender = ''hotel'',
                  ie_guest_id = guest_id,
                  ie_guest_name = guest_name,
                  ie_data = Some data\<rparr> b,
               success_response)))"

subsection \<open>routes/beach.ts\<close>

definition beach_full ::
  "(zschema \<Rightarrow> jsval \<Rightarrow> zresult) \<Rightarrow> (rat \<Rightarrow> string) \<Rightarrow> string \<Rightarrow> request \<Rightarrow> bus \<Rightarrow> bus \<times> response" where
  "beach_full safeParse numstr uuid req b =
     (case parseBody safeParse BeachEventSchema req of
        Inl sent \<Rightarrow> (b, sent)
      | Inr body \<Rightarrow>
          (let message = as_string (jget (body_obj body) ''message'');
               guest_id = as_string (jget (body_obj body) ''guest_id'');
               guest_name = as_string (jget (body_obj body) ''guest_name'');
               data = obj_rest [''message'', ''guest_id'', ''guest_name''] (body_obj body)
           in (broadcast numstr
                 \<lparr>ie_id = uuid,
                  ie_channel = Beach,
                  ie_event_type = BEACH_FULL,
                  ie_message = nullish message ''A beach activity reached capacity.'',
                  ie_sender = ''beach'',
                  ie_guest_id = guest_id,
                  ie_guest_name = guest_name,
                  ie_data = Some data\<rparr> b,
               success_response)))"

definition beach_available ::
  "(zschema \<Rightarrow> jsval \<Rightarrow> zresult) \<Rightarrow> (rat \<Rightarrow> string) \<Rightarrow> string \<Rightarrow> request \<Rightarrow> bus \<Rightarrow> bus \<times> response" where
  "beach_available safeParse numstr uuid req b =
     (case parseBody safeParse BeachEventSchema req of
        Inl sent \<Rightarrow> (b, sent)
      | Inr body \<Rightarrow>
          (let message = as_string (jget (body_obj body) ''message'');
               guest_id = as_string (jget (body_obj body) ''guest_id'');
               guest_name = as_string (jget (body_obj body) ''guest_name'');
               data = obj_rest [''message'', ''guest_id'', ''guest_name''] (body_obj body)
           in (broadcast numstr
                 \<lparr>ie_id = uuid,
                  ie_channel = Beach,
                  ie_event_type = BEACH_AVAILABLE,
                  ie_message = nullish message ''A beach activity has availability.'',
                  ie_sender = ''beach'',
                  ie_guest_id = guest_id,
                  ie_guest_name = guest_name,
                  ie_data = Some data\<rparr> b,
               success_response)))"

subsection \<open>routes/crab.ts\<close>

definition crab_order ::
  "(zschema \<Rightarrow> jsval \<Rightarrow> zresult) \<Rightarrow> (rat \<Rightarrow> string) \<Rightarrow> string \<Rightarrow> request \<Rightarrow> bus \<Rightarrow> bus \<times> response" where
  "crab_order safeParse numstr uuid req b =
     (case parseBody safeParse CrabOrderSchema req of
        Inl sent \<Rightarrow> (b, sent)
      | Inr body \<Rightarrow>
          (let message = as_string (jget (body_obj body) ''message'');
               guest_id = as_string (jget (body_obj body) ''guest_id'');
               guest_name = as_string (jget (body_obj body) ''guest_name'');
               data = obj_rest [''message'', ''guest_id'', ''guest_name''] (body_obj body)
           in (broadcast numstr
                 \<lparr>ie_id = uuid,
                  ie_channel = Crab,
                  ie_event_type = CRAB_ORDER_PLACED,
                  ie_message = nullish message ''A guest ordered at the Crusty Crab.'',
                  ie_sender = ''crab'',
                  ie_guest_id = guest_id,
                  ie_guest_name = guest_name,
                  ie_data = Some data\<rparr> b,
               success_response)))"

definition crab_sold_out ::
  "(zschema \<Rightarrow> jsval \<Rightarrow> zresult) \<Rightarrow> (rat \<Rightarrow> string) \<Rightarrow> string \<Rightarrow> request \<Rightarrow> bus \<Rightarrow> bus \<times> response" where
  "crab_sold_out safeParse numstr uuid req b =
     (case parseBody safeParse CrabSoldOutSchema req of
        Inl sent \<Rightarrow> (b, sent)
      | Inr body \<Rightarrow>
          (let message = as_string (jget (body_obj body) ''message'');
               guest_id = as_string (jget (body_obj body) ''guest_id'');
               guest_name = as_string (jget (body_obj body) ''guest_name'');
               data = obj_rest [''message'', ''guest_id'', ''guest_name''] (body_obj body)
           in (broadcast numstr
                 \<lparr>ie_id = uuid,
                  ie_channel = Crab,
                  ie_event_type = CRAB_SOLD_OUT,
                  ie_message = nullish message ''An item sold out at the Crusty Crab.'',
                  ie_sender = ''crab'',
                  ie_guest_id = guest_id,
                  ie_guest_name = guest_name,
                  ie_data = Some data\<rparr> b,
               success_response)))"

subsection \<open>routes/cursed.ts\<close>

definition cursed ::
  "(zschema \<Rightarrow> jsval \<Rightarrow> zresult) \<Rightarrow> (rat \<Rightarrow> string) \<Rightarrow> string \<Rightarrow> request \<Rightarrow> bus \<Rightarrow> bus \<times> response" where
  "cursed safeParse numstr uuid req b =
     (case parseBody safeParse CursedEventSchema req of
        Inl sent \<Rightarrow> (b, sent)
      | Inr body \<Rightarrow>
          (let guest_id = as_string (jget (body_obj body) ''guest_id'');
               message = as_string (jget (body_obj body) ''message'');
               triggered_word = jget (body_obj body) ''triggered_word''
           in (broadcast numstr
                 \<lparr>ie_id = uuid,
                  ie_channel = Parrot,
                  ie_event_type = PARROT_CURSED,
                  ie_message = nullish message [],
                  ie_sender = ''parrot'',
                  ie_guest_id = guest_id,
                  ie_guest_name = None,
                  ie_data = Some [(''triggered_word'', triggered_word)]\<rparr> b,
               success_response)))"

subsection \<open>routes/public.ts\<close>

definition public_announcement ::
  "(zschema \<Rightarrow> jsval \<Rightarrow> zresult) \<Rightarrow> (rat \<Rightarrow> string) \<Rightarrow> string \<Rightarrow> request \<Rightarrow> bus \<Rightarrow> bus \<times> response" where
  "public_announcement safeParse numstr uuid req b =
     (case parseBody safeParse PublicAnnouncementSchema req of
        Inl sent \<Rightarrow> (b, sent)
      | Inr body \<Rightarrow>
          (let guestName = as_string (jget (body_obj body) ''guestName'');
               message = as_string (jget (body_obj body) ''message'')
           in (broadcast numstr
                 \<lparr>ie_id = uuid,
                  ie_channel = Broadcast,
                  ie_event_type = PUBLIC_ANNOUNCEMENT,
                  ie_message = nullish message [],
                  ie_sender = nullish guestName [],
                  ie_guest_id = None,
                  ie_guest_name = None,
                  ie_data = None\<rparr> b,
               success_response)))"

subsection \<open>routes/admin.ts\<close>

definition admin_announcement ::
  "(zschema \<Rightarrow> jsval \<Rightarrow> zresult) \<Rightarrow> (rat \<Rightarrow> string) \<Rightarrow> environment \<Rightarrow> string \<Rightarrow> request \<Rightarrow> bus \<Rightarrow> bus \<times> response" where
  "admin_announcement safeParse numstr env uuid req b =
     (case requireAdmin env req of
        Some sent \<Rightarrow> (b, sent)
      | None \<Rightarrow>
          (case parseBody safeParse AdminAnnouncementSchema req of
             Inl sent \<Rightarrow> (b, sent)
           | Inr body \<Rightarrow>
               (let message = as_string (jget (body_obj body) ''message'');
                    sender = as_string (jget (body_obj body) ''sender'')
                in (broadcast numstr
                      \<lparr>ie_id = uuid,
                       ie_channel = ResortWide,
                       ie_event_type = ADMIN_ANNOUNCEMENT,
                       ie_message = nullish message [],
                       ie_sender = nullish sender ''Admin'',
                       ie_guest_id = None,
                       ie_guest_name = None,
                       ie_data = None\<rparr> b,
                    success_response))))"

section \<open>routes/events.ts\<close>

definition get_events :: "environment \<Rightarrow> nat \<Rightarrow> request \<Rightarrow> bus \<Rightarrow> bus \<times> response" where
  "get_events env res req b =
     (case identifyService env req of
        None \<Rightarrow> (b, error_response 401 ''Service authentication required'')
      | Some identity \<Rightarrow> (addClient res (si_allowedChannels identity) b, EventStream))"

section \<open>app.ts and requestLogger.ts\<close>

datatype ingest =
    PostAirportArrival | PostHotelConfirm | PostHotelCancel | PostBeachFull | PostBeachAvailable
  | PostCrabOrder | PostCrabSoldOut | PostCursed | PostPublic | PostAdminAnnouncement

datatype route = GetHealth | GetEventStream | Ingest ingest

definition createApp :: "(string \<times> string \<times> route) list" where
  "createApp =
     [(''GET'', ''/health'', GetHealth),
      (''GET'', ''/events/'', GetEventStream),
      (''POST'', ''/airport/arrival'', Ingest PostAirportArrival),
      (''POST'', ''/hotel/confirm'', Ingest PostHotelConfirm),
      (''POST'', ''/hotel/cancel'', Ingest PostHotelCancel),
      (''POST'', ''/beach/full'', Ingest PostBeachFull),
      (''POST'', ''/beach/available'', Ingest PostBeachAvailable),
      (''POST'', ''/crab/order'', Ingest PostCrabOrder),
      (''POST'', ''/crab/sold-out'', Ingest PostCrabSoldOut),
      (''POST'', ''/cursed/'', Ingest PostCursed),
      (''POST'', ''/public/'', Ingest PostPublic),
      (''POST'', ''/admin/announcement'', Ingest PostAdminAnnouncement)]"

definition health_response :: response where
  "health_response = Json 200 (JObj [(''status'', JStr ''healthy'')])"

text \<open>
  The middleware: the correlation id is the caller's when it sent one and a fresh one otherwise; it
  is echoed as a header, and the line of the access log carries it when the response is finished.
\<close>

definition requestLogger ::
  "string \<Rightarrow> string \<Rightarrow> string \<Rightarrow> string \<Rightarrow> string \<Rightarrow> nat \<Rightarrow> request \<Rightarrow> (string \<times> string) \<times> string" where
  "requestLogger now dur uuid httpMethod path statusCode req =
     (let header = rq_header req ''x-request-id'';
          requestId = (if truthy_str header then nullish header uuid else uuid)
      in ((''X-Request-Id'', requestId),
          ''ts='' @ now @ '' level=info service=broadcast request_id='' @ requestId @ '' method='' @ httpMethod
            @ '' path='' @ path @ '' status='' @ show_nat statusCode @ '' duration_ms='' @ dur))"

fun handle ::
  "(zschema \<Rightarrow> jsval \<Rightarrow> zresult) \<Rightarrow> (rat \<Rightarrow> string) \<Rightarrow> environment \<Rightarrow> ingest \<Rightarrow> string \<Rightarrow> request
    \<Rightarrow> bus \<Rightarrow> bus \<times> response" where
  "handle sp ns env PostAirportArrival uuid req b = airport_arrival sp ns uuid req b"
| "handle sp ns env PostHotelConfirm uuid req b = hotel_confirm sp ns uuid req b"
| "handle sp ns env PostHotelCancel uuid req b = hotel_cancel sp ns uuid req b"
| "handle sp ns env PostBeachFull uuid req b = beach_full sp ns uuid req b"
| "handle sp ns env PostBeachAvailable uuid req b = beach_available sp ns uuid req b"
| "handle sp ns env PostCrabOrder uuid req b = crab_order sp ns uuid req b"
| "handle sp ns env PostCrabSoldOut uuid req b = crab_sold_out sp ns uuid req b"
| "handle sp ns env PostCursed uuid req b = cursed sp ns uuid req b"
| "handle sp ns env PostPublic uuid req b = public_announcement sp ns uuid req b"
| "handle sp ns env PostAdminAnnouncement uuid req b = admin_announcement sp ns env uuid req b"

lemmas handler_defs =
  airport_arrival_def hotel_confirm_def hotel_cancel_def beach_full_def beach_available_def
  crab_order_def crab_sold_out_def cursed_def public_announcement_def admin_announcement_def

section \<open>The service as a machine\<close>

text \<open>
  Every request has a response object of its own, numbered in order of arrival. The inputs are
  a request for the stream, a POST to an ingest route (with the identifier \<^verbatim>\<open>uuid()\<close> returns
  while it is handled), and the close of a connection.
\<close>

record hub =
  hub_bus :: bus
  hub_next :: nat

datatype hub_input =
    GetStream request
  | Post ingest request string
  | CloseConnection nat

definition hub_init :: hub where
  "hub_init = \<lparr>hub_bus = empty_bus, hub_next = 0\<rparr>"

fun hub_step ::
  "(zschema \<Rightarrow> jsval \<Rightarrow> zresult) \<Rightarrow> (rat \<Rightarrow> string) \<Rightarrow> environment \<Rightarrow> hub \<Rightarrow> hub_input \<Rightarrow> hub" where
  "hub_step sp ns env h (GetStream req) =
     h\<lparr>hub_bus := fst (get_events env (hub_next h) req (hub_bus h)), hub_next := Suc (hub_next h)\<rparr>"
| "hub_step sp ns env h (Post rt req uuid) =
     h\<lparr>hub_bus := fst (handle sp ns env rt uuid req (hub_bus h)), hub_next := Suc (hub_next h)\<rparr>"
| "hub_step sp ns env h (CloseConnection r) = h\<lparr>hub_bus := removeClient r (hub_bus h)\<rparr>"

end
