(* ===== verification/Hub_Service.thy ===== *)
theory Hub_Service
  imports Hub_Routes
begin

text \<open>
  What the broadcast service guarantees. The reference for the ingest routes is a table: a
  schema, and the event that an accepted body becomes. The reference for the whole service is
  the abstract bus, and, seen from one connection, the transcript of what is written to it.
  The locale \<open>hub_service\<close> fixes a validation library that keeps its documented promise, a
  number printer and a process environment, and carries the proofs; the properties of the
  service are its facts, stated for every such library.
\<close>

section \<open>The reference for ingest\<close>

fun ingest_schema :: "ingest \<Rightarrow> zschema" where
  "ingest_schema PostAirportArrival = AirportArrivalSchema"
| "ingest_schema PostHotelConfirm = HotelEventSchema"
| "ingest_schema PostHotelCancel = HotelEventSchema"
| "ingest_schema PostBeachFull = BeachEventSchema"
| "ingest_schema PostBeachAvailable = BeachEventSchema"
| "ingest_schema PostCrabOrder = CrabOrderSchema"
| "ingest_schema PostCrabSoldOut = CrabSoldOutSchema"
| "ingest_schema PostCursed = CursedEventSchema"
| "ingest_schema PostPublic = PublicAnnouncementSchema"
| "ingest_schema PostAdminAnnouncement = AdminAnnouncementSchema"

definition base_event ::
  "ChannelId \<Rightarrow> EventType \<Rightarrow> string \<Rightarrow> string \<Rightarrow> string \<Rightarrow> jsobj \<Rightarrow> IslandEvent" where
  "base_event ch ty dflt sender uuid ob =
     \<lparr>ie_id = uuid, ie_channel = ch, ie_event_type = ty,
      ie_message = nullish (as_string (jget ob ''message'')) dflt, ie_sender = sender,
      ie_guest_id = as_string (jget ob ''guest_id''), ie_guest_name = as_string (jget ob ''guest_name''),
      ie_data = Some (obj_rest [''message'', ''guest_id'', ''guest_name''] ob)\<rparr>"

fun ingest_event :: "ingest \<Rightarrow> string \<Rightarrow> jsobj \<Rightarrow> IslandEvent" where
  "ingest_event PostAirportArrival = base_event Airport AIRPORT_ARRIVAL ''A guest arrived at the airport.'' ''airport''"
| "ingest_event PostHotelConfirm = base_event Hotel HOTEL_CONFIRM ''A reservation was confirmed.'' ''hotel''"
| "ingest_event PostHotelCancel = base_event Hotel HOTEL_CANCEL ''A reservation was cancelled.'' ''hotel''"
| "ingest_event PostBeachFull = base_event Beach BEACH_FULL ''A beach activity reached capacity.'' ''beach''"
| "ingest_event PostBeachAvailable = base_event Beach BEACH_AVAILABLE ''A beach activity has availability.'' ''beach''"
| "ingest_event PostCrabOrder = base_event Crab CRAB_ORDER_PLACED ''A guest ordered at the Crusty Crab.'' ''crab''"
| "ingest_event PostCrabSoldOut = base_event Crab CRAB_SOLD_OUT ''An item sold out at the Crusty Crab.'' ''crab''"
| "ingest_event PostCursed = (\<lambda>uuid ob.
     \<lparr>ie_id = uuid, ie_channel = Parrot, ie_event_type = PARROT_CURSED,
      ie_message = nullish (as_string (jget ob ''message'')) [], ie_sender = ''parrot'',
      ie_guest_id = as_string (jget ob ''guest_id''), ie_guest_name = None,
      ie_data = Some [(''triggered_word'', jget ob ''triggered_word'')]\<rparr>)"
| "ingest_event PostPublic = (\<lambda>uuid ob.
     \<lparr>ie_id = uuid, ie_channel = Broadcast, ie_event_type = PUBLIC_ANNOUNCEMENT,
      ie_message = nullish (as_string (jget ob ''message'')) [],
      ie_sender = nullish (as_string (jget ob ''guestName'')) [],
      ie_guest_id = None, ie_guest_name = None, ie_data = None\<rparr>)"
| "ingest_event PostAdminAnnouncement = (\<lambda>uuid ob.
     \<lparr>ie_id = uuid, ie_channel = ResortWide, ie_event_type = ADMIN_ANNOUNCEMENT,
      ie_message = nullish (as_string (jget ob ''message'')) [],
      ie_sender = nullish (as_string (jget ob ''sender'')) ''Admin'',
      ie_guest_id = None, ie_guest_name = None, ie_data = None\<rparr>)"

definition admin_refused :: "environment \<Rightarrow> ingest \<Rightarrow> request \<Rightarrow> bool" where
  "admin_refused env rt req = (rt = PostAdminAnnouncement \<and> requireAdmin env req \<noteq> None)"

text \<open>The body as the route sees it once it is authorised and validated.\<close>

definition ingest_reads :: "environment \<Rightarrow> ingest \<Rightarrow> request \<Rightarrow> jsobj option" where
  "ingest_reads env rt req =
     (if admin_refused env rt req then None
      else map_option body_obj (zod_reads (ingest_schema rt) (rq_body req)))"

section \<open>The reference for the service\<close>

record abstract_hub =
  ah_bus :: pubsub
  ah_next :: nat

fun abstract_step ::
  "(rat \<Rightarrow> string) \<Rightarrow> environment \<Rightarrow> abstract_hub \<Rightarrow> hub_input \<Rightarrow> abstract_hub" where
  "abstract_step ns env a (GetStream req) =
     a\<lparr>ah_bus := (case identifyService env req of
          None \<Rightarrow> ah_bus a
        | Some identity \<Rightarrow> subscribe (ah_next a) (si_allowedChannels identity) (ah_bus a)),
       ah_next := Suc (ah_next a)\<rparr>"
| "abstract_step ns env a (Post rt req uuid) =
     a\<lparr>ah_bus := (case ingest_reads env rt req of
          None \<Rightarrow> ah_bus a
        | Some ob \<Rightarrow> publish ns (ingest_event rt uuid ob) (ah_bus a)),
       ah_next := Suc (ah_next a)\<rparr>"
| "abstract_step ns env a (CloseConnection r) = a\<lparr>ah_bus := unsubscribe r (ah_bus a)\<rparr>"

definition hub_abs :: "hub \<Rightarrow> abstract_hub" where
  "hub_abs h = \<lparr>ah_bus = bus_abs (hub_bus h), ah_next = hub_next h\<rparr>"

definition hub_inv :: "hub \<Rightarrow> bool" where
  "hub_inv h = (bus_inv (hub_bus h) \<and> (\<forall>r. connected (hub_bus h) r \<longrightarrow> r < hub_next h))"

text \<open>
  What is written to connection \<open>r\<close> by a sequence of inputs, when \<open>n\<close> requests have arrived
  before it and \<open>sub\<close> is the subscription of \<open>r\<close>.
\<close>

fun session ::
  "(rat \<Rightarrow> string) \<Rightarrow> environment \<Rightarrow> nat \<Rightarrow> nat \<Rightarrow> ChannelId set option \<Rightarrow> hub_input list \<Rightarrow> string list" where
  "session ns env r n sub [] = []"
| "session ns env r n sub (GetStream req # ins) =
     (case identifyService env req of
        Some identity \<Rightarrow>
          if n = r then hello # session ns env r (Suc n) (Some (si_allowedChannels identity)) ins
          else session ns env r (Suc n) sub ins
      | None \<Rightarrow> session ns env r (Suc n) sub ins)"
| "session ns env r n sub (Post rt req uuid # ins) =
     (case (ingest_reads env rt req, sub) of
        (Some ob, Some S) \<Rightarrow>
          if ie_channel (ingest_event rt uuid ob) \<in> S
          then event_frame ns (ingest_event rt uuid ob) # session ns env r (Suc n) sub ins
          else session ns env r (Suc n) sub ins
      | _ \<Rightarrow> session ns env r (Suc n) sub ins)"
| "session ns env r n sub (CloseConnection s # ins) =
     session ns env r n (if s = r then None else sub) ins"

text \<open>The requests of a sequence of inputs, and the events that its accepted posts become.\<close>

fun requests :: "hub_input list \<Rightarrow> hub_input list" where
  "requests [] = []"
| "requests (CloseConnection r # ins) = requests ins"
| "requests (i # ins) = i # requests ins"

fun published :: "environment \<Rightarrow> hub_input list \<Rightarrow> IslandEvent list" where
  "published env [] = []"
| "published env (Post rt req uuid # ins) =
     (case ingest_reads env rt req of
        None \<Rightarrow> published env ins
      | Some ob \<Rightarrow> ingest_event rt uuid ob # published env ins)"
| "published env (_ # ins) = published env ins"

text \<open>The properties a schema declares.\<close>

fun schema_keys :: "zschema \<Rightarrow> string list" where
  "schema_keys (ZObject strict flds) = map fst flds"
| "schema_keys _ = []"

section \<open>The handlers follow the reference\<close>

lemma ingest_schema_strict: "\<exists>flds. ingest_schema rt = ZObject True flds"
  by (cases rt) (simp_all add: schema_defs)

locale hub_service = zod safeParse
  for safeParse :: "zschema \<Rightarrow> jsval \<Rightarrow> zresult" +
  fixes numstr :: "rat \<Rightarrow> string"
    and env :: environment
begin

lemma parseBody_cases:
  obtains (accepted) w where "zod_reads schema (rq_body req) = Some w"
      "parseBody safeParse schema req = Inr w"
  | (refused) "is" where "zod_reads schema (rq_body req) = None" "is \<noteq> []"
      "parseBody safeParse schema req = Inl (invalid_payload is)"
  by (rule parse_cases [of schema "rq_body req"]) (auto simp: parseBody_def)

lemma handle_accepts:
  assumes "ingest_reads env rt req = Some ob"
  shows "handle safeParse numstr env rt uuid req b
    = (broadcast numstr (ingest_event rt uuid ob) b, success_response)"
proof -
  from assms obtain w where w: "zod_reads (ingest_schema rt) (rq_body req) = Some w"
      "ob = body_obj w" and adm: "\<not> admin_refused env rt req"
    by (auto simp: ingest_reads_def split: if_splits)
  then have p: "parseBody safeParse (ingest_schema rt) req = Inr w"
    by (simp add: parseBody_def parse_success)
  from p w(2) adm show ?thesis
    by (cases rt) (simp_all add: handler_defs base_event_def admin_refused_def Let_def)
qed

lemma handle_refuses:
  assumes "ingest_reads env rt req = None"
  obtains "admin_refused env rt req" "handle safeParse numstr env rt uuid req b
      = (b, error_response 401 ''Admin authentication required'')"
  | "is" where "\<not> admin_refused env rt req" "is \<noteq> []"
      "handle safeParse numstr env rt uuid req b = (b, invalid_payload is)"
proof (cases "admin_refused env rt req")
  case True
  then have "requireAdmin env req = Some (error_response 401 ''Admin authentication required'')"
    using requireAdmin_refuses by (auto simp: admin_refused_def)
  with True show ?thesis
    by (intro that(1)) (simp_all add: admin_refused_def admin_announcement_def)
next
  case False
  with assms have "zod_reads (ingest_schema rt) (rq_body req) = None"
    by (simp add: ingest_reads_def)
  then obtain "is" where "is": "is \<noteq> []" "parseBody safeParse (ingest_schema rt) req = Inl (invalid_payload is)"
    by (metis option.distinct(1) parseBody_cases)
  with False show ?thesis
    by (intro that(2) [OF False "is"(1)]; cases rt) (simp_all add: handler_defs admin_refused_def)
qed

lemma handle_refused:
  assumes "ingest_reads env rt req = None"
  shows "\<exists>status body. handle safeParse numstr env rt uuid req b = (b, Json status body) \<and>
    status = (if admin_refused env rt req then 401 else 400)"
  by (rule handle_refuses [OF assms, where uuid = uuid and b = b])
    (simp_all add: error_response_def invalid_payload_def)

lemma handle_bus:
  "fst (handle safeParse numstr env rt uuid req b) =
     (case ingest_reads env rt req of None \<Rightarrow> b | Some ob \<Rightarrow> broadcast numstr (ingest_event rt uuid ob) b)"
proof (cases "ingest_reads env rt req")
  case None
  then show ?thesis by (rule handle_refuses [where uuid = uuid and b = b]) (simp_all add: None)
next
  case (Some ob)
  then show ?thesis by (simp add: handle_accepts)
qed

lemma hub_step_inv: "hub_inv h \<Longrightarrow> hub_inv (hub_step safeParse numstr env h i)"
proof (cases i)
  case (GetStream req)
  moreover assume "hub_inv h"
  moreover from this have "\<not> connected (hub_bus h) (hub_next h)" by (auto simp: hub_inv_def)
  ultimately show ?thesis
    by (auto simp: hub_inv_def get_events_def addClient_inv less_Suc_eq split: option.splits)
next
  case (Post rt req uuid)
  assume "hub_inv h"
  with Post show ?thesis
    by (auto simp: hub_inv_def handle_bus broadcast_inv less_Suc_eq split: option.splits)
next
  case (CloseConnection r)
  assume "hub_inv h"
  with CloseConnection show ?thesis
    by (auto simp: hub_inv_def removeClient_inv connected_removeClient)
qed

lemma hub_step_refines:
  "hub_inv h \<Longrightarrow> hub_abs (hub_step safeParse numstr env h i) = abstract_step numstr env (hub_abs h) i"
proof (cases i)
  case (GetStream req)
  moreover assume "hub_inv h"
  moreover from this have "\<not> connected (hub_bus h) (hub_next h)" by (auto simp: hub_inv_def)
  ultimately show ?thesis
    by (auto simp: hub_abs_def get_events_def addClient_abs split: option.splits)
next
  case (Post rt req uuid)
  assume "hub_inv h"
  with Post show ?thesis
    by (auto simp: hub_abs_def hub_inv_def handle_bus broadcast_abs split: option.splits)
next
  case (CloseConnection r)
  assume "hub_inv h"
  with CloseConnection show ?thesis by (auto simp: hub_abs_def hub_inv_def removeClient_abs)
qed

end

sublocale hub_service \<subseteq> machine: machine_refinement
  "hub_step safeParse numstr env" hub_inv "abstract_step numstr env" hub_abs
  by unfold_locales (auto simp: hub_step_inv hub_step_refines)

interpretation reference_hub: hub_service zod_reference numstr env for numstr env
  by unfold_locales

section \<open>One connection\<close>

lemma hub_init_inv [simp]: "hub_inv hub_init"
  by (simp add: hub_inv_def hub_init_def connected_def) (simp add: empty_bus_def)

lemma received_session:
  "received (ah_bus (run (abstract_step ns env) a ins)) r
    = received (ah_bus a) r @ session ns env r (ah_next a) (subscription (ah_bus a) r) ins"
proof (induction ins arbitrary: a)
  case Nil
  then show ?case by simp
next
  case (Cons i ins)
  show ?case
    by (cases i)
      (auto simp: Cons.IH subscribe_def unsubscribe_def publish_def listens_def res_write_def
        split: option.splits)
qed

text \<open>
  A chunk that may be written to \<open>r\<close>: the frame of a published event of a channel that the
  subscription of \<open>r\<close> has, or something that the \<open>r\<close>-th request is owed when it identifies its
  sender.
\<close>

definition owed ::
  "(rat \<Rightarrow> string) \<Rightarrow> environment \<Rightarrow> hub_input list \<Rightarrow> hub_input \<Rightarrow> string \<Rightarrow> bool" where
  "owed ns env ins i chunk =
     (\<exists>req identity. i = GetStream req \<and> identifyService env req = Some identity \<and>
       (chunk = hello \<or> (\<exists>ev. ev \<in> set (published env ins) \<and>
          ie_channel ev \<in> si_allowedChannels identity \<and> chunk = event_frame ns ev)))"

lemma published_Cons: "set (published env ins) \<subseteq> set (published env (i # ins))"
  by (cases i) (auto split: option.splits)

lemma owed_Cons: "owed ns env ins j chunk \<Longrightarrow> owed ns env (i # ins) j chunk"
  unfolding owed_def using published_Cons by blast

lemma requests_shift:
  assumes "Suc n \<le> r" and "\<forall>s. i \<noteq> CloseConnection s" and "r - Suc n < length (requests ins)"
  shows "r - n < length (requests (i # ins)) \<and> requests (i # ins) ! (r - n) = requests ins ! (r - Suc n)"
proof -
  from assms(1) have "r - n = Suc (r - Suc n)" by simp
  with assms(2,3) show ?thesis by (cases i) simp_all
qed

lemma session_chunk:
  assumes "chunk \<in> set (session ns env r n sub ins)"
  shows "(\<exists>S ev. sub = Some S \<and> ev \<in> set (published env ins) \<and> ie_channel ev \<in> S \<and> chunk = event_frame ns ev)
    \<or> (n \<le> r \<and> r - n < length (requests ins) \<and> owed ns env ins (requests ins ! (r - n)) chunk)"
  using assms
proof (induction ins arbitrary: n sub)
  case Nil
  then show ?case by simp
next
  case (Cons i ins)
  have later: ?case if later: "chunk \<in> set (session ns env r (Suc n) sub ins)"
    and open_i: "\<forall>s. i \<noteq> CloseConnection s"
    using Cons.IH [OF later]
  proof
    assume "\<exists>S ev. sub = Some S \<and> ev \<in> set (published env ins) \<and> ie_channel ev \<in> S \<and> chunk = event_frame ns ev"
    then show ?case using published_Cons by blast
  next
    assume "Suc n \<le> r \<and> r - Suc n < length (requests ins) \<and> owed ns env ins (requests ins ! (r - Suc n)) chunk"
    with open_i requests_shift [of n r i ins] show ?case by (simp add: owed_Cons)
  qed
  show ?case
  proof (cases i)
    case (CloseConnection s)
    with Cons.prems Cons.IH [of n "if s = r then None else sub"] show ?thesis
      by (auto simp: owed_def split: if_splits)
  next
    case (GetStream req)
    show ?thesis
    proof (cases "n = r \<and> identifyService env req \<noteq> None")
      case True
      then obtain identity where id: "n = r" "identifyService env req = Some identity" by blast
      with GetStream Cons.prems consider "chunk = hello"
        | "chunk \<in> set (session ns env r (Suc r) (Some (si_allowedChannels identity)) ins)"
        by auto
      then show ?thesis
        using id GetStream Cons.IH [of "Suc r" "Some (si_allowedChannels identity)"]
        by cases (auto simp: owed_def)
    next
      case False
      with GetStream Cons.prems have "chunk \<in> set (session ns env r (Suc n) sub ins)"
        by (auto split: option.splits)
      then show ?thesis using GetStream later by blast
    qed
  next
    case (Post rt req uuid)
    with Cons.prems consider "chunk \<in> set (session ns env r (Suc n) sub ins)"
      | ob S where "ingest_reads env rt req = Some ob" "sub = Some S"
        "ie_channel (ingest_event rt uuid ob) \<in> S" "chunk = event_frame ns (ingest_event rt uuid ob)"
      by (auto split: option.splits if_splits)
    then show ?thesis
      using Post later by cases auto
  qed
qed

section \<open>Runs of the service\<close>

context hub_service
begin

lemma run_inv: "hub_inv (run (hub_step safeParse numstr env) hub_init ins)"
  by (rule machine.run_inv) simp

lemma run_refines:
  "hub_abs (run (hub_step safeParse numstr env) hub_init ins)
     = run (abstract_step numstr env) (hub_abs hub_init) ins"
  by (rule machine.run_refines) simp

lemma delivery:
  "wire (hub_bus (run (hub_step safeParse numstr env) hub_init ins)) r = session numstr env r 0 None ins"
proof -
  have "wire (hub_bus (run (hub_step safeParse numstr env) hub_init ins)) r
      = received (ah_bus (hub_abs (run (hub_step safeParse numstr env) hub_init ins))) r"
    by (simp add: hub_abs_def bus_abs_def)
  also have "\<dots> = session numstr env r 0 None ins"
    by (simp add: run_refines received_session) (simp add: hub_abs_def hub_init_def)
  finally show ?thesis .
qed

lemma delivered_chunk:
  assumes "chunk \<in> set (wire (hub_bus (run (hub_step safeParse numstr env) hub_init ins)) r)"
  shows "r < length (requests ins) \<and> owed numstr env ins (requests ins ! r) chunk"
  using session_chunk [of chunk numstr env r 0 None ins] assms by (simp add: delivery)

end

end
