(* ===== verification/Hub_Props.thy ===== *)
theory Hub_Props
  imports Hub_Service
begin

text \<open>
  The properties of the broadcast service, each with an instance on concrete requests. The
  instances use a resort whose frontend, beach and airport tokens and admin passcode are
  configured.
\<close>

section \<open>Sample data\<close>

definition int_printer :: "rat \<Rightarrow> string" where
  "int_printer q = show_int \<lfloor>q\<rfloor>"

definition sample_env :: environment where
  "sample_env = map_of [(''FE_TOKEN'', ''fe''), (''BEACH_TOKEN'', ''be''), (''AIRPORT_TOKEN'', ''ai''),
     (''ADMIN_PASSCODE'', ''pw'')]"

definition request_with :: "(string \<times> string) list \<Rightarrow> jsval \<Rightarrow> request" where
  "request_with hs body = \<lparr>rq_header = map_of hs, rq_query = (\<lambda>_. JUndefined), rq_body = body\<rparr>"

definition stream_request :: "string \<Rightarrow> hub_input" where
  "stream_request token = GetStream (request_with [(''x-service-token'', token)] JUndefined)"

definition arrival_post :: hub_input where
  "arrival_post = Post PostAirportArrival
     (request_with [] (JObj [(''guest_id'', JStr ''g1''), (''gate'', JStr ''A'')])) ''u1''"

definition sample_inputs :: "hub_input list" where
  "sample_inputs = [stream_request ''fe'', stream_request ''be'', arrival_post, CloseConnection 0, arrival_post]"

lemmas sample_defs =
  int_printer_def sample_env_def request_with_def stream_request_def arrival_post_def sample_inputs_def

text \<open>What the sample requests mean to the service.\<close>

lemma identify_sample_fe:
  "identifyService sample_env (request_with [(''x-service-token'', ''fe'')] JUndefined)
     = Some \<lparr>si_name = ''frontend'', si_allowedChannels = set ALL_CHANNELS\<rparr>"
  by (simp add: identifyService_def extractToken_def SERVICE_REGISTRY_def request_with_def sample_env_def)

lemma identify_sample_be:
  "identifyService sample_env (request_with [(''x-service-token'', ''be'')] JUndefined)
     = Some \<lparr>si_name = ''beach'', si_allowedChannels = {Hotel}\<rparr>"
  by (simp add: identifyService_def extractToken_def SERVICE_REGISTRY_def request_with_def sample_env_def)

lemma reads_sample_arrival:
  "ingest_reads sample_env PostAirportArrival
     (request_with [] (JObj [(''guest_id'', JStr ''g1''), (''gate'', JStr ''A'')]))
   = Some [(''guest_id'', JStr ''g1''), (''gate'', JStr ''A'')]"
  by (simp add: ingest_reads_def admin_refused_def request_with_def AirportArrivalSchema_def BaseFields_def)

lemma session_sample:
  "session ns sample_env 0 0 None sample_inputs =
     [hello, event_frame ns (ingest_event PostAirportArrival ''u1'' [(''guest_id'', JStr ''g1''), (''gate'', JStr ''A'')])]"
  by (simp add: sample_inputs_def stream_request_def arrival_post_def identify_sample_fe
      identify_sample_be reads_sample_arrival base_event_def)

section \<open>Delivery\<close>

text \<open>
  C2. What the service writes to a connection, over any sequence of requests and disconnects, is
  exactly the transcript the specification gives: nothing to a request that is not identified;
  the greeting when it is; then, in order and once each, the frame of every accepted event whose
  channel the identity was granted, until the connection closes.
\<close>

theorem hub_delivery:
  assumes "zod sp"
  shows "wire (hub_bus (run (hub_step sp ns env) hub_init ins)) r = session ns env r 0 None ins"
  by (rule hub_service.delivery) (rule hub_service.intro [OF assms])

theorem hub_delivery_witness:
  "zod zod_reference \<and>
   wire (hub_bus (run (hub_step zod_reference int_printer sample_env) hub_init sample_inputs)) 0 =
     [hello, event_frame int_printer
        (ingest_event PostAirportArrival ''u1'' [(''guest_id'', JStr ''g1''), (''gate'', JStr ''A'')])]"
  using hub_delivery [OF zref.zod_axioms, of int_printer sample_env sample_inputs 0] zref.zod_axioms
  by (simp add: session_sample)

text \<open>
  C5. Confidentiality of channels. Every chunk that a connection receives is the greeting or the
  frame of a published event, the request behind the connection identified its sender, and the
  event's channel is one that this identity was granted.
\<close>

theorem hub_confidentiality:
  assumes "zod sp"
    and "chunk \<in> set (wire (hub_bus (run (hub_step sp ns env) hub_init ins)) r)"
  shows "\<exists>req identity. r < length (requests ins) \<and> requests ins ! r = GetStream req \<and>
    identifyService env req = Some identity \<and>
    (chunk = hello \<or> (\<exists>ev. ev \<in> set (published env ins) \<and>
       ie_channel ev \<in> si_allowedChannels identity \<and> chunk = event_frame ns ev))"
  using hub_service.delivered_chunk [OF hub_service.intro [OF assms(1)] assms(2)]
  by (auto simp: owed_def)

theorem hub_confidentiality_witness:
  "\<exists>req identity. 0 < length (requests sample_inputs) \<and> requests sample_inputs ! 0 = GetStream req \<and>
    identifyService sample_env req = Some identity \<and>
    (hello = hello \<or> (\<exists>ev. ev \<in> set (published sample_env sample_inputs) \<and>
       ie_channel ev \<in> si_allowedChannels identity \<and> hello = event_frame int_printer ev))"
proof (rule hub_confidentiality [OF zref.zod_axioms])
  show "hello \<in> set (wire (hub_bus (run (hub_step zod_reference int_printer sample_env) hub_init sample_inputs)) 0)"
    by (simp add: reference_hub.delivery session_sample)
qed

text \<open>
  C12. Least privilege. Only the frontend and the beach service ever receive an event, and what the
  beach service receives is of the hotel channel; hotel, airport and parrot, and any caller
  without a configured token, receive no event at all.
\<close>

theorem hub_least_privilege:
  assumes "zod sp"
    and "chunk \<in> set (wire (hub_bus (run (hub_step sp ns env) hub_init ins)) r)" and "chunk \<noteq> hello"
  shows "\<exists>req identity ev. requests ins ! r = GetStream req \<and> identifyService env req = Some identity \<and>
    chunk = event_frame ns ev \<and>
    (si_name identity = ''frontend'' \<or> si_name identity = ''beach'' \<and> ie_channel ev = Hotel)"
proof -
  from hub_service.delivered_chunk [OF hub_service.intro [OF assms(1)] assms(2)] assms(3)
  obtain req identity ev where *: "requests ins ! r = GetStream req"
      "identifyService env req = Some identity" "chunk = event_frame ns ev"
      "ie_channel ev \<in> si_allowedChannels identity"
    by (auto simp: owed_def)
  from identity_channels [OF *(2,4)] * show ?thesis by blast
qed

lemma hello_not_frame: "event_frame ns ev \<noteq> hello"
  by (simp add: event_frame_def hello_def)

theorem hub_least_privilege_witness:
  "\<exists>req identity ev. requests sample_inputs ! 0 = GetStream req \<and>
    identifyService sample_env req = Some identity \<and>
    event_frame int_printer (ingest_event PostAirportArrival ''u1''
      [(''guest_id'', JStr ''g1''), (''gate'', JStr ''A'')]) = event_frame int_printer ev \<and>
    (si_name identity = ''frontend'' \<or> si_name identity = ''beach'' \<and> ie_channel ev = Hotel)"
proof (rule hub_least_privilege [OF zref.zod_axioms _ hello_not_frame])
  show "event_frame int_printer (ingest_event PostAirportArrival ''u1''
      [(''guest_id'', JStr ''g1''), (''gate'', JStr ''A'')])
    \<in> set (wire (hub_bus (run (hub_step zod_reference int_printer sample_env) hub_init sample_inputs)) 0)"
    by (simp add: reference_hub.delivery session_sample)
qed

section \<open>The bus\<close>

text \<open>
  C11. The service with its list of clients implements the abstract bus, in which a response
  object has at most one subscription: after any inputs, the abstraction of the state is the
  state the abstract service reaches on the same inputs.
\<close>

theorem hub_refines_pubsub:
  assumes "zod sp"
  shows "hub_abs (run (hub_step sp ns env) hub_init ins) = run (abstract_step ns env) (hub_abs hub_init) ins"
  by (rule hub_service.run_refines) (rule hub_service.intro [OF assms])

theorem hub_refines_pubsub_witness:
  "hub_abs (run (hub_step zod_reference int_printer sample_env) hub_init sample_inputs)
     = run (abstract_step int_printer sample_env) (hub_abs hub_init) sample_inputs"
  by (rule hub_refines_pubsub) (rule zref.zod_axioms)

text \<open>
  One event is one message of the stream: the frame of an event is a single line that starts
  with the data field, followed by the empty line that ends a message. Whatever a producer or a
  guest puts into a text, it cannot start a second message.
\<close>

lemma frame_is_one_message:
  assumes "\<forall>q. LF \<notin> set (numstr q)"
  shows "\<exists>line. event_frame numstr ev = line @ [LF, LF] \<and> LF \<notin> set line \<and> startsWith ''data: '' line"
  using assms by (rule event_frame_single_line)

lemma frame_is_one_message_example:
  "\<exists>line. event_frame (\<lambda>q. ''0'') (ingest_event PostPublic ''u''
      [(''guestName'', JStr ''Eve''), (''message'', JStr (''hi'' @ [LF, LF] @ ''data: forged''))])
    = line @ [LF, LF] \<and> LF \<notin> set line \<and> startsWith ''data: '' line"
  by (rule frame_is_one_message) (simp add: LF_def)

section \<open>Ingest\<close>

text \<open>
  C13. Ingest is all or nothing, on each of the ten routes. When the request is authorised and its
  body is what the route's schema reads, exactly the event of the reference table is broadcast
  and the response is a success; otherwise no listener is written to, the list of clients is
  unchanged, and the response is 401 (admin route, wrong passcode) or 400.
\<close>

theorem ingest_all_or_nothing:
  assumes "zod sp"
  shows "case ingest_reads env rt req of
      Some ob \<Rightarrow> handle sp ns env rt uuid req b = (broadcast ns (ingest_event rt uuid ob) b, success_response)
    | None \<Rightarrow> \<exists>status body. handle sp ns env rt uuid req b = (b, Json status body) \<and>
        status = (if admin_refused env rt req then 401 else 400)"
proof (cases "ingest_reads env rt req")
  case None
  from hub_service.handle_refused [OF hub_service.intro [OF assms] None] None show ?thesis by simp
next
  case (Some ob)
  then show ?thesis
    by (simp add: hub_service.handle_accepts [OF hub_service.intro [OF assms]])
qed

theorem ingest_all_or_nothing_witness:
  "handle zod_reference int_printer sample_env PostAirportArrival ''u1''
     (request_with [] (JObj [(''guest_id'', JStr ''g1''), (''gate'', JStr ''A'')])) empty_bus
   = (broadcast int_printer (ingest_event PostAirportArrival ''u1''
       [(''guest_id'', JStr ''g1''), (''gate'', JStr ''A'')]) empty_bus, success_response)"
  using ingest_all_or_nothing [OF zref.zod_axioms, where env = sample_env and rt = PostAirportArrival
      and req = "request_with [] (JObj [(''guest_id'', JStr ''g1''), (''gate'', JStr ''A'')])"
      and ns = int_printer and uuid = "''u1''" and b = empty_bus]
  by (simp add: reads_sample_arrival)

text \<open>
  Strict payloads: a body with a property that the route's schema does not declare is refused
  on every route, and nothing is broadcast.
\<close>

lemma undeclared_property_refused:
  assumes "zod sp" and "rq_body req = JObj ob" and "has_key k ob"
    and "k \<notin> set (schema_keys (ingest_schema rt))"
  shows "\<exists>status body. handle sp ns env rt uuid req b = (b, Json status body) \<and>
    status = (if admin_refused env rt req then 401 else 400)"
proof -
  obtain flds where flds: "ingest_schema rt = ZObject True flds" using ingest_schema_strict by blast
  with assms(3,4) have "zod_reads (ingest_schema rt) (rq_body req) = None"
    unfolding assms(2) flds by (intro zod_reads_unknown_key) simp_all
  then have "ingest_reads env rt req = None" by (simp add: ingest_reads_def)
  then show ?thesis by (rule hub_service.handle_refused [OF hub_service.intro [OF assms(1)]])
qed

lemma undeclared_property_refused_example:
  "\<exists>status body. handle zod_reference int_printer sample_env PostBeachFull ''u''
      (request_with [] (JObj [(''channel'', JStr ''hotel'')])) empty_bus = (empty_bus, Json status body) \<and>
    status = (if admin_refused sample_env PostBeachFull (request_with [] (JObj [(''channel'', JStr ''hotel'')]))
      then 401 else 400)"
  by (rule undeclared_property_refused [OF zref.zod_axioms, where k = "''channel''" and ob = "[(''channel'', JStr ''hotel'')]"])
    (simp_all add: request_with_def schema_defs)

text \<open>The admin route fails closed: unless a passcode is configured and the request carries
  exactly it, the request is answered with 401 and no listener is written to, whatever the body
  is and however validation behaves. In particular an unconfigured passcode closes the route.
\<close>

lemma admin_route_fails_closed:
  assumes "\<not> (\<exists>p. p \<noteq> [] \<and> env ''ADMIN_PASSCODE'' = Some p \<and> rq_header req ''x-admin-passcode'' = Some p)"
  shows "handle sp ns env PostAdminAnnouncement uuid req b
    = (b, error_response 401 ''Admin authentication required'')"
proof -
  from assms have "requireAdmin env req \<noteq> None" by (simp add: requireAdmin_passes)
  from requireAdmin_refuses [OF this] show ?thesis by (simp add: admin_announcement_def)
qed

lemma admin_route_fails_closed_example:
  "handle zod_reference int_printer (\<lambda>_. None) PostAdminAnnouncement ''u''
     (request_with [(''x-admin-passcode'', [])] (JObj [(''message'', JStr ''hi'')])) empty_bus
   = (empty_bus, error_response 401 ''Admin authentication required'')"
  by (rule admin_route_fails_closed) simp

end
