(* ===== verification/Hotel_Db.thy ===== *)
theory Hotel_Db
  imports Js "HOL-Library.Multiset"
begin

text \<open>
  The data of the hotel service: the tables that \<^verbatim>\<open>services/hotel/prisma/schema.prisma\<close> declares,
  the seed of the room inventory (\<^verbatim>\<open>prisma/seed.ts\<close>), and the database client. The client is
  generated code on top of a library, so its calls are the fields of a record \<open>prisma_client\<close>
  over an abstract database, and the locale \<open>prisma\<close> states what a call that returns has read or
  written. A filter (\<^verbatim>\<open>where\<close>) is data, as it is in the source: a list of conditions that a row
  has to meet together.
\<close>

section \<open>schema.prisma\<close>

datatype RoomType = STANDARD | DELUXE | SUITE

fun room_type_str :: "RoomType \<Rightarrow> string" where
  "room_type_str STANDARD = ''STANDARD''"
| "room_type_str DELUXE = ''DELUXE''"
| "room_type_str SUITE = ''SUITE''"

datatype ReservationStatus = CONFIRMED | CANCELLED

fun status_str :: "ReservationStatus \<Rightarrow> string" where
  "status_str CONFIRMED = ''CONFIRMED''"
| "status_str CANCELLED = ''CANCELLED''"

record Room =
  rm_id :: string
  rm_type :: RoomType
  rm_capacity :: int
  rm_price_per_night :: int

record Reservation =
  rs_id :: string
  rs_guest_id :: string
  rs_room_id :: string
  rs_guest_count :: int
  rs_check_in_day :: int
  rs_check_out_day :: int
  rs_status :: ReservationStatus

text \<open>A row of \<^verbatim>\<open>ReservationGuest\<close> is a pair of a reservation id and a guest id.\<close>

record tables =
  tb_rooms :: "Room list"
  tb_reservations :: "Reservation list"
  tb_guests :: "(string \<times> string) list"

section \<open>Filters\<close>

datatype rcond =
    IdIs string
  | GuestIs string
  | RoomIs string
  | StatusIs ReservationStatus
  | CheckInLte int
  | CheckOutGte int
  | CheckOutGt int

fun rholds :: "rcond \<Rightarrow> Reservation \<Rightarrow> bool" where
  "rholds (IdIs i) r = (rs_id r = i)"
| "rholds (GuestIs g) r = (rs_guest_id r = g)"
| "rholds (RoomIs m) r = (rs_room_id r = m)"
| "rholds (StatusIs s) r = (rs_status r = s)"
| "rholds (CheckInLte d) r = (rs_check_in_day r \<le> d)"
| "rholds (CheckOutGte d) r = (d \<le> rs_check_out_day r)"
| "rholds (CheckOutGt d) r = (d < rs_check_out_day r)"

definition rmatch :: "rcond list \<Rightarrow> Reservation \<Rightarrow> bool" where
  "rmatch cs r = list_all (\<lambda>c. rholds c r) cs"

lemma rmatch_simps [simp]:
  "rmatch [] r"
  "rmatch (c # cs) r \<longleftrightarrow> rholds c r \<and> rmatch cs r"
  by (simp_all add: rmatch_def)

section \<open>The client\<close>

text \<open>
  The data of a \<^verbatim>\<open>reservation.create\<close>: the row without its identifier, which the client
  generates, and the guests that are created with it.
\<close>

record reservation_data =
  rd_guest_id :: string
  rd_room_id :: string
  rd_guest_count :: int
  rd_check_in_day :: int
  rd_check_out_day :: int
  rd_status :: ReservationStatus
  rd_guests :: "string list"

definition row_of :: "string \<Rightarrow> reservation_data \<Rightarrow> Reservation" where
  "row_of i d =
     \<lparr>rs_id = i, rs_guest_id = rd_guest_id d, rs_room_id = rd_room_id d,
      rs_guest_count = rd_guest_count d, rs_check_in_day = rd_check_in_day d,
      rs_check_out_day = rd_check_out_day d, rs_status = rd_status d\<rparr>"

text \<open>A row with the relations that \<^verbatim>\<open>include\<close> asks for: its room and its guests.\<close>

type_synonym included = "Reservation \<times> Room \<times> string list"

datatype db_error = DbError

text \<open>
  Each call may throw. \<open>reservation_findLatest\<close> is \<^verbatim>\<open>findFirst\<close> with \<^verbatim>\<open>orderBy\<close> the check-in day
  descending.
\<close>

record 'db prisma_client =
  room_findMany :: "'db \<Rightarrow> RoomType option \<Rightarrow> db_error + Room list"
  reservation_count :: "'db \<Rightarrow> rcond list \<Rightarrow> db_error + nat"
  reservation_create :: "'db \<Rightarrow> reservation_data \<Rightarrow> db_error + Reservation \<times> string list \<times> 'db"
  reservation_findFirst :: "'db \<Rightarrow> rcond list \<Rightarrow> db_error + included option"
  reservation_findLatest :: "'db \<Rightarrow> rcond list \<Rightarrow> db_error + included option"
  reservation_update :: "'db \<Rightarrow> string \<Rightarrow> ReservationStatus \<Rightarrow> db_error + Reservation \<times> Room \<times> 'db"
  reservation_groupBy :: "'db \<Rightarrow> rcond list \<Rightarrow> db_error + (string \<times> int option) list"

definition of_type :: "RoomType option \<Rightarrow> Room \<Rightarrow> bool" where
  "of_type t m = (case t of None \<Rightarrow> True | Some ty \<Rightarrow> rm_type m = ty)"

text \<open>The row of a reservation with its relations, as the tables have them.\<close>

definition joined :: "tables \<Rightarrow> included \<Rightarrow> bool" where
  "joined t inc =
     (case inc of (r, m, gs) \<Rightarrow>
        r \<in> set (tb_reservations t) \<and> m \<in> set (tb_rooms t) \<and> rm_id m = rs_room_id r \<and>
        mset gs = mset (map snd (filter (\<lambda>g. fst g = rs_id r) (tb_guests t))))"

definition set_status :: "string \<Rightarrow> ReservationStatus \<Rightarrow> tables \<Rightarrow> tables" where
  "set_status i s t =
     t\<lparr>tb_reservations := map (\<lambda>r. if rs_id r = i then r\<lparr>rs_status := s\<rparr> else r) (tb_reservations t)\<rparr>"

definition insert_row :: "Reservation \<Rightarrow> string list \<Rightarrow> tables \<Rightarrow> tables" where
  "insert_row r gs t =
     t\<lparr>tb_reservations := tb_reservations t @ [r], tb_guests := tb_guests t @ map (Pair (rs_id r)) gs\<rparr>"

definition guest_sum :: "rcond list \<Rightarrow> string \<Rightarrow> tables \<Rightarrow> int" where
  "guest_sum w room t =
     sum_list (map rs_guest_count (filter (\<lambda>r. rmatch w r \<and> rs_room_id r = room) (tb_reservations t)))"

text \<open>
  What the client and the constraints of the schema promise of a call that returns: primary
  keys are unique, a reservation refers to a room that exists, a guest is listed once in a party.
  \<open>id_le\<close> is the order the database sorts identifiers in.
\<close>

locale prisma =
  fixes P :: "'db prisma_client"
    and content :: "'db \<Rightarrow> tables"
    and id_le :: "string \<Rightarrow> string \<Rightarrow> bool"
  assumes findMany_rows:
      "room_findMany P db t = Inr ms \<Longrightarrow> mset ms = mset (filter (of_type t) (tb_rooms (content db)))"
    and findMany_sorted:
      "room_findMany P db t = Inr ms \<Longrightarrow> sorted_wrt (\<lambda>a b. id_le (rm_id a) (rm_id b)) ms"
    and count_rows:
      "reservation_count P db w = Inr n \<Longrightarrow> n = length (filter (rmatch w) (tb_reservations (content db)))"
    and create_row:
      "reservation_create P db d = Inr (r, gs, db') \<Longrightarrow>
         rs_id r \<notin> rs_id ` set (tb_reservations (content db)) \<and> r = row_of (rs_id r) d \<and>
         mset gs = mset (rd_guests d) \<and> distinct (rd_guests d) \<and>
         rd_room_id d \<in> rm_id ` set (tb_rooms (content db)) \<and>
         content db' = insert_row r gs (content db)"
    and findFirst_row:
      "reservation_findFirst P db w = Inr (Some (r, m, gs)) \<Longrightarrow>
         joined (content db) (r, m, gs) \<and> rmatch w r"
    and findFirst_none:
      "reservation_findFirst P db w = Inr None \<Longrightarrow> list_all (\<lambda>r. \<not> rmatch w r) (tb_reservations (content db))"
    and findLatest_row:
      "reservation_findLatest P db w = Inr (Some (r, m, gs)) \<Longrightarrow>
         joined (content db) (r, m, gs) \<and> rmatch w r \<and>
         list_all (\<lambda>s. rmatch w s \<longrightarrow> rs_check_in_day s \<le> rs_check_in_day r) (tb_reservations (content db))"
    and findLatest_none:
      "reservation_findLatest P db w = Inr None \<Longrightarrow> list_all (\<lambda>r. \<not> rmatch w r) (tb_reservations (content db))"
    and update_row:
      "reservation_update P db i s = Inr (r, m, db') \<Longrightarrow>
         rs_id r = i \<and> content db' = set_status i s (content db) \<and> (\<exists>gs. joined (content db') (r, m, gs))"
    and groupBy_rows:
      "reservation_groupBy P db w = Inr groups \<Longrightarrow>
         distinct (map fst groups) \<and>
         map_of groups = (\<lambda>room. if \<exists>r \<in> set (tb_reservations (content db)). rmatch w r \<and> rs_room_id r = room
           then Some (Some (guest_sum w room (content db))) else None)"

text \<open>A database that is up: every call returns, unless a constraint of the schema forbids it.\<close>

locale prisma_up = prisma P content id_le
  for P :: "'db prisma_client" and content :: "'db \<Rightarrow> tables" and id_le :: "string \<Rightarrow> string \<Rightarrow> bool" +
  assumes findMany_up: "\<exists>ms. room_findMany P db t = Inr ms"
    and count_up: "\<exists>n. reservation_count P db w = Inr n"
    and create_up:
      "distinct (rd_guests d) \<Longrightarrow> rd_room_id d \<in> rm_id ` set (tb_rooms (content db)) \<Longrightarrow>
         \<exists>r gs db'. reservation_create P db d = Inr (r, gs, db')"

section \<open>seed.ts\<close>

definition padStart2 :: "nat \<Rightarrow> string" where
  "padStart2 n = (if n < 10 then ''0'' @ show_nat n else show_nat n)"

definition seed_room :: "string \<Rightarrow> RoomType \<Rightarrow> int \<Rightarrow> int \<Rightarrow> nat \<Rightarrow> Room" where
  "seed_room prefix ty cap price i =
     \<lparr>rm_id = prefix @ padStart2 (i + 1), rm_type = ty, rm_capacity = cap, rm_price_per_night = price\<rparr>"

definition seed_rooms :: "Room list" where
  "seed_rooms =
     map (seed_room ''room-standard-'' STANDARD 2 100) [0..<10]
     @ map (seed_room ''room-deluxe-'' DELUXE 3 200) [0..<6]
     @ map (seed_room ''room-suite-'' SUITE 4 400) [0..<4]"

text \<open>
  The loop of \<^verbatim>\<open>main\<close> over the client's \<^verbatim>\<open>upsert\<close>, which takes a row to create when its
  identifier is not there yet.
\<close>

definition seed_main :: "('db \<Rightarrow> Room \<Rightarrow> 'db) \<Rightarrow> 'db \<Rightarrow> 'db" where
  "seed_main upsert db = foldl upsert db seed_rooms"

end
