(* ===== verification/Json.thy ===== *)
theory Json
  imports Js
begin

text \<open>
  \<^verbatim>\<open>JSON.parse\<close>, the inverse of \<^verbatim>\<open>JSON.stringify\<close>: a recursive descent over the text that
  returns the value it read and the text behind it, with \<open>None\<close> for the exception. Strings are of
  codes below 256, as everywhere in this library, so an escape of a higher code is not read.
  The value of a number's text is a parameter (\<open>numval\<close>), the counterpart of \<open>numstr\<close>.

  The fuel is spent once per value and once per element or member, and each of these consumes at
  least one character, so twice the length of the text and two are enough; the round trip below
  is a theorem about the function with exactly that fuel.
\<close>

definition json_ws :: "char \<Rightarrow> bool" where
  "json_ws c = (c \<in> set [CHR 0x20, CHR 0x09, CHR 0x0A, CHR 0x0D])"

definition skip_ws :: "string \<Rightarrow> string" where
  "skip_ws s = dropWhile json_ws s"

definition digit :: "char \<Rightarrow> bool" where
  "digit c = (48 \<le> (of_char c :: nat) \<and> (of_char c :: nat) \<le> 57)"

section \<open>Numbers\<close>

definition num_char :: "char \<Rightarrow> bool" where
  "num_char c = (digit c \<or> c \<in> set ''+-.eE'')"

definition exp_ok :: "string \<Rightarrow> bool" where
  "exp_ok s = (case s of [] \<Rightarrow> True
     | e # r \<Rightarrow> e \<in> set ''eE'' \<and>
         (let ds = (case r of [] \<Rightarrow> [] | c # r' \<Rightarrow> if c \<in> set ''+-'' then r' else r)
          in ds \<noteq> [] \<and> list_all digit ds))"

definition frac_ok :: "string \<Rightarrow> bool" where
  "frac_ok s = (case s of [] \<Rightarrow> True
     | c # r \<Rightarrow> if c = CHR ''.'' then takeWhile digit r \<noteq> [] \<and> exp_ok (dropWhile digit r) else exp_ok s)"

definition json_number :: "string \<Rightarrow> bool" where
  "json_number s =
     (let s' = (case s of [] \<Rightarrow> [] | c # r \<Rightarrow> if c = CHR ''-'' then r else s); i = takeWhile digit s'
      in i \<noteq> [] \<and> (hd i = CHR ''0'' \<longrightarrow> length i = 1) \<and> frac_ok (dropWhile digit s'))"

section \<open>Strings\<close>

definition hex_value :: "char \<Rightarrow> nat option" where
  "hex_value c =
     (let n = of_char c
      in if 48 \<le> n \<and> n \<le> 57 then Some (n - 48)
         else if 97 \<le> n \<and> n \<le> 102 then Some (n - 87)
         else if 65 \<le> n \<and> n \<le> 70 then Some (n - 55) else None)"

text \<open>The character of an escape of one letter.\<close>

definition escape_of :: "char \<Rightarrow> char option" where
  "escape_of c =
     map_of [(CHR 0x22, CHR 0x22), (CHR 0x5C, CHR 0x5C), (CHR ''/'', CHR ''/''), (CHR ''b'', CHR 0x08),
       (CHR ''f'', CHR 0x0C), (CHR ''n'', CHR 0x0A), (CHR ''r'', CHR 0x0D), (CHR ''t'', CHR 0x09)] c"

text \<open>The four hexadecimal digits of an escape, with the text behind them.\<close>

fun unicode_escape :: "string \<Rightarrow> (char \<times> string) option" where
  "unicode_escape (a # b # c # d # r) =
     (case (hex_value a, hex_value b, hex_value c, hex_value d) of
        (Some 0, Some 0, Some h, Some l) \<Rightarrow> Some (char_of (16 * h + l), r)
      | _ \<Rightarrow> None)"
| "unicode_escape _ = None"

lemma unicode_escape_shorter: "unicode_escape s = Some (c, r) \<Longrightarrow> length r < length s"
  by (induction s rule: unicode_escape.induct) (auto split: option.splits nat.splits)

text \<open>The characters of a string and the text behind its closing quote.\<close>

function parse_chars :: "string \<Rightarrow> (string \<times> string) option" where
  "parse_chars [] = None"
| "parse_chars (c # s) =
     (if c = CHR 0x22 then Some ([], s)
      else if c = CHR 0x5C then
        (case s of [] \<Rightarrow> None
         | e # s' \<Rightarrow>
             if e = CHR ''u'' then
               (case unicode_escape s' of None \<Rightarrow> None
                | Some (x, r) \<Rightarrow> map_option (\<lambda>(t, r'). (x # t, r')) (parse_chars r))
             else
               (case escape_of e of None \<Rightarrow> None
                | Some x \<Rightarrow> map_option (\<lambda>(t, r'). (x # t, r')) (parse_chars s')))
      else if (of_char c :: nat) < 32 then None
      else map_option (\<lambda>(t, r'). (c # t, r')) (parse_chars s))"
  by pat_completeness auto
termination
  by (relation "measure length") (auto dest: unicode_escape_shorter)

section \<open>Values\<close>

text \<open>A property given twice keeps the place of the first and the value of the last.\<close>

fun put_key :: "string \<Rightarrow> jsval \<Rightarrow> jsobj \<Rightarrow> jsobj" where
  "put_key k v [] = [(k, v)]"
| "put_key k v ((k', v') # ob) = (if k' = k then (k, v) # ob else (k', v') # put_key k v ob)"

definition obj_of :: "(string \<times> jsval) list \<Rightarrow> jsobj" where
  "obj_of kvs = foldl (\<lambda>ob (k, v). put_key k v ob) [] kvs"

definition parse_number :: "(string \<Rightarrow> jsnum) \<Rightarrow> string \<Rightarrow> (jsval \<times> string) option" where
  "parse_number numval s =
     (if json_number (takeWhile num_char s)
      then Some (JNum (numval (takeWhile num_char s)), dropWhile num_char s) else None)"

fun parse_value :: "(string \<Rightarrow> jsnum) \<Rightarrow> nat \<Rightarrow> string \<Rightarrow> (jsval \<times> string) option"
  and parse_elems :: "(string \<Rightarrow> jsnum) \<Rightarrow> nat \<Rightarrow> string \<Rightarrow> (jsval list \<times> string) option"
  and parse_members :: "(string \<Rightarrow> jsnum) \<Rightarrow> nat \<Rightarrow> string \<Rightarrow> ((string \<times> jsval) list \<times> string) option"
where
  "parse_value numval 0 s = None"
| "parse_value numval (Suc n) s =
     (case skip_ws s of [] \<Rightarrow> None
      | c # r \<Rightarrow>
          if c = CHR 0x22 then map_option (\<lambda>(t, r'). (JStr t, r')) (parse_chars r)
          else if c = CHR ''['' then
            (if startsWith '']'' (skip_ws r) then Some (JArr [], tl (skip_ws r))
             else map_option (\<lambda>(vs, r'). (JArr vs, r')) (parse_elems numval n r))
          else if c = CHR ''{'' then
            (if startsWith ''}'' (skip_ws r) then Some (JObj [], tl (skip_ws r))
             else map_option (\<lambda>(kvs, r'). (JObj (obj_of kvs), r')) (parse_members numval n r))
          else if startsWith ''true'' (c # r) then Some (JBool True, drop 4 (c # r))
          else if startsWith ''false'' (c # r) then Some (JBool False, drop 5 (c # r))
          else if startsWith ''null'' (c # r) then Some (JNull, drop 4 (c # r))
          else parse_number numval (c # r))"
| "parse_elems numval 0 s = None"
| "parse_elems numval (Suc n) s =
     (case parse_value numval n s of None \<Rightarrow> None
      | Some (v, r) \<Rightarrow>
          if startsWith '','' (skip_ws r)
          then map_option (\<lambda>(vs, r'). (v # vs, r')) (parse_elems numval n (tl (skip_ws r)))
          else if startsWith '']'' (skip_ws r) then Some ([v], tl (skip_ws r))
          else None)"
| "parse_members numval 0 s = None"
| "parse_members numval (Suc n) s =
     (if \<not> startsWith [CHR 0x22] (skip_ws s) then None
      else case parse_chars (tl (skip_ws s)) of None \<Rightarrow> None
      | Some (k, r) \<Rightarrow>
          if \<not> startsWith '':'' (skip_ws r) then None
          else case parse_value numval n (tl (skip_ws r)) of None \<Rightarrow> None
          | Some (v, r') \<Rightarrow>
              if startsWith '','' (skip_ws r')
              then map_option (\<lambda>(kvs, r''). ((k, v) # kvs, r'')) (parse_members numval n (tl (skip_ws r')))
              else if startsWith ''}'' (skip_ws r') then Some ([(k, v)], tl (skip_ws r'))
              else None)"

definition JSON_parse :: "(string \<Rightarrow> jsnum) \<Rightarrow> string \<Rightarrow> jsval option" where
  "JSON_parse numval s =
     (case parse_value numval (2 * length s + 2) s of None \<Rightarrow> None
      | Some (v, r) \<Rightarrow> if skip_ws r = [] then Some v else None)"

section \<open>Reading back what was printed\<close>

lemma startsWith_simps [simp]:
  "startsWith [] s"
  "\<not> startsWith (c # p) []"
  "startsWith (c # p) (d # s) \<longleftrightarrow> c = d \<and> startsWith p s"
  by (auto simp: startsWith_def)

lemma hex_value_digit: "n < 16 \<Longrightarrow> hex_value (hex_digit n) = Some n"
proof -
  assume "n < 16"
  then have "n \<in> set [0..<16]" by simp
  then show ?thesis by (auto simp: hex_value_def hex_digit_def upt_rec)
qed

lemma hex_digit_mod: "hex_digit (n mod 16) = hex_digit n"
  by (simp add: hex_digit_def)

lemma parse_chars_json_char:
  "parse_chars (json_char c @ r) = map_option (\<lambda>(t, r'). (c # t, r')) (parse_chars r)"
proof (cases "c \<in> set [CHR 0x22, CHR 0x5C, CHR 0x08, CHR 0x0C, CHR 0x0A, CHR 0x0D, CHR 0x09]")
  case True
  then show ?thesis by (auto simp: json_char_def LF_def escape_of_def)
next
  case False
  show ?thesis
  proof (cases "(of_char c :: nat) < 32")
    case True
    then have "hex_value (hex_digit (of_char c div 16)) = Some (of_char c div 16)"
      "hex_value (hex_digit (of_char c)) = Some (of_char c mod 16)" "hex_value (CHR ''0'') = Some 0"
      using hex_value_digit [of "of_char c div 16"] hex_value_digit [of "of_char c mod 16"]
      by (simp_all add: hex_digit_mod hex_value_def)
    with True False show ?thesis by (simp add: json_char_def LF_def)
  next
    case False': False
    with False show ?thesis by (simp add: json_char_def LF_def)
  qed
qed

lemma parse_chars_quoted: "parse_chars (concat (map json_char s) @ CHR 0x22 # r) = Some (s, r)"
  by (induction s) (simp_all add: parse_chars_json_char)

lemma digit_num_char: "digit c \<Longrightarrow> num_char c"
  by (simp add: num_char_def)

lemma frac_chars: "list_all digit ds \<Longrightarrow> list_all num_char ds"
  by (auto simp: list_all_iff num_char_def)

lemma num_char_chars [simp]: "num_char (CHR ''-'')" "num_char (CHR ''.'')" "c \<in> set ''+-.eE'' \<Longrightarrow> num_char c"
  by (simp_all add: num_char_def)

lemma exp_ok_chars: "exp_ok s \<Longrightarrow> list_all num_char s"
  by (auto simp: exp_ok_def num_char_def list_all_iff Let_def split: list.splits if_splits)

lemma split_chars: "list_all num_char (dropWhile digit s) \<Longrightarrow> list_all num_char s"
  by (metis frac_chars list_all_append list_all_iff set_takeWhileD takeWhile_dropWhile_id)

lemma frac_ok_chars: "frac_ok s \<Longrightarrow> list_all num_char s"
  by (auto simp: frac_ok_def exp_ok_chars dest!: exp_ok_chars intro: split_chars split: list.splits if_splits)

lemma json_number_chars: "json_number s \<Longrightarrow> list_all num_char s"
  by (auto simp: json_number_def Let_def dest!: frac_ok_chars intro: split_chars digit_num_char split: list.splits if_splits)

lemma json_number_start: "json_number s \<Longrightarrow> \<exists>c r. s = c # r \<and> num_char c \<and> (digit c \<or> c = CHR ''-'')"
  by (cases s) (auto simp: json_number_def num_char_def Let_def split: if_splits)

text \<open>
  The values that have a text and come back from it: no undefined, only numbers whose text reads
  back, and each property name once in an object (as in every object of the language).
\<close>

fun json_ok :: "(rat \<Rightarrow> string) \<Rightarrow> (string \<Rightarrow> jsnum) \<Rightarrow> jsval \<Rightarrow> bool" where
  "json_ok numstr numval JUndefined = False"
| "json_ok numstr numval JNull = True"
| "json_ok numstr numval (JBool b) = True"
| "json_ok numstr numval (JNum (Fin q)) = (json_number (numstr q) \<and> numval (numstr q) = Fin q)"
| "json_ok numstr numval (JNum _) = False"
| "json_ok numstr numval (JStr s) = True"
| "json_ok numstr numval (JArr vs) = list_all (json_ok numstr numval) vs"
| "json_ok numstr numval (JObj ob) = (distinct (map fst ob) \<and> list_all (\<lambda>(k, v). json_ok numstr numval v) ob)"

text \<open>The text of a value that can be read back.\<close>

definition json_text :: "(rat \<Rightarrow> string) \<Rightarrow> jsval \<Rightarrow> string" where
  "json_text numstr v = nullish (JSON_stringify numstr v) []"

lemma json_ok_text: "json_ok numstr numval v \<Longrightarrow> JSON_stringify numstr v = Some (json_text numstr v)"
  by (induction numstr numval v rule: json_ok.induct) (auto simp: json_text_def)

lemma member_texts:
  "list_all (\<lambda>(k, v). json_ok numstr numval v) ob \<Longrightarrow>
     concat (map (\<lambda>(k, v). case JSON_stringify numstr v of None \<Rightarrow> [] | Some t \<Rightarrow> [json_quote k @ '':'' @ t]) ob)
     = map (\<lambda>(k, v). json_quote k @ '':'' @ json_text numstr v) ob"
  by (induction ob) (auto simp: json_ok_text)

lemma element_texts:
  "list_all (json_ok numstr numval) vs \<Longrightarrow>
     map (\<lambda>v. nullish (JSON_stringify numstr v) ''null'') vs = map (json_text numstr) vs"
  by (induction vs) (auto simp: json_ok_text)

definition value_start :: "char \<Rightarrow> bool" where
  "value_start c = (\<not> json_ws c \<and> c \<notin> set '']},:'')"

lemma digit_start: "digit c \<Longrightarrow> value_start c"
  by (auto simp: digit_def value_start_def json_ws_def)

lemma text_start: "json_ok numstr numval v \<Longrightarrow> \<exists>c r. json_text numstr v = c # r \<and> value_start c"
proof (induction numstr numval v rule: json_ok.induct)
  case (4 numstr numval q)
  with json_number_start [of "numstr q"] digit_start show ?case
    by (auto simp: json_text_def value_start_def json_ws_def)
qed (auto simp: json_text_def json_quote_def value_start_def json_ws_def)

lemma skip_ws_start: "value_start c \<Longrightarrow> skip_ws (c # r) = c # r"
  by (simp add: skip_ws_def value_start_def)

lemma skip_ws_Cons: "\<not> json_ws c \<Longrightarrow> skip_ws (c # r) = c # r"
  by (simp add: skip_ws_def)

definition stops :: "string \<Rightarrow> bool" where
  "stops r = (case r of [] \<Rightarrow> True | c # _ \<Rightarrow> \<not> num_char c)"

definition reads_back :: "(rat \<Rightarrow> string) \<Rightarrow> (string \<Rightarrow> jsnum) \<Rightarrow> jsval \<Rightarrow> bool" where
  "reads_back numstr numval v =
     (\<forall>n r. 2 * length (json_text numstr v) < n \<longrightarrow> stops r \<longrightarrow>
        parse_value numval n (json_text numstr v @ r) = Some (v, r))"

lemma reads_backI:
  assumes "\<And>m r. 2 * length (json_text numstr v) \<le> m \<Longrightarrow> stops r \<Longrightarrow>
    parse_value numval (Suc m) (json_text numstr v @ r) = Some (v, r)"
  shows "reads_back numstr numval v"
  unfolding reads_back_def
proof (intro allI impI)
  fix n r assume "2 * length (json_text numstr v) < n" "stops r"
  then show "parse_value numval n (json_text numstr v @ r) = Some (v, r)"
    using assms [of "n - 1" r] by (cases n) auto
qed

lemma takeWhile_all_stops: "list_all num_char s \<Longrightarrow> stops r \<Longrightarrow> takeWhile num_char (s @ r) = s \<and> dropWhile num_char (s @ r) = r"
  by (induction s) (auto simp: stops_def split: list.splits)

lemma parse_number_text:
  "json_number s \<Longrightarrow> stops r \<Longrightarrow> parse_number numval (s @ r) = Some (JNum (numval s), r)"
  using takeWhile_all_stops [OF json_number_chars] by (simp add: parse_number_def)

lemma number_reads_back:
  assumes "json_number (numstr q)" "numval (numstr q) = Fin q"
  shows "reads_back numstr numval (JNum (Fin q))"
proof -
  obtain c s where c: "numstr q = c # s" "digit c \<or> c = CHR ''-''"
    using json_number_start [OF assms(1)] by blast
  have np: "parse_number numval (c # s @ r) = Some (JNum (Fin q), r)" if "stops r" for r
    using parse_number_text [OF assms(1) that, of numval] assms(2) c(1) by simp
  from c(2) have ne: "c \<noteq> CHR 0x22" "c \<noteq> CHR ''[''" "c \<noteq> CHR ''{''" "c \<noteq> CHR ''t''" "c \<noteq> CHR ''f''" "c \<noteq> CHR ''n''"
    "value_start c"
    by (auto simp: digit_def value_start_def json_ws_def)
  show ?thesis
    by (rule reads_backI) (use np ne c(1) in \<open>simp add: json_text_def skip_ws_start\<close>)
qed

lemma parse_elems_text:
  assumes "vs \<noteq> []" "\<forall>v \<in> set vs. reads_back numstr numval v"
    "2 * length (js_join '','' (map (json_text numstr) vs)) + 1 < n"
  shows "parse_elems numval n (js_join '','' (map (json_text numstr) vs) @ CHR '']'' # r) = Some (vs, r)"
  using assms
proof (induction vs arbitrary: n)
  case (Cons v vs)
  then obtain m where n: "n = Suc m" by (cases n) auto
  have rb: "reads_back numstr numval v" using Cons.prems by simp
  show ?case
  proof (cases vs)
    case Nil
    with rb Cons.prems n show ?thesis
      by (simp add: reads_back_def stops_def num_char_def digit_def skip_ws_Cons json_ws_def)
  next
    case (Cons w ws)
    let ?t = "js_join '','' (map (json_text numstr) vs)"
    have "parse_elems numval m (?t @ CHR '']'' # r) = Some (vs, r)"
      using Cons.IH Cons.prems Cons n by simp
    moreover have "parse_value numval m (json_text numstr v @ CHR '','' # ?t @ CHR '']'' # r)
        = Some (v, CHR '','' # ?t @ CHR '']'' # r)"
      using rb Cons.prems Cons n by (simp add: reads_back_def stops_def num_char_def digit_def)
    ultimately show ?thesis
      using Cons n by (simp add: skip_ws_Cons json_ws_def)
  qed
qed simp

lemma parse_members_text:
  assumes "ob \<noteq> []" "\<forall>kv \<in> set ob. reads_back numstr numval (snd kv)"
    "2 * length (js_join '','' (map (\<lambda>(k, v). json_quote k @ '':'' @ json_text numstr v) ob)) + 1 < n"
  shows "parse_members numval n (js_join '','' (map (\<lambda>(k, v). json_quote k @ '':'' @ json_text numstr v) ob) @ CHR ''}'' # r)
    = Some (ob, r)"
  using assms
proof (induction ob arbitrary: n)
  case (Cons kv ob)
  obtain k v where kv: "kv = (k, v)" by (cases kv)
  obtain m where n: "n = Suc m" using Cons.prems by (cases n) auto
  have rb: "reads_back numstr numval v" using Cons.prems kv by simp
  have key: "parse_chars (concat (map json_char k) @ CHR 0x22 # s) = Some (k, s)" for s
    by (rule parse_chars_quoted)
  show ?case
  proof (cases ob)
    case Nil
    have "parse_value numval m (json_text numstr v @ CHR ''}'' # r) = Some (v, CHR ''}'' # r)"
      using rb Cons.prems Nil n kv by (simp add: reads_back_def stops_def num_char_def digit_def)
    with Nil n kv key show ?thesis by (simp add: json_quote_def skip_ws_Cons json_ws_def)
  next
    case (Cons w ws)
    let ?t = "js_join '','' (map (\<lambda>(k, v). json_quote k @ '':'' @ json_text numstr v) ob)"
    have t: "js_join '','' (map (\<lambda>(k, v). json_quote k @ '':'' @ json_text numstr v) (kv # ob))
        = json_quote k @ '':'' @ json_text numstr v @ '','' @ ?t"
      using Cons kv by simp
    have "parse_members numval m (?t @ CHR ''}'' # r) = Some (ob, r)"
      using Cons.IH Cons.prems Cons n t by simp
    moreover have "parse_value numval m (json_text numstr v @ CHR '','' # ?t @ CHR ''}'' # r)
        = Some (v, CHR '','' # ?t @ CHR ''}'' # r)"
      using rb Cons.prems t n by (simp add: reads_back_def stops_def num_char_def digit_def)
    ultimately show ?thesis
      using n kv key unfolding t by (simp add: json_quote_def skip_ws_Cons json_ws_def)
  qed
qed simp

lemma put_key_new: "\<not> has_key k ob \<Longrightarrow> put_key k v ob = ob @ [(k, v)]"
  by (induction ob) auto

lemma obj_of_distinct: "distinct (map fst ob) \<Longrightarrow> obj_of ob = ob"
proof -
  have "foldl (\<lambda>ob (k, v). put_key k v ob) acc ob = acc @ ob" if "distinct (map fst (acc @ ob))" for acc
    using that
  proof (induction ob arbitrary: acc)
    case (Cons kv ob)
    then have "\<not> has_key (fst kv) acc" by (auto simp: has_key_def)
    with Cons.IH [of "acc @ [kv]"] Cons.prems show ?case by (cases kv) (simp add: put_key_new)
  qed simp
  from this [of "[]"] show "distinct (map fst ob) \<Longrightarrow> obj_of ob = ob" by (simp add: obj_of_def)
qed

lemma joined_start:
  "vs \<noteq> [] \<Longrightarrow> \<exists>c r. hd vs = c # r \<and> value_start c \<Longrightarrow> \<exists>c r. js_join sep vs = c # r \<and> value_start c"
  by (induction sep vs rule: js_join.induct) auto

lemma array_reads_back:
  assumes "list_all (json_ok numstr numval) vs" "\<forall>v \<in> set vs. reads_back numstr numval v"
  shows "reads_back numstr numval (JArr vs)"
proof (cases "vs = []")
  case True
  then show ?thesis
    by (intro reads_backI) (simp add: json_text_def skip_ws_Cons json_ws_def)
next
  case False
  let ?t = "js_join '','' (map (json_text numstr) vs)"
  have t: "json_text numstr (JArr vs) = CHR ''['' # ?t @ [CHR '']'']"
    unfolding json_text_def [of numstr "JArr vs"] by (simp add: element_texts [OF assms(1)] del: map_eq_conv)
  obtain v where "hd vs = v" "json_ok numstr numval v"
    using False assms(1) by (cases vs) auto
  then have "\<exists>c s. ?t = c # s \<and> value_start c"
    using joined_start [of "map (json_text numstr) vs" "'',''"] text_start [of numstr numval v] False by (simp add: hd_map)
  then obtain c s where c: "?t = c # s" "value_start c" by blast
  show ?thesis
  proof (rule reads_backI)
    fix m r assume m: "2 * length (json_text numstr (JArr vs)) \<le> m"
    have "parse_elems numval m (?t @ CHR '']'' # r) = Some (vs, r)"
      using parse_elems_text [OF False assms(2), of m] m t by simp
    moreover have "\<not> startsWith '']'' (skip_ws (?t @ CHR '']'' # r))"
      using c by (auto simp: skip_ws_start value_start_def)
    ultimately show "parse_value numval (Suc m) (json_text numstr (JArr vs) @ r) = Some (JArr vs, r)"
      unfolding t by (simp add: skip_ws_Cons json_ws_def)
  qed
qed

lemma object_reads_back:
  assumes "json_ok numstr numval (JObj ob)" "\<forall>kv \<in> set ob. reads_back numstr numval (snd kv)"
  shows "reads_back numstr numval (JObj ob)"
proof (cases "ob = []")
  case True
  then show ?thesis
    by (intro reads_backI) (simp add: json_text_def skip_ws_Cons json_ws_def)
next
  case False
  let ?t = "js_join '','' (map (\<lambda>(k, v). json_quote k @ '':'' @ json_text numstr v) ob)"
  have t: "json_text numstr (JObj ob) = CHR ''{'' # ?t @ [CHR ''}'']"
    using member_texts [of numstr numval ob] assms(1) by (simp add: json_text_def)
  have "\<exists>c s. ?t = c # s \<and> value_start c"
    using False by (intro joined_start) (auto simp: hd_map json_quote_def value_start_def json_ws_def split: prod.splits)
  then obtain c s where c: "?t = c # s" "value_start c" by blast
  show ?thesis
  proof (rule reads_backI)
    fix m r assume m: "2 * length (json_text numstr (JObj ob)) \<le> m"
    have "parse_members numval m (?t @ CHR ''}'' # r) = Some (ob, r)"
      using parse_members_text [OF False assms(2), of m] m t by simp
    moreover have "\<not> startsWith ''}'' (skip_ws (?t @ CHR ''}'' # r))"
      using c by (auto simp: skip_ws_start value_start_def)
    ultimately show "parse_value numval (Suc m) (json_text numstr (JObj ob) @ r) = Some (JObj ob, r)"
      using assms(1) unfolding t by (simp add: skip_ws_Cons json_ws_def obj_of_distinct)
  qed
qed

lemma json_reads_back: "json_ok numstr numval v \<Longrightarrow> reads_back numstr numval v"
proof (induction numstr numval v rule: json_ok.induct)
  case (4 numstr numval q)
  then show ?case using number_reads_back by simp
next
  case (6 numstr numval s)
  show ?case
    by (rule reads_backI)
      (use parse_chars_quoted in \<open>simp add: json_text_def json_quote_def skip_ws_Cons json_ws_def\<close>)
next
  case (7 numstr numval vs)
  then show ?case by (intro array_reads_back) (auto simp: list_all_iff)
next
  case (8 numstr numval ob)
  then show ?case by (intro object_reads_back) (fastforce simp: list_all_iff)+
qed (intro reads_backI; simp add: json_text_def skip_ws_Cons json_ws_def)+

lemma JSON_parse_stringify:
  assumes "json_ok numstr numval v"
  shows "\<exists>t. JSON_stringify numstr v = Some t \<and> JSON_parse numval t = Some v"
proof -
  let ?t = "json_text numstr v"
  have "parse_value numval (2 * length ?t + 2) (?t @ []) = Some (v, [])"
    using json_reads_back [OF assms] unfolding reads_back_def
    by (elim allE [of _ "2 * length ?t + 2"] allE [of _ "[]"]) (simp add: stops_def del: parse_value.simps)
  then have "JSON_parse numval ?t = Some v"
    by (simp add: JSON_parse_def skip_ws_def del: parse_value.simps)
  with json_ok_text [OF assms] show ?thesis by simp
qed

end
