(* ===== verification/Hotel_Clients.thy ===== *)
theory Hotel_Clients
  imports Hotel_Db Json
begin

text \<open>
  What the hotel service sends to the other services: the airport check
  (\<^verbatim>\<open>airport/airport.service.ts\<close>), the events it publishes (\<^verbatim>\<open>broadcast/\<close>) and the correlation id
  that travels with them (\<^verbatim>\<open>common/\<close>). A call over the network is an effect in a list of effects,
  in the order the code performs them; what the network answers is a parameter of the runtime, as
  are the environment and the text of a measured duration.
\<close>

section \<open>The runtime\<close>

record http_call =
  hc_method :: string
  hc_url :: string
  hc_headers :: "(string \<times> string) list"
  hc_body :: "string option"

text \<open>
  \<^verbatim>\<open>fetch\<close> throws, or gives a status and a body; reading the body may throw too (\<open>None\<close>).
\<close>

datatype http_result = NetworkError | HttpResponse nat "string option"

definition response_ok :: "nat \<Rightarrow> bool" where
  "response_ok status = (200 \<le> status \<and> status \<le> 299)"

datatype effect = Fetch http_call | Log string | Warn string

record runtime =
  rt_env :: "string \<Rightarrow> string option"
  rt_fetch :: "http_call \<Rightarrow> http_result"
  rt_numstr :: "rat \<Rightarrow> string"
  rt_numval :: "string \<Rightarrow> jsnum"
  rt_duration :: string

section \<open>request-context.ts and request-logger.middleware.ts\<close>

text \<open>The store is that of the request being handled, or none outside of one.\<close>

definition getRequestId :: "string option \<Rightarrow> string" where
  "getRequestId store = nullish store ''-''"

definition runWithRequestId :: "string \<Rightarrow> (string option \<Rightarrow> 'a) \<Rightarrow> 'a" where
  "runWithRequestId requestId fn = fn (Some requestId)"

text \<open>
  The middleware: the id of the caller or a fresh one, the header of the response, the handler
  run with the id, and the line it logs when the response is finished.
\<close>

definition request_logger_use ::
  "string \<Rightarrow> string \<Rightarrow> string \<Rightarrow> string \<Rightarrow> string \<Rightarrow> string option \<Rightarrow> (string option \<Rightarrow> nat \<times> 'a)
    \<Rightarrow> (string \<times> string) \<times> 'a \<times> effect" where
  "request_logger_use now dur uuid httpMethod path header next =
     (let requestId = (if truthy_str header then nullish header uuid else uuid);
          (statusCode, result) = runWithRequestId requestId next
      in ((''X-Request-Id'', requestId), result,
          Log (''ts='' @ now @ '' level=info service=hotel request_id='' @ requestId @ '' method='' @ httpMethod
            @ '' path='' @ path @ '' status='' @ show_nat statusCode @ '' duration_ms='' @ dur)))"

section \<open>airport.service.ts\<close>

definition outbound_log :: "string \<Rightarrow> string \<Rightarrow> string \<Rightarrow> string \<Rightarrow> string \<Rightarrow> string \<Rightarrow> effect" where
  "outbound_log requestId target httpMethod path status dur =
     Log (''service=hotel event=outbound_call request_id='' @ requestId @ '' target='' @ target @ '' method=''
       @ httpMethod @ '' path='' @ path @ '' status='' @ status @ '' duration_ms='' @ dur)"

text \<open>What the \<^verbatim>\<open>try\<close> block returns for an answer, with the status that is logged.\<close>

definition airport_answer :: "(string \<Rightarrow> jsnum) \<Rightarrow> http_result \<Rightarrow> bool option \<times> string" where
  "airport_answer numval answer =
     (case answer of
        NetworkError \<Rightarrow> (None, ''error'')
      | HttpResponse status text \<Rightarrow>
          if \<not> response_ok status then (None, show_nat status)
          else (case Option.bind (Option.bind text (JSON_parse numval)) (\<lambda>body. member body ''status'') of
                  None \<Rightarrow> (None, ''error'')
                | Some v \<Rightarrow> (Some (v = JStr ''processed''), show_nat status)))"

definition hasGuestClearedProcessing ::
  "runtime \<Rightarrow> string option \<Rightarrow> string \<Rightarrow> bool option \<times> effect list" where
  "hasGuestClearedProcessing rt store guestId =
     (case rt_env rt ''AIRPORT_SERVICE_URL'' of
        None \<Rightarrow> (None, [])
      | Some airportServiceUrl \<Rightarrow>
          if airportServiceUrl = [] then (None, [])
          else
            (let requestId = getRequestId store;
                 path = ''/arrivals/'' @ guestId;
                 call = \<lparr>hc_method = ''GET'', hc_url = airportServiceUrl @ path,
                         hc_headers = [(''X-Request-Id'', requestId)], hc_body = None\<rparr>;
                 (result, status) = airport_answer (rt_numval rt) (rt_fetch rt call)
             in (result, [Fetch call, outbound_log requestId ''airport'' ''GET'' path status (rt_duration rt)])))"

section \<open>hotel-events.ts and broadcast.service.ts\<close>

datatype HotelBroadcastEventType = ReservationConfirmed | ReservationCancelled

fun hotel_event_str :: "HotelBroadcastEventType \<Rightarrow> string" where
  "hotel_event_str ReservationConfirmed = ''hotel.reservation_confirmed''"
| "hotel_event_str ReservationCancelled = ''hotel.reservation_cancelled''"

record HotelBroadcastEvent =
  he_message :: string
  he_reservation_id :: string
  he_guest_id :: string
  he_room_type :: RoomType
  he_guest_count :: int
  he_check_in_day :: int
  he_check_out_day :: int

definition hotel_event_obj :: "HotelBroadcastEvent \<Rightarrow> jsobj" where
  "hotel_event_obj e =
     [(''message'', JStr (he_message e)),
      (''reservation_id'', JStr (he_reservation_id e)),
      (''guest_id'', JStr (he_guest_id e)),
      (''room_type'', JStr (room_type_str (he_room_type e))),
      (''guest_count'', jint (he_guest_count e)),
      (''check_in_day'', jint (he_check_in_day e)),
      (''check_out_day'', jint (he_check_out_day e))]"

fun getEndpointForEvent :: "HotelBroadcastEventType \<Rightarrow> string" where
  "getEndpointForEvent ReservationConfirmed = ''/hotel/confirm''"
| "getEndpointForEvent ReservationCancelled = ''/hotel/cancel''"

text \<open>The warning of an answer, if any, with the status that is logged.\<close>

definition publish_answer :: "HotelBroadcastEventType \<Rightarrow> http_result \<Rightarrow> effect list \<times> string" where
  "publish_answer eventType answer =
     (case answer of
        NetworkError \<Rightarrow> ([Warn (''Failed to publish hotel event '' @ hotel_event_str eventType)], ''error'')
      | HttpResponse status _ \<Rightarrow>
          (if response_ok status then []
           else [Warn (''Failed to publish hotel event '' @ hotel_event_str eventType @ '': '' @ show_nat status)],
           show_nat status))"

definition hotel_post :: "runtime \<Rightarrow> string \<Rightarrow> string \<Rightarrow> HotelBroadcastEventType \<Rightarrow> HotelBroadcastEvent \<Rightarrow> http_call" where
  "hotel_post rt url requestId eventType event =
     \<lparr>hc_method = ''POST'', hc_url = url @ getEndpointForEvent eventType,
      hc_headers = [(''content-type'', ''application/json''), (''X-Request-Id'', requestId)],
      hc_body = JSON_stringify (rt_numstr rt) (JObj (hotel_event_obj event))\<rparr>"

definition publishHotelEvent ::
  "runtime \<Rightarrow> string option \<Rightarrow> HotelBroadcastEventType \<Rightarrow> HotelBroadcastEvent \<Rightarrow> effect list" where
  "publishHotelEvent rt store eventType event =
     (case rt_env rt ''BROADCAST_SERVICE_URL'' of
        None \<Rightarrow> []
      | Some url \<Rightarrow>
          if url = [] then []
          else
            (let requestId = getRequestId store;
                 call = hotel_post rt url requestId eventType event;
                 (warnings, status) = publish_answer eventType (rt_fetch rt call)
             in Fetch call # warnings
                @ [outbound_log requestId ''broadcast'' ''POST'' (getEndpointForEvent eventType) status (rt_duration rt)]))"

section \<open>The calls among the effects\<close>

fun calls :: "effect list \<Rightarrow> http_call list" where
  "calls [] = []"
| "calls (Fetch c # es) = c # calls es"
| "calls (_ # es) = calls es"

lemma calls_append [simp]: "calls (es @ fs) = calls es @ calls fs"
  by (induction es rule: calls.induct) auto

lemma calls_warnings [simp]: "calls (fst (publish_answer ty answer)) = []"
  by (simp add: publish_answer_def split: http_result.split)

text \<open>
  The airport's answer is one of three: no opinion when the airport is not configured, cannot be
  reached, refuses, or answers with something that is not an object; otherwise whether the status
  of the guest is \<^verbatim>\<open>processed\<close>.
\<close>

lemma airport_answer_iff:
  "fst (airport_answer numval answer) = Some b \<longleftrightarrow>
     (\<exists>status text body v. answer = HttpResponse status (Some text) \<and> response_ok status \<and>
        JSON_parse numval text = Some body \<and> member body ''status'' = Some v \<and> b = (v = JStr ''processed''))"
  by (auto simp: airport_answer_def Option.bind_eq_Some_conv split: http_result.splits option.splits bind_splits)

lemma calls_airport:
  "set (calls (snd (hasGuestClearedProcessing rt store g))) \<subseteq> {c. hc_method c = ''GET''}"
  by (auto simp: hasGuestClearedProcessing_def outbound_log_def Let_def split: option.splits prod.splits)

lemma calls_publish:
  "calls (publishHotelEvent rt store ty ev) =
     (case rt_env rt ''BROADCAST_SERVICE_URL'' of None \<Rightarrow> []
      | Some url \<Rightarrow> if url = [] then [] else [hotel_post rt url (getRequestId store) ty ev])"
proof -
  have "calls w = []" if "publish_answer ty answer = (w, status)" for w status answer
    using calls_warnings [of ty answer] that by simp
  then show ?thesis
    by (simp add: publishHotelEvent_def outbound_log_def Let_def split: option.split prod.split)
qed

end
