(* ===== verification/Hotel_Service.thy ===== *)
theory Hotel_Service
  imports Hotel_Clients
begin

text \<open>
  The reservation service of the hotel (\<^verbatim>\<open>reservation/\<close>) and the errors it answers with. Every
  operation takes the database client \<open>P\<close>, the runtime, the request's store and the database, and
  returns the database it leaves, the effects it performed and its result. A call of the client
  that throws is not caught by the service, so it ends the operation (\<open>Unhandled\<close>, the framework's
  500); the client runs a nested write in one transaction, so the database is then as before.
\<close>

section \<open>DTOs\<close>

record CreateReservationDto =
  dto_guest_id :: string
  dto_room_type :: RoomType
  dto_guest_count :: int
  dto_party_guest_ids :: "string list option"
  dto_check_in_day :: int
  dto_check_out_day :: int

record ReservationResponseDto =
  rr_id :: string
  rr_guest_id :: string
  rr_room_id :: string
  rr_room_type :: RoomType
  rr_guest_count :: int
  rr_party_guest_ids :: "string list"
  rr_check_in_day :: int
  rr_check_out_day :: int
  rr_status :: ReservationStatus

record CancelReservationResponseDto =
  cr_id :: string
  cr_status :: ReservationStatus

text \<open>
  The constraints that the decorators of the DTO declare, and whether a decoded DTO meets them
  (\<^verbatim>\<open>@Min(1)\<close> is the one that its types do not already give).
\<close>

definition dto_valid :: "CreateReservationDto \<Rightarrow> bool" where
  "dto_valid dto = (1 \<le> dto_guest_count dto)"

datatype hotel_error = HttpException nat string | Unhandled

definition db_call :: "db_error + 'a \<Rightarrow> hotel_error + 'a" where
  "db_call m = map_sum (\<lambda>_. Unhandled) (\<lambda>x. x) m"

lemma db_call_simps [simp]:
  "db_call (Inl e) = Inl Unhandled"
  "db_call (Inr x) = Inr x"
  "db_call m = Inr x \<longleftrightarrow> m = Inr x"
  by (simp_all add: db_call_def) (cases m; simp)

text \<open>
  The factory of the validation pipe's exception: the messages of all the failed constraints,
  joined. A validation error without constraints contributes nothing.
\<close>

definition exceptionFactory :: "(string \<times> string) list option list \<Rightarrow> hotel_error" where
  "exceptionFactory errors =
     HttpException 400 (js_join ''; '' (concat (map (\<lambda>constraints. map snd (nullish constraints [])) errors)))"

section \<open>The airport gate\<close>

definition rejectIfGuestHasNotClearedAirport ::
  "runtime \<Rightarrow> string option \<Rightarrow> string \<Rightarrow> effect list \<times> (hotel_error + unit)" where
  "rejectIfGuestHasNotClearedAirport rt store guestId =
     (let (hasClearedAirport, fx) = hasGuestClearedProcessing rt store guestId
      in (fx, if hasClearedAirport = Some False
              then Inl (HttpException 409 ''Guest has not cleared airport processing'') else Inr ()))"

section \<open>Choosing a room\<close>

definition party_size :: "CreateReservationDto \<Rightarrow> int" where
  "party_size dto =
     (case dto_party_guest_ids dto of
        Some ids \<Rightarrow> if length ids > 0 then int (length ids) else dto_guest_count dto
      | None \<Rightarrow> dto_guest_count dto)"

text \<open>\<^verbatim>\<open>Math.max(...xs)\<close>, which is minus infinity (\<open>None\<close>) without arguments.\<close>

fun math_max :: "int list \<Rightarrow> int option" where
  "math_max [] = None"
| "math_max (x # xs) = Some (case math_max xs of None \<Rightarrow> x | Some m \<Rightarrow> max x m)"

definition exceeds :: "int \<Rightarrow> int option \<Rightarrow> bool" where
  "exceeds n m = (case m of None \<Rightarrow> True | Some k \<Rightarrow> k < n)"

definition max_text :: "int option \<Rightarrow> string" where
  "max_text m = (case m of None \<Rightarrow> ''-Infinity'' | Some k \<Rightarrow> show_int k)"

text \<open>The filter of a stay that clashes with the requested one in a room.\<close>

definition overlapping :: "CreateReservationDto \<Rightarrow> Room \<Rightarrow> rcond list" where
  "overlapping dto room =
     [RoomIs (rm_id room), StatusIs CONFIRMED, CheckInLte (dto_check_out_day dto), CheckOutGte (dto_check_in_day dto)]"

text \<open>The loop over the rooms: skip what is too small, count clashes, stop at the first free one.\<close>

fun find_available ::
  "'db prisma_client \<Rightarrow> 'db \<Rightarrow> CreateReservationDto \<Rightarrow> Room list \<Rightarrow> db_error + Room option" where
  "find_available P db dto [] = Inr None"
| "find_available P db dto (room # rooms) =
     (if rm_capacity room < party_size dto then find_available P db dto rooms
      else bindE (reservation_count P db (overlapping dto room))
        (\<lambda>n. if n = 0 then Inr (Some room) else find_available P db dto rooms))"

text \<open>From the query of the rooms to the room that is taken, or the refusal.\<close>

definition select_room ::
  "'db prisma_client \<Rightarrow> 'db \<Rightarrow> CreateReservationDto \<Rightarrow> hotel_error + Room" where
  "select_room P db dto =
     bindE (db_call (room_findMany P db (Some (dto_room_type dto)))) (\<lambda>rooms.
       let maxCapacity = math_max (map rm_capacity rooms)
       in if exceeds (party_size dto) maxCapacity
          then Inl (HttpException 409 (''Room type '' @ room_type_str (dto_room_type dto)
                 @ '' supports at most '' @ max_text maxCapacity @ '' guests''))
          else bindE (db_call (find_available P db dto rooms)) (\<lambda>availableRoom.
            case availableRoom of
              None \<Rightarrow> Inl (HttpException 409 (''No available rooms of type '' @ room_type_str (dto_room_type dto)
                 @ '' for days '' @ show_int (dto_check_in_day dto) @ ''-'' @ show_int (dto_check_out_day dto)))
            | Some room \<Rightarrow> Inr room))"

section \<open>create\<close>

definition new_reservation :: "CreateReservationDto \<Rightarrow> Room \<Rightarrow> reservation_data" where
  "new_reservation dto availableRoom =
     \<lparr>rd_guest_id = dto_guest_id dto,
      rd_room_id = rm_id availableRoom,
      rd_guest_count = dto_guest_count dto,
      rd_check_in_day = dto_check_in_day dto,
      rd_check_out_day = dto_check_out_day dto,
      rd_status = CONFIRMED,
      rd_guests = nullish (dto_party_guest_ids dto) []\<rparr>"

definition stay_event :: "string \<Rightarrow> Reservation \<Rightarrow> RoomType \<Rightarrow> HotelBroadcastEvent" where
  "stay_event message reservation roomType =
     \<lparr>he_message = message,
      he_reservation_id = rs_id reservation,
      he_guest_id = rs_guest_id reservation,
      he_room_type = roomType,
      he_guest_count = rs_guest_count reservation,
      he_check_in_day = rs_check_in_day reservation,
      he_check_out_day = rs_check_out_day reservation\<rparr>"

definition reservation_dto :: "Reservation \<Rightarrow> RoomType \<Rightarrow> string list \<Rightarrow> ReservationResponseDto" where
  "reservation_dto reservation roomType guests =
     \<lparr>rr_id = rs_id reservation,
      rr_guest_id = rs_guest_id reservation,
      rr_room_id = rs_room_id reservation,
      rr_room_type = roomType,
      rr_guest_count = rs_guest_count reservation,
      rr_party_guest_ids = guests,
      rr_check_in_day = rs_check_in_day reservation,
      rr_check_out_day = rs_check_out_day reservation,
      rr_status = rs_status reservation\<rparr>"

text \<open>The write, the event and the response, once a room is chosen.\<close>

definition confirm_reservation ::
  "'db prisma_client \<Rightarrow> runtime \<Rightarrow> string option \<Rightarrow> CreateReservationDto \<Rightarrow> Room \<Rightarrow> 'db
    \<Rightarrow> 'db \<times> effect list \<times> (hotel_error + ReservationResponseDto)" where
  "confirm_reservation P rt store dto availableRoom db =
     (case reservation_create P db (new_reservation dto availableRoom) of
        Inl _ \<Rightarrow> (db, [], Inl Unhandled)
      | Inr (reservation, guests, db') \<Rightarrow>
          (db',
           publishHotelEvent rt store ReservationConfirmed
             (stay_event ''Hotel reservation confirmed.'' reservation (rm_type availableRoom)),
           Inr (reservation_dto reservation (rm_type availableRoom) guests)))"

definition create ::
  "'db prisma_client \<Rightarrow> runtime \<Rightarrow> string option \<Rightarrow> CreateReservationDto \<Rightarrow> 'db
    \<Rightarrow> 'db \<times> effect list \<times> (hotel_error + ReservationResponseDto)" where
  "create P rt store dto db =
     (if dto_check_out_day dto \<le> dto_check_in_day dto
      then (db, [], Inl (HttpException 400 ''check_out_day must be greater than check_in_day''))
      else
        (case rejectIfGuestHasNotClearedAirport rt store (dto_guest_id dto) of
           (fx, Inl e) \<Rightarrow> (db, fx, Inl e)
         | (fx, Inr _) \<Rightarrow>
             (case select_room P db dto of
                Inl e \<Rightarrow> (db, fx, Inl e)
              | Inr availableRoom \<Rightarrow>
                  (case confirm_reservation P rt store dto availableRoom db of
                     (db', gx, result) \<Rightarrow> (db', fx @ gx, result)))))"

section \<open>findById and findActiveByGuestId\<close>

text \<open>
  \<^verbatim>\<open>findUnique\<close> on the primary key is \<^verbatim>\<open>findFirst\<close> with that filter: at most one row matches.
\<close>

definition not_found :: hotel_error where
  "not_found = HttpException 404 ''Reservation not found''"

definition findById :: "'db prisma_client \<Rightarrow> string \<Rightarrow> 'db \<Rightarrow> hotel_error + ReservationResponseDto" where
  "findById P i db =
     bindE (db_call (reservation_findFirst P db [IdIs i])) (\<lambda>found.
       case found of None \<Rightarrow> Inl not_found
       | Some (reservation, room, guests) \<Rightarrow> Inr (reservation_dto reservation (rm_type room) guests))"

definition findActiveByGuestId ::
  "'db prisma_client \<Rightarrow> string \<Rightarrow> 'db \<Rightarrow> hotel_error + ReservationResponseDto" where
  "findActiveByGuestId P guestId db =
     bindE (db_call (reservation_findLatest P db [GuestIs guestId, StatusIs CONFIRMED])) (\<lambda>found.
       case found of None \<Rightarrow> Inl not_found
       | Some (reservation, room, guests) \<Rightarrow> Inr (reservation_dto reservation (rm_type room) guests))"

section \<open>cancel\<close>

definition cancel ::
  "'db prisma_client \<Rightarrow> runtime \<Rightarrow> string option \<Rightarrow> string \<Rightarrow> 'db
    \<Rightarrow> 'db \<times> effect list \<times> (hotel_error + CancelReservationResponseDto)" where
  "cancel P rt store i db =
     (case reservation_findFirst P db [IdIs i] of
        Inl _ \<Rightarrow> (db, [], Inl Unhandled)
      | Inr None \<Rightarrow> (db, [], Inl not_found)
      | Inr (Some (existing, _, _)) \<Rightarrow>
          if rs_status existing = CANCELLED
          then (db, [], Inr \<lparr>cr_id = rs_id existing, cr_status = rs_status existing\<rparr>)
          else
            (case reservation_update P db i CANCELLED of
               Inl _ \<Rightarrow> (db, [], Inl Unhandled)
             | Inr (reservation, room, db') \<Rightarrow>
                 (db',
                  publishHotelEvent rt store ReservationCancelled
                    (stay_event ''Hotel reservation cancelled.'' reservation (rm_type room)),
                  Inr \<lparr>cr_id = rs_id reservation, cr_status = rs_status reservation\<rparr>)))"

section \<open>The service as a machine\<close>

text \<open>
  The requests that the controller dispatches, each with what the network answers while it is
  handled. Requests are handled one at a time here; \<open>Hotel_Race\<close> interleaves them.
\<close>

datatype hotel_request =
    PostReservation CreateReservationDto
  | GetByGuest string
  | GetReservation string
  | DeleteReservation string

record hotel_input =
  hi_runtime :: runtime
  hi_store :: "string option"
  hi_request :: hotel_request

datatype hotel_response =
    Reserved ReservationResponseDto
  | Cancelled CancelReservationResponseDto
  | Refused hotel_error

definition respond :: "('a \<Rightarrow> hotel_response) \<Rightarrow> hotel_error + 'a \<Rightarrow> hotel_response" where
  "respond c r = (case r of Inl e \<Rightarrow> Refused e | Inr x \<Rightarrow> c x)"

definition reservation_controller ::
  "'db prisma_client \<Rightarrow> hotel_input \<Rightarrow> 'db \<Rightarrow> 'db \<times> effect list \<times> hotel_response" where
  "reservation_controller P i db =
     (case hi_request i of
        PostReservation dto \<Rightarrow>
          (case create P (hi_runtime i) (hi_store i) dto db of (db', fx, r) \<Rightarrow> (db', fx, respond Reserved r))
      | GetByGuest g \<Rightarrow> (db, [], respond Reserved (findActiveByGuestId P g db))
      | GetReservation k \<Rightarrow> (db, [], respond Reserved (findById P k db))
      | DeleteReservation k \<Rightarrow>
          (case cancel P (hi_runtime i) (hi_store i) k db of (db', fx, r) \<Rightarrow> (db', fx, respond Cancelled r)))"

definition hotel_step :: "'db prisma_client \<Rightarrow> 'db \<Rightarrow> hotel_input \<Rightarrow> 'db" where
  "hotel_step P db i = fst (reservation_controller P i db)"

end
