(* ===== verification/Hotel_Mem.thy ===== *)
theory Hotel_Mem
  imports Hotel_Db "HOL-Library.List_Lexorder" "HOL-Library.Char_ord"
begin

text \<open>
  A database in memory that keeps the promise of the client interface: the content is the state.
  It shows that the interface can be met, and it is what the concrete instances of the hotel
  properties run on.
\<close>

definition fresh_id :: "Reservation list \<Rightarrow> string" where
  "fresh_id rs = concat (map rs_id rs) @ ''x''"

definition guests_of :: "tables \<Rightarrow> Reservation \<Rightarrow> string list" where
  "guests_of t r = map snd (filter (\<lambda>g. fst g = rs_id r) (tb_guests t))"

definition join_room :: "tables \<Rightarrow> Reservation \<Rightarrow> db_error + included option" where
  "join_room t r =
     (case List.find (\<lambda>m. rm_id m = rs_room_id r) (tb_rooms t) of
        None \<Rightarrow> Inl DbError
      | Some m \<Rightarrow> Inr (Some (r, m, guests_of t r)))"

definition first_of :: "tables \<Rightarrow> Reservation list \<Rightarrow> db_error + included option" where
  "first_of t rs = (case rs of [] \<Rightarrow> Inr None | r # _ \<Rightarrow> join_room t r)"

definition mem_create :: "tables \<Rightarrow> reservation_data \<Rightarrow> db_error + Reservation \<times> string list \<times> tables" where
  "mem_create t d =
     (if distinct (rd_guests d) \<and> rd_room_id d \<in> set (map rm_id (tb_rooms t))
      then (let r = row_of (fresh_id (tb_reservations t)) d
            in Inr (r, rd_guests d, insert_row r (rd_guests d) t))
      else Inl DbError)"

definition mem_update :: "tables \<Rightarrow> string \<Rightarrow> ReservationStatus \<Rightarrow> db_error + Reservation \<times> Room \<times> tables" where
  "mem_update t i s =
     (case List.find (\<lambda>r. rs_id r = i) (tb_reservations t) of
        None \<Rightarrow> Inl DbError
      | Some r \<Rightarrow>
          (case List.find (\<lambda>m. rm_id m = rs_room_id r) (tb_rooms t) of
             None \<Rightarrow> Inl DbError
           | Some m \<Rightarrow> Inr (r\<lparr>rs_status := s\<rparr>, m, set_status i s t)))"

definition mem_groupBy :: "tables \<Rightarrow> rcond list \<Rightarrow> db_error + (string \<times> int option) list" where
  "mem_groupBy t w =
     Inr (map (\<lambda>room. (room, Some (guest_sum w room t)))
       (remdups (map rs_room_id (filter (rmatch w) (tb_reservations t)))))"

definition mem_client :: "tables prisma_client" where
  "mem_client =
     \<lparr>room_findMany = (\<lambda>t ty. Inr (sort_key rm_id (filter (of_type ty) (tb_rooms t)))),
      reservation_count = (\<lambda>t w. Inr (length (filter (rmatch w) (tb_reservations t)))),
      reservation_create = mem_create,
      reservation_findFirst = (\<lambda>t w. first_of t (filter (rmatch w) (tb_reservations t))),
      reservation_findLatest = (\<lambda>t w. first_of t
        (sort_key (\<lambda>r. - rs_check_in_day r) (filter (rmatch w) (tb_reservations t)))),
      reservation_update = mem_update,
      reservation_groupBy = mem_groupBy\<rparr>"

section \<open>It keeps the promise\<close>

lemma fresh_id_fresh: "fresh_id rs \<notin> rs_id ` set rs"
proof
  assume "fresh_id rs \<in> rs_id ` set rs"
  then obtain r where r: "r \<in> set rs" "fresh_id rs = rs_id r" by auto
  from r(1) have "length (rs_id r) \<le> length (concat (map rs_id rs))"
    by (induction rs) auto
  moreover have "length (fresh_id rs) = Suc (length (concat (map rs_id rs)))" by (simp add: fresh_id_def)
  ultimately show False using r(2) by simp
qed

lemma join_room_joined:
  "join_room t r = Inr (Some (r', m, gs)) \<Longrightarrow> r \<in> set (tb_reservations t) \<Longrightarrow> r' = r \<and> joined t (r', m, gs)"
  by (auto simp: join_room_def joined_def guests_of_def dest!: find_Some_in split: option.splits)

lemma first_of_Some:
  "first_of t rs = Inr (Some (r, m, gs)) \<Longrightarrow> set rs \<subseteq> set (tb_reservations t) \<Longrightarrow>
     (\<exists>rest. rs = r # rest) \<and> joined t (r, m, gs)"
  by (cases rs) (auto simp: first_of_def dest: join_room_joined)

lemma first_of_None: "first_of t rs = Inr None \<Longrightarrow> rs = []"
  by (cases rs) (auto simp: first_of_def join_room_def split: option.splits)

lemma hd_sort_key_max:
  fixes f :: "'a \<Rightarrow> int"
  assumes "sort_key (\<lambda>r. - f r) rs = r # rest" and "s \<in> set rs"
  shows "f s \<le> f r"
proof -
  have "sorted (map (\<lambda>r. - f r) (r # rest))" using sorted_sort_key [of "\<lambda>r. - f r" rs] assms(1) by simp
  moreover from assms have "s \<in> set (r # rest)" by (metis set_sort)
  ultimately show ?thesis by auto
qed

lemma mem_update_row:
  assumes "mem_update t i s = Inr (r, m, t')"
  shows "rs_id r = i \<and> t' = set_status i s t \<and> (\<exists>gs. joined t' (r, m, gs))"
proof -
  from assms obtain r0 where r0: "List.find (\<lambda>r. rs_id r = i) (tb_reservations t) = Some r0"
    and m: "List.find (\<lambda>m. rm_id m = rs_room_id r0) (tb_rooms t) = Some m"
    and eqs: "r = r0\<lparr>rs_status := s\<rparr>" "t' = set_status i s t"
    by (auto simp: mem_update_def split: option.splits)
  from find_Some_in [OF r0] find_Some_in [OF m] eqs have "joined t' (r, m, guests_of t r)"
    by (auto simp: joined_def set_status_def guests_of_def image_iff)
  with find_Some_in [OF r0] eqs show ?thesis by auto
qed

lemma map_of_groups:
  "map_of (map (\<lambda>room. (room, g room)) rooms) = (\<lambda>room. if room \<in> set rooms then Some (g room) else None)"
  by (induction rooms) auto

interpretation mem: prisma_up mem_client "\<lambda>t. t" "(\<le>)"
proof unfold_locales
  fix db :: tables and t ms
  assume "room_findMany mem_client db t = Inr ms"
  then have ms: "ms = sort_key rm_id (filter (of_type t) (tb_rooms db))" by (simp add: mem_client_def)
  then show "mset ms = mset (filter (of_type t) (tb_rooms db))" by simp
  show "sorted_wrt (\<lambda>a b. rm_id a \<le> rm_id b) ms"
    using sorted_sort_key [of rm_id "filter (of_type t) (tb_rooms db)"] ms by (simp add: sorted_wrt_map)
next
  fix db :: tables and d r gs db'
  assume "reservation_create mem_client db d = Inr (r, gs, db')"
  then show "rs_id r \<notin> rs_id ` set (tb_reservations db) \<and> r = row_of (rs_id r) d \<and>
       mset gs = mset (rd_guests d) \<and> distinct (rd_guests d) \<and>
       rd_room_id d \<in> rm_id ` set (tb_rooms db) \<and> db' = insert_row r gs db"
    using fresh_id_fresh [of "tb_reservations db"]
    by (auto simp: mem_client_def mem_create_def Let_def row_of_def split: if_splits)
next
  fix db :: tables and w r m gs
  assume "reservation_findFirst mem_client db w = Inr (Some (r, m, gs))"
  then have "first_of db (filter (rmatch w) (tb_reservations db)) = Inr (Some (r, m, gs))"
    by (simp add: mem_client_def)
  from first_of_Some [OF this] show "joined db (r, m, gs) \<and> rmatch w r"
    by (auto dest: filter_eq_ConsD)
next
  fix db :: tables and w
  assume "reservation_findFirst mem_client db w = Inr None"
  then show "list_all (\<lambda>r. \<not> rmatch w r) (tb_reservations db)"
    by (auto simp: mem_client_def list_all_iff filter_empty_conv dest!: first_of_None)
next
  fix db :: tables and w r m gs
  let ?rs = "filter (rmatch w) (tb_reservations db)"
  assume "reservation_findLatest mem_client db w = Inr (Some (r, m, gs))"
  then have f: "first_of db (sort_key (\<lambda>r. - rs_check_in_day r) ?rs) = Inr (Some (r, m, gs))"
    by (simp add: mem_client_def)
  then obtain rest where hd: "sort_key (\<lambda>r. - rs_check_in_day r) ?rs = r # rest" and j: "joined db (r, m, gs)"
    using first_of_Some [OF f] by auto
  then have "r \<in> set ?rs" by (metis list.set_intros(1) set_sort)
  with j hd_sort_key_max [OF hd] show "joined db (r, m, gs) \<and> rmatch w r \<and>
      list_all (\<lambda>s. rmatch w s \<longrightarrow> rs_check_in_day s \<le> rs_check_in_day r) (tb_reservations db)"
    by (simp add: list_all_iff)
next
  fix db :: tables and w
  assume "reservation_findLatest mem_client db w = Inr None"
  then have "sort_key (\<lambda>r. - rs_check_in_day r) (filter (rmatch w) (tb_reservations db)) = []"
    by (auto simp: mem_client_def dest: first_of_None)
  then have "filter (rmatch w) (tb_reservations db) = []" by (metis set_empty set_sort)
  then show "list_all (\<lambda>r. \<not> rmatch w r) (tb_reservations db)"
    by (simp add: list_all_iff filter_empty_conv)
next
  fix db :: tables and w groups
  assume "reservation_groupBy mem_client db w = Inr groups"
  then have g: "groups = map (\<lambda>room. (room, Some (guest_sum w room db)))
      (remdups (map rs_room_id (filter (rmatch w) (tb_reservations db))))"
    by (simp add: mem_client_def mem_groupBy_def)
  then show "distinct (map fst groups) \<and>
     map_of groups = (\<lambda>room. if \<exists>r \<in> set (tb_reservations db). rmatch w r \<and> rs_room_id r = room
       then Some (Some (guest_sum w room db)) else None)"
    by (auto simp: map_of_groups comp_def fun_eq_iff)
qed (auto simp: mem_client_def mem_create_def mem_update_row Let_def)

end
