(* ===== verification/Hotel_Ledger.thy ===== *)
theory Hotel_Ledger
  imports Hotel_Service Hotel_Mem
begin

text \<open>
  What the hotel promises. The specification is a ledger of the active stays: booking adds a stay
  of a room that is free over the closed interval of its days, cancelling removes one. The
  development below is inside the interface of the database client: every request of the
  controller is a step of the ledger, and the well-formedness of the tables, no double booking
  among it, is kept by every request.
\<close>

section \<open>The ledger\<close>

record stay =
  st_id :: string
  st_room :: string
  st_in :: int
  st_out :: int

definition meets :: "stay \<Rightarrow> stay \<Rightarrow> bool" where
  "meets a b = (st_room a = st_room b \<and> st_in a \<le> st_out b \<and> st_in b \<le> st_out a)"

inductive ledger_step :: "stay set \<Rightarrow> stay set \<Rightarrow> bool" where
  idle: "ledger_step L L"
| book: "st_in s < st_out s \<Longrightarrow> st_id s \<notin> st_id ` L \<Longrightarrow> (\<forall>a\<in>L. \<not> meets a s) \<Longrightarrow> ledger_step L (insert s L)"
| release: "ledger_step L {a \<in> L. st_id a \<noteq> k}"

definition ledger_inv :: "stay set \<Rightarrow> bool" where
  "ledger_inv L = (\<forall>a\<in>L. st_in a < st_out a \<and> (\<forall>b\<in>L. meets a b \<longrightarrow> a = b))"

lemma meets_sym: "meets a b \<Longrightarrow> meets b a"
  by (auto simp: meets_def)

lemma ledger_step_inv: "ledger_inv L \<Longrightarrow> ledger_step L M \<Longrightarrow> ledger_inv M"
  by (erule ledger_step.cases) (auto simp: ledger_inv_def dest: meets_sym)

interpretation ledger: relation_invariant "\<lambda>L. L = {}" ledger_step ledger_inv
proof unfold_locales
  show "ledger_inv L" if "L = {}" for L using that by (simp add: ledger_inv_def)
  show "ledger_inv M" if "ledger_inv L" "ledger_step L M" for L M using that by (rule ledger_step_inv)
qed

section \<open>The tables as a ledger\<close>

definition stay_of :: "Reservation \<Rightarrow> stay" where
  "stay_of r = \<lparr>st_id = rs_id r, st_room = rs_room_id r, st_in = rs_check_in_day r, st_out = rs_check_out_day r\<rparr>"

definition active :: "Reservation \<Rightarrow> bool" where
  "active r = (rs_status r = CONFIRMED)"

definition ledger_of :: "tables \<Rightarrow> stay set" where
  "ledger_of t = stay_of ` {r \<in> set (tb_reservations t). active r}"

definition clash :: "Reservation \<Rightarrow> Reservation \<Rightarrow> bool" where
  "clash r s = (active r \<and> active s \<and> meets (stay_of r) (stay_of s))"

text \<open>Well-formed tables: keys are keys, rooms exist, stays have a night, and none clash.\<close>

definition hotel_inv :: "tables \<Rightarrow> bool" where
  "hotel_inv t =
     (distinct (map rm_id (tb_rooms t)) \<and>
      distinct (map rs_id (tb_reservations t)) \<and>
      list_all (\<lambda>r. rs_room_id r \<in> rm_id ` set (tb_rooms t) \<and> rs_check_in_day r < rs_check_out_day r)
        (tb_reservations t) \<and>
      sorted_wrt (\<lambda>r s. \<not> clash r s) (tb_reservations t))"

lemma clash_sym: "clash r s \<Longrightarrow> clash s r"
  by (auto simp: clash_def dest: meets_sym)

lemma stay_of_simps [simp]:
  "st_id (stay_of r) = rs_id r" "st_room (stay_of r) = rs_room_id r"
  "st_in (stay_of r) = rs_check_in_day r" "st_out (stay_of r) = rs_check_out_day r"
  by (simp_all add: stay_of_def)

text \<open>Two active rows of the same room that share a day are the same row.\<close>

lemma hotel_inv_unique:
  assumes "hotel_inv t" "r \<in> set (tb_reservations t)" "s \<in> set (tb_reservations t)" "clash r s"
  shows "r = s"
proof -
  have "r = s" if "sorted_wrt (\<lambda>r s. \<not> clash r s) xs" "r \<in> set xs" "s \<in> set xs" for xs
    using that assms(4) clash_sym by (induction xs) auto
  from this [of "tb_reservations t"] assms show ?thesis by (simp add: hotel_inv_def)
qed

section \<open>Rooms that suit a request\<close>

definition free_room :: "tables \<Rightarrow> CreateReservationDto \<Rightarrow> Room \<Rightarrow> bool" where
  "free_room t dto m = list_all (\<lambda>r. \<not> rmatch (overlapping dto m) r) (tb_reservations t)"

definition suits :: "tables \<Rightarrow> CreateReservationDto \<Rightarrow> Room \<Rightarrow> bool" where
  "suits t dto m =
     (m \<in> set (tb_rooms t) \<and> rm_type m = dto_room_type dto \<and> party_size dto \<le> rm_capacity m \<and> free_room t dto m)"

lemma math_max_bound: "x \<in> set xs \<Longrightarrow> \<exists>m. math_max xs = Some m \<and> x \<le> m"
  by (induction xs) (fastforce split: option.splits)+

lemma math_max_in: "math_max xs = Some m \<Longrightarrow> m \<in> set xs"
  by (induction xs arbitrary: m) (auto split: option.splits simp: max_def)

context prisma
begin

lemma find_available_Some:
  assumes "find_available P db dto rooms = Inr (Some m)"
  shows "\<exists>pre post. rooms = pre @ m # post \<and> party_size dto \<le> rm_capacity m \<and> free_room (content db) dto m \<and>
    list_all (\<lambda>p. \<not> (party_size dto \<le> rm_capacity p \<and> free_room (content db) dto p)) pre"
  using assms
proof (induction rooms)
  case (Cons p rooms)
  have later: ?case if "find_available P db dto rooms = Inr (Some m)"
      "\<not> (party_size dto \<le> rm_capacity p \<and> free_room (content db) dto p)"
  proof -
    from Cons.IH [OF that(1)] obtain pre post where "rooms = pre @ m # post"
      "party_size dto \<le> rm_capacity m" "free_room (content db) dto m"
      "list_all (\<lambda>p. \<not> (party_size dto \<le> rm_capacity p \<and> free_room (content db) dto p)) pre" by blast
    with that(2) show ?thesis by (intro exI [of _ "p # pre"] exI [of _ post]) simp
  qed
  show ?case
  proof (cases "rm_capacity p < party_size dto")
    case True
    with Cons.prems later show ?thesis by simp
  next
    case False
    with Cons.prems obtain n where n: "reservation_count P db (overlapping dto p) = Inr n"
      and sel: "(if n = 0 then Inr (Some p) else find_available P db dto rooms) = Inr (Some m)"
      by auto
    have free: "free_room (content db) dto p \<longleftrightarrow> n = 0"
      using count_rows [OF n] by (simp add: free_room_def list_all_iff filter_empty_conv)
    show ?thesis
    proof (cases "n = 0")
      case True
      with sel free False have "p = m" "free_room (content db) dto m" "party_size dto \<le> rm_capacity m" by auto
      then show ?thesis by (intro exI [of _ "[]"] exI [of _ rooms]) simp
    next
      case n0: False
      with sel free later show ?thesis by simp
    qed
  qed
qed simp

lemma find_available_None:
  "find_available P db dto rooms = Inr None \<Longrightarrow>
     list_all (\<lambda>p. \<not> (party_size dto \<le> rm_capacity p \<and> free_room (content db) dto p)) rooms"
proof (induction rooms)
  case (Cons p rooms)
  show ?case
  proof (cases "rm_capacity p < party_size dto")
    case False
    with Cons.prems obtain n where n: "reservation_count P db (overlapping dto p) = Inr n"
      and sel: "(if n = 0 then Inr (Some p) else find_available P db dto rooms) = Inr None"
      by auto
    from sel have "n \<noteq> 0" by (cases "n = 0") simp_all
    moreover have "free_room (content db) dto p \<longleftrightarrow> n = 0"
      using count_rows [OF n] by (simp add: free_room_def list_all_iff filter_empty_conv)
    ultimately show ?thesis using Cons.IH sel by simp
  qed (use Cons in simp)
qed simp

lemma findMany_set:
  "room_findMany P db (Some ty) = Inr ms \<Longrightarrow> set ms = {m \<in> set (tb_rooms (content db)). rm_type m = ty}"
  using mset_eq_setD [OF findMany_rows] by (fastforce simp: of_type_def)

text \<open>The room that is chosen suits the request, and no room that sorts before it does.\<close>

lemma select_room_Inr:
  assumes "select_room P db dto = Inr m"
  shows "suits (content db) dto m \<and> (\<forall>p. suits (content db) dto p \<longrightarrow> p = m \<or> id_le (rm_id m) (rm_id p))"
proof -
  from assms obtain ms where ms: "room_findMany P db (Some (dto_room_type dto)) = Inr ms"
    and fa: "find_available P db dto ms = Inr (Some m)"
    by (auto simp: select_room_def Let_def split: if_splits option.splits)
  note rooms = findMany_set [OF ms]
  obtain pre post where split: "ms = pre @ m # post" and m: "party_size dto \<le> rm_capacity m" "free_room (content db) dto m"
    and pre: "list_all (\<lambda>p. \<not> (party_size dto \<le> rm_capacity p \<and> free_room (content db) dto p)) pre"
    using find_available_Some [OF fa] by blast
  from split m rooms have "suits (content db) dto m" by (auto simp: suits_def)
  moreover have "p = m \<or> id_le (rm_id m) (rm_id p)" if p: "suits (content db) dto p" for p
  proof -
    from p rooms have "p \<in> set ms" by (auto simp: suits_def)
    moreover from p pre have "p \<notin> set pre" by (auto simp: suits_def list_all_iff)
    moreover have "sorted_wrt (\<lambda>a b. id_le (rm_id a) (rm_id b)) (m # post)"
      using findMany_sorted [OF ms] split by (simp add: sorted_wrt_append)
    ultimately show ?thesis using split by auto
  qed
  ultimately show ?thesis by blast
qed

text \<open>A refusal by the selection, when no call throws, means that no room suits the request.\<close>

lemma select_room_HttpException:
  assumes "select_room P db dto = Inl (HttpException status msg)"
  shows "status = 409 \<and> (\<forall>m. \<not> suits (content db) dto m)"
proof -
  from assms obtain ms where ms: "room_findMany P db (Some (dto_room_type dto)) = Inr ms"
    by (auto simp: select_room_def bindE_Inl db_call_def map_sum_def split: sum.splits)
  note rooms = findMany_set [OF ms]
  show ?thesis
  proof (cases "exceeds (party_size dto) (math_max (map rm_capacity ms))")
    case True
    have "\<not> suits (content db) dto m" for m
    proof
      assume "suits (content db) dto m"
      with rooms have "rm_capacity m \<in> set (map rm_capacity ms)" "party_size dto \<le> rm_capacity m"
        by (auto simp: suits_def)
      with math_max_bound [OF this(1)] True show False by (auto simp: exceeds_def)
    qed
    with assms ms True show ?thesis by (simp add: select_room_def)
  next
    case False
    with assms ms have fa: "find_available P db dto ms = Inr None" and st: "status = 409"
      by (auto simp: select_room_def bindE_Inl db_call_def map_sum_def split: sum.splits option.splits)
    from find_available_None [OF fa] rooms st show ?thesis by (auto simp: suits_def list_all_iff)
  qed
qed

end

section \<open>Effect of the writes on the tables\<close>

lemma overlapping_meets:
  "rmatch (overlapping dto m) r \<longleftrightarrow> active r \<and> meets (stay_of r) (stay_of (row_of i (new_reservation dto m)))"
  by (auto simp: overlapping_def active_def meets_def row_of_def new_reservation_def)

lemma active_new [simp]: "active (row_of i (new_reservation dto m))"
  by (simp add: active_def row_of_def new_reservation_def)

lemma ledger_insert: "active r \<Longrightarrow> ledger_of (insert_row r gs t) = insert (stay_of r) (ledger_of t)"
  by (auto simp: ledger_of_def insert_row_def)

lemma ledger_cancel: "ledger_of (set_status i CANCELLED t) = {a \<in> ledger_of t. st_id a \<noteq> i}"
  by (auto simp: ledger_of_def set_status_def active_def stay_of_def image_iff)

lemma free_room_ledger:
  "free_room t dto m \<longleftrightarrow> (\<forall>a \<in> ledger_of t. \<not> meets a (stay_of (row_of i (new_reservation dto m))))"
  by (auto simp: free_room_def ledger_of_def list_all_iff overlapping_meets [of dto m _ i])

lemma insert_row_inv:
  assumes "hotel_inv t" "suits t dto m" "dto_check_in_day dto < dto_check_out_day dto"
    "r = row_of i (new_reservation dto m)" "i \<notin> rs_id ` set (tb_reservations t)"
  shows "hotel_inv (insert_row r gs t)"
proof -
  have "\<not> clash s r" if "s \<in> set (tb_reservations t)" for s
    using assms(2) that unfolding assms(4)
    by (auto simp: suits_def free_room_def list_all_iff clash_def overlapping_meets [of dto m _ i])
  with assms show ?thesis
    by (auto simp: hotel_inv_def insert_row_def sorted_wrt_append suits_def row_of_def new_reservation_def)
qed

lemma set_status_cancel_inv:
  assumes "hotel_inv t"
  shows "hotel_inv (set_status i CANCELLED t)"
proof -
  let ?f = "\<lambda>r. if rs_id r = i then r\<lparr>rs_status := CANCELLED\<rparr> else r"
  have "sorted_wrt (\<lambda>r s. \<not> clash (?f r) (?f s)) (tb_reservations t)"
    using assms unfolding hotel_inv_def
    by (elim conjE sorted_wrt_mono_rel [rotated]) (auto simp: clash_def active_def split: if_splits)
  moreover have "distinct (map (\<lambda>r. rs_id (?f r)) (tb_reservations t))"
    using assms by (simp add: hotel_inv_def if_distrib [of rs_id] cong: if_cong)
  ultimately show ?thesis
    using assms by (auto simp: hotel_inv_def set_status_def sorted_wrt_map list_all_iff comp_def)
qed

section \<open>The operations\<close>

context prisma
begin

text \<open>Everything that a booking that succeeds has done.\<close>

lemma create_Inr:
  assumes "create P rt store dto db = (db', fx, Inr resp)"
  shows "\<exists>m k gs. dto_check_in_day dto < dto_check_out_day dto \<and>
    fst (hasGuestClearedProcessing rt store (dto_guest_id dto)) \<noteq> Some False \<and>
    select_room P db dto = Inr m \<and> k \<notin> rs_id ` set (tb_reservations (content db)) \<and>
    mset gs = mset (nullish (dto_party_guest_ids dto) []) \<and>
    content db' = insert_row (row_of k (new_reservation dto m)) gs (content db) \<and>
    resp = reservation_dto (row_of k (new_reservation dto m)) (rm_type m) gs \<and>
    fx = snd (hasGuestClearedProcessing rt store (dto_guest_id dto)) @
      publishHotelEvent rt store ReservationConfirmed
        (stay_event ''Hotel reservation confirmed.'' (row_of k (new_reservation dto m)) (rm_type m))"
proof -
  obtain cleared gx where g: "hasGuestClearedProcessing rt store (dto_guest_id dto) = (cleared, gx)"
    by (cases "hasGuestClearedProcessing rt store (dto_guest_id dto)")
  from assms g have day: "dto_check_in_day dto < dto_check_out_day dto" and gate: "cleared \<noteq> Some False"
    by (auto simp: create_def rejectIfGuestHasNotClearedAirport_def split: if_splits)
  with assms g obtain m r gs where m: "select_room P db dto = Inr m"
    and c: "reservation_create P db (new_reservation dto m) = Inr (r, gs, db')"
    and rest: "resp = reservation_dto r (rm_type m) gs"
      "fx = gx @ publishHotelEvent rt store ReservationConfirmed
        (stay_event ''Hotel reservation confirmed.'' r (rm_type m))"
    by (auto simp: create_def rejectIfGuestHasNotClearedAirport_def confirm_reservation_def
        split: sum.splits prod.splits)
  from create_row [OF c] obtain k where k: "r = row_of k (new_reservation dto m)" "k = rs_id r" by blast
  from create_row [OF c] have "k \<notin> rs_id ` set (tb_reservations (content db))"
      "mset gs = mset (nullish (dto_party_guest_ids dto) [])" "content db' = insert_row r gs (content db)"
    unfolding k(2) by (simp_all add: new_reservation_def)
  with day gate m rest g k(1) show ?thesis by auto
qed

text \<open>A booking that is refused changes nothing and sends nothing but the airport query.\<close>

lemma create_Inl:
  assumes "create P rt store dto db = (db', fx, Inl e)"
  shows "db' = db \<and> set (calls fx) \<subseteq> {c. hc_method c = ''GET''}"
  using assms calls_airport [of rt store "dto_guest_id dto"]
  by (auto simp: create_def rejectIfGuestHasNotClearedAirport_def confirm_reservation_def Let_def
      split: if_splits sum.splits prod.splits)

lemma cancel_cases:
  assumes "cancel P rt store i db = (db', fx, result)"
  obtains (failed) "db' = db" "fx = []" "result = Inl Unhandled"
  | (missing) "db' = db" "fx = []" "result = Inl not_found"
      "list_all (\<lambda>r. rs_id r \<noteq> i) (tb_reservations (content db))"
  | (already) r where "r \<in> set (tb_reservations (content db))" "rs_id r = i" "rs_status r = CANCELLED"
      "db' = db" "fx = []" "result = Inr \<lparr>cr_id = i, cr_status = CANCELLED\<rparr>"
  | (released) r m gs where "joined (content db') (r, m, gs)" "rs_id r = i"
      "content db' = set_status i CANCELLED (content db)"
      "result = Inr \<lparr>cr_id = i, cr_status = rs_status r\<rparr>"
      "fx = publishHotelEvent rt store ReservationCancelled
        (stay_event ''Hotel reservation cancelled.'' r (rm_type m))"
proof (cases "reservation_findFirst P db [IdIs i]")
  case (Inl e)
  with assms failed show ?thesis by (simp add: cancel_def)
next
  case (Inr found)
  show ?thesis
  proof (cases found)
    case None
    with Inr assms missing findFirst_none [of db "[IdIs i]"] show ?thesis by (simp add: cancel_def)
  next
    case (Some inc)
    obtain r m gs where inc: "inc = (r, m, gs)" by (cases inc)
    from findFirst_row [of db "[IdIs i]" r m gs] Inr Some inc
    have r: "r \<in> set (tb_reservations (content db))" "rs_id r = i" by (auto simp: joined_def)
    show ?thesis
    proof (cases "rs_status r = CANCELLED")
      case True
      with Inr Some inc assms r(2)
      have "db' = db" "fx = []" "result = Inr \<lparr>cr_id = i, cr_status = CANCELLED\<rparr>"
        by (auto simp: cancel_def)
      with r True show ?thesis by (intro already [of r])
    next
      case act: False
      show ?thesis
      proof (cases "reservation_update P db i CANCELLED")
        case (Inl e)
        with act Inr Some inc assms failed show ?thesis by (simp add: cancel_def)
      next
        case up: (Inr u)
        obtain r' m' db'' where u: "u = (r', m', db'')" by (cases u)
        from update_row [of db i CANCELLED r' m' db''] up u
        obtain gs' where "rs_id r' = i" "content db'' = set_status i CANCELLED (content db)"
          "joined (content db'') (r', m', gs')" by blast
        moreover have "db' = db''" "result = Inr \<lparr>cr_id = rs_id r', cr_status = rs_status r'\<rparr>"
          "fx = publishHotelEvent rt store ReservationCancelled
            (stay_event ''Hotel reservation cancelled.'' r' (rm_type m'))"
          using act up u Inr Some inc assms by (auto simp: cancel_def)
        ultimately show ?thesis by (intro released [of r' m' gs']) simp_all
      qed
    qed
  qed
qed

text \<open>Each request is a step of the ledger, and keeps the tables well-formed.\<close>

lemma create_ledger:
  "ledger_step (ledger_of (content db)) (ledger_of (content (fst (create P rt store dto db))))"
proof -
  obtain db' fx result where c: "create P rt store dto db = (db', fx, result)"
    by (cases "create P rt store dto db")
  show ?thesis
  proof (cases result)
    case (Inl e)
    with c create_Inl [of rt store dto db db' fx e] show ?thesis by (simp add: ledger_step.idle)
  next
    case (Inr resp)
    with c create_Inr [of rt store dto db db' fx resp] obtain m k gs
      where day: "dto_check_in_day dto < dto_check_out_day dto" and m: "select_room P db dto = Inr m"
        and k: "k \<notin> rs_id ` set (tb_reservations (content db))"
        and db': "content db' = insert_row (row_of k (new_reservation dto m)) gs (content db)" by blast
    let ?s = "stay_of (row_of k (new_reservation dto m))"
    have "\<forall>a \<in> ledger_of (content db). \<not> meets a ?s"
      using select_room_Inr [OF m] free_room_ledger [of "content db" dto m k] by (simp add: suits_def)
    moreover have "st_in ?s < st_out ?s" "st_id ?s \<notin> st_id ` ledger_of (content db)"
      using day k by (auto simp: ledger_of_def row_of_def new_reservation_def)
    ultimately show ?thesis
      using c db' by (simp add: ledger_insert ledger_step.book)
  qed
qed

lemma cancel_ledger:
  "ledger_step (ledger_of (content db)) (ledger_of (content (fst (cancel P rt store i db))))"
proof -
  obtain db' fx result where c: "cancel P rt store i db = (db', fx, result)"
    by (cases "cancel P rt store i db")
  from c show ?thesis
    by (cases rule: cancel_cases) (simp_all add: c ledger_cancel ledger_step.idle ledger_step.release)
qed

lemma step_ledger: "ledger_step (ledger_of (content db)) (ledger_of (content (hotel_step P db i)))"
  using create_ledger [of db] cancel_ledger [of db]
  by (simp add: hotel_step_def reservation_controller_def ledger_step.idle case_prod_beta split: hotel_request.split)

lemma create_inv:
  assumes "hotel_inv (content db)"
  shows "hotel_inv (content (fst (create P rt store dto db)))"
proof -
  obtain db' fx result where c: "create P rt store dto db = (db', fx, result)"
    by (cases "create P rt store dto db")
  show ?thesis
  proof (cases result)
    case (Inl e)
    with c create_Inl [of rt store dto db db' fx e] assms show ?thesis by simp
  next
    case (Inr resp)
    with c create_Inr [of rt store dto db db' fx resp] obtain m k gs
      where day: "dto_check_in_day dto < dto_check_out_day dto" and m: "select_room P db dto = Inr m"
        and k: "k \<notin> rs_id ` set (tb_reservations (content db))"
        and db': "content db' = insert_row (row_of k (new_reservation dto m)) gs (content db)" by blast
    from insert_row_inv [OF assms _ day refl k] select_room_Inr [OF m] c db' show ?thesis by simp
  qed
qed

lemma cancel_inv:
  assumes "hotel_inv (content db)"
  shows "hotel_inv (content (fst (cancel P rt store i db)))"
proof -
  obtain db' fx result where c: "cancel P rt store i db = (db', fx, result)"
    by (cases "cancel P rt store i db")
  from c show ?thesis
    by (cases rule: cancel_cases) (simp_all add: c assms set_status_cancel_inv)
qed

lemma step_inv: "hotel_inv (content db) \<Longrightarrow> hotel_inv (content (hotel_step P db i))"
  using create_inv [of db] cancel_inv [of db]
  by (simp add: hotel_step_def reservation_controller_def case_prod_beta split: hotel_request.split)

end

sublocale prisma \<subseteq> service: machine_invariant "hotel_step P" "\<lambda>db. hotel_inv (content db)"
  by unfold_locales (rule step_inv)

context prisma
begin

lemma run_inv: "hotel_inv (content db) \<Longrightarrow> hotel_inv (content (run (hotel_step P) db ins))"
  by (rule service.run_inv)

lemma run_ledger: "ledger_step\<^sup>*\<^sup>* (ledger_of (content db)) (ledger_of (content (run (hotel_step P) db ins)))"
proof (induction ins arbitrary: db)
  case (Cons i ins)
  from step_ledger [of db i] Cons [of "hotel_step P db i"] show ?case
    by (simp add: converse_rtranclp_into_rtranclp)
qed simp

end

section \<open>The gate and the cancellation\<close>

lemma cleared_False_iff:
  "fst (hasGuestClearedProcessing rt store g) = Some False \<longleftrightarrow>
     (\<exists>url status text body v. rt_env rt ''AIRPORT_SERVICE_URL'' = Some url \<and> url \<noteq> [] \<and>
      rt_fetch rt \<lparr>hc_method = ''GET'', hc_url = url @ ''/arrivals/'' @ g,
        hc_headers = [(''X-Request-Id'', getRequestId store)], hc_body = None\<rparr> = HttpResponse status (Some text) \<and>
      response_ok status \<and> JSON_parse (rt_numval rt) text = Some body \<and>
      member body ''status'' = Some v \<and> v \<noteq> JStr ''processed'')"
proof (cases "rt_env rt ''AIRPORT_SERVICE_URL''")
  case (Some url)
  let ?call = "\<lparr>hc_method = ''GET'', hc_url = url @ ''/arrivals/'' @ g,
    hc_headers = [(''X-Request-Id'', getRequestId store)], hc_body = None\<rparr>"
  have "url \<noteq> [] \<Longrightarrow> fst (hasGuestClearedProcessing rt store g) = fst (airport_answer (rt_numval rt) (rt_fetch rt ?call))"
    using Some by (simp add: hasGuestClearedProcessing_def case_prod_beta Let_def)
  moreover have "url = [] \<Longrightarrow> fst (hasGuestClearedProcessing rt store g) = None"
    using Some by (simp add: hasGuestClearedProcessing_def)
  ultimately show ?thesis
    using Some airport_answer_iff [of "rt_numval rt" "rt_fetch rt ?call" False]
    by (cases "url = []") simp_all
qed (simp add: hasGuestClearedProcessing_def)

text \<open>No refusal but the gate's own carries its message.\<close>

lemma select_room_message:
  "select_room P db dto \<noteq> Inl (HttpException 409 (CHR ''G'' # msg))"
  by (auto simp: select_room_def bindE_Inl Let_def db_call_def map_sum_def split: if_splits sum.splits option.splits)

lemma create_gate:
  assumes "dto_check_in_day dto < dto_check_out_day dto"
  shows "snd (snd (create P rt store dto db)) = Inl (HttpException 409 ''Guest has not cleared airport processing'')
    \<longleftrightarrow> fst (hasGuestClearedProcessing rt store (dto_guest_id dto)) = Some False"
proof (cases "fst (hasGuestClearedProcessing rt store (dto_guest_id dto)) = Some False")
  case True
  with assms show ?thesis
    by (simp add: create_def rejectIfGuestHasNotClearedAirport_def case_prod_beta)
next
  case False
  have w: "snd (snd (confirm_reservation P rt store dto m db)) \<noteq> Inl (HttpException 409 msg)" for m msg
    by (simp add: confirm_reservation_def split: sum.split prod.split)
  show ?thesis
  proof (cases "select_room P db dto")
    case (Inl e)
    with False assms select_room_message [of P db dto] show ?thesis
      by (simp add: create_def rejectIfGuestHasNotClearedAirport_def case_prod_beta)
  next
    case (Inr m)
    with False assms w [of m] show ?thesis
      by (simp add: create_def rejectIfGuestHasNotClearedAirport_def case_prod_beta)
  qed
qed

lemma distinct_ids_eq:
  "distinct (map rs_id rs) \<Longrightarrow> r \<in> set rs \<Longrightarrow> s \<in> set rs \<Longrightarrow> rs_id r = rs_id s \<Longrightarrow> r = s"
  by (auto simp: distinct_map inj_on_def)

lemma set_status_row:
  "r \<in> set (tb_reservations (set_status i s t)) \<Longrightarrow> rs_id r = i \<Longrightarrow>
     \<exists>r0 \<in> set (tb_reservations t). rs_id r0 = i \<and> r = r0\<lparr>rs_status := s\<rparr>"
  by (auto simp: set_status_def split: if_splits)

lemma set_status_same:
  assumes "hotel_inv t" "r \<in> set (tb_reservations t)" "rs_status r = CANCELLED"
  shows "set_status (rs_id r) CANCELLED t = t"
proof -
  have "(if rs_id s = rs_id r then s\<lparr>rs_status := CANCELLED\<rparr> else s) = s" if "s \<in> set (tb_reservations t)" for s
    using distinct_ids_eq [of "tb_reservations t" s r] assms that by (auto simp: hotel_inv_def)
  then have "map (\<lambda>s. if rs_id s = rs_id r then s\<lparr>rs_status := CANCELLED\<rparr> else s) (tb_reservations t)
      = tb_reservations t"
    by (intro map_idI) simp
  then show ?thesis by (simp add: set_status_def)
qed

context prisma
begin

text \<open>A cancellation that returns: the row before, the tables after, and what was published.\<close>

lemma cancel_first:
  assumes "hotel_inv (content db)" "cancel P rt store i db = (db', fx, Inr resp)"
  shows "content db' = set_status i CANCELLED (content db) \<and> resp = \<lparr>cr_id = i, cr_status = CANCELLED\<rparr> \<and>
    (\<exists>r \<in> set (tb_reservations (content db)). rs_id r = i \<and>
       (if rs_status r = CANCELLED then fx = []
        else \<exists>m \<in> set (tb_rooms (content db)). rm_id m = rs_room_id r \<and>
          fx = publishHotelEvent rt store ReservationCancelled
            (stay_event ''Hotel reservation cancelled.'' r (rm_type m))))"
proof -
  have found: "\<exists>m gs. reservation_findFirst P db [IdIs i] = Inr (Some (r, m, gs)) \<and> rs_status r \<noteq> CANCELLED"
    if "rs_id r = i" "r \<in> set (tb_reservations (content db))" "db' \<noteq> db \<or> fx \<noteq> []" for r
  proof -
    from assms(2) that(3) obtain r' m gs where f: "reservation_findFirst P db [IdIs i] = Inr (Some (r', m, gs))"
      "rs_status r' \<noteq> CANCELLED"
      by (auto simp: cancel_def split: sum.splits option.splits prod.splits if_splits)
    with findFirst_row [of db "[IdIs i]" r' m gs] that(1,2) assms(1) distinct_ids_eq [of _ r' r]
    have "r' = r" by (auto simp: joined_def hotel_inv_def)
    with f show ?thesis by blast
  qed
  from assms(2) show ?thesis
  proof (cases rule: cancel_cases)
    case (already r)
    with set_status_same [OF assms(1) already(1)] show ?thesis by auto
  next
    case (released r m gs)
    from released(1) have "r \<in> set (tb_reservations (content db'))" by (simp add: joined_def)
    from set_status_row [OF this [unfolded released(3)] released(2)]
    obtain r0 where r0: "r0 \<in> set (tb_reservations (content db))" "rs_id r0 = i"
      "r = r0\<lparr>rs_status := CANCELLED\<rparr>" by blast
    have "stay_event msg r ty = stay_event msg r0 ty" for msg ty
      using r0(3) by (simp add: stay_event_def)
    moreover have "rs_status r0 = CANCELLED \<Longrightarrow> fx = []"
      using found [OF r0(2,1)] distinct_ids_eq by blast
    moreover have "m \<in> set (tb_rooms (content db))" "rm_id m = rs_room_id r0"
      using released(1,3) r0(3) by (simp_all add: joined_def set_status_def)
    ultimately show ?thesis
      using released(3-5) r0 by (intro conjI bexI [of _ r0]) auto
  qed auto
qed

lemma cancel_again:
  assumes "content db' = set_status i CANCELLED (content db)" "cancel P rt store i db' = (db'', fx, Inr resp)"
  shows "resp = \<lparr>cr_id = i, cr_status = CANCELLED\<rparr> \<and> db'' = db' \<and> fx = []"
proof -
  from assms(2) obtain r m gs where f: "reservation_findFirst P db' [IdIs i] = Inr (Some (r, m, gs))"
    by (auto simp: cancel_def split: sum.splits option.splits prod.splits)
  from findFirst_row [OF f] have r: "r \<in> set (tb_reservations (content db'))" "rs_id r = i"
    by (simp_all add: joined_def)
  from set_status_row [OF r(1) [unfolded assms(1)] r(2)] have "rs_status r = CANCELLED" by auto
  with f r(2) assms(2) show ?thesis by (simp add: cancel_def)
qed

end

section \<open>Requests that must succeed\<close>

context prisma_up
begin

lemma find_available_up: "\<exists>x. find_available P db dto rooms = Inr x"
proof (induction rooms)
  case (Cons m rooms)
  obtain n where "reservation_count P db (overlapping dto m) = Inr n" using count_up by blast
  with Cons show ?case by auto
qed simp

lemma select_room_up:
  assumes "suits (content db) dto m"
  shows "\<exists>p. select_room P db dto = Inr p"
proof -
  obtain ms where ms: "room_findMany P db (Some (dto_room_type dto)) = Inr ms" using findMany_up by blast
  have m: "m \<in> set ms" "party_size dto \<le> rm_capacity m" "free_room (content db) dto m"
    using assms findMany_set [OF ms] by (auto simp: suits_def)
  from m(1) have "rm_capacity m \<in> set (map rm_capacity ms)" by simp
  then have fits: "\<not> exceeds (party_size dto) (math_max (map rm_capacity ms))"
    using math_max_bound m(2) by (fastforce simp: exceeds_def)
  obtain x where x: "find_available P db dto ms = Inr x" using find_available_up by blast
  have "x \<noteq> None"
    using find_available_None [of db dto ms] x m by (auto simp: list_all_iff)
  with ms x fits show ?thesis by (auto simp: select_room_def)
qed

lemma create_complete_up:
  assumes "dto_check_in_day dto < dto_check_out_day dto"
    "fst (hasGuestClearedProcessing rt store (dto_guest_id dto)) \<noteq> Some False"
    "distinct (nullish (dto_party_guest_ids dto) [])" "suits (content db) dto m"
  shows "\<exists>db' fx resp. create P rt store dto db = (db', fx, Inr resp)"
proof -
  obtain p where p: "select_room P db dto = Inr p" using select_room_up [OF assms(4)] by blast
  then have "rm_id p \<in> rm_id ` set (tb_rooms (content db))"
    using select_room_Inr [OF p] by (auto simp: suits_def)
  then obtain r gs db' where "reservation_create P db (new_reservation dto p) = Inr (r, gs, db')"
    using create_up [of "new_reservation dto p" db] assms(3) by (auto simp: new_reservation_def)
  with p assms(1,2) show ?thesis
    by (simp add: create_def rejectIfGuestHasNotClearedAirport_def confirm_reservation_def case_prod_beta)
qed

end

end
