(* ===== verification/Binary64.thy ===== *)
theory Binary64
  imports Js "HOL-Library.Log_Nat"
begin

text \<open>
  Arithmetic on the numbers of the language: an operation is exact and then rounded to the nearest
  binary64 number, ties to the even one. \<open>round64\<close> is that rounding below the overflow threshold
  (\<open>2 ^ 1024\<close>, far above any clock). What the clients of the clock need of it is the interface
  \<open>rounding\<close>: it is monotone, and exact on the integers up to \<open>2 ^ 53\<close>.
\<close>

definition half_even :: "rat \<Rightarrow> int" where
  "half_even q =
     (let f = \<lfloor>q\<rfloor>; d = q - of_int f
      in if d < 1 / 2 then f else if 1 / 2 < d then f + 1 else if even f then f else f + 1)"

text \<open>The exponent of the leading binary digit of a positive number.\<close>

definition exponent :: "rat \<Rightarrow> int" where
  "exponent q =
     (if 1 \<le> q then int (floorlog 2 (nat \<lfloor>q\<rfloor>)) - 1 else - int (floorlog 2 (nat (\<lceil>1 / q\<rceil> - 1))))"

definition ulp :: "rat \<Rightarrow> rat" where
  "ulp q = 2 powi (max (exponent q - 52) (- 1074))"

definition round64 :: "rat \<Rightarrow> rat" where
  "round64 q =
     (if q = 0 then 0
      else let a = \<bar>q\<bar>; u = ulp a in sgn q * (of_int (half_even (a / u)) * u))"

locale rounding =
  fixes rnd :: "rat \<Rightarrow> rat"
  assumes rnd_mono: "x \<le> y \<Longrightarrow> rnd x \<le> rnd y"
    and rnd_exact: "\<bar>i\<bar> \<le> 2 ^ 53 \<Longrightarrow> rnd (of_int i) = of_int i"

section \<open>Rounding to an integer\<close>

lemma half_even_of_int [simp]: "half_even (of_int i) = i"
  by (simp add: half_even_def)

lemma half_even_mono: "x \<le> y \<Longrightarrow> half_even x \<le> half_even y"
proof -
  assume xy: "x \<le> y"
  show ?thesis
  proof (cases "\<lfloor>x\<rfloor> = \<lfloor>y\<rfloor>")
    case True
    with xy show ?thesis by (auto simp: half_even_def Let_def)
  next
    case False
    with floor_mono [OF xy] have "\<lfloor>x\<rfloor> + 1 \<le> \<lfloor>y\<rfloor>" by simp
    then show ?thesis by (auto simp: half_even_def Let_def)
  qed
qed

lemma half_even_nonneg: "0 \<le> x \<Longrightarrow> 0 \<le> half_even x"
  using half_even_mono [of 0 x] half_even_of_int [of 0] by simp

section \<open>The exponent\<close>

lemma floorlog2_bounds:
  assumes "0 < n"
  shows "2 ^ (floorlog 2 n - 1) \<le> n \<and> n < 2 ^ floorlog 2 n \<and> 0 < floorlog 2 n"
  using floorlog_bounds [of n 2] assms floorlog_eq_zero_iff [of 2 n] by auto

lemma exponent_bounds:
  assumes "0 < q"
  shows "2 powi exponent q \<le> q \<and> q < 2 powi (exponent q + 1)"
proof (cases "1 \<le> q")
  case True
  let ?n = "nat \<lfloor>q\<rfloor>" let ?k = "floorlog 2 ?n"
  from True have n: "0 < ?n" "of_nat ?n \<le> q" "q < of_nat ?n + 1" by (simp_all add: of_nat_nat) linarith
  have k: "2 ^ (?k - 1) \<le> ?n" "?n + 1 \<le> 2 ^ ?k" "0 < ?k" using floorlog2_bounds [OF n(1)] by (simp_all only: Suc_eq_plus1 [symmetric] Suc_le_eq)
  have "of_nat (2 ^ (?k - 1)) \<le> q" "(of_nat (?n + 1) :: rat) \<le> of_nat (2 ^ ?k)"
    using k n(2) of_nat_le_iff [of "2 ^ (?k - 1)" ?n, where ?'a = rat] by (auto simp only: of_nat_le_iff)
  moreover have "(2 :: rat) powi (int ?k - 1) = 2 ^ (?k - 1)" "(2 :: rat) powi int ?k = 2 ^ ?k"
    using k(3) by (simp_all add: power_int_def nat_diff_distrib)
  ultimately show ?thesis using True n(2,3) by (simp add: exponent_def)
next
  case False
  let ?c = "\<lceil>1 / q\<rceil>" let ?n = "nat (?c - 1)" let ?k = "floorlog 2 ?n"
  from False assms have "1 < 1 / q" by simp
  then have c: "2 \<le> ?c" "1 / q \<le> of_int ?c" "of_int (?c - 1) < 1 / q" by linarith+
  have n: "0 < ?n" "of_nat ?n = (of_int (?c - 1) :: rat)"
    using c(1) by (simp, intro of_nat_nat, linarith)
  have k: "2 ^ (?k - 1) \<le> ?n" "?n + 1 \<le> 2 ^ ?k" "0 < ?k" using floorlog2_bounds [OF n(1)] by (simp_all only: Suc_eq_plus1 [symmetric] Suc_le_eq)
  have "of_nat (2 ^ (?k - 1)) \<le> (of_nat ?n :: rat)" "(of_nat (?n + 1) :: rat) \<le> of_nat (2 ^ ?k)"
    using k by (simp_all only: of_nat_le_iff)
  with n(2) c(3) have lo: "2 ^ (?k - 1) < 1 / q" and "(of_int ?c :: rat) \<le> 2 ^ ?k" by simp_all
  with order_trans [OF c(2)] have b: "2 ^ (?k - 1) < 1 / q" "1 / q \<le> 2 ^ ?k" by blast+
  have "(2 :: rat) powi (- int ?k) = 1 / 2 ^ ?k" by (simp add: power_int_def field_simps)
  moreover have "(2 :: rat) powi (- int ?k + 1) = 1 / 2 ^ (?k - 1)"
    using k(3) by (cases ?k) (simp_all add: power_int_def field_simps nat_diff_distrib)
  moreover have "1 / 2 ^ ?k \<le> q" "q < 1 / 2 ^ (?k - 1)"
    using assms b by (simp_all add: field_simps)
  ultimately show ?thesis using False by (simp add: exponent_def)
qed

lemma exponent_mono:
  assumes "0 < x" "x \<le> y"
  shows "exponent x \<le> exponent y"
proof (rule ccontr)
  assume "\<not> exponent x \<le> exponent y"
  then have "(2 :: rat) powi (exponent y + 1) \<le> 2 powi exponent x" by (intro power_int_increasing) auto
  with exponent_bounds [of x] exponent_bounds [of y] assms show False by linarith
qed

section \<open>Rounding\<close>

lemma ulp_pos: "0 < ulp q"
  by (simp add: ulp_def)

lemma round64_pos: "0 < q \<Longrightarrow> round64 q = of_int (half_even (q / ulp q)) * ulp q"
  by (simp add: round64_def Let_def)

lemma round64_minus: "round64 (- q) = - round64 q"
  by (simp add: round64_def Let_def)

lemma round64_zero [simp]: "round64 0 = 0"
  by (simp add: round64_def)

lemma round64_nonneg: "0 \<le> q \<Longrightarrow> 0 \<le> round64 q"
  using half_even_nonneg [of "q / ulp q"] ulp_pos [of q]
  by (cases "q = 0") (simp_all add: round64_pos)

lemma power_quotient:
  "e \<le> f \<Longrightarrow> (2 :: rat) powi f / 2 powi e = of_int (2 ^ nat (f - e))"
proof -
  assume "e \<le> f"
  then have "(2 :: rat) powi f / 2 powi e = 2 powi (f - e)" by (simp add: power_int_diff)
  with \<open>e \<le> f\<close> show ?thesis by (simp add: power_int_def)
qed

text \<open>A power of two between two numbers stays between their roundings.\<close>

lemma round64_le_power:
  assumes "0 < x" "x \<le> 2 powi f" "max (exponent x - 52) (- 1074) \<le> f"
  shows "round64 x \<le> 2 powi f"
proof -
  have "x / ulp x \<le> of_int (2 ^ nat (f - max (exponent x - 52) (- 1074)))"
    using assms ulp_pos [of x] power_quotient [OF assms(3)]
    by (metis divide_right_mono less_imp_le ulp_def)
  then have "half_even (x / ulp x) \<le> 2 ^ nat (f - max (exponent x - 52) (- 1074))"
    using half_even_mono half_even_of_int by metis
  then have "of_int (half_even (x / ulp x)) * ulp x \<le> (2 powi f / ulp x) * ulp x"
    unfolding ulp_def power_quotient [OF assms(3)] by (intro mult_right_mono) (simp_all only: of_int_le_iff, simp)
  with assms(1) ulp_pos [of x] show ?thesis by (simp add: round64_pos)
qed

lemma power_le_round64:
  assumes "0 < y" "2 powi f \<le> y" "max (exponent y - 52) (- 1074) \<le> f"
  shows "2 powi f \<le> round64 y"
proof -
  have "of_int (2 ^ nat (f - max (exponent y - 52) (- 1074))) \<le> y / ulp y"
    using assms ulp_pos [of y] power_quotient [OF assms(3)]
    by (metis divide_right_mono less_imp_le ulp_def)
  then have "2 ^ nat (f - max (exponent y - 52) (- 1074)) \<le> half_even (y / ulp y)"
    using half_even_mono half_even_of_int by metis
  then have "(2 powi f / ulp y) * ulp y \<le> of_int (half_even (y / ulp y)) * ulp y"
    unfolding ulp_def power_quotient [OF assms(3)] by (intro mult_right_mono) (simp_all only: of_int_le_iff, simp)
  with assms(1) ulp_pos [of y] show ?thesis by (simp add: round64_pos)
qed

lemma round64_mono_pos:
  assumes "0 < x" "x \<le> y"
  shows "round64 x \<le> round64 y"
proof (cases "ulp x = ulp y")
  case True
  have "half_even (x / ulp y) \<le> half_even (y / ulp y)"
    using assms ulp_pos [of y] by (intro half_even_mono divide_right_mono) auto
  with True assms ulp_pos [of y] show ?thesis by (simp add: round64_pos)
next
  case False
  with exponent_mono [OF assms] have "exponent x < exponent y" by (cases "exponent x = exponent y") (auto simp: ulp_def)
  with False have e: "exponent x < exponent y" "- 1022 < exponent y"
    by (auto simp: ulp_def max_def split: if_splits)
  have up: "x \<le> 2 powi exponent y"
    using exponent_bounds [of x] assms(1) e(1) power_int_increasing [of "exponent x + 1" "exponent y" "2 :: rat"]
    by linarith
  have "round64 x \<le> 2 powi exponent y"
    by (rule round64_le_power [OF assms(1) up]) (use e in auto)
  also have "\<dots> \<le> round64 y"
    by (rule power_le_round64) (use assms exponent_bounds [of y] e in auto)
  finally show ?thesis .
qed

lemma round64_mono: "x \<le> y \<Longrightarrow> round64 x \<le> round64 y"
proof -
  assume xy: "x \<le> y"
  consider "0 < x" | "y < 0" | "x \<le> 0" "0 \<le> y" by linarith
  then show ?thesis
  proof cases
    case 1
    then show ?thesis using round64_mono_pos xy by simp
  next
    case 2
    then show ?thesis using round64_mono_pos [of "- y" "- x"] xy by (simp add: round64_minus)
  next
    case 3
    then show ?thesis using round64_nonneg [of "- x"] round64_nonneg [of y] by (simp add: round64_minus)
  qed
qed

lemma round64_exact_pos:
  assumes "0 < i" "i \<le> 2 ^ 53"
  shows "round64 (of_int i) = of_int i"
proof -
  let ?q = "of_int i :: rat"
  have "exponent ?q \<le> 53"
  proof (rule ccontr)
    assume "\<not> exponent ?q \<le> 53"
    then have "(2 :: rat) powi 54 \<le> 2 powi exponent ?q" by (intro power_int_increasing) auto
    moreover have "?q \<le> of_int (2 ^ 53)" using assms(2) by (simp only: of_int_le_iff)
    ultimately show False using exponent_bounds [of ?q] assms(1) by simp
  qed
  show ?thesis
  proof (cases "exponent ?q \<le> 52")
    case True
    let ?e = "max (exponent ?q - 52) (- 1074)"
    have "?q / ulp ?q = of_int (i * 2 ^ nat (- ?e))"
      using True power_quotient [of ?e 0] by (simp add: ulp_def field_simps)
    then have "round64 ?q = of_int (i * 2 ^ nat (- ?e)) * ulp ?q"
      using assms(1) half_even_of_int [of "i * 2 ^ nat (- ?e)"] by (simp only: round64_pos of_int_0_less_iff)
    with \<open>?q / ulp ?q = of_int (i * 2 ^ nat (- ?e))\<close> ulp_pos [of ?q] show ?thesis
      by (simp add: field_simps)
  next
    case False
    with \<open>exponent ?q \<le> 53\<close> have e: "exponent ?q = 53" by simp
    then have "(2 :: rat) powi 53 \<le> ?q" using exponent_bounds [of ?q] assms(1) by simp
    moreover have "?q \<le> of_int (2 ^ 53)" using assms(2) by (simp only: of_int_le_iff)
    ultimately have q: "?q = 2 ^ 53" by simp
    from e have u: "ulp ?q = 2" by (simp add: ulp_def)
    have "?q / ulp ?q = of_int (2 ^ 52)" by (subst u, subst q, simp)
    then have "round64 ?q = of_int (2 ^ 52) * 2"
      using assms(1) half_even_of_int [of "2 ^ 52"] u by (simp only: round64_pos of_int_0_less_iff)
    with q show ?thesis by simp
  qed
qed

text \<open>
  A random number is a binary64 number below one, so at most \<open>1 - 2 ^ -53\<close>; its product with a whole
  number never rounds up to that number.
\<close>

definition random_num :: "rat \<Rightarrow> bool" where
  "random_num r = (0 \<le> r \<and> r \<le> 1 - 1 / 2 ^ 53)"

lemma half_even_below: "of_int k - 1 \<le> x \<Longrightarrow> x < of_int k - 1 / 2 \<Longrightarrow> half_even x = k - 1"
proof -
  assume x: "of_int k - 1 \<le> x" "x < of_int k - 1 / 2"
  then have "\<lfloor>x\<rfloor> = k - 1" by (intro floor_unique) auto
  with x show ?thesis by (simp add: half_even_def Let_def)
qed

lemma round64_below_int:
  fixes n :: int
  assumes n: "0 < n" "n < 2 ^ 52"
  shows "round64 (of_int n * (1 - 1 / 2 ^ 53)) < of_int n"
proof -
  define x :: rat where "x = of_int n * (1 - 1 / 2 ^ 53)"
  have n': "(of_int n :: rat) < 2 ^ 52" "(1 :: rat) \<le> of_int n"
    using of_int_less_iff [of n "2 ^ 52", where 'a = rat] n by simp_all
  have x: "x = of_int n - of_int n / 2 ^ 53" by (simp add: x_def field_simps)
  have pos: "1 / 2 \<le> x" and close: "of_int n - 1 / 2 < x" and less: "x < of_int n"
    using n' by (simp_all add: x)
  have b: "2 powi exponent x \<le> x" "x < 2 powi (exponent x + 1)"
    using exponent_bounds [of x] pos by simp_all
  have "- 1 \<le> exponent x"
  proof (rule ccontr)
    assume "\<not> - 1 \<le> exponent x"
    then have "(2 :: rat) powi (exponent x + 1) \<le> 2 powi (- 1)" by (intro power_int_increasing) auto
    with b pos show False by (simp add: power_int_minus)
  qed
  then obtain k where k: "exponent x + 1 = int k" using zero_le_imp_eq_int [of "exponent x + 1"] by auto
  then have e: "exponent x = int k - 1" by simp
  have bk: "2 ^ k / 2 \<le> x" "x < 2 ^ k"
    using b by (simp_all add: e power_int_diff)
  have "(2 :: rat) ^ k < 2 ^ 53" using bk(1) less n' by simp
  then have k53: "k < 53" by (rule power_less_imp_less_exp [rotated]) simp
  have u: "ulp x = 2 ^ k / 2 ^ 53" using k53 by (simp add: ulp_def e power_int_diff max_def)
  have P: "(2 :: rat) ^ 53 / 2 ^ k = 2 ^ (53 - k)" using power_diff [of "2 :: rat" k 53] k53 by simp
  have N: "(of_int n :: rat) / (2 ^ k / 2 ^ 53) = of_int (n * 2 ^ (53 - k))"
    using P by (simp flip: times_divide_eq_right)
  have "n \<le> 2 ^ k"
  proof (rule ccontr)
    assume "\<not> n \<le> 2 ^ k"
    then have "(of_int (2 ^ k + 1) :: rat) \<le> of_int n" by (simp only: of_int_le_iff)
    with bk(2) close show False by simp
  qed
  then have f1: "(of_int n :: rat) \<le> 2 ^ k" using of_int_le_iff [of n "2 ^ k", where 'a = rat] by simp
  have f2: "(2 :: rat) ^ k < 2 * of_int n" using bk(1) less by simp
  have q: "x / ulp x = of_int (n * 2 ^ (53 - k)) - of_int n / 2 ^ k"
    unfolding u N [symmetric] by (simp add: x field_simps)
  have "half_even (x / ulp x) = n * 2 ^ (53 - k) - 1"
    unfolding q using f1 f2 by (intro half_even_below) (simp_all add: field_simps)
  then have "round64 x = of_int (n * 2 ^ (53 - k) - 1) * (2 ^ k / 2 ^ 53)"
    using pos u by (simp only: round64_pos)
  also have "\<dots> = of_int n - 2 ^ k / 2 ^ 53" using N by (simp add: field_simps)
  also have "\<dots> < of_int n" by simp
  finally show ?thesis unfolding x_def .
qed

lemma random_index:
  assumes "random_num r" "0 < n" "n < 2 ^ 52"
  shows "0 \<le> \<lfloor>round64 (r * of_int n)\<rfloor>" "\<lfloor>round64 (r * of_int n)\<rfloor> < n"
proof -
  have n: "(0 :: rat) \<le> of_int n" using assms(2) by simp
  then show "0 \<le> \<lfloor>round64 (r * of_int n)\<rfloor>"
    using assms(1) by (simp add: random_num_def round64_nonneg)
  have "r * of_int n \<le> of_int n * (1 - 1 / 2 ^ 53)"
    using assms(1) n mult_right_mono [of r "1 - 1 / 2 ^ 53" "of_int n"] by (simp add: random_num_def mult.commute)
  then have "round64 (r * of_int n) < of_int n"
    using round64_mono round64_below_int [OF assms(2,3)] by (meson le_less_trans)
  then show "\<lfloor>round64 (r * of_int n)\<rfloor> < n" by (simp add: floor_less_iff)
qed

interpretation binary64: rounding round64
proof unfold_locales
  show "round64 (of_int i) = of_int i" if "\<bar>i\<bar> \<le> 2 ^ 53" for i
  proof -
    consider "0 < i" | "i = 0" | "0 < - i" by linarith
    then show ?thesis
      using that round64_exact_pos [of i] round64_exact_pos [of "- i"] by cases (auto simp: round64_minus)
  qed
qed (rule round64_mono)

end
