(* ===== verification/Hotel_Rooms.thy ===== *)
theory Hotel_Rooms
  imports Hotel_Ledger Binary64 Json
begin

text \<open>
  The simulated calendar (\<^verbatim>\<open>simulation/\<close>) and the occupancy of the rooms (\<^verbatim>\<open>rooms/\<close>). A number of
  the clock is a binary64 number, with \<open>None\<close> for NaN: every operation rounds its exact result.
  \<^verbatim>\<open>Date.parse\<close> accepts formats that the language leaves to its implementation, so it is a
  parameter: the milliseconds of a text, or NaN.
\<close>

section \<open>simulation-clock.ts\<close>

definition SECONDS_PER_DAY :: rat where
  "SECONDS_PER_DAY = 86400"

definition computeElapsedGameSeconds ::
  "(string \<Rightarrow> int option) \<Rightarrow> int \<Rightarrow> string \<Rightarrow> rat option \<Rightarrow> rat option" where
  "computeElapsedGameSeconds Date_parse nowMs startTime gameSpeed =
     (case (Date_parse startTime, gameSpeed) of
        (Some startMs, Some speed) \<Rightarrow>
          (let elapsedRealSeconds = round64 (round64 (of_int (nowMs - startMs)) / 1000)
           in Some (round64 (elapsedRealSeconds * speed)))
      | _ \<Rightarrow> None)"

definition computeCurrentDay ::
  "(string \<Rightarrow> int option) \<Rightarrow> int \<Rightarrow> string \<Rightarrow> rat option \<Rightarrow> int option" where
  "computeCurrentDay Date_parse nowMs startTime gameSpeed =
     map_option (\<lambda>s. \<lfloor>round64 (s / SECONDS_PER_DAY)\<rfloor>)
       (computeElapsedGameSeconds Date_parse nowMs startTime gameSpeed)"

section \<open>simulation.service.ts\<close>

text \<open>\<^verbatim>\<open>parseInt(s, 10)\<close>: leading white space, a sign, digits; NaN without digits.\<close>

definition digits_value :: "string \<Rightarrow> int" where
  "digits_value ds = foldl (\<lambda>n c. 10 * n + (of_char c - 48)) 0 ds"

definition parseInt10 :: "string \<Rightarrow> rat option" where
  "parseInt10 s =
     (let t = dropWhile js_space s;
          neg = startsWith ''-'' t;
          u = (if neg \<or> startsWith ''+'' t then tl t else t);
          ds = takeWhile digit u
      in if ds = [] then None
         else Some (round64 (of_int (if neg then - digits_value ds else digits_value ds))))"

record SimulationService =
  ss_startTime :: string
  ss_gameSpeed :: "rat option"

definition new_SimulationService :: "(string \<Rightarrow> string option) \<Rightarrow> string \<Rightarrow> SimulationService" where
  "new_SimulationService env nowText =
     \<lparr>ss_startTime = nullish (env ''SIMULATION_START_TIME'') nowText,
      ss_gameSpeed = parseInt10 (nullish (env ''GAME_SPEED'') ''300'')\<rparr>"

definition currentDay :: "(string \<Rightarrow> int option) \<Rightarrow> SimulationService \<Rightarrow> int \<Rightarrow> int option" where
  "currentDay Date_parse sim now = computeCurrentDay Date_parse now (ss_startTime sim) (ss_gameSpeed sim)"

section \<open>rooms.service.ts\<close>

record RoomResponseDto =
  rd_id :: string
  rd_type :: RoomType
  rd_capacity :: int
  rd_price_per_night :: int
  rd_current_guests :: int

definition occupied_on :: "int \<Rightarrow> rcond list" where
  "occupied_on day = [StatusIs CONFIRMED, CheckInLte day, CheckOutGt day]"

definition room_row :: "(string \<Rightarrow> int option) \<Rightarrow> Room \<Rightarrow> RoomResponseDto" where
  "room_row currentGuestsByRoomId room =
     \<lparr>rd_id = rm_id room,
      rd_type = rm_type room,
      rd_capacity = rm_capacity room,
      rd_price_per_night = rm_price_per_night room,
      rd_current_guests = nullish (currentGuestsByRoomId (rm_id room)) 0\<rparr>"

text \<open>
  The two queries and the response. A day that is not a number cannot be written into a filter:
  the client refuses the query.
\<close>

definition findAll ::
  "'db prisma_client \<Rightarrow> int option \<Rightarrow> 'db \<Rightarrow> hotel_error + RoomResponseDto list" where
  "findAll P day db =
     (case day of
        None \<Rightarrow> Inl Unhandled
      | Some today \<Rightarrow>
          bindE (db_call (room_findMany P db None)) (\<lambda>rooms.
            bindE (db_call (reservation_groupBy P db (occupied_on today))) (\<lambda>occupiedRooms.
              let currentGuestsByRoomId = map_of (map (\<lambda>(room, sum). (room, nullish sum 0)) occupiedRooms)
              in Inr (map (room_row currentGuestsByRoomId) rooms))))"

section \<open>The clock\<close>

text \<open>
  The laws of the clock hold for any rounding of the interface; the model's rounding is one.
\<close>

definition game_day :: "(rat \<Rightarrow> rat) \<Rightarrow> rat \<Rightarrow> rat \<Rightarrow> int" where
  "game_day rnd speed ms = \<lfloor>rnd (rnd (rnd (rnd ms / 1000) * speed) / 86400)\<rfloor>"

context rounding
begin

lemma game_day_mono:
  assumes "0 \<le> speed" "ms \<le> ms'"
  shows "game_day rnd speed ms \<le> game_day rnd speed ms'"
  unfolding game_day_def
  using assms by (intro floor_mono rnd_mono divide_right_mono mult_right_mono) auto

text \<open>
  On a whole number of real seconds that makes a whole number of game days the three roundings
  are exact.
\<close>

lemma game_day_exact:
  fixes s k v :: int
  assumes "s * v = 86400 * k" "\<bar>1000 * s\<bar> \<le> 2 ^ 53" "\<bar>86400 * k\<bar> \<le> 2 ^ 53"
  shows "game_day rnd (of_int v) (of_int (1000 * s)) = k"
proof -
  have s: "\<bar>s\<bar> \<le> 2 ^ 53" and k: "\<bar>k\<bar> \<le> 2 ^ 53" using assms(2,3) by linarith+
  have "rnd (of_int (1000 * s)) / 1000 = of_int s" using rnd_exact [OF assms(2)] by simp
  then have "rnd (rnd (of_int (1000 * s)) / 1000) = of_int s" using rnd_exact [OF s] by simp
  moreover have "(of_int s * of_int v :: rat) = of_int (86400 * k)"
    using assms(1) by (metis of_int_mult)
  ultimately have "rnd (rnd (rnd (of_int (1000 * s)) / 1000) * of_int v) / 86400 = of_int k"
    using rnd_exact [OF assms(3)] by simp
  then show ?thesis using rnd_exact [OF k] by (simp add: game_day_def)
qed

end

lemma computeCurrentDay_game_day:
  "Date_parse start = Some startMs \<Longrightarrow>
     computeCurrentDay Date_parse now start (Some speed) = Some (game_day round64 speed (of_int (now - startMs)))"
  by (simp add: computeCurrentDay_def computeElapsedGameSeconds_def game_day_def SECONDS_PER_DAY_def)

section \<open>Occupancy\<close>

definition current_guests :: "tables \<Rightarrow> int \<Rightarrow> string \<Rightarrow> int" where
  "current_guests t day room =
     sum_list (map rs_guest_count
       (filter (\<lambda>r. active r \<and> rs_room_id r = room \<and> rs_check_in_day r \<le> day \<and> day < rs_check_out_day r)
          (tb_reservations t)))"

lemma guest_sum_current: "guest_sum (occupied_on day) room t = current_guests t day room"
  unfolding guest_sum_def current_guests_def occupied_on_def active_def
  by (rule arg_cong [where f = "\<lambda>xs. sum_list (map rs_guest_count xs)"]) (auto intro: filter_cong)

lemma current_guests_none:
  assumes "\<not> (\<exists>r \<in> set (tb_reservations t). rmatch (occupied_on day) r \<and> rs_room_id r = room)"
  shows "current_guests t day room = 0"
proof -
  have "filter (\<lambda>r. active r \<and> rs_room_id r = room \<and> rs_check_in_day r \<le> day \<and> day < rs_check_out_day r)
      (tb_reservations t) = []"
    using assms by (auto simp: filter_empty_conv active_def occupied_on_def)
  then show ?thesis by (simp add: current_guests_def)
qed

lemma map_of_nullish:
  "map_of (map (\<lambda>(room, sum). (room, nullish sum 0)) groups) room = map_option (\<lambda>x. nullish x 0) (map_of groups room)"
  by (induction groups) auto

context prisma
begin

lemma findAll_Inr:
  assumes "findAll P (Some day) db = Inr rows"
  shows "mset rows = mset (map (\<lambda>m. \<lparr>rd_id = rm_id m, rd_type = rm_type m, rd_capacity = rm_capacity m,
      rd_price_per_night = rm_price_per_night m,
      rd_current_guests = current_guests (content db) day (rm_id m)\<rparr>) (tb_rooms (content db)))"
proof -
  from assms obtain rooms groups where rooms: "room_findMany P db None = Inr rooms"
    and groups: "reservation_groupBy P db (occupied_on day) = Inr groups"
    and rows: "rows = map (room_row (map_of (map (\<lambda>(room, sum). (room, nullish sum 0)) groups))) rooms"
    by (auto simp: findAll_def Let_def)
  have g: "nullish (map_of (map (\<lambda>(room, sum). (room, nullish sum 0)) groups) room) 0
      = current_guests (content db) day room" for room
    using groupBy_rows [OF groups] current_guests_none [of "content db" day room]
    by (simp add: map_of_nullish guest_sum_current)
  have "mset rooms = mset (tb_rooms (content db))"
    using findMany_rows [OF rooms] by (simp add: of_type_def)
  then show ?thesis unfolding rows by (simp, intro image_mset_cong) (simp add: room_row_def g)
qed

end

lemma distinct_set_singleton: "distinct xs \<Longrightarrow> set xs = {x} \<Longrightarrow> xs = [x]"
  by (cases xs) (auto, metis insert_absorb insert_ident list.set_intros(1) neq_Nil_conv singletonD subset_singletonD set_empty)

text \<open>In well-formed tables at most one stay covers a day in a room, so the sum has one term.\<close>

lemma current_guests_single:
  assumes "hotel_inv t" "r \<in> set (tb_reservations t)" "active r"
    "rs_check_in_day r \<le> day" "day < rs_check_out_day r"
  shows "current_guests t day (rs_room_id r) = rs_guest_count r"
proof -
  let ?p = "\<lambda>s. active s \<and> rs_room_id s = rs_room_id r \<and> rs_check_in_day s \<le> day \<and> day < rs_check_out_day s"
  have one: "s = r" if "s \<in> set (tb_reservations t)" "?p s" for s
    using hotel_inv_unique [OF assms(1) that(1) assms(2)] that(2) assms(3-5)
    by (simp add: clash_def meets_def)
  have "distinct (tb_reservations t)" using assms(1) by (auto simp: hotel_inv_def distinct_map)
  then have "distinct (filter ?p (tb_reservations t))" by simp
  moreover have "set (filter ?p (tb_reservations t)) = {r}" using one assms by auto
  ultimately have "filter ?p (tb_reservations t) = [r]"
    by (metis distinct_set_singleton)
  then show ?thesis by (simp add: current_guests_def)
qed

end
