(* ===== verification/Hotel_Race.thy ===== *)
theory Hotel_Race
  imports Hotel_Rooms
begin

text \<open>
  Requests interleave at their awaits. A booking reads (the selection of a room) and writes (the
  creation of the row) in separate calls of the client with no transaction around them, so between
  the two another request may run. The step relation below interleaves any number of bookings at
  that point; a booking that is never interrupted there behaves as \<open>create\<close>.
\<close>

datatype booking =
    Asked CreateReservationDto
  | Chosen CreateReservationDto Room
  | Answered "hotel_error + ReservationResponseDto"

record 'db race =
  rc_db :: 'db
  rc_bookings :: "booking list"

text \<open>The first segment of \<open>create\<close> ends with the chosen room, or with the refusal.\<close>

definition ask :: "'db prisma_client \<Rightarrow> runtime \<Rightarrow> string option \<Rightarrow> CreateReservationDto \<Rightarrow> 'db \<Rightarrow> booking" where
  "ask P rt store dto db =
     (if dto_check_out_day dto \<le> dto_check_in_day dto
      then Answered (Inl (HttpException 400 ''check_out_day must be greater than check_in_day''))
      else case snd (rejectIfGuestHasNotClearedAirport rt store (dto_guest_id dto)) of
        Inl e \<Rightarrow> Answered (Inl e)
      | Inr _ \<Rightarrow> (case select_room P db dto of Inl e \<Rightarrow> Answered (Inl e) | Inr room \<Rightarrow> Chosen dto room))"

inductive race_step :: "'db prisma_client \<Rightarrow> runtime \<Rightarrow> 'db race \<Rightarrow> 'db race \<Rightarrow> bool"
  for P :: "'db prisma_client" and rt :: runtime where
  arrive: "race_step P rt s (s\<lparr>rc_bookings := rc_bookings s @ [Asked dto]\<rparr>)"
| choose: "i < length (rc_bookings s) \<Longrightarrow> rc_bookings s ! i = Asked dto \<Longrightarrow>
    race_step P rt s (s\<lparr>rc_bookings := (rc_bookings s)[i := ask P rt None dto (rc_db s)]\<rparr>)"
| persist: "i < length (rc_bookings s) \<Longrightarrow> rc_bookings s ! i = Chosen dto room \<Longrightarrow>
    confirm_reservation P rt None dto room (rc_db s) = (db', fx, result) \<Longrightarrow>
    race_step P rt s (s\<lparr>rc_db := db', rc_bookings := (rc_bookings s)[i := Answered result]\<rparr>)"

text \<open>Without an interruption the two segments are the operation.\<close>

lemma uninterrupted:
  "(case ask P rt store dto db of
      Answered r \<Rightarrow> (db, r)
    | Chosen d room \<Rightarrow> (case confirm_reservation P rt store d room db of (db', fx, r) \<Rightarrow> (db', r))
    | Asked d \<Rightarrow> (db, Inl Unhandled))
   = (case create P rt store dto db of (db', fx, r) \<Rightarrow> (db', r))"
  by (simp add: ask_def create_def case_prod_beta split: sum.split)

text \<open>What interleaving cannot break: keys stay keys, rooms exist, stays have a night.\<close>

definition race_inv :: "tables \<Rightarrow> bool" where
  "race_inv t =
     (distinct (map rm_id (tb_rooms t)) \<and> distinct (map rs_id (tb_reservations t)) \<and>
      list_all (\<lambda>r. rs_room_id r \<in> rm_id ` set (tb_rooms t) \<and> rs_check_in_day r < rs_check_out_day r)
        (tb_reservations t))"

fun booking_ok :: "booking \<Rightarrow> bool" where
  "booking_ok (Chosen dto room) = (dto_check_in_day dto < dto_check_out_day dto)"
| "booking_ok _ = True"

lemma ask_ok: "booking_ok (ask P rt store dto db)"
  by (simp add: ask_def split: sum.split)

context prisma
begin

lemma confirm_race_inv:
  assumes "race_inv (content db)" "confirm_reservation P rt store dto room db = (db', fx, result)"
    "dto_check_in_day dto < dto_check_out_day dto"
  shows "race_inv (content db')"
proof (cases "reservation_create P db (new_reservation dto room)")
  case (Inl e)
  with assms show ?thesis by (simp add: confirm_reservation_def)
next
  case (Inr c)
  obtain r gs db'' where c: "c = (r, gs, db'')" by (cases c)
  with assms(2) Inr have "db' = db''" by (simp add: confirm_reservation_def)
  note row = create_row [OF Inr [unfolded c]]
  then obtain k where k: "r = row_of k (new_reservation dto room)" by blast
  from row \<open>db' = db''\<close> have r: "rs_id r \<notin> rs_id ` set (tb_reservations (content db))"
    "rm_id room \<in> rm_id ` set (tb_rooms (content db))" "content db' = insert_row r gs (content db)"
    by (simp_all add: new_reservation_def)
  from k have "rs_room_id r = rm_id room" "rs_check_in_day r = dto_check_in_day dto"
    "rs_check_out_day r = dto_check_out_day dto"
    by (simp_all add: new_reservation_def row_of_def)
  with assms(1,3) r show ?thesis
    by (simp add: race_inv_def insert_row_def)
qed

lemma race_step_inv:
  assumes "race_step P rt s t" "race_inv (content (rc_db s)) \<and> list_all booking_ok (rc_bookings s)"
  shows "race_inv (content (rc_db t)) \<and> list_all booking_ok (rc_bookings t)"
  using assms
proof (cases rule: race_step.cases)
  case (choose i dto)
  with assms(2) ask_ok [of P rt None dto "rc_db s"] show ?thesis
    by (auto simp: list_all_iff dest!: set_update_subset_insert [THEN subsetD])
next
  case (persist i dto room db' fx result)
  from assms(2) persist(2) have "booking_ok (Chosen dto room)"
    by (metis list_all_length persist(3))
  with persist confirm_race_inv [OF _ persist(4)] assms(2) show ?thesis
    by (auto simp: list_all_iff dest!: set_update_subset_insert [THEN subsetD])
qed (use assms in auto)

end

end
