(* ===== verification/Hotel_Props.thy ===== *)
theory Hotel_Props
  imports Hotel_Race
begin

text \<open>
  The properties of the hotel service, each with an instance on a concrete inn of two suites, run
  on the database in memory, and the places where the service does less than its parts promise.
\<close>

section \<open>Sample data\<close>

definition inn :: tables where
  "inn = \<lparr>tb_rooms = map (seed_room ''room-suite-'' SUITE 4 400) [0..<2], tb_reservations = [], tb_guests = []\<rparr>"

definition quiet :: runtime where
  "quiet = \<lparr>rt_env = (\<lambda>_. None), rt_fetch = (\<lambda>_. NetworkError), rt_numstr = (\<lambda>q. show_int \<lfloor>q\<rfloor>),
     rt_numval = (\<lambda>_. NaN), rt_duration = ''1.0''\<rparr>"

definition wired :: "http_result \<Rightarrow> runtime" where
  "wired answer = quiet\<lparr>rt_env := map_of [(''AIRPORT_SERVICE_URL'', ''http://a''), (''BROADCAST_SERVICE_URL'', ''http://b'')],
     rt_fetch := (\<lambda>_. answer)\<rparr>"

definition suite_stay :: "string \<Rightarrow> int \<Rightarrow> int \<Rightarrow> CreateReservationDto" where
  "suite_stay g i j = \<lparr>dto_guest_id = g, dto_room_type = SUITE, dto_guest_count = 2,
     dto_party_guest_ids = None, dto_check_in_day = i, dto_check_out_day = j\<rparr>"

definition post :: "CreateReservationDto \<Rightarrow> hotel_input" where
  "post dto = \<lparr>hi_runtime = quiet, hi_store = None, hi_request = PostReservation dto\<rparr>"

definition first_stay :: Reservation where
  "first_stay = \<lparr>rs_id = ''x'', rs_guest_id = ''g1'', rs_room_id = ''room-suite-01'', rs_guest_count = 2,
     rs_check_in_day = 3, rs_check_out_day = 5, rs_status = CONFIRMED\<rparr>"

lemma inn_inv: "hotel_inv inn"
  by code_simp

lemma inn_create:
  "create mem_client quiet None (suite_stay ''g1'' 3 5) inn =
     (inn\<lparr>tb_reservations := [first_stay]\<rparr>, [], Inr (reservation_dto first_stay SUITE []))"
  by code_simp

lemma mem_prisma: "prisma mem_client (\<lambda>t. t) (\<le>)"
  by (rule mem.prisma_axioms)

lemma mem_prisma_up: "prisma_up mem_client (\<lambda>t. t) (\<le>)"
  by (rule mem.prisma_up_axioms)

section \<open>Bookings\<close>

text \<open>
  C3. No double booking. Over any sequence of requests to the controller, whatever the airport and
  the broadcast service answer, two confirmed reservations of one room never share a day, not even
  the day one guest leaves and the other arrives, as long as the tables start well-formed.
\<close>

theorem hotel_no_double_booking:
  assumes "prisma P content id_le" and "hotel_inv (content db)"
    and "r \<in> set (tb_reservations (content (run (hotel_step P) db ins)))"
    and "s \<in> set (tb_reservations (content (run (hotel_step P) db ins)))"
    and "rs_id r \<noteq> rs_id s" and "rs_room_id r = rs_room_id s"
    and "rs_status r = CONFIRMED" and "rs_status s = CONFIRMED"
  shows "rs_check_out_day r < rs_check_in_day s \<or> rs_check_out_day s < rs_check_in_day r"
proof -
  have "\<not> clash r s"
    using hotel_inv_unique [OF prisma.run_inv [OF assms(1,2)] assms(3,4)] assms(5) by blast
  with assms(6-8) show ?thesis by (auto simp: clash_def active_def meets_def)
qed

definition two_bookings :: "hotel_input list" where
  "two_bookings = [post (suite_stay ''g1'' 3 5), post (suite_stay ''g2'' 4 6), post (suite_stay ''g3'' 6 8)]"

definition busy_inn :: tables where
  "busy_inn = run (hotel_step mem_client) inn two_bookings"

lemma busy_inn_rows:
  "map (\<lambda>r. (rs_guest_id r, rs_room_id r, rs_status r)) (tb_reservations busy_inn) =
     [(''g1'', ''room-suite-01'', CONFIRMED), (''g2'', ''room-suite-02'', CONFIRMED), (''g3'', ''room-suite-01'', CONFIRMED)]"
  unfolding busy_inn_def two_bookings_def by code_simp

lemma busy_inn_ids: "distinct (map rs_id (tb_reservations busy_inn))"
  unfolding busy_inn_def two_bookings_def by code_simp

theorem hotel_no_double_booking_witness:
  "rs_check_out_day (tb_reservations busy_inn ! 0) < rs_check_in_day (tb_reservations busy_inn ! 2) \<or>
   rs_check_out_day (tb_reservations busy_inn ! 2) < rs_check_in_day (tb_reservations busy_inn ! 0)"
proof -
  have len: "length (tb_reservations busy_inn) = 3"
    using arg_cong [OF busy_inn_rows, of length] by simp
  have nth: "map (\<lambda>r. (rs_guest_id r, rs_room_id r, rs_status r)) (tb_reservations busy_inn) ! i =
      (rs_guest_id (tb_reservations busy_inn ! i), rs_room_id (tb_reservations busy_inn ! i),
       rs_status (tb_reservations busy_inn ! i))" if "i < 3" for i
    using that len by simp
  show ?thesis
  proof (rule hotel_no_double_booking [OF mem_prisma inn_inv, of _ two_bookings, folded busy_inn_def])
    show "rs_id (tb_reservations busy_inn ! 0) \<noteq> rs_id (tb_reservations busy_inn ! 2)"
      using busy_inn_ids len nth_eq_iff_index_eq [OF busy_inn_ids, of 0 2] by simp
  qed (use nth [of 0] nth [of 2] len busy_inn_rows in \<open>simp_all\<close>)
qed

text \<open>
  C7. The service implements the ledger: every sequence of requests takes the active stays of the
  tables through steps of the ledger, which books a stay only where it meets no other.
\<close>

theorem hotel_implements_ledger:
  assumes "prisma P content id_le"
  shows "ledger_step\<^sup>*\<^sup>* (ledger_of (content db)) (ledger_of (content (run (hotel_step P) db ins)))"
  by (rule prisma.run_ledger [OF assms])

theorem hotel_implements_ledger_witness:
  "prisma mem_client (\<lambda>t. t) (\<le>) \<and> ledger_step\<^sup>*\<^sup>* (ledger_of inn) (ledger_of busy_inn)"
  using hotel_implements_ledger [OF mem_prisma, of inn two_bookings] mem_prisma
  by (simp add: busy_inn_def)

text \<open>
  C8. A booking that succeeds took a room of the requested type that holds the party and was free
  on every requested day, and the first such room in the order of the identifiers; it added exactly
  one confirmed row, with a fresh identifier and the data of the request, and the party as its
  guests; it answered with that row; and the only message it published is the confirmation of it.
\<close>

theorem create_success:
  assumes "prisma P content id_le" and "create P rt store dto db = (db', fx, Inr resp)"
  shows "\<exists>m k gs. suits (content db) dto m \<and>
    (\<forall>p. suits (content db) dto p \<longrightarrow> p = m \<or> id_le (rm_id m) (rm_id p)) \<and>
    k \<notin> rs_id ` set (tb_reservations (content db)) \<and> mset gs = mset (nullish (dto_party_guest_ids dto) []) \<and>
    content db' = insert_row (row_of k (new_reservation dto m)) gs (content db) \<and>
    resp = reservation_dto (row_of k (new_reservation dto m)) (rm_type m) gs \<and>
    fx = snd (hasGuestClearedProcessing rt store (dto_guest_id dto)) @
      publishHotelEvent rt store ReservationConfirmed
        (stay_event ''Hotel reservation confirmed.'' (row_of k (new_reservation dto m)) (rm_type m))"
  using prisma.create_Inr [OF assms] prisma.select_room_Inr [OF assms(1)] by metis

theorem create_success_witness:
  "\<exists>m k gs. suits inn (suite_stay ''g1'' 3 5) m \<and>
    (\<forall>p. suits inn (suite_stay ''g1'' 3 5) p \<longrightarrow> p = m \<or> rm_id m \<le> rm_id p) \<and>
    k \<notin> rs_id ` set (tb_reservations inn) \<and> mset gs = mset (nullish (dto_party_guest_ids (suite_stay ''g1'' 3 5)) []) \<and>
    inn\<lparr>tb_reservations := [first_stay]\<rparr> = insert_row (row_of k (new_reservation (suite_stay ''g1'' 3 5) m)) gs inn \<and>
    reservation_dto first_stay SUITE [] =
      reservation_dto (row_of k (new_reservation (suite_stay ''g1'' 3 5) m)) (rm_type m) gs \<and>
    [] = snd (hasGuestClearedProcessing quiet None (dto_guest_id (suite_stay ''g1'' 3 5))) @
      publishHotelEvent quiet None ReservationConfirmed (stay_event ''Hotel reservation confirmed.''
        (row_of k (new_reservation (suite_stay ''g1'' 3 5) m)) (rm_type m))"
  by (rule create_success [OF mem_prisma inn_create])

text \<open>
  C10. A booking that is refused or fails leaves the database as it was and publishes nothing: the
  only call it can have made is the query of the airport.
\<close>

theorem create_refused_no_trace:
  assumes "prisma P content id_le" and "create P rt store dto db = (db', fx, Inl e)"
  shows "db' = db \<and> (\<forall>c \<in> set (calls fx). hc_method c = ''GET'')"
  using prisma.create_Inl [OF assms] by blast

definition held_back :: "tables \<times> effect list \<times> (hotel_error + ReservationResponseDto)" where
  "held_back = create mem_client (wired (HttpResponse 200 (Some ''7''))) None (suite_stay ''g1'' 3 5) inn"

lemma held_back_refused:
  "create mem_client (wired (HttpResponse 200 (Some ''7''))) None (suite_stay ''g1'' 3 5) inn =
     (fst held_back, fst (snd held_back), Inl (HttpException 409 ''Guest has not cleared airport processing''))"
  unfolding held_back_def by code_simp

theorem create_refused_no_trace_witness:
  "fst held_back = inn \<and> list_all (\<lambda>c. hc_method c = ''GET'') (calls (fst (snd held_back)))"
  using create_refused_no_trace [OF mem_prisma held_back_refused] unfolding list.pred_set .



section \<open>The airport gate\<close>

text \<open>
  C17. The airport gate fails open. For a stay of at least one night, a booking is refused for the
  airport exactly when the airport is configured and answered with success and a JSON value, not
  null, whose status is not \<^verbatim>\<open>processed\<close>; a missing configuration, a network error, an error
  status or a body that is not JSON lets the guest through.
\<close>

theorem airport_gate:
  assumes "dto_check_in_day dto < dto_check_out_day dto"
  shows "snd (snd (create P rt store dto db)) = Inl (HttpException 409 ''Guest has not cleared airport processing'')
    \<longleftrightarrow> (\<exists>url status text body v. rt_env rt ''AIRPORT_SERVICE_URL'' = Some url \<and> url \<noteq> [] \<and>
      rt_fetch rt \<lparr>hc_method = ''GET'', hc_url = url @ ''/arrivals/'' @ dto_guest_id dto,
        hc_headers = [(''X-Request-Id'', getRequestId store)], hc_body = None\<rparr> = HttpResponse status (Some text) \<and>
      response_ok status \<and> JSON_parse (rt_numval rt) text = Some body \<and>
      member body ''status'' = Some v \<and> v \<noteq> JStr ''processed'')"
    (is "?refused \<longleftrightarrow> ?answer")
proof -
  have "?refused \<longleftrightarrow> fst (hasGuestClearedProcessing rt store (dto_guest_id dto)) = Some False"
    using assms by (rule create_gate)
  also have "\<dots> \<longleftrightarrow> ?answer"
    unfolding cleared_False_iff by simp
  finally show ?thesis .
qed

definition queued_answer :: http_result where
  "queued_answer = HttpResponse 200 (Some (''{'' @ json_quote ''status'' @ '':'' @ json_quote ''queued'' @ ''}''))"

lemma queued_answer_parsed:
  "JSON_parse numval (''{'' @ json_quote ''status'' @ '':'' @ json_quote ''queued'' @ ''}'')
     = Some (JObj [(''status'', JStr ''queued'')])"
  using JSON_parse_stringify [of "\<lambda>q. []" numval "JObj [(''status'', JStr ''queued'')]"] by simp

theorem airport_gate_witness:
  "snd (snd (create mem_client (wired queued_answer) None (suite_stay ''g1'' 3 5) inn))
     = Inl (HttpException 409 ''Guest has not cleared airport processing'')"
proof (subst airport_gate)
  show "\<exists>url status text body v. rt_env (wired queued_answer) ''AIRPORT_SERVICE_URL'' = Some url \<and> url \<noteq> [] \<and>
      rt_fetch (wired queued_answer) \<lparr>hc_method = ''GET'', hc_url = url @ ''/arrivals/'' @ dto_guest_id (suite_stay ''g1'' 3 5),
        hc_headers = [(''X-Request-Id'', getRequestId None)], hc_body = None\<rparr> = HttpResponse status (Some text) \<and>
      response_ok status \<and> JSON_parse (rt_numval (wired queued_answer)) text = Some body \<and>
      member body ''status'' = Some v \<and> v \<noteq> JStr ''processed''"
    using queued_answer_parsed [of "rt_numval (wired queued_answer)"]
    by (simp add: wired_def queued_answer_def response_ok_def quiet_def)
qed (simp add: suite_stay_def)

section \<open>Cancellations\<close>

text \<open>
  C14. Cancelling is idempotent and announced once. In well-formed tables, a cancellation that
  returns leaves the reservation cancelled and answers so; it published the cancellation exactly
  when the reservation was confirmed before; repeating it, whatever the network does, gives the
  same answer, changes nothing and publishes nothing.
\<close>

theorem cancel_idempotent:
  assumes "prisma P content id_le" and "hotel_inv (content db)"
    and "cancel P rt store i db = (db', fx, Inr resp)"
    and "cancel P rt' store' i db' = (db'', fx', Inr resp')"
  shows "content db' = set_status i CANCELLED (content db) \<and> resp = \<lparr>cr_id = i, cr_status = CANCELLED\<rparr> \<and>
    (\<exists>r \<in> set (tb_reservations (content db)). rs_id r = i \<and>
       (if rs_status r = CANCELLED then fx = []
        else \<exists>m \<in> set (tb_rooms (content db)). rm_id m = rs_room_id r \<and>
          fx = publishHotelEvent rt store ReservationCancelled
            (stay_event ''Hotel reservation cancelled.'' r (rm_type m)))) \<and>
    resp' = resp \<and> db'' = db' \<and> fx' = []"
  using prisma.cancel_first [OF assms(1-3)] prisma.cancel_again [OF assms(1) _ assms(4)] by simp

definition booked_inn :: tables where
  "booked_inn = inn\<lparr>tb_reservations := [first_stay]\<rparr>"

lemma booked_inn_inv: "hotel_inv booked_inn"
  by code_simp

lemma booked_inn_cancel:
  "cancel mem_client quiet None ''x'' booked_inn =
     (inn\<lparr>tb_reservations := [first_stay\<lparr>rs_status := CANCELLED\<rparr>]\<rparr>, [], Inr \<lparr>cr_id = ''x'', cr_status = CANCELLED\<rparr>)"
  by code_simp

lemma cancelled_inn_cancel:
  "cancel mem_client quiet None ''x'' (inn\<lparr>tb_reservations := [first_stay\<lparr>rs_status := CANCELLED\<rparr>]\<rparr>) =
     (inn\<lparr>tb_reservations := [first_stay\<lparr>rs_status := CANCELLED\<rparr>]\<rparr>, [], Inr \<lparr>cr_id = ''x'', cr_status = CANCELLED\<rparr>)"
  by code_simp

theorem cancel_idempotent_witness:
  "inn\<lparr>tb_reservations := [first_stay\<lparr>rs_status := CANCELLED\<rparr>]\<rparr> = set_status ''x'' CANCELLED booked_inn"
  using cancel_idempotent [OF mem_prisma booked_inn_inv booked_inn_cancel cancelled_inn_cancel] by simp

text \<open>
  Cancelling gives the room back: in well-formed tables, after a cancellation the room suits
  again every request for the days of the cancelled stay that it is large enough for.
\<close>

lemma cancel_frees_room:
  assumes "prisma P content id_le" and "hotel_inv (content db)"
    and "cancel P rt store i db = (db', fx, Inr resp)"
    and "r \<in> set (tb_reservations (content db))" and "rs_id r = i" and "rs_status r = CONFIRMED"
    and "m \<in> set (tb_rooms (content db))" and "rm_id m = rs_room_id r"
    and "dto_room_type dto = rm_type m" and "party_size dto \<le> rm_capacity m"
    and "rs_check_in_day r \<le> dto_check_in_day dto" and "dto_check_out_day dto \<le> rs_check_out_day r"
  shows "suits (content db') dto m"
proof -
  have c: "content db' = set_status i CANCELLED (content db)"
    using prisma.cancel_first [OF assms(1-3)] by simp
  have free: "\<not> rmatch (overlapping dto m) (if rs_id s = i then s\<lparr>rs_status := CANCELLED\<rparr> else s)"
    if s: "s \<in> set (tb_reservations (content db))" for s
  proof (cases "rs_id s = i")
    case False
    then have "s \<noteq> r" using assms(5) by auto
    with hotel_inv_unique [OF assms(2) assms(4) s] assms(6) have "\<not> (active s \<and> meets (stay_of r) (stay_of s))"
      by (auto simp: clash_def active_def)
    with False assms(8,11,12) show ?thesis by (auto simp: overlapping_def active_def meets_def)
  qed (simp add: overlapping_def)
  then have "list_all (\<lambda>r. \<not> rmatch (overlapping dto m) r)
      (map (\<lambda>s. if rs_id s = i then s\<lparr>rs_status := CANCELLED\<rparr> else s) (tb_reservations (content db)))"
    unfolding list.pred_set by (force simp only: set_map)
  then have "free_room (content db') dto m"
    unfolding c free_room_def set_status_def by simp
  with c assms(7,9,10) show ?thesis by (simp add: suits_def set_status_def)
qed

lemma cancel_frees_room_example:
  "suits (inn\<lparr>tb_reservations := [first_stay\<lparr>rs_status := CANCELLED\<rparr>]\<rparr>) (suite_stay ''g2'' 3 5)
     (seed_room ''room-suite-'' SUITE 4 400 0)"
proof (rule cancel_frees_room [OF mem_prisma booked_inn_inv booked_inn_cancel, of first_stay])
  show "seed_room ''room-suite-'' SUITE 4 400 0 \<in> set (tb_rooms booked_inn)" by code_simp
  show "rm_id (seed_room ''room-suite-'' SUITE 4 400 0) = rs_room_id first_stay" by code_simp
qed (simp_all add: booked_inn_def first_stay_def suite_stay_def seed_room_def party_size_def)

section \<open>Occupancy and the calendar\<close>

text \<open>The room list is right. On well-formed tables, every room is listed once with its data, and
  its current guests are the guest count of the confirmed stay that has begun and not yet ended on
  the current day, or zero when there is none.
\<close>

lemma rooms_occupancy:
  assumes "prisma P content id_le" and "hotel_inv (content db)" and "findAll P (Some day) db = Inr rows"
  shows "mset (map (\<lambda>w. (rd_id w, rd_type w, rd_capacity w, rd_price_per_night w)) rows)
      = mset (map (\<lambda>m. (rm_id m, rm_type m, rm_capacity m, rm_price_per_night m)) (tb_rooms (content db))) \<and>
    (\<forall>w \<in> set rows.
       (\<exists>r \<in> set (tb_reservations (content db)). rs_room_id r = rd_id w \<and> rs_status r = CONFIRMED \<and>
          rs_check_in_day r \<le> day \<and> day < rs_check_out_day r \<and> rd_current_guests w = rs_guest_count r) \<or>
       rd_current_guests w = 0 \<and> \<not> (\<exists>r \<in> set (tb_reservations (content db)). rs_room_id r = rd_id w \<and>
          rs_status r = CONFIRMED \<and> rs_check_in_day r \<le> day \<and> day < rs_check_out_day r))"
proof
  note rows = prisma.findAll_Inr [OF assms(1,3)]
  from arg_cong [OF rows, of "image_mset (\<lambda>w. (rd_id w, rd_type w, rd_capacity w, rd_price_per_night w))"]
  show "mset (map (\<lambda>w. (rd_id w, rd_type w, rd_capacity w, rd_price_per_night w)) rows)
      = mset (map (\<lambda>m. (rm_id m, rm_type m, rm_capacity m, rm_price_per_night m)) (tb_rooms (content db)))"
    by (simp add: image_mset.compositionality comp_def)
  show "\<forall>w \<in> set rows.
       (\<exists>r \<in> set (tb_reservations (content db)). rs_room_id r = rd_id w \<and> rs_status r = CONFIRMED \<and>
          rs_check_in_day r \<le> day \<and> day < rs_check_out_day r \<and> rd_current_guests w = rs_guest_count r) \<or>
       rd_current_guests w = 0 \<and> \<not> (\<exists>r \<in> set (tb_reservations (content db)). rs_room_id r = rd_id w \<and>
          rs_status r = CONFIRMED \<and> rs_check_in_day r \<le> day \<and> day < rs_check_out_day r)"
  proof
    fix w assume "w \<in> set rows"
    with mset_eq_setD [OF rows] have cg: "rd_current_guests w = current_guests (content db) day (rd_id w)" by auto
    show "(\<exists>r \<in> set (tb_reservations (content db)). rs_room_id r = rd_id w \<and> rs_status r = CONFIRMED \<and>
          rs_check_in_day r \<le> day \<and> day < rs_check_out_day r \<and> rd_current_guests w = rs_guest_count r) \<or>
       rd_current_guests w = 0 \<and> \<not> (\<exists>r \<in> set (tb_reservations (content db)). rs_room_id r = rd_id w \<and>
          rs_status r = CONFIRMED \<and> rs_check_in_day r \<le> day \<and> day < rs_check_out_day r)"
    proof (cases "\<exists>r \<in> set (tb_reservations (content db)). rs_room_id r = rd_id w \<and> rs_status r = CONFIRMED \<and>
          rs_check_in_day r \<le> day \<and> day < rs_check_out_day r")
      case True
      then obtain r where r: "r \<in> set (tb_reservations (content db))" "rs_room_id r = rd_id w"
        "active r" "rs_check_in_day r \<le> day" "day < rs_check_out_day r" by (auto simp: active_def)
      from current_guests_single [OF assms(2) r(1,3,4,5)] cg r show ?thesis by (auto simp: active_def)
    next
      case False
      with current_guests_none [of "content db" day "rd_id w"] cg show ?thesis
        by (auto simp: occupied_on_def)
    qed
  qed
qed

definition listed :: "nat \<Rightarrow> int \<Rightarrow> RoomResponseDto" where
  "listed i n = \<lparr>rd_id = rm_id (tb_rooms inn ! i), rd_type = SUITE, rd_capacity = 4, rd_price_per_night = 400,
     rd_current_guests = n\<rparr>"

lemma booked_inn_list: "findAll mem_client (Some 3) booked_inn = Inr [listed 0 2, listed 1 0]"
  by code_simp

lemma rooms_occupancy_example:
  "\<exists>r \<in> set (tb_reservations booked_inn). rs_room_id r = rd_id (listed 0 2) \<and> rs_status r = CONFIRMED \<and>
     rs_check_in_day r \<le> 3 \<and> 3 < rs_check_out_day r \<and> rd_current_guests (listed 0 2) = rs_guest_count r"
  using rooms_occupancy [OF mem_prisma booked_inn_inv booked_inn_list] by (simp add: listed_def)



section \<open>Where the service falls short\<close>

text \<open>
  C21. Two bookings that interleave between the selection and the write can double-book: from the
  empty inn, a run of two requests reaches a state where two confirmed stays share a room and days.
\<close>

theorem race_double_booking:
  "\<exists>s. reachable (\<lambda>s. s = \<lparr>rc_db = inn, rc_bookings = []\<rparr>) (race_step mem_client quiet) s \<and> \<not> hotel_inv (rc_db s)"
proof -
  let ?R = "reachable (\<lambda>s. s = \<lparr>rc_db = inn, rc_bookings = []\<rparr>) (race_step mem_client quiet)"
  let ?a = "suite_stay ''g1'' 3 5" and ?b = "suite_stay ''g2'' 4 6"
  let ?m = "seed_room ''room-suite-'' SUITE 4 400 0"
  let ?r = "\<lambda>k d. row_of k (new_reservation d ?m)"
  have asks: "ask mem_client quiet None ?a inn = Chosen ?a ?m" "ask mem_client quiet None ?b inn = Chosen ?b ?m"
    by code_simp+
  have w1: "confirm_reservation mem_client quiet None ?a ?m inn =
      (insert_row (?r ''x'' ?a) [] inn, [], Inr (reservation_dto (?r ''x'' ?a) SUITE []))"
    by code_simp
  have w2: "confirm_reservation mem_client quiet None ?b ?m (insert_row (?r ''x'' ?a) [] inn) =
      (insert_row (?r ''xx'' ?b) [] (insert_row (?r ''x'' ?a) [] inn), [],
       Inr (reservation_dto (?r ''xx'' ?b) SUITE []))"
    by code_simp
  let ?d1 = "insert_row (?r ''x'' ?a) [] inn"
  let ?d2 = "insert_row (?r ''xx'' ?b) [] ?d1"
  let ?A = "Answered (Inr (reservation_dto (?r ''x'' ?a) SUITE []))"
  let ?B = "Answered (Inr (reservation_dto (?r ''xx'' ?b) SUITE []))"
  let ?s = "\<lambda>d bs. \<lparr>rc_db = d, rc_bookings = bs\<rparr>"
  have steps: "race_step mem_client quiet (?s inn []) (?s inn [Asked ?a])"
    "race_step mem_client quiet (?s inn [Asked ?a]) (?s inn [Asked ?a, Asked ?b])"
    "race_step mem_client quiet (?s inn [Asked ?a, Asked ?b]) (?s inn [Chosen ?a ?m, Asked ?b])"
    "race_step mem_client quiet (?s inn [Chosen ?a ?m, Asked ?b]) (?s inn [Chosen ?a ?m, Chosen ?b ?m])"
    "race_step mem_client quiet (?s inn [Chosen ?a ?m, Chosen ?b ?m]) (?s ?d1 [?A, Chosen ?b ?m])"
    "race_step mem_client quiet (?s ?d1 [?A, Chosen ?b ?m]) (?s ?d2 [?A, ?B])"
    using race_step.arrive [of mem_client quiet "?s inn []" ?a] race_step.arrive [of mem_client quiet "?s inn [Asked ?a]" ?b]
      race_step.choose [of 0 "?s inn [Asked ?a, Asked ?b]" ?a mem_client quiet]
      race_step.choose [of 1 "?s inn [Chosen ?a ?m, Asked ?b]" ?b mem_client quiet] asks
      race_step.persist [of 0 "?s inn [Chosen ?a ?m, Chosen ?b ?m]" ?a ?m mem_client quiet, simplified, OF w1]
      race_step.persist [of 1 "?s ?d1 [?A, Chosen ?b ?m]" ?b ?m mem_client quiet, simplified, OF w2]
    by simp_all
  have "?R (?s inn [])" by (rule reachable.start) simp
  then have "?R (?s ?d2 [?A, ?B])"
    using steps by (meson reachable.next_step)
  moreover have "\<not> hotel_inv (insert_row (?r ''xx'' ?b) [] (insert_row (?r ''x'' ?a) [] inn))" by code_simp
  ultimately show ?thesis by force
qed

text \<open>
  The capacity check looks at the party, the occupancy at the guest count: a valid request
  for fifty guests with a party of one is confirmed in a room for four, and the room list then
  shows fifty current guests there.
\<close>

theorem capacity_not_enforced:
  "let dto = (suite_stay ''g1'' 3 5)\<lparr>dto_guest_count := 50, dto_party_guest_ids := Some [''g1'']\<rparr>;
       (db, fx, result) = create mem_client quiet None dto inn
   in dto_valid dto \<and> findAll mem_client (Some 3) db = Inr [listed 0 50, listed 1 0]"
  by code_simp

text \<open>
  Back-to-back stays are refused: with one suite booked for days 3 to 5, the room list of day 5
  shows it empty, and a request for days 5 to 7 is still refused.
\<close>

theorem back_to_back_refused:
  "let one_suite = booked_inn\<lparr>tb_rooms := [seed_room ''room-suite-'' SUITE 4 400 0]\<rparr>
   in hotel_inv one_suite \<and> findAll mem_client (Some 5) one_suite = Inr [listed 0 0] \<and>
      snd (snd (create mem_client quiet None (suite_stay ''g2'' 5 7) one_suite))
        = Inl (HttpException 409 ''No available rooms of type SUITE for days 5-7'')"
  by code_simp

end
