(* ===== verification/Ui_Api.thy ===== *)
theory Ui_Api
  imports Zod
begin

text \<open>
  The HTTP layer of the web application (\<^verbatim>\<open>lib/api-client.ts\<close>) and its configuration
  (\<^verbatim>\<open>config/env.ts\<close>). A client function describes a request as data: the schema of its answer and
  the configuration it passes to the HTTP library, which is a parameter, as the schema library is.
\<close>

section \<open>String(value)\<close>

fun num_text :: "(rat \<Rightarrow> string) \<Rightarrow> jsnum \<Rightarrow> string" where
  "num_text numstr (Fin q) = numstr q"
| "num_text numstr NaN = ''NaN''"
| "num_text numstr PosInf = ''Infinity''"
| "num_text numstr NegInf = ''-Infinity''"

text \<open>An array prints its elements separated by commas, null and undefined ones as nothing.\<close>

fun js_String :: "(rat \<Rightarrow> string) \<Rightarrow> jsval \<Rightarrow> string" where
  "js_String numstr JUndefined = ''undefined''"
| "js_String numstr JNull = ''null''"
| "js_String numstr (JBool b) = (if b then ''true'' else ''false'')"
| "js_String numstr (JNum n) = num_text numstr n"
| "js_String numstr (JStr s) = s"
| "js_String numstr (JArr vs) =
     js_join '','' (map (\<lambda>v. if v = JUndefined \<or> v = JNull then [] else js_String numstr v) vs)"
| "js_String numstr (JObj ob) = ''[object Object]''"

section \<open>Error messages\<close>

text \<open>The empty string is falsy: \<^verbatim>\<open>s || null\<close>.\<close>

definition non_empty :: "string \<Rightarrow> string option" where
  "non_empty s = (if s = [] then None else Some s)"

fun error_part :: "(rat \<Rightarrow> string) \<Rightarrow> jsval \<Rightarrow> string" where
  "error_part numstr (JObj ob) =
     (if has_key ''msg'' ob then js_String numstr (jget ob ''msg'') else js_String numstr (JObj ob))"
| "error_part numstr v = js_String numstr v"

fun extractField :: "(rat \<Rightarrow> string) \<Rightarrow> jsval \<Rightarrow> string option" where
  "extractField numstr (JStr s) = non_empty s"
| "extractField numstr (JArr vs) = non_empty (js_join ''; '' (map (error_part numstr) vs))"
| "extractField numstr _ = None"

definition first_field :: "(rat \<Rightarrow> string) \<Rightarrow> jsobj \<Rightarrow> string option" where
  "first_field numstr ob =
     (case extractField numstr (jget ob ''detail'') of
        Some f \<Rightarrow> Some f
      | None \<Rightarrow>
          (case extractField numstr (jget ob ''message'') of
             Some f \<Rightarrow> Some f
           | None \<Rightarrow> extractField numstr (jget ob ''error'')))"

definition or_default :: "string \<Rightarrow> string" where
  "or_default fallback = (if fallback = [] then ''Request failed'' else fallback)"

fun getErrorMessage :: "(rat \<Rightarrow> string) \<Rightarrow> jsval \<Rightarrow> string \<Rightarrow> string" where
  "getErrorMessage numstr (JObj ob) fallback =
     (case first_field numstr ob of Some field \<Rightarrow> field | None \<Rightarrow> or_default fallback)"
| "getErrorMessage numstr (JStr s) fallback = (if s = [] then or_default fallback else s)"
| "getErrorMessage numstr _ fallback = or_default fallback"

section \<open>Requests\<close>

record axios_config =
  ax_url :: string
  ax_method :: "string option"
  ax_data :: jsval
  ax_headers :: "(string \<times> string) list option"

text \<open>
  What the HTTP library throws: an error of its own, with the body of the response if there was
  one, or anything else.
\<close>

datatype axios_failure = AxiosError string "jsval option" | OtherFailure string

datatype api_error = ApiError string | ValidationError "zissue list" | Rethrown string

record api_request =
  aq_base :: string
  aq_schema :: zschema
  aq_config :: axios_config

definition api_send ::
  "(zschema \<Rightarrow> jsval \<Rightarrow> zresult) \<Rightarrow> (rat \<Rightarrow> string) \<Rightarrow> (string \<Rightarrow> axios_config \<Rightarrow> axios_failure + jsval)
    \<Rightarrow> string \<Rightarrow> api_request \<Rightarrow> api_error + jsval" where
  "api_send safeParse numstr axios gatewayUrl req =
     (case axios (gatewayUrl @ aq_base req) (aq_config req) of
        Inr data \<Rightarrow>
          (case safeParse (aq_schema req) data of
             ZSuccess value \<Rightarrow> Inr value
           | ZFailure issues \<Rightarrow> Inl (ValidationError issues))
      | Inl (AxiosError message body) \<Rightarrow>
          Inl (ApiError (getErrorMessage numstr (nullish body JUndefined) message))
      | Inl (OtherFailure message) \<Rightarrow> Inl (Rethrown message))"

definition api_get :: "string \<Rightarrow> zschema \<Rightarrow> string \<Rightarrow> (string \<times> string) list option \<Rightarrow> api_request" where
  "api_get basePath schema url headers =
     \<lparr>aq_base = basePath, aq_schema = schema,
      aq_config = \<lparr>ax_url = url, ax_method = None, ax_data = JUndefined, ax_headers = headers\<rparr>\<rparr>"

definition api_post :: "string \<Rightarrow> zschema \<Rightarrow> string \<Rightarrow> jsval \<Rightarrow> (string \<times> string) list option \<Rightarrow> api_request" where
  "api_post basePath schema url data headers =
     \<lparr>aq_base = basePath, aq_schema = schema,
      aq_config = \<lparr>ax_url = url, ax_method = Some ''POST'', ax_data = data, ax_headers = headers\<rparr>\<rparr>"

definition api_delete :: "string \<Rightarrow> zschema \<Rightarrow> string \<Rightarrow> (string \<times> string) list option \<Rightarrow> api_request" where
  "api_delete basePath schema url headers =
     \<lparr>aq_base = basePath, aq_schema = schema,
      aq_config = \<lparr>ax_url = url, ax_method = Some ''DELETE'', ax_data = JUndefined, ax_headers = headers\<rparr>\<rparr>"

definition api_airport :: string where "api_airport = ''/api/airport''"
definition api_beach :: string where "api_beach = ''/api/beach''"
definition api_crab :: string where "api_crab = ''/api/crab''"
definition api_goatFarm :: string where "api_goatFarm = ''/api/goat-farm''"
definition api_hotel :: string where "api_hotel = ''/api/hotel''"
definition api_parrot :: string where "api_parrot = ''/api/parrot''"
definition api_broadcast :: string where "api_broadcast = ''/api/broadcast''"

section \<open>config/env.ts\<close>

text \<open>
  A variable of the build is a string or absent. A coerced number is what \<^verbatim>\<open>Number(value)\<close> gives (the
  parameter), and falls back when it is not a positive number (an integer, for the first).
\<close>

record ui_env =
  ev_gatewayUrl :: string
  ev_mock :: bool
  ev_adminPasscode :: string
  ev_trafficGeneratorEnabled :: bool
  ev_parrotChatCooldownMs :: rat
  ev_simulationStartTime :: string
  ev_gameSpeed :: rat
  ev_feToken :: string

fun positive_or :: "bool \<Rightarrow> rat \<Rightarrow> jsnum \<Rightarrow> rat" where
  "positive_or int_only d (Fin q) = (if 0 < q \<and> (int_only \<longrightarrow> is_safe_int (Fin q)) then q else d)"
| "positive_or int_only d _ = d"

definition parse_env :: "(string option \<Rightarrow> jsnum) \<Rightarrow> (string \<Rightarrow> string option) \<Rightarrow> ui_env" where
  "parse_env Number_of vars =
     \<lparr>ev_gatewayUrl = nullish (vars ''VITE_GATEWAY_URL'') [],
      ev_mock = (nullish (vars ''VITE_MOCK'') ''false'' = ''true''),
      ev_adminPasscode = nullish (vars ''VITE_ADMIN_PASSCODE'') [],
      ev_trafficGeneratorEnabled = (nullish (vars ''VITE_TRAFFIC_GENERATOR'') ''on'' \<noteq> ''off''),
      ev_parrotChatCooldownMs = positive_or True 30000 (Number_of (vars ''VITE_PARROT_CHAT_COOLDOWN_MS'')),
      ev_simulationStartTime = nullish (vars ''VITE_SIMULATION_START_TIME'') ''2026-06-20T00:00:00Z'',
      ev_gameSpeed = positive_or False 300 (Number_of (vars ''VITE_GAME_SPEED'')),
      ev_feToken = nullish (vars ''VITE_FE_TOKEN'') []\<rparr>"

section \<open>Facts\<close>

lemma non_empty_Some [simp]: "non_empty s = Some t \<longleftrightarrow> s = t \<and> t \<noteq> []"
  by (auto simp: non_empty_def)

lemma extractField_nonempty: "extractField numstr v = Some t \<Longrightarrow> t \<noteq> []"
  by (cases v) auto

lemma first_field_nonempty: "first_field numstr ob = Some t \<Longrightarrow> t \<noteq> []"
  by (auto simp: first_field_def dest: extractField_nonempty split: option.splits)

lemma getErrorMessage_nonempty: "getErrorMessage numstr v fallback \<noteq> []"
  by (cases v) (auto simp: or_default_def dest: first_field_nonempty split: option.split)

lemma positive_or_pos: "0 < d \<Longrightarrow> 0 < positive_or b d n"
  by (cases n) auto

context zod
begin

text \<open>An answer that reaches the application has been read by the schema of its request.\<close>

lemma api_send_Inr:
  assumes "api_send safeParse numstr axios gatewayUrl req = Inr v"
  shows "\<exists>data. axios (gatewayUrl @ aq_base req) (aq_config req) = Inr data \<and> zod_reads (aq_schema req) data = Some v"
  using assms by (auto simp: api_send_def parse_success_iff split: sum.splits axios_failure.splits zresult.splits)

end

end
