(* ===== verification/Ui_Events.thy ===== *)
theory Ui_Events
  imports Zod Json
begin

text \<open>
  The live feed of the web application: the event type and its schema
  (\<^verbatim>\<open>types/broadcast.ts\<close>), the store that keeps the newest events of every channel
  (\<^verbatim>\<open>stores/events-store.ts\<close>), the map zones that show them (\<^verbatim>\<open>features/map\<close>) and the reading of
  island events (\<^verbatim>\<open>features/broadcast/lib/island-event.ts\<close>). A random identifier is an argument of
  the operation that draws it.
\<close>

section \<open>types/broadcast.ts\<close>

datatype Channel = AirportCh | HotelCh | BeachCh | CrabCh | ParrotCh | BroadcastCh | ResortWideCh

fun ui_channel_str :: "Channel \<Rightarrow> string" where
  "ui_channel_str AirportCh = ''airport''"
| "ui_channel_str HotelCh = ''hotel''"
| "ui_channel_str BeachCh = ''beach''"
| "ui_channel_str CrabCh = ''crab''"
| "ui_channel_str ParrotCh = ''parrot''"
| "ui_channel_str BroadcastCh = ''broadcast''"
| "ui_channel_str ResortWideCh = ''resort-wide''"

definition UI_CHANNELS :: "Channel list" where
  "UI_CHANNELS = [AirportCh, HotelCh, BeachCh, CrabCh, ParrotCh, BroadcastCh, ResortWideCh]"

definition BroadcastEventSchema :: zschema where
  "BroadcastEventSchema = ZObject False
     [(''id'', ZString []),
      (''channel'', ZEnum (map ui_channel_str UI_CHANNELS)),
      (''event_type'', ZString []),
      (''message'', ZString []),
      (''sender'', ZString []),
      (''guest_id'', ZOptional (ZString [])),
      (''guest_name'', ZOptional (ZString [])),
      (''data'', ZOptional (ZRecord ZUnknown))]"

text \<open>
  The inferred type. The identifier of an island event is copied without a check, so it is any
  value.
\<close>

record BroadcastEvent =
  be_id :: jsval
  be_channel :: Channel
  be_event_type :: string
  be_message :: string
  be_sender :: string
  be_guest_id :: "string option"
  be_guest_name :: "string option"
  be_data :: "jsobj option"

text \<open>A validated object as a value of that type.\<close>

definition channel_of :: "string \<Rightarrow> Channel option" where
  "channel_of s = List.find (\<lambda>c. ui_channel_str c = s) UI_CHANNELS"

definition broadcast_event_of :: "jsobj \<Rightarrow> BroadcastEvent" where
  "broadcast_event_of ob =
     \<lparr>be_id = jget ob ''id'',
      be_channel = nullish (Option.bind (as_string (jget ob ''channel'')) channel_of) AirportCh,
      be_event_type = nullish (as_string (jget ob ''event_type'')) [],
      be_message = nullish (as_string (jget ob ''message'')) [],
      be_sender = nullish (as_string (jget ob ''sender'')) [],
      be_guest_id = as_string (jget ob ''guest_id''),
      be_guest_name = as_string (jget ob ''guest_name''),
      be_data = as_obj (jget ob ''data'')\<rparr>"

section \<open>stores/events-store.ts\<close>

definition MAX_EVENTS :: nat where "MAX_EVENTS = 100"

definition ADMIN_ANNOUNCEMENT_EVENT_TYPE :: string where
  "ADMIN_ANNOUNCEMENT_EVENT_TYPE = ''admin.announcement''"

record EventsState =
  es_events :: "Channel \<Rightarrow> BroadcastEvent list"
  es_activityTick :: "Channel \<Rightarrow> nat"

definition createEmptyChannelEvents :: "Channel \<Rightarrow> BroadcastEvent list" where
  "createEmptyChannelEvents = (\<lambda>_. [])"

definition createEmptyActivityTicks :: "Channel \<Rightarrow> nat" where
  "createEmptyActivityTicks = (\<lambda>_. 0)"

definition initial_events :: EventsState where
  "initial_events = \<lparr>es_events = createEmptyChannelEvents, es_activityTick = createEmptyActivityTicks\<rparr>"

definition prependEvent :: "BroadcastEvent list \<Rightarrow> BroadcastEvent \<Rightarrow> BroadcastEvent list" where
  "prependEvent events event =
     (let next = event # events in if length next > MAX_EVENTS then take MAX_EVENTS next else next)"

text \<open>The copy of an event for another bucket, under a fresh identifier.\<close>

definition copy_for :: "string \<Rightarrow> Channel \<Rightarrow> BroadcastEvent \<Rightarrow> BroadcastEvent" where
  "copy_for uuid channel event = event\<lparr>be_id := JStr uuid, be_channel := channel\<rparr>"

text \<open>
  \<open>uuid c\<close> is the identifier drawn for the copy in bucket \<open>c\<close>. The loop over all channels reads the
  buckets of the state it started from.
\<close>

definition fan_out ::
  "(Channel \<Rightarrow> string) \<Rightarrow> BroadcastEvent \<Rightarrow> EventsState \<Rightarrow> Channel list \<Rightarrow> EventsState" where
  "fan_out uuid event state channels =
     foldl (\<lambda>nxt channel.
       nxt\<lparr>es_events := (es_events nxt)(channel := prependEvent (es_events state channel) (copy_for (uuid channel) channel event)),
           es_activityTick := (es_activityTick nxt)(channel := es_activityTick state channel + 1)\<rparr>)
       state channels"

definition ingestEvent ::
  "(Channel \<Rightarrow> string) \<Rightarrow> BroadcastEvent \<Rightarrow> bool option \<Rightarrow> EventsState \<Rightarrow> EventsState" where
  "ingestEvent uuid event mirrorToResortWide state =
     (if be_event_type event = ADMIN_ANNOUNCEMENT_EVENT_TYPE
      then fan_out uuid event state UI_CHANNELS
      else
        (let nextEvents = (es_events state)(be_channel event := prependEvent (es_events state (be_channel event)) event);
             nextActivityTick = (es_activityTick state)(be_channel event := es_activityTick state (be_channel event) + 1);
             shouldMirrorToResortWide = (mirrorToResortWide = Some True \<and> be_channel event \<noteq> ResortWideCh)
         in if shouldMirrorToResortWide
            then
              (let mirroredEvent = copy_for (uuid ResortWideCh) ResortWideCh event
               in state\<lparr>es_events := nextEvents(ResortWideCh := prependEvent (es_events state ResortWideCh) mirroredEvent),
                        es_activityTick := nextActivityTick(ResortWideCh := es_activityTick state ResortWideCh + 1)\<rparr>)
            else state\<lparr>es_events := nextEvents, es_activityTick := nextActivityTick\<rparr>))"

definition clearEvents :: "Channel \<Rightarrow> EventsState \<Rightarrow> EventsState" where
  "clearEvents channel state = state\<lparr>es_events := (es_events state)(channel := [])\<rparr>"

text \<open>The store as a machine over the calls of its two actions.\<close>

datatype store_call =
    Ingest "Channel \<Rightarrow> string" BroadcastEvent "bool option"
  | Clear Channel

fun store_step :: "EventsState \<Rightarrow> store_call \<Rightarrow> EventsState" where
  "store_step s (Ingest uuid event mirror) = ingestEvent uuid event mirror s"
| "store_step s (Clear channel) = clearEvents channel s"

section \<open>features/map: the zones\<close>

datatype ZoneId = AirportZone | HotelZone | BeachZone | CrabZone | ParrotZone | BroadcastZone

fun zone_str :: "ZoneId \<Rightarrow> string" where
  "zone_str AirportZone = ''airport''"
| "zone_str HotelZone = ''hotel''"
| "zone_str BeachZone = ''beach''"
| "zone_str CrabZone = ''crab''"
| "zone_str ParrotZone = ''parrot''"
| "zone_str BroadcastZone = ''broadcast''"

text \<open>A zone without its icon and artwork.\<close>

record ZoneDefinition =
  zn_id :: ZoneId
  zn_label :: string
  zn_description :: string
  zn_adminDescription :: string
  zn_channel :: Channel
  zn_position :: "int \<times> int"
  zn_accent :: string
  zn_markerScale :: rat

fun ZONE_REGISTRY :: "ZoneId \<Rightarrow> ZoneDefinition" where
  "ZONE_REGISTRY AirportZone =
     \<lparr>zn_id = AirportZone, zn_label = ''Airport'',
      zn_description = ''Join the departure queue and clear passport control. You can't check in anywhere until you've landed.'',
      zn_adminDescription = ''Observe airport arrivals, queue movement, and passport-control events.'',
      zn_channel = AirportCh, zn_position = (1600, 320), zn_accent = ''#38bdf8'', zn_markerScale = 2\<rparr>"
| "ZONE_REGISTRY HotelZone =
     \<lparr>zn_id = HotelZone, zn_label = ''Hotel'',
      zn_description = ''Reserve a room for your stay. The hotel checks you've cleared the airport first.'',
      zn_adminDescription = ''Observe hotel room, reservation, and cancellation events.'',
      zn_channel = HotelCh, zn_position = (1720, 900), zn_accent = ''#34d399'', zn_markerScale = 165 / 100\<rparr>"
| "ZONE_REGISTRY BeachZone =
     \<lparr>zn_id = BeachZone, zn_label = ''Beach'',
      zn_description = ''Browse activities and grab a spot. Each has limited capacity and guests can only join one at a time.'',
      zn_adminDescription = ''Observe beach activity capacity, booking, and cancellation events.'',
      zn_channel = HotelCh, zn_position = (580, 1400), zn_accent = ''#fbbf24'', zn_markerScale = 1\<rparr>"
| "ZONE_REGISTRY CrabZone =
     \<lparr>zn_id = CrabZone, zn_label = ''The Crusty Crab'',
      zn_description = ''Order a Krabby Patty and other island eats from Mr. Crab. Some items are limited and sell out for the day!'',
      zn_adminDescription = ''Observe Crusty Crab orders and sold-out events.'',
      zn_channel = CrabCh, zn_position = (1080, 1240), zn_accent = ''#ef4444'', zn_markerScale = 18 / 10\<rparr>"
| "ZONE_REGISTRY ParrotZone =
     \<lparr>zn_id = ParrotZone, zn_label = ''Parrot'',
      zn_description = ''Chat with the resort's AI parrot for island guidance, recommendations, and quick answers.'',
      zn_adminDescription = ''Observe the AI parrot's activity: chat volume, tool usage, and conversation transcripts.'',
      zn_channel = ParrotCh, zn_position = (2380, 1560), zn_accent = ''#a78bfa'', zn_markerScale = 1\<rparr>"
| "ZONE_REGISTRY BroadcastZone =
     \<lparr>zn_id = BroadcastZone, zn_label = ''Lighhouse'',
      zn_description = ''Resort-wide announcements broadcast to every guest on the island.'',
      zn_adminDescription = ''Observe the full island-wide event stream from every service.'',
      zn_channel = ResortWideCh, zn_position = (375, 890), zn_accent = ''#22d3ee'', zn_markerScale = 2\<rparr>"

definition getZone :: "ZoneId \<Rightarrow> ZoneDefinition" where
  [simp]: "getZone i = ZONE_REGISTRY i"

definition useZoneEvents :: "ZoneId \<Rightarrow> EventsState \<Rightarrow> BroadcastEvent list" where
  "useZoneEvents zoneId s = es_events s (zn_channel (getZone zoneId))"

definition useZoneActivityTick :: "ZoneId \<Rightarrow> EventsState \<Rightarrow> nat" where
  "useZoneActivityTick zoneId s = es_activityTick s (zn_channel (getZone zoneId))"

section \<open>island-event.ts\<close>

record BeachAvailabilityPayload =
  bp_activityId :: string
  bp_activityName :: "string option"
  bp_capacity :: "jsnum option"
  bp_remaining :: rat

definition BEACH_ACTIVITY_EVENT_TYPES :: "string list" where
  "BEACH_ACTIVITY_EVENT_TYPES = [''beach.activity_full'', ''beach.activity_available'']"

text \<open>A value of type number that is finite, \<^verbatim>\<open>typeof x === "number"\<close> and \<^verbatim>\<open>Number.isFinite(x)\<close>.\<close>

fun finite_number :: "jsval \<Rightarrow> rat option" where
  "finite_number (JNum (Fin q)) = Some q"
| "finite_number _ = None"

fun as_number :: "jsval \<Rightarrow> jsnum option" where
  "as_number (JNum n) = Some n"
| "as_number _ = None"

text \<open>An array is an object too; it has none of the properties that are read.\<close>

fun getPayloadObject :: "jsval \<Rightarrow> jsobj option" where
  "getPayloadObject (JObj ob) = Some ob"
| "getPayloadObject (JArr vs) = Some []"
| "getPayloadObject _ = None"

definition normalizeBeachEvent :: "jsobj \<Rightarrow> BroadcastEvent option" where
  "normalizeBeachEvent event =
     (case as_string (jget event ''type'') of
        None \<Rightarrow> None
      | Some ty \<Rightarrow>
          if ty \<notin> set BEACH_ACTIVITY_EVENT_TYPES then None
          else (case getPayloadObject (jget event ''payload'') of
                  None \<Rightarrow> None
                | Some payload \<Rightarrow>
                    (case (as_string (jget payload ''activityId''), finite_number (jget payload ''remaining'')) of
                       (Some activityId, Some remaining) \<Rightarrow>
                         (let activityName = nullish (as_string (jget payload ''activityName'')) activityId
                          in Some \<lparr>be_id = jget event ''id'',
                               be_channel = BeachCh,
                               be_event_type = ty,
                               be_message = (if ty = ''beach.activity_full'' then activityName @ '' is now full.''
                                 else ''A space opened up for '' @ activityName @ ''.''),
                               be_sender = ''beach-service'',
                               be_guest_id = None,
                               be_guest_name = None,
                               be_data = Some [(''activityId'', JStr activityId), (''activityName'', JStr activityName),
                                 (''capacity'', jget payload ''capacity''), (''remaining'', JNum (Fin remaining))]\<rparr>)
                     | _ \<Rightarrow> None)))"

text \<open>\<^verbatim>\<open>event.source\<close> of a value that JSON.parse returned; the exception of null is caught by the caller.\<close>

definition normalizeIslandEvent :: "jsval \<Rightarrow> BroadcastEvent option" where
  "normalizeIslandEvent event =
     (case member event ''source'' of
        None \<Rightarrow> None
      | Some source \<Rightarrow>
          if source = JStr ''beach'' then Option.bind (as_obj event) normalizeBeachEvent else None)"

definition parseIslandEventMessage :: "(string \<Rightarrow> jsnum) \<Rightarrow> string \<Rightarrow> BroadcastEvent option" where
  "parseIslandEventMessage numval data = Option.bind (JSON_parse numval data) normalizeIslandEvent"

definition getBeachAvailabilityPayload :: "BroadcastEvent \<Rightarrow> BeachAvailabilityPayload option" where
  "getBeachAvailabilityPayload event =
     (if be_channel event \<noteq> BeachCh \<or> be_event_type event \<notin> set BEACH_ACTIVITY_EVENT_TYPES then None
      else (case be_data event of
              None \<Rightarrow> None
            | Some data \<Rightarrow>
                (case (as_string (jget data ''activityId''), finite_number (jget data ''remaining'')) of
                   (Some activityId, Some remaining) \<Rightarrow>
                     Some \<lparr>bp_activityId = activityId,
                           bp_activityName = as_string (jget data ''activityName''),
                           bp_capacity = as_number (jget data ''capacity''),
                           bp_remaining = remaining\<rparr>
                 | _ \<Rightarrow> None)))"

text \<open>\<^verbatim>\<open>Activity\<close> of \<^verbatim>\<open>features/beach/types.ts\<close>; a null or absent description is \<open>None\<close>.\<close>

record Activity =
  ac_activity_id :: string
  ac_activity_name :: string
  ac_description :: "string option"
  ac_capacity :: rat
  ac_remaining :: rat

definition updateActivitiesFromBeachEvent ::
  "Activity list \<Rightarrow> BeachAvailabilityPayload \<Rightarrow> Activity list" where
  "updateActivitiesFromBeachEvent activities payload =
     map (\<lambda>activity. if ac_activity_id activity = bp_activityId payload
        then activity\<lparr>ac_remaining := bp_remaining payload\<rparr> else activity) activities"

section \<open>What the store keeps\<close>

text \<open>
  The specification: an ingested event is delivered to its own bucket, to every bucket when it is
  an admin announcement, and as a copy to the resort-wide bucket when that is asked for. The feed
  of a channel is everything delivered to it since it was last cleared, newest first.
\<close>

fun delivered :: "Channel \<Rightarrow> store_call \<Rightarrow> BroadcastEvent list" where
  "delivered c (Clear channel) = []"
| "delivered c (Ingest uuid event mirror) =
     (if be_event_type event = ADMIN_ANNOUNCEMENT_EVENT_TYPE then [copy_for (uuid c) c event]
      else if be_channel event = c then [event]
      else if mirror = Some True \<and> c = ResortWideCh then [copy_for (uuid c) c event]
      else [])"

fun feed_step :: "Channel \<Rightarrow> BroadcastEvent list \<Rightarrow> store_call \<Rightarrow> BroadcastEvent list" where
  "feed_step c past (Clear channel) = (if channel = c then [] else past)"
| "feed_step c past call = delivered c call @ past"

definition feed :: "Channel \<Rightarrow> store_call list \<Rightarrow> BroadcastEvent list" where
  "feed c calls = run (feed_step c) [] calls"

lemma prependEvent_take: "prependEvent events event = take MAX_EVENTS (event # events)"
  by (simp add: prependEvent_def Let_def)

lemma take_prepend: "prependEvent (take MAX_EVENTS events) event = take MAX_EVENTS (event # events)"
  by (simp add: prependEvent_take MAX_EVENTS_def take_Cons' min_def)

lemma UI_CHANNELS_all [simp]: "c \<in> set UI_CHANNELS"
  by (cases c) (simp_all add: UI_CHANNELS_def)

lemma fan_out_at:
  assumes "c \<in> set cs \<or> es_events nxt c = f c \<and> es_activityTick nxt c = g c"
  shows "es_events (foldl (\<lambda>nxt channel. nxt\<lparr>es_events := (es_events nxt)(channel := f channel),
        es_activityTick := (es_activityTick nxt)(channel := g channel)\<rparr>) nxt cs) c = f c \<and>
     es_activityTick (foldl (\<lambda>nxt channel. nxt\<lparr>es_events := (es_events nxt)(channel := f channel),
        es_activityTick := (es_activityTick nxt)(channel := g channel)\<rparr>) nxt cs) c = g c"
  using assms by (induction cs arbitrary: nxt) auto

lemma fan_out_all:
  "es_events (fan_out uuid event s UI_CHANNELS) c = prependEvent (es_events s c) (copy_for (uuid c) c event)"
  "es_activityTick (fan_out uuid event s UI_CHANNELS) c = es_activityTick s c + 1"
  unfolding fan_out_def
  using fan_out_at [of c UI_CHANNELS s "\<lambda>c. prependEvent (es_events s c) (copy_for (uuid c) c event)"
      "\<lambda>c. es_activityTick s c + 1"]
  by simp_all

text \<open>One call of the store: the bucket is the newest hundred of the feed, the tick counts deliveries.\<close>

lemma store_step_events:
  "es_events s c = take MAX_EVENTS past \<Longrightarrow> es_events (store_step s call) c = take MAX_EVENTS (feed_step c past call)"
  by (cases call) (auto simp: ingestEvent_def clearEvents_def Let_def fan_out_all take_prepend simp del: take_append)

lemma store_step_tick:
  "es_activityTick (store_step s call) c = es_activityTick s c + length (delivered c call)"
  by (cases call) (auto simp: ingestEvent_def clearEvents_def Let_def fan_out_all)

lemma run_store_events:
  "es_events s c = take MAX_EVENTS past \<Longrightarrow>
     es_events (run store_step s calls) c = take MAX_EVENTS (run (feed_step c) past calls)"
proof (induction calls arbitrary: s past)
  case (Cons call calls)
  from Cons.IH [OF store_step_events [OF Cons.prems]] show ?case by simp
qed simp

lemma run_store_tick:
  "es_activityTick (run store_step s calls) c = es_activityTick s c + length (concat (map (delivered c) calls))"
  by (induction calls arbitrary: s) (simp_all add: store_step_tick)

lemma delivered_channel: "event \<in> set (delivered c call) \<Longrightarrow> be_channel event = c"
  by (cases call) (auto simp: copy_for_def split: if_splits)

lemma feed_channel: "event \<in> set (run (feed_step c) past calls) \<Longrightarrow> event \<in> set past \<or> be_channel event = c"
proof (induction calls arbitrary: past)
  case (Cons call calls)
  from Cons.IH [of "feed_step c past call"] Cons.prems show ?case
    using delivered_channel [of event c call] by (cases call) (auto split: if_splits)
qed simp

end
