(* ===== verification/Ui_Clients.thy ===== *)
theory Ui_Clients
  imports Ui_Api Ui_Events
begin

text \<open>
  The schemas of the answers (\<^verbatim>\<open>features/*/types.ts\<close>), the client functions of every service
  (\<^verbatim>\<open>features/*/api\<close>) and the keys of the query cache. A client function is the request it makes;
  a body is the object that is sent.
\<close>

definition z_int :: zschema where "z_int = ZNumber [IsInt]"

section \<open>Guests (types/guest.ts)\<close>

record GuestProfile =
  gp_id :: string
  gp_name :: string
  gp_surname :: string
  gp_age :: int
  gp_passport :: string
  gp_priority :: string
  gp_disability :: bool
  gp_avatar :: string
  gp_personality :: string

section \<open>Airport\<close>

definition ArrivalStatusValue :: zschema where
  "ArrivalStatusValue = ZEnum [''queued'', ''processing'', ''processed'']"

definition PostArrivalRequestSchema :: zschema where
  "PostArrivalRequestSchema = ZObject False
     [(''guest_id'', ZString []), (''name'', ZString []), (''surname'', ZString []),
      (''age'', ZNumber [IsInt, IsPositive]), (''passport_type'', ZEnum [''EU'', ''non-EU'']),
      (''priority'', ZEnum [''standard'', ''fast'']), (''disability'', ZBoolean)]"

definition PostArrivalResponseSchema :: zschema where
  "PostArrivalResponseSchema = ZObject False
     [(''guest_id'', ZString []), (''gate'', ZString []), (''position'', z_int),
      (''queue_size'', z_int), (''queued_at'', ZNumber [])]"

definition ArrivalStatusSchema :: zschema where
  "ArrivalStatusSchema = ZObject False
     [(''guest_id'', ZString []), (''status'', ArrivalStatusValue), (''gate'', ZString []),
      (''position'', ZNullable z_int), (''queued_at'', ZNumber []), (''processed_at'', ZNullable (ZNumber [])),
      (''wait_time_seconds'', ZNullable (ZNumber []))]"

definition QueuedGuestSchema :: zschema where
  "QueuedGuestSchema = ZObject False
     [(''guest_id'', ZString []), (''name'', ZString []), (''surname'', ZString []),
      (''passport_type'', ZEnum [''EU'', ''non-EU'']), (''priority'', ZEnum [''standard'', ''fast'']),
      (''disability'', ZBoolean), (''status'', ArrivalStatusValue), (''gate'', ZString []),
      (''position'', z_int), (''queued_at'', ZNumber []), (''wait_time_seconds'', ZNumber [])]"

definition GateStatusSchema :: zschema where
  "GateStatusSchema = ZObject False
     [(''gate_id'', ZString []), (''gate_type'', ZEnum [''EU'', ''ALL'']), (''queue_size'', z_int),
      (''queue'', ZArray None QueuedGuestSchema)]"

definition QueueResponseSchema :: zschema where
  "QueueResponseSchema = ZObject False
     [(''gates'', ZArray None GateStatusSchema), (''total_queued'', z_int), (''current_game_time'', ZNumber [])]"

definition ArrivalFormSchema :: zschema where "ArrivalFormSchema = PostArrivalRequestSchema"

definition guestToArrivalForm :: "GuestProfile \<Rightarrow> jsval" where
  "guestToArrivalForm guest = JObj
     [(''guest_id'', JStr (gp_id guest)), (''name'', JStr (gp_name guest)), (''surname'', JStr (gp_surname guest)),
      (''age'', jint (gp_age guest)), (''passport_type'', JStr (gp_passport guest)),
      (''priority'', JStr (gp_priority guest)), (''disability'', JBool (gp_disability guest))]"

definition postArrival :: "jsval \<Rightarrow> api_request" where
  "postArrival body = api_post api_airport PostArrivalResponseSchema ''/arrivals'' body None"

definition getArrivalStatus :: "string \<Rightarrow> api_request" where
  "getArrivalStatus guestId = api_get api_airport ArrivalStatusSchema (''/arrivals/'' @ guestId) None"

definition getQueue :: api_request where
  "getQueue = api_get api_airport QueueResponseSchema ''/queue'' None"

definition AIRPORT_ARRIVAL_KEY :: "string list" where "AIRPORT_ARRIVAL_KEY = [''airport'', ''arrival'']"
definition AIRPORT_QUEUE_KEY :: "string list" where "AIRPORT_QUEUE_KEY = [''airport'', ''queue'']"

section \<open>Hotel\<close>

definition ROOM_TYPES :: "string list" where "ROOM_TYPES = [''STANDARD'', ''DELUXE'', ''SUITE'']"

definition RoomTypeSchema :: zschema where "RoomTypeSchema = ZEnum ROOM_TYPES"

definition ROOM_MAX_GUESTS :: "string \<rightharpoonup> int" where
  "ROOM_MAX_GUESTS = map_of [(''STANDARD'', 2), (''DELUXE'', 3), (''SUITE'', 4)]"

definition ROOM_PRICE_PER_NIGHT :: "string \<rightharpoonup> int" where
  "ROOM_PRICE_PER_NIGHT = map_of [(''STANDARD'', 100), (''DELUXE'', 200), (''SUITE'', 400)]"

definition ReservationStatusSchema :: zschema where
  "ReservationStatusSchema = ZEnum [''CONFIRMED'', ''CANCELLED'']"

text \<open>The object part of the schema of a room, and the transformation of a room that was read.\<close>

definition RoomSchema :: zschema where
  "RoomSchema = ZObject False
     [(''id'', ZString []), (''type'', RoomTypeSchema), (''capacity'', z_int), (''price_per_night'', z_int),
      (''current_guests'', z_int)]"

definition room_transform :: "jsobj \<Rightarrow> jsobj" where
  "room_transform room = room @ [(''occupancy'', jget room ''current_guests'')]"

definition RoomsResponseSchema :: zschema where
  "RoomsResponseSchema = ZObject False [(''rooms'', ZArray None RoomSchema)]"

definition ReservationSchema :: zschema where
  "ReservationSchema = ZObject False
     [(''id'', ZString []), (''guest_id'', ZString []), (''room_id'', ZString []), (''room_type'', RoomTypeSchema),
      (''guest_count'', z_int), (''check_in_day'', z_int), (''check_out_day'', z_int),
      (''status'', ReservationStatusSchema)]"

definition PostReservationRequestSchema :: zschema where
  "PostReservationRequestSchema = ZObject False
     [(''guest_id'', ZString []), (''room_type'', RoomTypeSchema), (''guest_count'', ZNumber [IsInt, MinNum 1]),
      (''check_in_day'', ZNumber [IsInt, MinNum 0]), (''check_out_day'', ZNumber [IsInt, MinNum 1])]"

definition CancelReservationResponseSchema :: zschema where
  "CancelReservationResponseSchema = ZObject False [(''id'', ZString []), (''status'', ZLiteral ''CANCELLED'')]"

definition getRooms :: api_request where
  "getRooms = api_get api_hotel RoomsResponseSchema ''/rooms'' None"

definition postReservation :: "jsval \<Rightarrow> api_request" where
  "postReservation body = api_post api_hotel ReservationSchema ''/reservation'' body None"

definition getReservationByGuest :: "string \<Rightarrow> api_request" where
  "getReservationByGuest guestId = api_get api_hotel ReservationSchema (''/reservation/by-guest/'' @ guestId) None"

definition cancelReservation :: "string \<Rightarrow> api_request" where
  "cancelReservation i = api_delete api_hotel CancelReservationResponseSchema (''/reservation/'' @ i) None"

definition HOTEL_RESERVATION_KEY :: "string list" where
  "HOTEL_RESERVATION_KEY = [''hotel'', ''reservation'', ''by-guest'']"
definition HOTEL_ROOMS_KEY :: "string list" where "HOTEL_ROOMS_KEY = [''hotel'', ''rooms'']"

section \<open>Beach\<close>

definition ActivitySchema :: zschema where
  "ActivitySchema = ZObject False
     [(''activity_id'', ZString []), (''activity_name'', ZString []),
      (''description'', ZOptional (ZNullable (ZString []))), (''capacity'', z_int), (''remaining'', z_int)]"

definition ActivitiesResponseSchema :: zschema where
  "ActivitiesResponseSchema = ZObject False [(''activities'', ZArray None ActivitySchema)]"

definition BookActivityResponseSchema :: zschema where
  "BookActivityResponseSchema = ZObject False [(''status'', ZString [])]"

definition CancelActivityResponseSchema :: zschema where
  "CancelActivityResponseSchema = ZObject False [(''status'', ZString [])]"

definition ActivityByGuestResponseSchema :: zschema where
  "ActivityByGuestResponseSchema = ZObject False [(''activity_id'', ZNullable (ZString []))]"

definition RemoveActivityResponseSchema :: zschema where
  "RemoveActivityResponseSchema = ZObject False [(''status'', ZString [])]"

definition getActivities :: api_request where
  "getActivities = api_get api_beach ActivitiesResponseSchema ''/activities'' None"

definition getActivity :: "string \<Rightarrow> api_request" where
  "getActivity activityId = api_get api_beach ActivitySchema (''/activity/'' @ activityId) None"

definition bookActivity :: "string \<Rightarrow> string \<Rightarrow> api_request" where
  "bookActivity activityId guestId =
     api_post api_beach BookActivityResponseSchema (''/activity/book/'' @ activityId) (JObj [(''id'', JStr guestId)]) None"

definition cancelActivity :: "string \<Rightarrow> string \<Rightarrow> api_request" where
  "cancelActivity activityId guestId =
     api_post api_beach CancelActivityResponseSchema (''/activity/cancel/'' @ activityId) (JObj [(''id'', JStr guestId)]) None"

definition getActivityByGuest :: "string \<Rightarrow> api_request" where
  "getActivityByGuest guestId =
     api_get api_beach ActivityByGuestResponseSchema (''/activity/by-guest/'' @ guestId) None"

definition createActivity :: "jsval \<Rightarrow> string \<Rightarrow> api_request" where
  "createActivity body adminSecret =
     api_post api_beach ActivitySchema ''/activity'' body (Some [(''X-Admin-Secret'', adminSecret)])"

definition removeActivity :: "string \<Rightarrow> string \<Rightarrow> api_request" where
  "removeActivity activityId adminSecret =
     api_delete api_beach RemoveActivityResponseSchema (''/activity/'' @ activityId) (Some [(''X-Admin-Secret'', adminSecret)])"

definition BEACH_ACTIVITIES_KEY :: "string list" where "BEACH_ACTIVITIES_KEY = [''beach'', ''activities'']"
definition BEACH_BOOKED_KEY :: "string list" where "BEACH_BOOKED_KEY = [''beach'', ''booked'']"

section \<open>Crab\<close>

definition MenuItemSchema :: zschema where
  "MenuItemSchema = ZObject False
     [(''id'', ZString []), (''name'', ZString []), (''emoji'', ZString []), (''description'', ZString []),
      (''price'', z_int), (''available'', ZBoolean), (''remaining'', ZNullable z_int)]"

definition MenuResponseSchema :: zschema where
  "MenuResponseSchema = ZObject False [(''items'', ZArray None MenuItemSchema), (''game_time'', ZString [])]"

definition OrderLineSchema :: zschema where
  "OrderLineSchema = ZObject False
     [(''item_id'', ZString []), (''name'', ZString []), (''emoji'', ZString []), (''qty'', z_int)]"

definition OrderSchema :: zschema where
  "OrderSchema = ZObject False
     [(''id'', ZString []), (''guest_id'', ZString []), (''guest_name'', ZString []),
      (''items'', ZArray None OrderLineSchema), (''total'', z_int), (''status'', ZString []),
      (''game_time'', ZString []), (''created_at'', ZString [])]"

definition OrdersResponseSchema :: zschema where
  "OrdersResponseSchema = ZObject False [(''orders'', ZArray None OrderSchema)]"

definition getMenu :: api_request where
  "getMenu = api_get api_crab MenuResponseSchema ''/menu'' None"

definition placeOrder :: "string \<Rightarrow> string \<Rightarrow> (string \<times> int) list \<Rightarrow> api_request" where
  "placeOrder guestId guestName items =
     api_post api_crab OrderSchema ''/orders'' (JObj
       [(''guest_id'', JStr guestId), (''guest_name'', JStr guestName),
        (''items'', JArr (map (\<lambda>(item_id, qty). JObj [(''item_id'', JStr item_id), (''qty'', jint qty)]) items))]) None"

definition getGuestOrders :: "string \<Rightarrow> api_request" where
  "getGuestOrders guestId = api_get api_crab OrdersResponseSchema (''/orders?guest_id='' @ guestId) None"

definition crab_menu_key :: "string list" where "crab_menu_key = [''crab'', ''menu'']"
definition crab_orders_key :: "string \<Rightarrow> string list" where "crab_orders_key guestId = [''crab'', ''orders'', guestId]"

section \<open>Goat farm\<close>

definition GoatStockItemSchema :: zschema where
  "GoatStockItemSchema = ZObject False
     [(''id'', ZString []), (''name'', ZString []), (''stock'', z_int), (''max_stock'', z_int)]"

definition GoatStockResponseSchema :: zschema where
  "GoatStockResponseSchema = ZObject False
     [(''items'', ZArray None GoatStockItemSchema), (''next_restock_at'', ZString []), (''seconds_until_restock'', z_int)]"

definition GoatPurchaseSchema :: zschema where
  "GoatPurchaseSchema = ZObject False
     [(''purchase_id'', ZString []), (''guest_id'', ZString []), (''item_id'', ZString []), (''item_name'', ZString []),
      (''remaining_stock'', z_int), (''purchased_at'', ZString []), (''next_restock_at'', ZString []),
      (''seconds_until_restock'', z_int)]"

definition getGoatFarmStock :: api_request where
  "getGoatFarmStock = api_get api_goatFarm GoatStockResponseSchema ''/stock'' None"

definition buyGoatFarmItem :: "string \<Rightarrow> string \<Rightarrow> api_request" where
  "buyGoatFarmItem guestId itemId =
     api_post api_goatFarm GoatPurchaseSchema ''/purchase''
       (JObj [(''guest_id'', JStr guestId), (''item_id'', JStr itemId)]) None"

definition goat_stock_key :: "string list" where "goat_stock_key = [''goat-farm'', ''stock'']"

section \<open>Parrot\<close>

definition ParrotMessageRoleSchema :: zschema where
  "ParrotMessageRoleSchema = ZEnum [''user'', ''assistant'']"

definition ChatHistoryMessageSchema :: zschema where
  "ChatHistoryMessageSchema = ZObject False
     [(''content'', ZNullable (ZString [])), (''role'', ParrotMessageRoleSchema)]"

definition ChatHistoryResponseSchema :: zschema where
  "ChatHistoryResponseSchema = ZObject False
     [(''guest_id'', ZString []), (''messages'', ZArray None ChatHistoryMessageSchema)]"

definition PostChatResponseSchema :: zschema where
  "PostChatResponseSchema = ZObject False [(''reply'', ZString [])]"

definition ToolCallCountsSchema :: zschema where
  "ToolCallCountsSchema = ZRecord (ZNumber [])"

definition AdminMetricsResponseSchema :: zschema where
  "AdminMetricsResponseSchema = ZObject False
     [(''total_conversations'', ZNumber []), (''max_conversations'', ZNumber []), (''total_messages'', ZNumber []),
      (''total_user_turns'', ZNumber []), (''total_assistant_turns'', ZNumber []), (''tool_calls_total'', ZNumber []),
      (''tool_calls_by_name'', ToolCallCountsSchema), (''tool_errors_total'', ZNumber []),
      (''fallback_total'', ZNumber []), (''censored_messages_total'', ZNumber []),
      (''conversations_with_fallback'', ZNumber []), (''conversations_with_tool_error'', ZNumber []),
      (''conversations_with_censored'', ZNumber [])]"

definition conversation_stats_fields :: "(string \<times> zschema) list" where
  "conversation_stats_fields =
     [(''turns'', ZNumber []), (''censored_count'', ZNumber []), (''total_messages'', ZNumber []),
      (''assistant_turns'', ZNumber []), (''tool_calls_by_name'', ToolCallCountsSchema),
      (''tool_calls_total'', ZNumber []), (''tool_errors'', ZNumber []), (''fallback_count'', ZNumber []),
      (''has_censored'', ZBoolean), (''has_fallback'', ZBoolean), (''has_tool_error'', ZBoolean)]"

definition ConversationStatsSchema :: zschema where
  "ConversationStatsSchema = ZObject False conversation_stats_fields"

definition ConversationSummarySchema :: zschema where
  "ConversationSummarySchema = ZObject False
     (conversation_stats_fields @ [(''guest_id'', ZString []), (''last_accessed'', ZNumber [])])"

definition ConversationsListResponseSchema :: zschema where
  "ConversationsListResponseSchema = ZObject False
     [(''count'', ZNumber []), (''conversations'', ZArray None ConversationSummarySchema)]"

definition TranscriptToolCallSchema :: zschema where
  "TranscriptToolCallSchema = ZObject False
     [(''id'', ZNullable (ZString [])), (''name'', ZNullable (ZString [])), (''arguments'', ZNullable (ZString []))]"

definition TranscriptEntrySchema :: zschema where
  "TranscriptEntrySchema = ZObject False
     [(''role'', ZEnum [''user'', ''assistant'', ''tool'']), (''content'', ZNullable (ZString [])),
      (''tool_calls'', ZOptional (ZArray None TranscriptToolCallSchema)),
      (''name'', ZOptional (ZNullable (ZString []))), (''tool_call_id'', ZOptional (ZString []))]"

definition ConversationTranscriptResponseSchema :: zschema where
  "ConversationTranscriptResponseSchema = ZObject False
     [(''guest_id'', ZString []), (''last_accessed'', ZNumber []), (''summary'', ConversationStatsSchema),
      (''transcript'', ZArray None TranscriptEntrySchema)]"

definition getChatHistory :: "string \<Rightarrow> api_request" where
  "getChatHistory guestId = api_get api_parrot ChatHistoryResponseSchema (''/history/'' @ guestId) None"

definition postChat :: "string \<Rightarrow> string \<Rightarrow> api_request" where
  "postChat guestId message =
     api_post api_parrot PostChatResponseSchema ''/chat'' (JObj [(''guest_id'', JStr guestId), (''message'', JStr message)]) None"

definition adminHeaders :: "ui_env \<Rightarrow> (string \<times> string) list" where
  "adminHeaders env =
     (if ev_adminPasscode env = [] then [] else [(''X-Admin-Passcode'', ev_adminPasscode env)])"

definition getAdminMetrics :: "ui_env \<Rightarrow> api_request" where
  "getAdminMetrics env = api_get api_parrot AdminMetricsResponseSchema ''/admin/metrics'' (Some (adminHeaders env))"

definition getConversations :: "ui_env \<Rightarrow> api_request" where
  "getConversations env =
     api_get api_parrot ConversationsListResponseSchema ''/admin/conversations'' (Some (adminHeaders env))"

definition getConversationTranscript :: "ui_env \<Rightarrow> string \<Rightarrow> api_request" where
  "getConversationTranscript env guestId =
     api_get api_parrot ConversationTranscriptResponseSchema (''/admin/conversations/'' @ guestId) (Some (adminHeaders env))"

definition PARROT_HISTORY_KEY :: "string list" where "PARROT_HISTORY_KEY = [''parrot'', ''chat-history'']"
definition PARROT_ADMIN_METRICS_KEY :: "string list" where
  "PARROT_ADMIN_METRICS_KEY = [''parrot'', ''admin'', ''metrics'']"
definition PARROT_CONVERSATIONS_KEY :: "string list" where
  "PARROT_CONVERSATIONS_KEY = [''parrot'', ''admin'', ''conversations'']"
definition PARROT_CONVERSATION_KEY :: "string list" where
  "PARROT_CONVERSATION_KEY = [''parrot'', ''admin'', ''conversation'']"

section \<open>Broadcast\<close>

definition PostAnnouncementResponseSchema :: zschema where
  "PostAnnouncementResponseSchema = ZObject False [(''success'', ZBoolean)]"

definition postAnnouncement :: "string \<Rightarrow> string \<Rightarrow> api_request" where
  "postAnnouncement message passcode =
     api_post api_broadcast PostAnnouncementResponseSchema ''/admin/announcement'' (JObj [(''message'', JStr message)])
       (Some [(''X-Admin-Passcode'', passcode)])"

end
