(* ===== verification/Hotel_Http.thy ===== *)
theory Hotel_Http
  imports Hotel_Rooms Ui_Clients
begin

text \<open>
  The HTTP surface of the hotel: the paths of its controllers, the decoding of a body by the
  decorators of \<^verbatim>\<open>create-reservation.dto.ts\<close> under the validation pipe of \<^verbatim>\<open>main.ts\<close>, and the bodies of its
  answers. A request is what the web application hands to its HTTP library; the gateway between them
  passes it on unchanged. An \<^verbatim>\<open>HttpException\<close> made from an object answers with that object; an error nobody
  catches answers with the framework's own body.
\<close>

section \<open>create-reservation.dto.ts\<close>

text \<open>
  \<^verbatim>\<open>@Type(() => Number)\<close>: a number is itself, \<open>Number_of\<close> stands for \<^verbatim>\<open>Number(x)\<close> of anything else. A property
  that is missing, null or an array is not converted and so not a number.
\<close>

fun to_number :: "(jsval \<Rightarrow> jsnum) \<Rightarrow> jsval \<Rightarrow> jsnum" where
  "to_number Number_of (JNum n) = n"
| "to_number Number_of v = Number_of v"

text \<open>\<^verbatim>\<open>@IsInt()\<close>, with the integer it accepts.\<close>

fun is_int :: "jsnum \<Rightarrow> int option" where
  "is_int (Fin q) = (if of_int \<lfloor>q\<rfloor> = q then Some \<lfloor>q\<rfloor> else None)"
| "is_int _ = None"

definition int_field :: "(jsval \<Rightarrow> jsnum) \<Rightarrow> jsobj \<Rightarrow> string \<Rightarrow> int option" where
  "int_field Number_of ob k =
     (case jget ob k of
        JUndefined \<Rightarrow> None
      | JNull \<Rightarrow> None
      | JArr _ \<Rightarrow> None
      | v \<Rightarrow> is_int (to_number Number_of v))"

text \<open>\<^verbatim>\<open>@IsEnum(RoomType)\<close>.\<close>

definition room_type_of :: "string \<Rightarrow> RoomType option" where
  "room_type_of s = List.find (\<lambda>t. room_type_str t = s) [STANDARD, DELUXE, SUITE]"

text \<open>\<^verbatim>\<open>@IsOptional() @IsArray() @IsString({ each: true })\<close>; the outer \<open>None\<close> is a refusal.\<close>

definition party_field :: "jsobj \<Rightarrow> string list option option" where
  "party_field ob =
     (case jget ob ''party_guest_ids'' of
        JUndefined \<Rightarrow> Some None
      | JNull \<Rightarrow> Some None
      | JArr vs \<Rightarrow> map_option Some (those (map as_string vs))
      | _ \<Rightarrow> None)"

definition decode_dto :: "(jsval \<Rightarrow> jsnum) \<Rightarrow> jsval \<Rightarrow> CreateReservationDto option" where
  "decode_dto Number_of body =
     (case body of
        JObj ob \<Rightarrow>
          (case (as_string (jget ob ''guest_id''), Option.bind (as_string (jget ob ''room_type'')) room_type_of,
                 int_field Number_of ob ''guest_count'', party_field ob,
                 int_field Number_of ob ''check_in_day'', int_field Number_of ob ''check_out_day'') of
             (Some guest, Some ty, Some n, Some party, Some check_in, Some check_out) \<Rightarrow>
               (let dto = \<lparr>dto_guest_id = guest, dto_room_type = ty, dto_guest_count = n, dto_party_guest_ids = party,
                           dto_check_in_day = check_in, dto_check_out_day = check_out\<rparr>
                in if dto_valid dto then Some dto else None)
           | _ \<Rightarrow> None)
      | _ \<Rightarrow> None)"

section \<open>Answers\<close>

definition reservation_json :: "ReservationResponseDto \<Rightarrow> jsobj" where
  "reservation_json r =
     [(''id'', JStr (rr_id r)), (''guest_id'', JStr (rr_guest_id r)), (''room_id'', JStr (rr_room_id r)),
      (''room_type'', JStr (room_type_str (rr_room_type r))), (''guest_count'', jint (rr_guest_count r)),
      (''party_guest_ids'', JArr (map JStr (rr_party_guest_ids r))),
      (''check_in_day'', jint (rr_check_in_day r)), (''check_out_day'', jint (rr_check_out_day r)),
      (''status'', JStr (status_str (rr_status r)))]"

definition cancellation_json :: "CancelReservationResponseDto \<Rightarrow> jsobj" where
  "cancellation_json r = [(''id'', JStr (cr_id r)), (''status'', JStr (status_str (cr_status r)))]"

definition room_json :: "RoomResponseDto \<Rightarrow> jsobj" where
  "room_json r =
     [(''id'', JStr (rd_id r)), (''type'', JStr (room_type_str (rd_type r))), (''capacity'', jint (rd_capacity r)),
      (''price_per_night'', jint (rd_price_per_night r)), (''current_guests'', jint (rd_current_guests r))]"

definition rooms_json :: "RoomResponseDto list \<Rightarrow> jsobj" where
  "rooms_json rooms = [(''rooms'', JArr (map (\<lambda>r. JObj (room_json r)) rooms))]"

text \<open>The status and the body of an error.\<close>

fun error_answer :: "hotel_error \<Rightarrow> nat \<times> jsval" where
  "error_answer (HttpException status msg) = (status, JObj [(''error'', JStr msg)])"
| "error_answer Unhandled = (500, JObj [(''statusCode'', jint 500), (''message'', JStr ''Internal server error'')])"

text \<open>What the HTTP library of the application makes of an error status.\<close>

definition failed_request :: "nat \<times> jsval \<Rightarrow> axios_failure" where
  "failed_request answer =
     AxiosError (''Request failed with status code '' @ show_nat (fst answer)) (Some (snd answer))"

fun answer_of :: "hotel_response \<Rightarrow> axios_failure + jsval" where
  "answer_of (Reserved r) = Inr (JObj (reservation_json r))"
| "answer_of (Cancelled r) = Inr (JObj (cancellation_json r))"
| "answer_of (Refused e) = Inl (failed_request (error_answer e))"

section \<open>Routes\<close>

datatype hotel_route = RouteCreate | RouteByGuest string | RouteById string | RouteCancel string | RouteRooms | RouteHealth | NoRoute

text \<open>The text behind a prefix, when it is one segment of a path.\<close>

definition segment_after :: "string \<Rightarrow> string \<Rightarrow> string option" where
  "segment_after pre url =
     (let rest = drop (length pre) url
      in if startsWith pre url \<and> rest \<noteq> [] \<and> CHR ''/'' \<notin> set rest then Some rest else None)"

text \<open>The routes in the order of the controllers; a method that is not given is a GET.\<close>

definition route_of :: "string option \<Rightarrow> string \<Rightarrow> hotel_route" where
  "route_of method url =
     (if method = Some ''POST'' then (if url = ''/reservation'' then RouteCreate else NoRoute)
      else if method = Some ''DELETE'' then
        (case segment_after ''/reservation/'' url of Some i \<Rightarrow> RouteCancel i | None \<Rightarrow> NoRoute)
      else if method = None \<or> method = Some ''GET'' then
        (case segment_after ''/reservation/by-guest/'' url of
           Some g \<Rightarrow> RouteByGuest g
         | None \<Rightarrow>
             (case segment_after ''/reservation/'' url of
                Some i \<Rightarrow> RouteById i
              | None \<Rightarrow> if url = ''/rooms'' then RouteRooms else if url = ''/health'' then RouteHealth else NoRoute))
      else NoRoute)"

text \<open>
  The server around the controllers: \<open>refusal\<close> are the messages of the validation library for a body
  it rejects, \<open>day\<close> is the current day of the simulation.
\<close>

record hotel_server =
  hs_Number_of :: "jsval \<Rightarrow> jsnum"
  hs_refusal :: "jsval \<Rightarrow> (string \<times> string) list option list"
  hs_runtime :: runtime
  hs_store :: "string option"
  hs_day :: "int option"

definition controller ::
  "'db prisma_client \<Rightarrow> hotel_server \<Rightarrow> hotel_request \<Rightarrow> 'db \<Rightarrow> 'db \<times> effect list \<times> (axios_failure + jsval)" where
  "controller P srv req db =
     (case reservation_controller P \<lparr>hi_runtime = hs_runtime srv, hi_store = hs_store srv, hi_request = req\<rparr> db of
        (db', fx, response) \<Rightarrow> (db', fx, answer_of response))"

definition rooms_controller ::
  "'db prisma_client \<Rightarrow> hotel_server \<Rightarrow> 'db \<Rightarrow> 'db \<times> effect list \<times> (axios_failure + jsval)" where
  "rooms_controller P srv db =
     (db, [], case findAll P (hs_day srv) db of
        Inl e \<Rightarrow> answer_of (Refused e)
      | Inr rooms \<Rightarrow> Inr (JObj (rooms_json rooms)))"

text \<open>\<^verbatim>\<open>health.controller.ts\<close>.\<close>

definition health_check :: jsval where
  "health_check = JObj [(''status'', JStr ''ok'')]"

text \<open>The framework's answer to a request that no controller takes.\<close>

definition unrouted :: "string option \<Rightarrow> string \<Rightarrow> nat \<times> jsval" where
  "unrouted method url =
     (404, JObj [(''message'', JStr (''Cannot '' @ nullish method ''GET'' @ '' '' @ url)), (''error'', JStr ''Not Found''),
                 (''statusCode'', jint 404)])"

definition hotel_serve ::
  "'db prisma_client \<Rightarrow> hotel_server \<Rightarrow> axios_config \<Rightarrow> 'db \<Rightarrow> 'db \<times> effect list \<times> (axios_failure + jsval)" where
  "hotel_serve P srv cfg db =
     (case route_of (ax_method cfg) (ax_url cfg) of
        RouteCreate \<Rightarrow>
          (case decode_dto (hs_Number_of srv) (ax_data cfg) of
             None \<Rightarrow> (db, [], answer_of (Refused (exceptionFactory (hs_refusal srv (ax_data cfg)))))
           | Some dto \<Rightarrow> controller P srv (PostReservation dto) db)
      | RouteByGuest g \<Rightarrow> controller P srv (GetByGuest g) db
      | RouteById i \<Rightarrow> controller P srv (GetReservation i) db
      | RouteCancel i \<Rightarrow> controller P srv (DeleteReservation i) db
      | RouteRooms \<Rightarrow> rooms_controller P srv db
      | RouteHealth \<Rightarrow> (db, [], Inr health_check)
      | NoRoute \<Rightarrow> (db, [], Inl (failed_request (unrouted (ax_method cfg) (ax_url cfg)))))"

section \<open>Facts\<close>

text \<open>Every request the application makes of the hotel has a route.\<close>

lemma segment_after_append: "i \<noteq> [] \<Longrightarrow> CHR ''/'' \<notin> set i \<Longrightarrow> segment_after pre (pre @ i) = Some i"
  by (simp add: segment_after_def startsWith_def)

lemma segment_after_slash: "CHR ''/'' \<in> set rest \<Longrightarrow> segment_after pre (pre @ rest) = None"
  by (simp add: segment_after_def)

lemmas route_requests = postReservation_def getReservationByGuest_def cancelReservation_def getRooms_def
  api_get_def api_post_def api_delete_def

lemma route_post: "route_of (ax_method (aq_config (postReservation body))) (ax_url (aq_config (postReservation body))) = RouteCreate"
  by (simp add: route_requests route_of_def)

lemma route_cancel:
  "i \<noteq> [] \<Longrightarrow> CHR ''/'' \<notin> set i \<Longrightarrow>
   route_of (ax_method (aq_config (cancelReservation i))) (ax_url (aq_config (cancelReservation i))) = RouteCancel i"
  using segment_after_append [of i "''/reservation/''"] by (simp add: route_requests route_of_def)

lemma route_by_guest:
  "g \<noteq> [] \<Longrightarrow> CHR ''/'' \<notin> set g \<Longrightarrow>
   route_of (ax_method (aq_config (getReservationByGuest g))) (ax_url (aq_config (getReservationByGuest g))) = RouteByGuest g"
  using segment_after_append [of g "''/reservation/by-guest/''"] by (simp add: route_requests route_of_def)

lemma route_rooms: "route_of (ax_method (aq_config getRooms)) (ax_url (aq_config getRooms)) = RouteRooms"
  by (simp add: route_requests route_of_def segment_after_def startsWith_def)

text \<open>A body with the five properties of the form is decoded to exactly its DTO.\<close>

lemma is_int_of_int [simp]: "is_int (Fin (of_int i)) = Some i"
  by simp

lemma room_type_of_str [simp]: "room_type_of (room_type_str t) = Some t"
  by (cases t) (simp_all add: room_type_of_def)

lemma int_field_jint: "jget ob k = jint i \<Longrightarrow> int_field Number_of ob k = Some i"
  by (simp add: int_field_def jint_def)

lemma decode_form:
  "1 \<le> n \<Longrightarrow> decode_dto Number_of (JObj
     [(''guest_id'', JStr g), (''room_type'', JStr (room_type_str ty)), (''guest_count'', jint n),
      (''check_in_day'', jint check_in), (''check_out_day'', jint check_out)])
   = Some \<lparr>dto_guest_id = g, dto_room_type = ty, dto_guest_count = n, dto_party_guest_ids = None,
           dto_check_in_day = check_in, dto_check_out_day = check_out\<rparr>"
  by (simp add: decode_dto_def party_field_def int_field_jint dto_valid_def Let_def)

text \<open>The decoding keeps the constraints that the service relies on.\<close>

lemma decode_valid: "decode_dto Number_of body = Some dto \<Longrightarrow> dto_valid dto"
  by (auto simp: decode_dto_def Let_def split: jsval.splits option.splits if_splits)

text \<open>The hotel's words are what the application shows: the message of a refusal is the message of the error.\<close>

lemma refusal_message:
  "msg \<noteq> [] \<Longrightarrow> getErrorMessage numstr (snd (error_answer (HttpException status msg))) fallback = msg"
  by (simp add: first_field_def non_empty_def)

end
