(* ===== verification/Ui_Broadcast.thy ===== *)
theory Ui_Broadcast
  imports Ui_Events
begin

text \<open>
  The connection of the web application to the event stream (\<^verbatim>\<open>hooks/use-broadcast.ts\<close>): a machine
  whose events are the ones the browser and the framework deliver. \<^verbatim>\<open>EventSource\<close> delivers nothing
  after \<^verbatim>\<open>close\<close>, and a timer that is cleared does not fire, so an event is only possible while its
  source is alive (\<open>enabled\<close>); the machine ignores the others. The query cache is what the hook sees
  of it: the cached activities, if any, and how often they were invalidated.
\<close>

definition BACKOFF_INITIAL_MS :: nat where "BACKOFF_INITIAL_MS = 1000"
definition BACKOFF_MAX_MS :: nat where "BACKOFF_MAX_MS = 30000"
definition BROADCAST_PATH :: string where "BROADCAST_PATH = ''/api/broadcast/events''"

datatype ConnectionStatus = Connected | Dropped | Reconnecting

text \<open>The part of the configuration the hook reads.\<close>

record broadcast_config =
  bc_gatewayUrl :: string
  bc_feToken :: string

text \<open>
  \<^verbatim>\<open>connectionRef\<close> holds the address of the open source, \<^verbatim>\<open>timerRef\<close> the delay of the pending timer;
  \<open>uc_opened\<close> records the addresses that were opened, newest first.
\<close>

record use_broadcast =
  uc_status :: ConnectionStatus
  uc_connection :: "string option"
  uc_backoff :: nat
  uc_timer :: "nat option"
  uc_active :: bool
  uc_opened :: "string list"
  uc_store :: EventsState
  uc_activities :: "Activity list option"
  uc_invalidated :: nat

datatype browser_event =
    Mount
  | Unmount
  | OnOpen
  | OnMessage string "Channel \<Rightarrow> string"
  | OnError
  | TimerFires

section \<open>Connecting\<close>

text \<open>\<^verbatim>\<open>url.replace(/\/+$/, "")\<close>.\<close>

definition strip_slashes :: "string \<Rightarrow> string" where
  "strip_slashes s = rev (dropWhile (\<lambda>c. c = CHR ''/'') (rev s))"

text \<open>The characters that \<^verbatim>\<open>encodeURIComponent\<close> keeps; any other is escaped as its UTF-8 bytes.\<close>

definition uri_unreserved :: "char \<Rightarrow> bool" where
  "uri_unreserved c =
     (let n = of_char c :: nat
      in 48 \<le> n \<and> n \<le> 57 \<or> 65 \<le> n \<and> n \<le> 90 \<or> 97 \<le> n \<and> n \<le> 122 \<or> c \<in> set [CHR ''-'', CHR ''_'', CHR ''.'', CHR ''!'', CHR ''~'', CHR ''*'', CHR 0x27, CHR ''('', CHR '')''])"

definition utf8 :: "char \<Rightarrow> nat list" where
  "utf8 c = (let n = of_char c :: nat in if n < 128 then [n] else [192 + n div 64, 128 + n mod 64])"

definition upper_hex :: "nat \<Rightarrow> char" where
  "upper_hex n = ''0123456789ABCDEF'' ! (n mod 16)"

definition encodeURIComponent :: "string \<Rightarrow> string" where
  "encodeURIComponent s =
     concat (map (\<lambda>c. if uri_unreserved c then [c]
       else concat (map (\<lambda>b. [CHR ''%'', upper_hex (b div 16), upper_hex b]) (utf8 c))) s)"

definition stream_url :: "broadcast_config \<Rightarrow> string" where
  "stream_url cfg =
     strip_slashes (bc_gatewayUrl cfg) @ BROADCAST_PATH
       @ (if bc_feToken cfg = [] then [] else ''?token='' @ encodeURIComponent (bc_feToken cfg))"

definition initial_broadcast :: "broadcast_config \<Rightarrow> use_broadcast" where
  "initial_broadcast cfg =
     \<lparr>uc_status = (if bc_gatewayUrl cfg = [] then Dropped else Reconnecting),
      uc_connection = None,
      uc_backoff = BACKOFF_INITIAL_MS,
      uc_timer = None,
      uc_active = True,
      uc_opened = [],
      uc_store = initial_events,
      uc_activities = None,
      uc_invalidated = 0\<rparr>"

definition connect :: "broadcast_config \<Rightarrow> use_broadcast \<Rightarrow> use_broadcast" where
  "connect cfg s =
     (if \<not> uc_active s then s
      else s\<lparr>uc_connection := Some (stream_url cfg), uc_opened := stream_url cfg # uc_opened s\<rparr>)"

definition onopen :: "use_broadcast \<Rightarrow> use_broadcast" where
  "onopen s = s\<lparr>uc_backoff := BACKOFF_INITIAL_MS, uc_status := Connected\<rparr>"

definition onerror :: "use_broadcast \<Rightarrow> use_broadcast" where
  "onerror s =
     (let s' = s\<lparr>uc_connection := None, uc_status := Reconnecting\<rparr>
      in if \<not> uc_active s' then s'
         else (let current = uc_backoff s'
               in s'\<lparr>uc_backoff := min (current * 2) BACKOFF_MAX_MS, uc_timer := Some current\<rparr>))"

text \<open>The timer's callback; the timer is no longer pending when it runs.\<close>

definition reconnect :: "broadcast_config \<Rightarrow> use_broadcast \<Rightarrow> use_broadcast" where
  "reconnect cfg s = (let s' = s\<lparr>uc_timer := None\<rparr> in if uc_active s' then connect cfg s' else s')"

definition mount :: "broadcast_config \<Rightarrow> use_broadcast \<Rightarrow> use_broadcast" where
  "mount cfg s = (if bc_gatewayUrl cfg = [] then s else connect cfg (s\<lparr>uc_active := True\<rparr>))"

text \<open>The clean-up that the effect returns; without a gateway there is no effect to clean up.\<close>

definition unmount :: "broadcast_config \<Rightarrow> use_broadcast \<Rightarrow> use_broadcast" where
  "unmount cfg s =
     (if bc_gatewayUrl cfg = [] then s
      else s\<lparr>uc_active := False, uc_timer := None, uc_connection := None\<rparr>)"

section \<open>Messages\<close>

definition ingestBroadcastEvent ::
  "(Channel \<Rightarrow> string) \<Rightarrow> BroadcastEvent \<Rightarrow> use_broadcast \<Rightarrow> use_broadcast" where
  "ingestBroadcastEvent uuid event s =
     (let s' = s\<lparr>uc_store := ingestEvent uuid event (Some True) (uc_store s)\<rparr>
      in case getBeachAvailabilityPayload event of
           None \<Rightarrow> s'
         | Some beachPayload \<Rightarrow>
             (case uc_activities s' of
                None \<Rightarrow> s'\<lparr>uc_invalidated := uc_invalidated s' + 1\<rparr>
              | Some current \<Rightarrow> s'\<lparr>uc_activities := Some (updateActivitiesFromBeachEvent current beachPayload)\<rparr>))"

definition handleMessage ::
  "(zschema \<Rightarrow> jsval \<Rightarrow> zresult) \<Rightarrow> (string \<Rightarrow> jsnum) \<Rightarrow> (Channel \<Rightarrow> string) \<Rightarrow> string \<Rightarrow> use_broadcast \<Rightarrow> use_broadcast" where
  "handleMessage safeParse numval uuid rawData s =
     (case parseIslandEventMessage numval rawData of
        Some islandEvent \<Rightarrow> ingestBroadcastEvent uuid islandEvent s
      | None \<Rightarrow>
          (case JSON_parse numval rawData of
             None \<Rightarrow> s
           | Some v \<Rightarrow>
               (case safeParse BroadcastEventSchema v of
                  ZSuccess (JObj ob) \<Rightarrow> ingestBroadcastEvent uuid (broadcast_event_of ob) s
                | _ \<Rightarrow> s)))"

section \<open>The machine\<close>

text \<open>
  When an event can happen. The framework runs the effect once after the first render and, in its
  development mode, again after every clean-up.
\<close>

fun enabled :: "use_broadcast \<Rightarrow> browser_event \<Rightarrow> bool" where
  "enabled s Mount = (uc_connection s = None \<and> uc_timer s = None)"
| "enabled s Unmount = True"
| "enabled s OnOpen = (uc_connection s \<noteq> None)"
| "enabled s (OnMessage d u) = (uc_connection s \<noteq> None)"
| "enabled s OnError = (uc_connection s \<noteq> None)"
| "enabled s TimerFires = (uc_timer s \<noteq> None)"

fun react ::
  "(zschema \<Rightarrow> jsval \<Rightarrow> zresult) \<Rightarrow> (string \<Rightarrow> jsnum) \<Rightarrow> broadcast_config \<Rightarrow> use_broadcast \<Rightarrow> browser_event \<Rightarrow> use_broadcast" where
  "react sp nv cfg s Mount = mount cfg s"
| "react sp nv cfg s Unmount = unmount cfg s"
| "react sp nv cfg s OnOpen = onopen s"
| "react sp nv cfg s (OnMessage d u) = handleMessage sp nv u d s"
| "react sp nv cfg s OnError = onerror s"
| "react sp nv cfg s TimerFires = reconnect cfg s"

definition broadcast_step ::
  "(zschema \<Rightarrow> jsval \<Rightarrow> zresult) \<Rightarrow> (string \<Rightarrow> jsnum) \<Rightarrow> broadcast_config \<Rightarrow> use_broadcast \<Rightarrow> browser_event \<Rightarrow> use_broadcast" where
  "broadcast_step sp nv cfg s e = (if enabled s e then react sp nv cfg s e else s)"

section \<open>Invariant\<close>

text \<open>
  While the hook is active and has mounted, exactly one of the open connection and the pending
  timer exists; when it is not active neither does; the backoff stays between its bounds, and a
  pending delay too.
\<close>

definition link_inv :: "broadcast_config \<Rightarrow> use_broadcast \<Rightarrow> bool" where
  "link_inv cfg s =
     (\<not> (uc_connection s \<noteq> None \<and> uc_timer s \<noteq> None) \<and>
      (uc_active s \<and> uc_opened s \<noteq> [] \<longrightarrow> uc_connection s \<noteq> None \<or> uc_timer s \<noteq> None) \<and>
      (\<not> uc_active s \<longrightarrow> uc_connection s = None \<and> uc_timer s = None) \<and>
      (uc_opened s = [] \<longrightarrow> uc_connection s = None \<and> uc_timer s = None) \<and>
      BACKOFF_INITIAL_MS \<le> uc_backoff s \<and> uc_backoff s \<le> BACKOFF_MAX_MS \<and>
      (\<forall>d. uc_timer s = Some d \<longrightarrow> BACKOFF_INITIAL_MS \<le> d \<and> d \<le> BACKOFF_MAX_MS))"

text \<open>What a message can change: the store and the cached activities, never the connection.\<close>

definition same_link :: "use_broadcast \<Rightarrow> use_broadcast \<Rightarrow> bool" where
  "same_link s t =
     (uc_status t = uc_status s \<and> uc_connection t = uc_connection s \<and> uc_backoff t = uc_backoff s \<and>
      uc_timer t = uc_timer s \<and> uc_active t = uc_active s \<and> uc_opened t = uc_opened s)"

lemma ingest_same_link: "same_link s (ingestBroadcastEvent uuid event s)"
  by (simp add: ingestBroadcastEvent_def same_link_def Let_def split: option.split)

lemma handleMessage_same_link: "same_link s (handleMessage sp nv uuid d s)"
proof -
  have [simp]: "same_link s s" by (simp add: same_link_def)
  show ?thesis
    by (simp add: handleMessage_def ingest_same_link split: option.split zresult.split jsval.split)
qed

lemma same_link_inv: "same_link s t \<Longrightarrow> link_inv cfg s \<Longrightarrow> link_inv cfg t"
  by (simp add: same_link_def link_inv_def)

lemmas link_defs = link_inv_def connect_def onopen_def onerror_def reconnect_def mount_def unmount_def
  BACKOFF_INITIAL_MS_def BACKOFF_MAX_MS_def

lemma broadcast_step_inv: "link_inv cfg s \<Longrightarrow> link_inv cfg (broadcast_step sp nv cfg s e)"
proof (cases e)
  case (OnMessage d u)
  assume "link_inv cfg s"
  with same_link_inv [OF handleMessage_same_link] OnMessage show ?thesis by (simp add: broadcast_step_def)
qed (auto simp: broadcast_step_def link_defs Let_def min_def)

interpretation link: machine_invariant "broadcast_step sp nv cfg" "link_inv cfg"
  by unfold_locales (rule broadcast_step_inv)

lemma initial_broadcast_inv: "link_inv cfg (initial_broadcast cfg)"
  by (simp add: initial_broadcast_def link_defs)

text \<open>The delay before the attempt that follows \<open>n\<close> failures in a row.\<close>

definition backoff_after :: "nat \<Rightarrow> nat" where
  "backoff_after n = min (BACKOFF_INITIAL_MS * 2 ^ n) BACKOFF_MAX_MS"

lemma backoff_after_Suc: "min (backoff_after n * 2) BACKOFF_MAX_MS = backoff_after (Suc n)"
  by (auto simp: backoff_after_def BACKOFF_INITIAL_MS_def BACKOFF_MAX_MS_def min_def)

end
