(* ===== verification/Ui_Session.thy ===== *)
theory Ui_Session
  imports Ui_Clients
begin

text \<open>
  Who is using the application (\<^verbatim>\<open>stores/session-store.ts\<close>, \<^verbatim>\<open>stores/session-selectors.ts\<close>). The store is
  written to the browser's session storage through \<^verbatim>\<open>partialize\<close> and read back through \<^verbatim>\<open>merge\<close>; the
  middleware that does so is a library, its two callbacks are the repository's.
\<close>

datatype AppSession = GuestSession GuestProfile | AdminSession string string

record SessionState =
  sn_session :: "AppSession option"
  sn_guest :: "GuestProfile option"
  sn_isAdmin :: bool

record PersistedSessionState =
  ps_session :: "AppSession option"
  ps_guest :: "GuestProfile option"

definition EMPTY_SESSION_STATE :: SessionState where
  "EMPTY_SESSION_STATE = \<lparr>sn_session = None, sn_guest = None, sn_isAdmin = False\<rparr>"

definition guestSessionState :: "GuestProfile \<Rightarrow> SessionState" where
  "guestSessionState guest = \<lparr>sn_session = Some (GuestSession guest), sn_guest = Some guest, sn_isAdmin = False\<rparr>"

definition adminSessionState :: "string \<Rightarrow> string \<Rightarrow> SessionState" where
  "adminSessionState displayName passcode =
     \<lparr>sn_session = Some (AdminSession displayName passcode), sn_guest = None, sn_isAdmin = True\<rparr>"

fun role :: "AppSession \<Rightarrow> string" where
  "role (GuestSession g) = ''guest''"
| "role (AdminSession d p) = ''admin''"

fun deriveGuest :: "AppSession option \<Rightarrow> GuestProfile option" where
  "deriveGuest (Some (GuestSession guest)) = Some guest"
| "deriveGuest _ = None"

definition migrateSessionState :: "PersistedSessionState option \<Rightarrow> SessionState" where
  "migrateSessionState persisted =
     (case Option.bind persisted ps_session of
        Some session \<Rightarrow>
          \<lparr>sn_session = Some session, sn_guest = deriveGuest (Some session), sn_isAdmin = (role session = ''admin'')\<rparr>
      | None \<Rightarrow>
          (case Option.bind persisted ps_guest of
             Some guest \<Rightarrow> guestSessionState guest
           | None \<Rightarrow> EMPTY_SESSION_STATE))"

definition selectGuest :: "GuestProfile \<Rightarrow> SessionState \<Rightarrow> SessionState" where
  "selectGuest guest s = guestSessionState guest"

text \<open>The display name defaults to \<^verbatim>\<open>"Admin"\<close>.\<close>

definition loginAdmin :: "string \<Rightarrow> string option \<Rightarrow> SessionState \<Rightarrow> SessionState" where
  "loginAdmin passcode displayName s = adminSessionState (nullish displayName ''Admin'') passcode"

definition clearSession :: "SessionState \<Rightarrow> SessionState" where
  "clearSession s = EMPTY_SESSION_STATE"

definition clearGuest :: "SessionState \<Rightarrow> SessionState" where
  "clearGuest s = EMPTY_SESSION_STATE"

definition partialize :: "SessionState \<Rightarrow> PersistedSessionState" where
  "partialize s = \<lparr>ps_session = sn_session s, ps_guest = None\<rparr>"

definition merge_session :: "PersistedSessionState option \<Rightarrow> SessionState \<Rightarrow> SessionState" where
  "merge_session persisted current = migrateSessionState persisted"

datatype session_call =
    SelectGuest GuestProfile
  | LoginAdmin string "string option"
  | ClearSession
  | ClearGuest
  | Rehydrate "PersistedSessionState option"

fun session_step :: "SessionState \<Rightarrow> session_call \<Rightarrow> SessionState" where
  "session_step s (SelectGuest g) = selectGuest g s"
| "session_step s (LoginAdmin p d) = loginAdmin p d s"
| "session_step s ClearSession = clearSession s"
| "session_step s ClearGuest = clearGuest s"
| "session_step s (Rehydrate p) = merge_session p s"

section \<open>session-selectors.ts\<close>

definition useSession :: "SessionState \<Rightarrow> AppSession option" where
  "useSession s = sn_session s"

definition useSessionRole :: "SessionState \<Rightarrow> string option" where
  "useSessionRole s = map_option role (sn_session s)"

definition useIsAdmin :: "SessionState \<Rightarrow> bool" where
  "useIsAdmin s = (map_option role (sn_session s) = Some ''admin'')"

definition useGuestSession :: "SessionState \<Rightarrow> AppSession option" where
  "useGuestSession s = (if map_option role (sn_session s) = Some ''guest'' then sn_session s else None)"

definition useAdminSession :: "SessionState \<Rightarrow> AppSession option" where
  "useAdminSession s = (if map_option role (sn_session s) = Some ''admin'' then sn_session s else None)"

definition useGuest :: "SessionState \<Rightarrow> GuestProfile option" where
  "useGuest s = sn_guest s"

section \<open>Invariant\<close>

text \<open>The two derived fields always agree with the session they are derived from.\<close>

definition session_inv :: "SessionState \<Rightarrow> bool" where
  "session_inv s = (sn_guest s = deriveGuest (sn_session s) \<and> sn_isAdmin s = useIsAdmin s)"

lemmas session_defs = session_inv_def useIsAdmin_def EMPTY_SESSION_STATE_def guestSessionState_def
  adminSessionState_def selectGuest_def loginAdmin_def clearSession_def clearGuest_def merge_session_def
  migrateSessionState_def partialize_def

lemma session_step_inv: "session_inv s \<Longrightarrow> session_inv (session_step s call)"
  by (cases call) (auto simp: session_defs split: option.split)

interpretation session: machine_invariant session_step session_inv
  by unfold_locales (rule session_step_inv)

lemma rehydrate_partialize: "session_inv s \<Longrightarrow> merge_session (Some (partialize s)) t = s"
  by (cases "sn_session s" rule: deriveGuest.cases) (auto simp: session_defs)

end
