(* ===== verification/Ui_Hooks.thy ===== *)
theory Ui_Hooks
  imports Ui_Session
begin

text \<open>
  The data hooks (\<^verbatim>\<open>features/*/hooks\<close>): queries and mutations of the query library. A query is its key,
  the request it makes (none while it is disabled) and its refetch interval; a mutation is the
  request it makes or the error it throws before that, and the effects of its two callbacks. What the
  library does with the effects (cache, refetching, toasts on the screen) is not modelled.
\<close>

type_synonym query_key = "string option list"

definition key_of :: "string list \<Rightarrow> query_key" where
  "key_of ks = map Some ks"

datatype ui_effect =
    InvalidateQueries query_key
  | RemoveQueries query_key
  | SetQueryData query_key jsval
  | ToastSuccess string
  | ToastError string
  | SetConfirmed "jsval option"

record query_hook =
  qh_key :: query_key
  qh_request :: "api_request option"
  qh_refetch :: "nat option"

record 'v mutation_hook =
  mh_fn :: "'v \<Rightarrow> string + api_request"
  mh_onSuccess :: "jsval \<Rightarrow> ui_effect list"
  mh_onError :: "string \<Rightarrow> ui_effect list"

text \<open>\<^verbatim>\<open>error.message\<close>; the text of a validation error is the schema library's.\<close>

fun error_message :: "(zissue list \<Rightarrow> string) \<Rightarrow> api_error \<Rightarrow> string" where
  "error_message zod_text (ApiError m) = m"
| "error_message zod_text (Rethrown m) = m"
| "error_message zod_text (ValidationError issues) = zod_text issues"

text \<open>One run of a mutation: the request that was sent, if any, and the effects.\<close>

definition mutate ::
  "(zissue list \<Rightarrow> string) \<Rightarrow> (api_request \<Rightarrow> api_error + jsval) \<Rightarrow> 'v mutation_hook \<Rightarrow> 'v
    \<Rightarrow> api_request option \<times> ui_effect list" where
  "mutate zod_text send m v =
     (case mh_fn m v of
        Inl msg \<Rightarrow> (None, mh_onError m msg)
      | Inr req \<Rightarrow>
          (Some req, case send req of
             Inl e \<Rightarrow> mh_onError m (error_message zod_text e)
           | Inr data \<Rightarrow> mh_onSuccess m data))"

definition toast_error :: "string \<Rightarrow> ui_effect list" where
  "toast_error msg = [ToastError msg]"

definition guest_key :: "string list \<Rightarrow> GuestProfile option \<Rightarrow> query_key" where
  "guest_key ks guest = key_of ks @ [map_option gp_id guest]"

fun admin_passcode :: "AppSession option \<Rightarrow> string option" where
  "admin_passcode (Some (AdminSession d p)) = Some p"
| "admin_passcode _ = None"

section \<open>lib/polling.ts, airport\<close>

definition POLL_INTERVAL_MS :: nat where "POLL_INTERVAL_MS = 3000"

definition ARRIVAL_COMPLETE_STATUS :: string where "ARRIVAL_COMPLETE_STATUS = ''processed''"

text \<open>The status of the cached answer, if there is one.\<close>

definition arrival_status :: "jsval option \<Rightarrow> jsval" where
  "arrival_status data = (case data of Some (JObj ob) \<Rightarrow> jget ob ''status'' | _ \<Rightarrow> JUndefined)"

definition arrivalRefetchInterval :: "jsval option \<Rightarrow> nat option" where
  "arrivalRefetchInterval data =
     (if arrival_status data = JStr ARRIVAL_COMPLETE_STATUS then None else Some POLL_INTERVAL_MS)"

definition useArrivalStatus :: "string option \<Rightarrow> jsval option \<Rightarrow> query_hook" where
  "useArrivalStatus guestId data =
     \<lparr>qh_key = key_of AIRPORT_ARRIVAL_KEY @ [guestId],
      qh_request = map_option getArrivalStatus guestId,
      qh_refetch = arrivalRefetchInterval data\<rparr>"

definition useLanded :: "jsval option \<Rightarrow> bool" where
  "useLanded data = (arrival_status data = JStr ARRIVAL_COMPLETE_STATUS)"

definition useQueue :: query_hook where
  "useQueue = \<lparr>qh_key = key_of AIRPORT_QUEUE_KEY, qh_request = Some getQueue, qh_refetch = Some POLL_INTERVAL_MS\<rparr>"

definition useArrivalForm :: "GuestProfile option \<Rightarrow> jsval mutation_hook" where
  "useArrivalForm guest =
     \<lparr>mh_fn = (\<lambda>values. Inr (postArrival values)),
      mh_onSuccess = (\<lambda>_. [InvalidateQueries (guest_key AIRPORT_ARRIVAL_KEY guest)]),
      mh_onError = toast_error\<rparr>"

section \<open>Hotel\<close>

definition useActiveReservation :: "GuestProfile option \<Rightarrow> query_hook \<times> string mutation_hook" where
  "useActiveReservation guest =
     (\<lparr>qh_key = guest_key HOTEL_RESERVATION_KEY guest,
       qh_request = map_option (\<lambda>g. getReservationByGuest (gp_id g)) guest,
       qh_refetch = None\<rparr>,
      \<lparr>mh_fn = (\<lambda>i. Inr (cancelReservation i)),
       mh_onSuccess = (\<lambda>_. [RemoveQueries (guest_key HOTEL_RESERVATION_KEY guest),
         InvalidateQueries (key_of HOTEL_ROOMS_KEY)]),
       mh_onError = toast_error\<rparr>)"

text \<open>
  The values of the reservation form, with a date as its milliseconds; the calendar arithmetic of the
  date library is the parameter \<open>day_of\<close> (\<^verbatim>\<open>dateToSimulationDay\<close>).
\<close>

record ReservationFormValues =
  fv_room_type :: string
  fv_guest_count :: int
  fv_check_in_date :: int
  fv_check_out_date :: int

definition ReservationFormSchema :: "ReservationFormValues \<Rightarrow> bool" where
  "ReservationFormSchema values =
     (fv_room_type values \<in> set ROOM_TYPES \<and> 1 \<le> fv_guest_count values \<and>
      fv_check_in_date values < fv_check_out_date values)"

definition formToRequest :: "(int \<Rightarrow> int) \<Rightarrow> ReservationFormValues \<Rightarrow> string \<Rightarrow> jsval" where
  "formToRequest day_of values guestId = JObj
     [(''guest_id'', JStr guestId), (''room_type'', JStr (fv_room_type values)),
      (''guest_count'', jint (fv_guest_count values)),
      (''check_in_day'', jint (day_of (fv_check_in_date values))),
      (''check_out_day'', jint (day_of (fv_check_out_date values)))]"

definition useReservationForm :: "(int \<Rightarrow> int) \<Rightarrow> GuestProfile option \<Rightarrow> ReservationFormValues mutation_hook" where
  "useReservationForm day_of guest =
     \<lparr>mh_fn = (\<lambda>values. case guest of
         None \<Rightarrow> Inl ''No active session''
       | Some g \<Rightarrow> Inr (postReservation (formToRequest day_of values (gp_id g)))),
      mh_onSuccess = (\<lambda>reservation. [SetConfirmed (Some reservation),
         SetQueryData (guest_key HOTEL_RESERVATION_KEY guest) reservation,
         InvalidateQueries (key_of HOTEL_ROOMS_KEY)]),
      mh_onError = toast_error\<rparr>"

section \<open>Beach\<close>

definition useActivities :: query_hook where
  "useActivities = \<lparr>qh_key = key_of BEACH_ACTIVITIES_KEY, qh_request = Some getActivities, qh_refetch = None\<rparr>"

definition invalidate_bookings :: "GuestProfile option \<Rightarrow> ui_effect list" where
  "invalidate_bookings guest =
     [InvalidateQueries (key_of BEACH_ACTIVITIES_KEY), InvalidateQueries (guest_key BEACH_BOOKED_KEY guest)]"

text \<open>The booked activity, the booking and the cancellation; \<^verbatim>\<open>guest!.id\<close> of null throws.\<close>

definition useBookActivity ::
  "GuestProfile option \<Rightarrow> query_hook \<times> string mutation_hook \<times> string mutation_hook" where
  "useBookActivity guest =
     (\<lparr>qh_key = guest_key BEACH_BOOKED_KEY guest,
       qh_request = map_option (\<lambda>g. getActivityByGuest (gp_id g)) guest,
       qh_refetch = None\<rparr>,
      \<lparr>mh_fn = (\<lambda>activityId. case guest of
          None \<Rightarrow> Inl ''Cannot read properties of null (reading 'id')''
        | Some g \<Rightarrow> Inr (bookActivity activityId (gp_id g))),
       mh_onSuccess = (\<lambda>_. invalidate_bookings guest),
       mh_onError = toast_error\<rparr>,
      \<lparr>mh_fn = (\<lambda>activityId. case guest of
          None \<Rightarrow> Inl ''Cannot read properties of null (reading 'id')''
        | Some g \<Rightarrow> Inr (cancelActivity activityId (gp_id g))),
       mh_onSuccess = (\<lambda>_. invalidate_bookings guest),
       mh_onError = toast_error\<rparr>)"

definition useCheckedIn :: "bool \<Rightarrow> jsval option \<Rightarrow> bool" where
  "useCheckedIn isLoading reservation = (if isLoading then False else reservation \<noteq> None)"

definition useManageActivities ::
  "AppSession option \<Rightarrow> jsval mutation_hook \<times> string mutation_hook" where
  "useManageActivities admin =
     (\<lparr>mh_fn = (\<lambda>body. case admin_passcode admin of
          None \<Rightarrow> Inl ''Admin session required to add an activity.''
        | Some passcode \<Rightarrow> Inr (createActivity body passcode)),
       mh_onSuccess = (\<lambda>_. [InvalidateQueries (key_of BEACH_ACTIVITIES_KEY), ToastSuccess ''Activity added.'']),
       mh_onError = toast_error\<rparr>,
      \<lparr>mh_fn = (\<lambda>activityId. case admin_passcode admin of
          None \<Rightarrow> Inl ''Admin session required to remove an activity.''
        | Some passcode \<Rightarrow> Inr (removeActivity activityId passcode)),
       mh_onSuccess = (\<lambda>_. [InvalidateQueries (key_of BEACH_ACTIVITIES_KEY), ToastSuccess ''Activity removed.'']),
       mh_onError = toast_error\<rparr>)"

section \<open>Crab and goat farm\<close>

definition useMenu :: query_hook where
  "useMenu = \<lparr>qh_key = key_of crab_menu_key, qh_request = Some getMenu, qh_refetch = Some 15000\<rparr>"

text \<open>The number of lines of the order that was served; the crab is written as its UTF-8 bytes.\<close>

definition order_toast :: "jsval \<Rightarrow> string" where
  "order_toast order =
     ''Order up! '' @ [CHR 0xF0, CHR 0x9F, CHR 0xA6, CHR 0x80] @ '' ''
       @ show_nat (case order of JObj ob \<Rightarrow> (case jget ob ''items'' of JArr vs \<Rightarrow> length vs | _ \<Rightarrow> 0) | _ \<Rightarrow> 0)
       @ '' item(s) served.''"

definition usePlaceOrder :: "string \<Rightarrow> string \<Rightarrow> (string \<times> int) list mutation_hook" where
  "usePlaceOrder guestId guestName =
     \<lparr>mh_fn = (\<lambda>items. Inr (placeOrder guestId guestName items)),
      mh_onSuccess = (\<lambda>order. [ToastSuccess (order_toast order), InvalidateQueries (key_of crab_menu_key),
        InvalidateQueries (key_of (crab_orders_key guestId))]),
      mh_onError = toast_error\<rparr>"

definition useGoatStock :: "bool \<Rightarrow> query_hook" where
  "useGoatStock on =
     \<lparr>qh_key = key_of goat_stock_key, qh_request = (if on then Some getGoatFarmStock else None), qh_refetch = None\<rparr>"

fun purchase_toast :: "jsval \<Rightarrow> string" where
  "purchase_toast (JObj ob) =
     nullish (as_string (jget ob ''item_name'')) [] @ '' added for '' @ nullish (as_string (jget ob ''guest_id'')) [] @ ''.''"
| "purchase_toast _ = []"

definition useBuyGoatItem :: "string \<Rightarrow> string mutation_hook" where
  "useBuyGoatItem guestId =
     \<lparr>mh_fn = (\<lambda>itemId. Inr (buyGoatFarmItem guestId itemId)),
      mh_onSuccess = (\<lambda>purchase. [ToastSuccess (purchase_toast purchase), InvalidateQueries (key_of goat_stock_key)]),
      mh_onError = toast_error\<rparr>"

section \<open>Announcements and the parrot's admin views\<close>

definition usePostAnnouncement :: "AppSession option \<Rightarrow> string mutation_hook" where
  "usePostAnnouncement admin =
     \<lparr>mh_fn = (\<lambda>message. case admin_passcode admin of
         None \<Rightarrow> Inl ''Admin session required to publish an announcement.''
       | Some passcode \<Rightarrow> Inr (postAnnouncement message passcode)),
      mh_onSuccess = (\<lambda>_. [ToastSuccess ''Announcement broadcast resort-wide.'']),
      mh_onError = toast_error\<rparr>"

definition useParrotMetrics :: "ui_env \<Rightarrow> query_hook" where
  "useParrotMetrics env =
     \<lparr>qh_key = key_of PARROT_ADMIN_METRICS_KEY, qh_request = Some (getAdminMetrics env), qh_refetch = Some POLL_INTERVAL_MS\<rparr>"

definition useParrotConversations :: "ui_env \<Rightarrow> query_hook" where
  "useParrotConversations env =
     \<lparr>qh_key = key_of PARROT_CONVERSATIONS_KEY, qh_request = Some (getConversations env), qh_refetch = Some POLL_INTERVAL_MS\<rparr>"

definition useParrotConversationTranscript :: "ui_env \<Rightarrow> string option \<Rightarrow> query_hook" where
  "useParrotConversationTranscript env guestId =
     \<lparr>qh_key = key_of PARROT_CONVERSATION_KEY @ [guestId],
      qh_request = map_option (getConversationTranscript env) guestId,
      qh_refetch = None\<rparr>"

section \<open>Facts\<close>

lemma useAdminSession_passcode:
  "admin_passcode (useAdminSession s) = (case sn_session s of Some (AdminSession d p) \<Rightarrow> Some p | _ \<Rightarrow> None)"
  by (simp add: useAdminSession_def split: option.split AppSession.split)

lemma admin_none: "\<not> useIsAdmin s \<Longrightarrow> admin_passcode (useAdminSession s) = None"
  by (auto simp: useAdminSession_passcode useIsAdmin_def split: option.split AppSession.split)

end
