(* ===== verification/Ui_Parrot.thy ===== *)
theory Ui_Parrot
  imports Ui_Hooks
begin

text \<open>
  The chat with the parrot (\<^verbatim>\<open>features/parrot/hooks/use-parrot-chat.ts\<close>, \<^verbatim>\<open>use-parrot-history.ts\<close>). The hook
  keeps the turn that waits for a reply and the turn that failed last; the history lives in the query
  cache, one entry for each guest. The mutation library runs one mutation of this hook at a time as
  far as the hook can see: \<^verbatim>\<open>isPending\<close> is true from \<^verbatim>\<open>mutate\<close> until the reply or the error.
\<close>

record PendingTurn =
  pt_guestId :: string
  pt_message :: string
  pt_localId :: string

record FailedTurn = PendingTurn +
  ft_error :: string

record ChatHistoryMessage =
  cm_content :: "string option"
  cm_role :: string

record ChatHistoryResponse =
  ch_guest_id :: string
  ch_messages :: "ChatHistoryMessage list"

datatype ParrotThreadItem =
    MessageItem string ChatHistoryMessage
  | ThinkingItem string
  | ErrorItem string string string

definition user_message :: "string \<Rightarrow> ChatHistoryMessage" where
  "user_message t = \<lparr>cm_content = Some t, cm_role = ''user''\<rparr>"

definition assistant_message :: "string \<Rightarrow> ChatHistoryMessage" where
  "assistant_message t = \<lparr>cm_content = Some t, cm_role = ''assistant''\<rparr>"

definition appendMessagesToHistory ::
  "ChatHistoryResponse option \<Rightarrow> PendingTurn \<Rightarrow> string \<Rightarrow> ChatHistoryResponse" where
  "appendMessagesToHistory previous pendingTurn reply =
     \<lparr>ch_guest_id = nullish (map_option ch_guest_id previous) (pt_guestId pendingTurn),
      ch_messages = nullish (map_option ch_messages previous) []
        @ [user_message (pt_message pendingTurn), assistant_message reply]\<rparr>"

text \<open>A null content prints as \<^verbatim>\<open>null\<close> in the template.\<close>

definition getMessageKey :: "ChatHistoryMessage \<Rightarrow> nat \<Rightarrow> string" where
  "getMessageKey message index =
     cm_role message @ '':'' @ nullish (cm_content message) ''null'' @ '':'' @ show_nat index"

section \<open>The hook\<close>

text \<open>
  \<open>pc_inflight\<close> are the variables of the running mutation; \<open>pc_sent\<close> the requests made, newest first.
\<close>

record parrot_chat =
  pc_guest :: "GuestProfile option"
  pc_histories :: "string \<rightharpoonup> ChatHistoryResponse"
  pc_pending :: "PendingTurn option"
  pc_failed :: "FailedTurn option"
  pc_inflight :: "PendingTurn option"
  pc_sent :: "api_request list"

definition participantId :: "parrot_chat \<Rightarrow> string option" where
  "participantId s = map_option gp_id (pc_guest s)"

definition isPending :: "parrot_chat \<Rightarrow> bool" where
  "isPending s = (pc_inflight s \<noteq> None)"

definition useParrotHistory :: "string option \<Rightarrow> query_hook" where
  "useParrotHistory guestId =
     \<lparr>qh_key = key_of PARROT_HISTORY_KEY @ [guestId],
      qh_request = map_option getChatHistory guestId,
      qh_refetch = None\<rparr>"

definition history_messages :: "parrot_chat \<Rightarrow> ChatHistoryMessage list" where
  "history_messages s =
     nullish (map_option ch_messages (Option.bind (participantId s) (pc_histories s))) []"

definition mutate_chat :: "PendingTurn \<Rightarrow> parrot_chat \<Rightarrow> parrot_chat" where
  "mutate_chat turn s =
     s\<lparr>pc_inflight := Some turn, pc_sent := postChat (pt_guestId turn) (pt_message turn) # pc_sent s\<rparr>"

definition sendMessage :: "string \<Rightarrow> string \<Rightarrow> parrot_chat \<Rightarrow> parrot_chat" where
  "sendMessage localId message s =
     (let trimmed = js_trim message
      in case participantId s of
           None \<Rightarrow> s
         | Some participant \<Rightarrow>
             if participant = [] \<or> trimmed = [] \<or> isPending s then s
             else
               (let turn = \<lparr>pt_guestId = participant, pt_message = trimmed, pt_localId = localId\<rparr>
                in mutate_chat turn (s\<lparr>pc_failed := None, pc_pending := Some turn\<rparr>)))"

definition retryFailedMessage :: "parrot_chat \<Rightarrow> parrot_chat" where
  "retryFailedMessage s =
     (case (participantId s, pc_failed s) of
        (Some participant, Some failedTurn) \<Rightarrow>
          if participant = [] \<or> isPending s then s
          else
            (let turn = \<lparr>pt_guestId = participant, pt_message = pt_message failedTurn, pt_localId = pt_localId failedTurn\<rparr>
             in mutate_chat turn (s\<lparr>pc_pending := Some turn, pc_failed := None\<rparr>))
      | _ \<Rightarrow> s)"

text \<open>The callbacks of the mutation; its variables are those it was started with.\<close>

definition chat_onSuccess :: "string \<Rightarrow> parrot_chat \<Rightarrow> parrot_chat" where
  "chat_onSuccess reply s =
     (case pc_inflight s of
        None \<Rightarrow> s
      | Some turn \<Rightarrow>
          s\<lparr>pc_histories := (pc_histories s)(pt_guestId turn \<mapsto>
                appendMessagesToHistory (pc_histories s (pt_guestId turn)) turn reply),
            pc_pending := None, pc_failed := None, pc_inflight := None\<rparr>)"

definition chat_onError :: "string \<Rightarrow> parrot_chat \<Rightarrow> parrot_chat" where
  "chat_onError msg s =
     (case pc_inflight s of
        None \<Rightarrow> s
      | Some turn \<Rightarrow>
          s\<lparr>pc_pending := None,
            pc_failed := Some \<lparr>pt_guestId = pt_guestId turn, pt_message = pt_message turn,
              pt_localId = pt_localId turn, ft_error = msg\<rparr>,
            pc_inflight := None\<rparr>)"

definition pending_items :: "parrot_chat \<Rightarrow> ParrotThreadItem list" where
  "pending_items s =
     (case pc_pending s of
        None \<Rightarrow> []
      | Some turn \<Rightarrow>
          if Some (pt_guestId turn) = participantId s
          then [MessageItem (''pending:'' @ pt_localId turn) (user_message (pt_message turn)),
                ThinkingItem (''thinking:'' @ pt_localId turn)]
          else [])"

definition failed_items :: "parrot_chat \<Rightarrow> ParrotThreadItem list" where
  "failed_items s =
     (case pc_failed s of
        None \<Rightarrow> []
      | Some turn \<Rightarrow>
          if Some (pt_guestId turn) = participantId s
          then [MessageItem (''failed:'' @ pt_localId turn) (user_message (pt_message turn)),
                ErrorItem (''error:'' @ pt_localId turn) (pt_message turn) (ft_error turn)]
          else [])"

definition threadItems :: "parrot_chat \<Rightarrow> ParrotThreadItem list" where
  "threadItems s =
     map (\<lambda>(index, message). MessageItem (getMessageKey message index) message)
       (enumerate 0 (history_messages s))
     @ pending_items s @ failed_items s"

datatype chat_event =
    Send string string
  | Retry
  | Reply string
  | Failure string
  | HistoryLoaded string ChatHistoryResponse
  | SwitchGuest "GuestProfile option"

fun chat_step :: "parrot_chat \<Rightarrow> chat_event \<Rightarrow> parrot_chat" where
  "chat_step s (Send localId m) = sendMessage localId m s"
| "chat_step s Retry = retryFailedMessage s"
| "chat_step s (Reply r) = chat_onSuccess r s"
| "chat_step s (Failure m) = chat_onError m s"
| "chat_step s (HistoryLoaded g h) = s\<lparr>pc_histories := (pc_histories s)(g \<mapsto> h)\<rparr>"
| "chat_step s (SwitchGuest g) = s\<lparr>pc_guest := g\<rparr>"

definition initial_chat :: "GuestProfile option \<Rightarrow> parrot_chat" where
  "initial_chat g =
     \<lparr>pc_guest = g, pc_histories = Map.empty, pc_pending = None, pc_failed = None, pc_inflight = None, pc_sent = []\<rparr>"

section \<open>Invariant\<close>

text \<open>
  The pending turn is exactly the one in flight, a turn is never pending and failed at once, and
  every message sent or kept is trimmed and not empty.
\<close>

definition clean_text :: "string \<Rightarrow> bool" where
  "clean_text m = (m \<noteq> [] \<and> js_trim m = m)"

definition chat_inv :: "parrot_chat \<Rightarrow> bool" where
  "chat_inv s =
     (pc_pending s = pc_inflight s \<and>
      (pc_pending s = None \<or> pc_failed s = None) \<and>
      (case pc_pending s of None \<Rightarrow> True | Some t \<Rightarrow> clean_text (pt_message t)) \<and>
      (case pc_failed s of None \<Rightarrow> True | Some t \<Rightarrow> clean_text (pt_message t)))"

lemma dropWhile_idem [simp]: "dropWhile p (dropWhile p xs) = dropWhile p xs"
  by (induction xs) auto

lemma dropWhile_rev_dropWhile:
  "dropWhile p (rev (dropWhile p (rev (dropWhile p xs)))) = rev (dropWhile p (rev (dropWhile p xs)))"
proof (cases "dropWhile p xs")
  case (Cons y ys)
  then have y: "\<not> p y" by (metis dropWhile_eq_Cons_conv)
  have "dropWhile p (rev ys @ [y]) = dropWhile p (rev ys) @ [y]"
    using y by (induction "rev ys" arbitrary: ys) (auto simp: dropWhile_append dropWhile_eq_self_iff)
  with Cons y show ?thesis by simp
next
  case Nil
  show ?thesis unfolding Nil by simp
qed

lemma js_trim_idem [simp]: "js_trim (js_trim s) = js_trim s"
  by (simp add: js_trim_def dropWhile_rev_dropWhile)

lemma chat_step_inv: "chat_inv s \<Longrightarrow> chat_inv (chat_step s e)"
  by (cases e)
    (auto simp: chat_inv_def sendMessage_def retryFailedMessage_def mutate_chat_def chat_onSuccess_def
      chat_onError_def clean_text_def isPending_def Let_def split: option.splits)

interpretation chat: machine_invariant chat_step chat_inv
  by unfold_locales (rule chat_step_inv)

lemma initial_chat_inv: "chat_inv (initial_chat g)"
  by (simp add: initial_chat_def chat_inv_def)

section \<open>Conversations\<close>

text \<open>
  A guest's history only grows by whole turns: a reply appends the question and the answer to the
  history of the guest who asked, and leaves every other history alone.
\<close>

lemma chat_onSuccess_history:
  "pc_inflight s = Some turn \<Longrightarrow>
     pc_histories (chat_onSuccess reply s) g =
       (if g = pt_guestId turn then Some (appendMessagesToHistory (pc_histories s g) turn reply) else pc_histories s g)"
  by (simp add: chat_onSuccess_def)

end
