(* ===== verification/Ui_Mock.thy ===== *)
theory Ui_Mock
  imports Ui_Events
begin

text \<open>
  The mocked beach service (\<^verbatim>\<open>mocks/handlers/beach.ts\<close>) that the application runs against in
  development. Its state is in the browser's session storage: the activities and which activity each
  guest has booked. A stored value that was written by this module reads back as it was written, so
  the storage is the value itself; \<open>None\<close> is a storage without an entry, where the seed is taken. Only
  the reading of bookings in the older format, with an array for a guest, is kept apart.
\<close>

definition mock_activity :: "string \<Rightarrow> string \<Rightarrow> string \<Rightarrow> rat \<Rightarrow> rat \<Rightarrow> Activity" where
  "mock_activity i n d c r =
     \<lparr>ac_activity_id = i, ac_activity_name = n, ac_description = Some d, ac_capacity = c, ac_remaining = r\<rparr>"

definition SEED :: "Activity list" where
  "SEED =
     [mock_activity ''activity-sunset-cruise'' ''Sunset Cruise''
        ''Sail along the coast and watch the sun dip below the horizon.'' 10 2,
      mock_activity ''activity-snorkeling'' ''Snorkeling''
        ''Explore the coral reef with our guided snorkeling tour.'' 8 0,
      mock_activity ''activity-glass-bottom-boat'' ''Glass-Bottom Boat''
        ''See the underwater world without getting wet.'' 12 3,
      mock_activity ''activity-beach-volleyball'' ''Beach Volleyball''
        ''Join a casual game on the main beach court.'' 20 14,
      mock_activity ''activity-kayaking'' ''Kayaking''
        ''Paddle through the lagoon at your own pace.'' 6 4,
      mock_activity ''activity-beach-yoga'' ''Beach Yoga''
        ''Morning yoga session on the shoreline.'' 15 11]"

text \<open>A stored booking: an activity, none (null), or the array of an older version.\<close>

datatype stored_booking = Booked "string option" | BookedList "string list"

record storage =
  sg_activities :: "Activity list option"
  sg_bookings :: "(string \<times> stored_booking) list option"

datatype mock_response = MockJson nat mock_body
and mock_body = ActivityList "Activity list" | OneActivity Activity | Status string | Message string | BookedActivity "string option"

definition loadActivities :: "storage \<Rightarrow> storage \<times> Activity list" where
  "loadActivities sg =
     (case sg_activities sg of
        Some stored \<Rightarrow> (sg, stored)
      | None \<Rightarrow> (sg\<lparr>sg_activities := Some SEED\<rparr>, SEED))"

definition saveActivities :: "Activity list \<Rightarrow> storage \<Rightarrow> storage" where
  "saveActivities activities sg = sg\<lparr>sg_activities := Some activities\<rparr>"

text \<open>\<^verbatim>\<open>value.at(-1) ?? null\<close> for an array.\<close>

fun booking_value :: "stored_booking \<Rightarrow> string option" where
  "booking_value (Booked v) = v"
| "booking_value (BookedList vs) = (if vs = [] then None else Some (last vs))"

definition loadBookings :: "storage \<Rightarrow> (string \<times> string option) list" where
  "loadBookings sg =
     (case sg_bookings sg of
        None \<Rightarrow> []
      | Some parsed \<Rightarrow> map (\<lambda>(guestId, v). (guestId, booking_value v)) parsed)"

definition saveBookings :: "(string \<times> string option) list \<Rightarrow> storage \<Rightarrow> storage" where
  "saveBookings bookings sg = sg\<lparr>sg_bookings := Some (map (\<lambda>(g, v). (g, Booked v)) bookings)\<rparr>"

text \<open>\<^verbatim>\<open>bookings[guestId] ?? null\<close> and the assignment to a property.\<close>

definition booking_of :: "(string \<times> string option) list \<Rightarrow> string \<Rightarrow> string option" where
  "booking_of bookings g = Option.bind (map_of bookings g) (\<lambda>v. v)"

fun put_booking :: "string \<Rightarrow> string option \<Rightarrow> (string \<times> string option) list \<Rightarrow> (string \<times> string option) list" where
  "put_booking g v [] = [(g, v)]"
| "put_booking g v ((h, w) # bs) = (if h = g then (g, v) # bs else (h, w) # put_booking g v bs)"

text \<open>
  \<^verbatim>\<open>find\<close> returns a reference into the array: the assignment changes the first activity with the
  identifier, and nothing when there is none.
\<close>

fun add_remaining :: "string \<Rightarrow> rat \<Rightarrow> Activity list \<Rightarrow> Activity list" where
  "add_remaining i d [] = []"
| "add_remaining i d (a # as) =
     (if ac_activity_id a = i then a\<lparr>ac_remaining := ac_remaining a + d\<rparr> # as else a # add_remaining i d as)"

definition find_activity :: "string \<Rightarrow> Activity list \<Rightarrow> Activity option" where
  "find_activity i activities = List.find (\<lambda>a. ac_activity_id a = i) activities"

section \<open>The handlers\<close>

definition mock_get_activities :: "storage \<Rightarrow> storage \<times> mock_response" where
  "mock_get_activities sg =
     (case loadActivities sg of (sg', activities) \<Rightarrow> (sg', MockJson 200 (ActivityList activities)))"

definition mock_get_activity :: "string \<Rightarrow> storage \<Rightarrow> storage \<times> mock_response" where
  "mock_get_activity activityId sg =
     (case loadActivities sg of (sg', activities) \<Rightarrow>
        (case find_activity activityId activities of
           None \<Rightarrow> (sg', MockJson 404 (Message ''Activity not found''))
         | Some activity \<Rightarrow> (sg', MockJson 200 (OneActivity activity))))"

definition mock_book :: "string \<Rightarrow> string \<Rightarrow> storage \<Rightarrow> storage \<times> mock_response" where
  "mock_book activityId guestId sg =
     (case loadActivities sg of (sg', activities) \<Rightarrow>
        (case find_activity activityId activities of
           None \<Rightarrow> (sg', MockJson 404 (Message ''Activity not found''))
         | Some activity \<Rightarrow>
             (let bookings = loadBookings sg';
                  currentActivityId = booking_of bookings guestId
              in if currentActivityId = Some activityId then (sg', MockJson 200 (Status ''booked''))
                 else if ac_remaining activity = 0 then (sg', MockJson 409 (Message ''Activity is full''))
                 else
                   (let activities' =
                          (case currentActivityId of
                             None \<Rightarrow> activities
                           | Some c \<Rightarrow> if c = [] then activities else add_remaining c 1 activities);
                        activities'' = add_remaining activityId (- 1) activities'
                    in (saveBookings (put_booking guestId (Some activityId) bookings) (saveActivities activities'' sg'),
                        MockJson 200 (Status ''booked''))))))"

definition mock_cancel :: "string \<Rightarrow> string \<Rightarrow> storage \<Rightarrow> storage \<times> mock_response" where
  "mock_cancel activityId guestId sg =
     (let bookings = loadBookings sg
      in if booking_of bookings guestId \<noteq> Some activityId
         then (sg, MockJson 409 (Message ''Activity not booked''))
         else
           (case loadActivities (saveBookings (put_booking guestId None bookings) sg) of (sg', activities) \<Rightarrow>
              (case find_activity activityId activities of
                 None \<Rightarrow> (sg', MockJson 200 (Status ''cancelled''))
               | Some _ \<Rightarrow> (saveActivities (add_remaining activityId 1 activities) sg', MockJson 200 (Status ''cancelled'')))))"

definition mock_by_guest :: "string \<Rightarrow> storage \<Rightarrow> storage \<times> mock_response" where
  "mock_by_guest guestId sg = (sg, MockJson 200 (BookedActivity (booking_of (loadBookings sg) guestId)))"

datatype mock_request = GetActivities | GetActivity string | BookRequest string string | CancelRequest string string | ByGuest string

fun mock_handle :: "mock_request \<Rightarrow> storage \<Rightarrow> storage \<times> mock_response" where
  "mock_handle GetActivities sg = mock_get_activities sg"
| "mock_handle (GetActivity i) sg = mock_get_activity i sg"
| "mock_handle (BookRequest i g) sg = mock_book i g sg"
| "mock_handle (CancelRequest i g) sg = mock_cancel i g sg"
| "mock_handle (ByGuest g) sg = mock_by_guest g sg"

definition mock_step :: "storage \<Rightarrow> mock_request \<Rightarrow> storage" where
  "mock_step sg req = fst (mock_handle req sg)"

section \<open>Conservation of places\<close>

text \<open>
  What the handlers keep: the places of an activity are either remaining or taken by guests. The
  seed starts with places that are taken by nobody in the storage, so the invariant counts relative
  to them.
\<close>

definition the_activities :: "storage \<Rightarrow> Activity list" where
  "the_activities sg = nullish (sg_activities sg) SEED"

definition taken :: "storage \<Rightarrow> string \<Rightarrow> nat" where
  "taken sg i = length (filter (\<lambda>(g, v). v = Some i) (loadBookings sg))"

definition places :: "storage \<Rightarrow> string \<Rightarrow> rat option" where
  "places sg i = map_option (\<lambda>a. ac_remaining a + of_nat (taken sg i)) (find_activity i (the_activities sg))"

definition activity_ok :: "Activity \<Rightarrow> bool" where
  "activity_ok a = (ac_activity_id a \<noteq> [] \<and> 0 \<le> ac_remaining a \<and> of_int \<lfloor>ac_remaining a\<rfloor> = ac_remaining a)"

definition mock_inv :: "storage \<Rightarrow> bool" where
  "mock_inv sg = (distinct (map fst (loadBookings sg)) \<and> list_all activity_ok (the_activities sg))"

lemma the_activities_load: "snd (loadActivities sg) = the_activities sg \<and> the_activities (fst (loadActivities sg)) = the_activities sg
    \<and> sg_bookings (fst (loadActivities sg)) = sg_bookings sg"
  by (simp add: loadActivities_def the_activities_def split: option.split)

lemma loadBookings_cong: "sg_bookings sg' = sg_bookings sg \<Longrightarrow> loadBookings sg' = loadBookings sg"
  by (simp add: loadBookings_def)

lemma loadBookings_save [simp]: "loadBookings (saveBookings bs sg) = bs"
  by (simp add: loadBookings_def saveBookings_def comp_def case_prod_beta)

lemma storage_simps [simp]:
  "the_activities (saveBookings bs sg) = the_activities sg"
  "the_activities (saveActivities as sg) = as"
  "loadBookings (saveActivities as sg) = loadBookings sg"
  by (simp_all add: the_activities_def saveBookings_def saveActivities_def loadBookings_def)

lemma find_add_remaining:
  "find_activity i (add_remaining j d as) =
     (if i = j then map_option (\<lambda>a. a\<lparr>ac_remaining := ac_remaining a + d\<rparr>) (find_activity i as) else find_activity i as)"
  by (induction as) (auto simp: find_activity_def)

lemma put_booking_keys: "set (map fst (put_booking g v bs)) = insert g (set (map fst bs))"
  by (induction g v bs rule: put_booking.induct) auto

lemma put_booking_distinct: "distinct (map fst bs) \<Longrightarrow> distinct (map fst (put_booking g v bs))"
proof (induction g v bs rule: put_booking.induct)
  case (2 g v h w bs)
  then show ?case using put_booking_keys [of g v bs] by (auto simp del: set_map)
qed simp

lemma put_booking_count:
  "distinct (map fst bs) \<Longrightarrow>
     int (length (filter (\<lambda>(g, v). v = Some i) (put_booking g v bs))) =
       int (length (filter (\<lambda>(g, v). v = Some i) bs)) + of_bool (v = Some i) - of_bool (booking_of bs g = Some i)"
proof (induction g v bs rule: put_booking.induct)
  case (2 g v h w bs)
  have "map_of bs g = None" if "h = g"
    using that "2.prems" by (simp add: map_of_eq_None_iff)
  then have "booking_of bs g = None" if "h = g" using that by (simp add: booking_of_def)
  with 2 show ?case by (auto simp: booking_of_def)
qed (simp add: booking_of_def)

lemma add_remaining_ok:
  assumes "list_all activity_ok as" "of_int \<lfloor>d\<rfloor> = d"
    "\<And>a. find_activity i as = Some a \<Longrightarrow> 0 \<le> ac_remaining a + d"
  shows "list_all activity_ok (add_remaining i d as)"
  using assms
proof (induction as)
  case (Cons a as)
  show ?case
  proof (cases "ac_activity_id a = i")
    case True
    from Cons.prems(1) have "activity_ok a" and rest: "list_all activity_ok as" by simp_all
    then have a: "of_int \<lfloor>ac_remaining a\<rfloor> = ac_remaining a" "i \<noteq> []"
      using True by (simp_all only: activity_ok_def) blast
    have "ac_remaining a + d = of_int (\<lfloor>ac_remaining a\<rfloor> + \<lfloor>d\<rfloor>)" using a(1) Cons.prems(2) by (simp only: of_int_add)
    then have "of_int \<lfloor>ac_remaining a + d\<rfloor> = ac_remaining a + d" by (metis floor_of_int)
    then have "activity_ok (a\<lparr>ac_remaining := ac_remaining a + d\<rparr>)"
      using True a(2) Cons.prems(3) unfolding activity_ok_def by (simp add: find_activity_def)
    with True rest show ?thesis by simp
  next
    case False
    with Cons show ?thesis by (simp add: find_activity_def)
  qed
qed simp

lemma activity_ok_pos: "activity_ok a \<Longrightarrow> ac_remaining a \<noteq> 0 \<Longrightarrow> 1 \<le> ac_remaining a"
proof -
  assume a: "activity_ok a" "ac_remaining a \<noteq> 0"
  then have "\<lfloor>ac_remaining a\<rfloor> \<noteq> 0" "0 \<le> \<lfloor>ac_remaining a\<rfloor>" by (auto simp: activity_ok_def)
  then have "1 \<le> \<lfloor>ac_remaining a\<rfloor>" by linarith
  then show ?thesis by linarith
qed

lemma find_activity_ok: "list_all activity_ok as \<Longrightarrow> find_activity i as = Some a \<Longrightarrow> activity_ok a \<and> ac_activity_id a = i"
  by (auto simp: find_activity_def list_all_iff dest: find_Some_in)

lemma find_activity_empty: "list_all activity_ok as \<Longrightarrow> find_activity [] as = None"
  by (auto simp: find_activity_def find_None_iff list_all_iff activity_ok_def)

text \<open>The storage after the activities are loaded: nothing that the invariant looks at has changed.\<close>

definition loaded :: "storage \<Rightarrow> storage" where
  "loaded sg = fst (loadActivities sg)"

lemma loaded_simps:
  "loadActivities sg = (loaded sg, the_activities sg)"
  "the_activities (loaded sg) = the_activities sg"
  "loadBookings (loaded sg) = loadBookings sg"
  using the_activities_load [of sg] by (auto simp: loaded_def prod_eq_iff intro: loadBookings_cong)

lemma same_view:
  assumes "the_activities sg' = the_activities sg" "loadBookings sg' = loadBookings sg"
  shows "places sg' i = places sg i" "mock_inv sg' = mock_inv sg"
  using assms by (simp_all add: places_def taken_def mock_inv_def)

text \<open>The two handlers that write.\<close>

lemma mock_book_cases:
  assumes "mock_inv sg"
  obtains (same) "the_activities (fst (mock_book i g sg)) = the_activities sg"
      "loadBookings (fst (mock_book i g sg)) = loadBookings sg"
  | (booked) a as where "find_activity i (the_activities sg) = Some a" "ac_remaining a \<noteq> 0"
      "booking_of (loadBookings sg) g \<noteq> Some i"
      "as = (case booking_of (loadBookings sg) g of None \<Rightarrow> the_activities sg | Some c \<Rightarrow>
         if c = [] then the_activities sg else add_remaining c 1 (the_activities sg))"
      "the_activities (fst (mock_book i g sg)) = add_remaining i (- 1) as"
      "loadBookings (fst (mock_book i g sg)) = put_booking g (Some i) (loadBookings sg)"
proof (cases "find_activity i (the_activities sg)")
  case None
  then show ?thesis using same by (simp add: mock_book_def loaded_simps)
next
  case (Some a)
  show ?thesis
  proof (cases "booking_of (loadBookings sg) g = Some i \<or> ac_remaining a = 0")
    case True
    with Some show ?thesis using same by (auto simp: mock_book_def loaded_simps Let_def)
  next
    case False
    with Some show ?thesis
      by (intro booked [of a]) (auto simp: mock_book_def loaded_simps Let_def)
  qed
qed

lemma mock_book_inv:
  assumes "mock_inv sg"
  shows "mock_inv (fst (mock_book i g sg)) \<and> places (fst (mock_book i g sg)) j = places sg j"
proof (rule mock_book_cases [OF assms, of i g])
  assume "the_activities (fst (mock_book i g sg)) = the_activities sg"
    "loadBookings (fst (mock_book i g sg)) = loadBookings sg"
  with same_view assms show ?thesis by blast
next
  fix a as
  let ?c = "booking_of (loadBookings sg) g"
  assume a: "find_activity i (the_activities sg) = Some a" "ac_remaining a \<noteq> 0" "?c \<noteq> Some i"
    and as: "as = (case ?c of None \<Rightarrow> the_activities sg | Some c \<Rightarrow>
         if c = [] then the_activities sg else add_remaining c 1 (the_activities sg))"
    and acts: "the_activities (fst (mock_book i g sg)) = add_remaining i (- 1) as"
    and bks: "loadBookings (fst (mock_book i g sg)) = put_booking g (Some i) (loadBookings sg)"
  from assms have ok: "list_all activity_ok (the_activities sg)" and d: "distinct (map fst (loadBookings sg))"
    by (simp_all add: mock_inv_def)
  have "0 \<le> ac_remaining b + 1" if "find_activity c (the_activities sg) = Some b" for b c
    using find_activity_ok [OF ok that] by (simp add: activity_ok_def)
  with ok have ok_as: "list_all activity_ok as"
    unfolding as by (auto intro!: add_remaining_ok split: option.split)
  have find_as: "find_activity i as = Some a"
    using a(1,3) unfolding as by (auto simp: find_add_remaining split: option.split)
  have "1 \<le> ac_remaining a" using activity_ok_pos [of a] find_activity_ok [OF ok a(1)] a(2) by blast
  with find_as ok_as have "list_all activity_ok (add_remaining i (- 1) as)" by (intro add_remaining_ok) auto
  with acts bks d have inv: "mock_inv (fst (mock_book i g sg))"
    by (simp add: mock_inv_def put_booking_distinct)
  have cnt: "(of_nat (taken (fst (mock_book i g sg)) j) :: rat) =
      of_nat (taken sg j) + of_bool (i = j) - of_bool (?c = Some j)"
  proof -
    have "int (taken (fst (mock_book i g sg)) j) = int (taken sg j) + of_bool (i = j) - of_bool (?c = Some j)"
      using put_booking_count [OF d, of j g "Some i"] bks by (simp add: taken_def)
    from arg_cong [OF this, of "of_int :: int \<Rightarrow> rat"] show ?thesis by simp
  qed
  have "places (fst (mock_book i g sg)) j = places sg j"
  proof (cases "j = i")
    case True
    with a(1,3) find_as acts cnt show ?thesis by (simp add: places_def find_add_remaining)
  next
    case False
    show ?thesis
    proof (cases "?c = Some j")
      case True
      show ?thesis
      proof (cases "j = []")
        case True
        with find_activity_empty [OF ok] False acts ok_as find_activity_empty [OF ok_as] show ?thesis
          by (simp add: places_def find_add_remaining)
      next
        case j: False
        with True False acts cnt show ?thesis
          by (cases "find_activity j (the_activities sg)") (simp_all add: places_def as find_add_remaining)
      qed
    next
      case c: False
      with False acts cnt show ?thesis
        by (cases ?c) (simp_all add: places_def as find_add_remaining)
    qed
  qed
  with inv show ?thesis by blast
qed

lemma mock_cancel_inv:
  assumes "mock_inv sg"
  shows "mock_inv (fst (mock_cancel i g sg)) \<and> places (fst (mock_cancel i g sg)) j = places sg j"
proof (cases "booking_of (loadBookings sg) g = Some i")
  case False
  with assms show ?thesis by (simp add: mock_cancel_def Let_def)
next
  case True
  from assms have ok: "list_all activity_ok (the_activities sg)" and d: "distinct (map fst (loadBookings sg))"
    by (simp_all add: mock_inv_def)
  let ?sg = "fst (mock_cancel i g sg)"
  have bks: "loadBookings ?sg = put_booking g None (loadBookings sg)"
    using True by (simp add: mock_cancel_def loaded_simps Let_def split: option.split)
  have none: "add_remaining i e as = as" if "find_activity i as = None" for as e
    using that by (induction as) (auto simp: find_activity_def)
  have acts: "the_activities ?sg = add_remaining i 1 (the_activities sg)"
    using True none by (simp add: mock_cancel_def loaded_simps Let_def split: option.split)
  have "0 \<le> ac_remaining b + 1" if "find_activity i (the_activities sg) = Some b" for b
    using find_activity_ok [OF ok that] by (simp add: activity_ok_def)
  with ok acts bks d have "mock_inv ?sg"
    by (simp add: mock_inv_def put_booking_distinct add_remaining_ok)
  moreover have "(of_nat (taken ?sg j) :: rat) = of_nat (taken sg j) - of_bool (i = j)"
  proof -
    have "int (taken ?sg j) = int (taken sg j) - of_bool (i = j)"
      using put_booking_count [OF d, of j g None] bks True by (simp add: taken_def)
    from arg_cong [OF this, of "of_int :: int \<Rightarrow> rat"] show ?thesis by simp
  qed
  then have "places ?sg j = places sg j"
    using acts by (cases "find_activity j (the_activities sg)") (auto simp: places_def find_add_remaining)
  ultimately show ?thesis by blast
qed

lemma mock_read_view:
  "the_activities (fst (mock_get_activities sg)) = the_activities sg"
  "loadBookings (fst (mock_get_activities sg)) = loadBookings sg"
  "the_activities (fst (mock_get_activity i sg)) = the_activities sg"
  "loadBookings (fst (mock_get_activity i sg)) = loadBookings sg"
  by (simp_all add: mock_get_activities_def mock_get_activity_def loaded_simps split: option.split)

lemma mock_step_keeps:
  assumes "mock_inv sg"
  shows "mock_inv (mock_step sg req) \<and> places (mock_step sg req) j = places sg j"
proof (cases req)
  case GetActivities
  then show ?thesis
    using same_view [OF mock_read_view(1,2)] assms by (simp add: mock_step_def)
next
  case (GetActivity i)
  then show ?thesis
    using same_view [OF mock_read_view(3,4)] assms by (simp add: mock_step_def)
qed (use mock_book_inv mock_cancel_inv assms in \<open>simp_all add: mock_step_def mock_by_guest_def\<close>)

interpretation mock: machine_invariant mock_step mock_inv
  by unfold_locales (use mock_step_keeps in blast)

lemma run_places: "mock_inv sg \<Longrightarrow> places (run mock_step sg reqs) j = places sg j"
proof (induction reqs arbitrary: sg)
  case (Cons req reqs)
  from mock_step_keeps [OF Cons.prems, of req j] Cons.IH [of "mock_step sg req"] show ?case by simp
qed simp

end
