(* ===== verification/Ui_Quest.thy ===== *)
theory Ui_Quest
  imports Js
begin

text \<open>
  Kiki's burger quest: the rules (\<^verbatim>\<open>features/kiki-burger-quest/lib\<close>, \<^verbatim>\<open>features/octopus-oracle/lib\<close>) and the
  two components that play them (\<^verbatim>\<open>kiki-burger-quest.tsx\<close>, \<^verbatim>\<open>octopus-oracle-panel.tsx\<close>). The state of both
  components is one record; a click is possible while its button is on the screen and enabled, a
  timer fires while the phase that started it lasts. The quest is the step relation over these.
\<close>

section \<open>kiki-burger-quest.ts\<close>

definition BURGER_PRICE_MEOWS :: int where "BURGER_PRICE_MEOWS = 100"
definition ORACLE_REWARD_MEOWS :: int where "ORACLE_REWARD_MEOWS = 100"

definition rewardForOracleResult :: "bool \<Rightarrow> int" where
  "rewardForOracleResult passed = (if passed then ORACLE_REWARD_MEOWS else 0)"

definition canBuyBurger :: "int \<Rightarrow> bool" where
  "canBuyBurger meows = (meows \<ge> BURGER_PRICE_MEOWS)"

definition spendBurgerMeows :: "int \<Rightarrow> int" where
  "spendBurgerMeows meows = (if canBuyBurger meows then meows - BURGER_PRICE_MEOWS else meows)"

section \<open>octopus-oracle.ts\<close>

datatype OracleColor = BlueC | RedC | VioletC | AmberC

record OracleQuestion =
  oq_id :: string
  oq_question :: string
  oq_options :: "string list"
  oq_correctIndex :: nat

definition BLUE_TRIAL_QUESTIONS :: "OracleQuestion list" where
  "BLUE_TRIAL_QUESTIONS =
     [\<lparr>oq_id = ''pineapple-home'', oq_question = ''Who lives in a pineapple under the sea?'',
       oq_options = [''Sandy Cheeks'', ''SpongeBob SquarePants'', ''Patrick Star''], oq_correctIndex = 1\<rparr>,
      \<lparr>oq_id = ''moon-landing'', oq_question = ''In what year did humans first land on the Moon?'',
       oq_options = [''1969'', ''1977'', ''1984''], oq_correctIndex = 0\<rparr>,
      \<lparr>oq_id = ''octopus-arms'', oq_question = ''How many arms does an octopus have?'',
       oq_options = [''Six'', ''Eight'', ''Ten''], oq_correctIndex = 1\<rparr>]"

definition RED_TRIAL_SEQUENCE :: "OracleColor list" where
  "RED_TRIAL_SEQUENCE = [BlueC, RedC, VioletC, AmberC]"

definition evaluateQuiz :: "bool list \<Rightarrow> bool \<times> nat" where
  "evaluateQuiz results = (let correct = length (filter (\<lambda>b. b) results) in (correct \<ge> 2, correct))"

definition evaluateSequence :: "OracleColor list \<Rightarrow> OracleColor list \<Rightarrow> bool" where
  "evaluateSequence expected actual =
     (length expected = length actual \<and>
      list_all (\<lambda>(index, color). Some color = nth_opt actual index) (enumerate 0 expected))"

section \<open>The components\<close>

datatype QuestPhase =
    IdleAtCrab | NeedsMeows | WalkingToOctopus | AtOctopus | FailedTask | EarnedMeows
  | WalkingToCrab | ReadyToBuy | BurgerReceived

datatype OracleMode = ChoiceMode | BlueMode | RedMode | ResultMode

record ResultState =
  rs_passed :: bool
  rs_title :: string
  rs_message :: string

record quest =
  qs_phase :: QuestPhase
  qs_position :: "int \<times> int"
  qs_facingRight :: bool
  qs_meows :: int
  qs_oracleOpen :: bool
  qs_lastTrialPassed :: "bool option"
  qs_showConfetti :: bool
  qs_mode :: OracleMode
  qs_answers :: "(string \<times> nat) list"
  qs_sequenceInput :: "OracleColor list"
  qs_result :: "ResultState option"

definition CRAB_POSITION :: "int \<times> int" where "CRAB_POSITION = (1220, 1250)"
definition OCTOPUS_POSITION :: "int \<times> int" where "OCTOPUS_POSITION = (2825, 450)"

fun phaseMessage :: "QuestPhase \<Rightarrow> int \<Rightarrow> string" where
  "phaseMessage IdleAtCrab meows = ''Kiki wants a burger.''"
| "phaseMessage NeedsMeows meows = ''Kiki needs 100 meows first. The octopus has a task.''"
| "phaseMessage WalkingToOctopus meows = ''Kiki is going to the Octopus Oracle.''"
| "phaseMessage AtOctopus meows = ''Complete an oracle task to earn 100 meows.''"
| "phaseMessage FailedTask meows = ''Kiki did not earn the meows yet. Try again.''"
| "phaseMessage EarnedMeows meows = ''Kiki earned '' @ show_int meows @ '' meows. Time to buy the burger.''"
| "phaseMessage WalkingToCrab meows = ''Kiki is going back to The Crusty Crab.''"
| "phaseMessage ReadyToBuy meows = ''Kiki has 100 meows and can buy the burger.''"
| "phaseMessage BurgerReceived meows = ''Burger received. Kiki is delighted.''"

definition initial_quest :: quest where
  "initial_quest =
     \<lparr>qs_phase = IdleAtCrab, qs_position = CRAB_POSITION, qs_facingRight = True, qs_meows = 0,
      qs_oracleOpen = False, qs_lastTrialPassed = None, qs_showConfetti = False,
      qs_mode = ChoiceMode, qs_answers = [], qs_sequenceInput = [], qs_result = None\<rparr>"

definition canRequestBurger :: "quest \<Rightarrow> bool" where
  "canRequestBurger s = (qs_phase s = IdleAtCrab \<or> qs_phase s = BurgerReceived)"

definition canRetryTask :: "quest \<Rightarrow> bool" where
  "canRetryTask s = (qs_phase s = FailedTask)"

definition canPayForBurger :: "quest \<Rightarrow> bool" where
  "canPayForBurger s = (qs_phase s = ReadyToBuy \<and> canBuyBurger (qs_meows s))"

definition startWalkToOctopus :: "quest \<Rightarrow> quest" where
  "startWalkToOctopus s = s\<lparr>qs_facingRight := True, qs_phase := WalkingToOctopus, qs_position := OCTOPUS_POSITION\<rparr>"

definition startWalkToCrab :: "quest \<Rightarrow> quest" where
  "startWalkToCrab s = s\<lparr>qs_facingRight := False, qs_phase := WalkingToCrab, qs_position := CRAB_POSITION\<rparr>"

definition requestBurger :: "quest \<Rightarrow> quest" where
  "requestBurger s = s\<lparr>qs_meows := 0, qs_lastTrialPassed := None, qs_phase := NeedsMeows\<rparr>"

definition buyBurger :: "quest \<Rightarrow> quest" where
  "buyBurger s = s\<lparr>qs_meows := spendBurgerMeows (qs_meows s), qs_phase := BurgerReceived, qs_showConfetti := True\<rparr>"

definition retryTask :: "quest \<Rightarrow> quest" where
  "retryTask s = s\<lparr>qs_lastTrialPassed := None, qs_phase := AtOctopus, qs_oracleOpen := True\<rparr>"

definition handleOracleClose :: "quest \<Rightarrow> quest" where
  "handleOracleClose s =
     (let s' = s\<lparr>qs_oracleOpen := False\<rparr>
      in if qs_lastTrialPassed s = Some True then s'\<lparr>qs_phase := EarnedMeows\<rparr>
         else if qs_lastTrialPassed s = Some False then s'\<lparr>qs_phase := FailedTask\<rparr>
         else s')"

definition handleTrialResult :: "bool \<Rightarrow> quest \<Rightarrow> quest" where
  "handleTrialResult passed s =
     (let s' = s\<lparr>qs_lastTrialPassed := Some passed\<rparr>
      in if passed then s'\<lparr>qs_meows := qs_meows s' + rewardForOracleResult True\<rparr> else s')"

subsection \<open>The panel\<close>

definition resetToChoice :: "quest \<Rightarrow> quest" where
  "resetToChoice s = s\<lparr>qs_mode := ChoiceMode, qs_answers := [], qs_sequenceInput := [], qs_result := None\<rparr>"

definition closePanel :: "quest \<Rightarrow> quest" where
  "closePanel s = handleOracleClose (resetToChoice s)"

definition setAnswer :: "string \<Rightarrow> nat \<Rightarrow> quest \<Rightarrow> quest" where
  "setAnswer question option s =
     s\<lparr>qs_answers := (question, option) # filter (\<lambda>a. fst a \<noteq> question) (qs_answers s)\<rparr>"

definition answeredCount :: "quest \<Rightarrow> nat" where
  "answeredCount s = length (qs_answers s)"

definition finishBlueTrial :: "quest \<Rightarrow> quest" where
  "finishBlueTrial s =
     (let (passed, correct) = evaluateQuiz (map (\<lambda>question. map_of (qs_answers s) (oq_id question) = Some (oq_correctIndex question))
            BLUE_TRIAL_QUESTIONS);
          result = (if passed
            then \<lparr>rs_passed = True, rs_title = ''Kiki keeps a clear mind'',
                  rs_message = ''The oracle accepts '' @ show_nat correct @ '' of 3 answers and lets Kiki pass through the tide gate.''\<rparr>
            else \<lparr>rs_passed = False, rs_title = ''The oracle clouds Kiki's thoughts'',
                  rs_message = ''Only '' @ show_nat correct @ '' of 3 answers were right. The tide whispers in circles. Try again when Kiki is ready.''\<rparr>)
      in (handleTrialResult passed (s\<lparr>qs_result := Some result\<rparr>))\<lparr>qs_mode := ResultMode\<rparr>)"

definition chooseColor :: "OracleColor \<Rightarrow> quest \<Rightarrow> quest" where
  "chooseColor color s =
     (let nextInput = qs_sequenceInput s @ [color];
          s' = s\<lparr>qs_sequenceInput := nextInput\<rparr>
      in if length nextInput \<noteq> length RED_TRIAL_SEQUENCE then s'
         else
           (let passed = evaluateSequence RED_TRIAL_SEQUENCE nextInput;
                result = (if passed
                  then \<lparr>rs_passed = True, rs_title = ''Kiki reads the current'',
                        rs_message = ''The red pill sharpens Kiki's reflexes. The octopus opens a bright path through the waves.''\<rparr>
                  else \<lparr>rs_passed = False, rs_title = ''Ink everywhere'',
                        rs_message = ''Kiki lost the pattern, and the oracle fills the water with harmless ink. Reset the sequence and try again.''\<rparr>)
            in (handleTrialResult passed (s'\<lparr>qs_result := Some result\<rparr>))\<lparr>qs_mode := ResultMode\<rparr>))"

section \<open>Steps\<close>

text \<open>The timers of the two effects, then the buttons of Kiki, then those of the panel.\<close>

inductive quest_step :: "quest \<Rightarrow> quest \<Rightarrow> bool" where
  walk_to_octopus: "qs_phase s = NeedsMeows \<Longrightarrow> quest_step s (startWalkToOctopus s)"
| arrive_at_octopus: "qs_phase s = WalkingToOctopus \<Longrightarrow> quest_step s (s\<lparr>qs_phase := AtOctopus, qs_oracleOpen := True\<rparr>)"
| walk_to_crab: "qs_phase s = EarnedMeows \<Longrightarrow> quest_step s (startWalkToCrab s)"
| arrive_at_crab: "qs_phase s = WalkingToCrab \<Longrightarrow> quest_step s (s\<lparr>qs_phase := ReadyToBuy\<rparr>)"
| confetti_ends: "qs_showConfetti s \<Longrightarrow> quest_step s (s\<lparr>qs_showConfetti := False\<rparr>)"
| request_burger: "canRequestBurger s \<Longrightarrow> quest_step s (requestBurger s)"
| retry_task: "canRetryTask s \<Longrightarrow> quest_step s (retryTask s)"
| pay_burger: "canPayForBurger s \<Longrightarrow> quest_step s (buyBurger s)"
| take_blue: "qs_oracleOpen s \<Longrightarrow> qs_mode s = ChoiceMode \<Longrightarrow> quest_step s (s\<lparr>qs_mode := BlueMode\<rparr>)"
| take_red: "qs_oracleOpen s \<Longrightarrow> qs_mode s = ChoiceMode \<Longrightarrow> quest_step s (s\<lparr>qs_mode := RedMode\<rparr>)"
| give_answer: "qs_oracleOpen s \<Longrightarrow> qs_mode s = BlueMode \<Longrightarrow> question \<in> set BLUE_TRIAL_QUESTIONS \<Longrightarrow>
    i < length (oq_options question) \<Longrightarrow> quest_step s (setAnswer (oq_id question) i s)"
| finish_blue: "qs_oracleOpen s \<Longrightarrow> qs_mode s = BlueMode \<Longrightarrow> answeredCount s \<ge> length BLUE_TRIAL_QUESTIONS \<Longrightarrow>
    quest_step s (finishBlueTrial s)"
| choose_color: "qs_oracleOpen s \<Longrightarrow> qs_mode s = RedMode \<Longrightarrow> quest_step s (chooseColor color s)"
| reset_sequence: "qs_oracleOpen s \<Longrightarrow> qs_mode s = RedMode \<Longrightarrow> quest_step s (s\<lparr>qs_sequenceInput := []\<rparr>)"
| go_back: "qs_oracleOpen s \<Longrightarrow> qs_mode s \<noteq> ChoiceMode \<Longrightarrow> quest_step s (resetToChoice s)"
| close_panel: "qs_oracleOpen s \<Longrightarrow> quest_step s (closePanel s)"

abbreviation quest_reachable :: "quest \<Rightarrow> bool" where
  "quest_reachable \<equiv> reachable (\<lambda>s. s = initial_quest) quest_step"

section \<open>Invariant\<close>

text \<open>
  The panel is only open at the octopus; once a trial was passed and not followed by a failed one,
  the reward is there; the phases after the octopus are only entered on a passed trial.
\<close>

definition quest_inv :: "quest \<Rightarrow> bool" where
  "quest_inv s =
     ((qs_oracleOpen s \<longrightarrow> qs_phase s = AtOctopus) \<and>
      0 \<le> qs_meows s \<and> 100 dvd qs_meows s \<and>
      (qs_lastTrialPassed s = Some True \<and> qs_phase s \<noteq> BurgerReceived \<longrightarrow> 100 \<le> qs_meows s) \<and>
      (qs_phase s \<in> {EarnedMeows, WalkingToCrab, ReadyToBuy} \<longrightarrow> qs_lastTrialPassed s = Some True) \<and>
      (qs_phase s = FailedTask \<longrightarrow> qs_lastTrialPassed s = Some False) \<and>
      (qs_phase s = AtOctopus \<and> \<not> qs_oracleOpen s \<longrightarrow> qs_lastTrialPassed s = None))"

lemmas quest_defs = startWalkToOctopus_def startWalkToCrab_def requestBurger_def buyBurger_def retryTask_def
  handleOracleClose_def handleTrialResult_def resetToChoice_def closePanel_def setAnswer_def
  canRequestBurger_def canRetryTask_def canPayForBurger_def canBuyBurger_def spendBurgerMeows_def
  rewardForOracleResult_def BURGER_PRICE_MEOWS_def ORACLE_REWARD_MEOWS_def

lemma trial_result_inv:
  assumes "quest_inv s" "qs_oracleOpen s"
  shows "quest_inv ((handleTrialResult passed (s\<lparr>qs_result := r\<rparr>))\<lparr>qs_mode := m\<rparr>)"
  using assms by (auto simp: quest_inv_def handleTrialResult_def rewardForOracleResult_def ORACLE_REWARD_MEOWS_def Let_def)

lemma quest_inv_sequence [simp]: "quest_inv (s\<lparr>qs_sequenceInput := xs\<rparr>) = quest_inv s"
  by (simp add: quest_inv_def)

lemma finishBlueTrial_inv: "quest_inv s \<Longrightarrow> qs_oracleOpen s \<Longrightarrow> quest_inv (finishBlueTrial s)"
  unfolding finishBlueTrial_def Let_def by (simp add: trial_result_inv split: prod.split)

lemma chooseColor_inv: "quest_inv s \<Longrightarrow> qs_oracleOpen s \<Longrightarrow> quest_inv (chooseColor color s)"
  unfolding chooseColor_def Let_def by (simp add: trial_result_inv)

lemma no_verdict: "v \<noteq> Some True \<Longrightarrow> v \<noteq> Some False \<Longrightarrow> v = None"
  by (cases v) auto

lemma panel_inv:
  "quest_inv s \<Longrightarrow> quest_inv (s\<lparr>qs_mode := m\<rparr>)"
  "quest_inv s \<Longrightarrow> quest_inv (setAnswer q i s)"
  "quest_inv s \<Longrightarrow> quest_inv (resetToChoice s)"
  "quest_inv s \<Longrightarrow> qs_oracleOpen s \<Longrightarrow> quest_inv (closePanel s)"
  by (auto simp: quest_inv_def quest_defs Let_def intro: no_verdict)

lemma kiki_inv:
  "quest_inv s \<Longrightarrow> qs_phase s = NeedsMeows \<Longrightarrow> quest_inv (startWalkToOctopus s)"
  "quest_inv s \<Longrightarrow> qs_phase s = WalkingToOctopus \<Longrightarrow> quest_inv (s\<lparr>qs_phase := AtOctopus, qs_oracleOpen := True\<rparr>)"
  "quest_inv s \<Longrightarrow> qs_phase s = EarnedMeows \<Longrightarrow> quest_inv (startWalkToCrab s)"
  "quest_inv s \<Longrightarrow> qs_phase s = WalkingToCrab \<Longrightarrow> quest_inv (s\<lparr>qs_phase := ReadyToBuy\<rparr>)"
  "quest_inv s \<Longrightarrow> quest_inv (s\<lparr>qs_showConfetti := b\<rparr>)"
  "quest_inv s \<Longrightarrow> canRequestBurger s \<Longrightarrow> quest_inv (requestBurger s)"
  "quest_inv s \<Longrightarrow> canRetryTask s \<Longrightarrow> quest_inv (retryTask s)"
  "quest_inv s \<Longrightarrow> canPayForBurger s \<Longrightarrow> quest_inv (buyBurger s)"
  by (auto simp: quest_inv_def quest_defs)

lemma quest_step_inv: "quest_step s t \<Longrightarrow> quest_inv s \<Longrightarrow> quest_inv t"
  by (induction rule: quest_step.induct) (simp_all add: panel_inv kiki_inv finishBlueTrial_inv chooseColor_inv)

interpretation quest: relation_invariant "\<lambda>s. s = initial_quest" quest_step quest_inv
proof unfold_locales
  fix s :: quest
  assume "s = initial_quest"
  then show "quest_inv s" by (simp add: quest_inv_def initial_quest_def)
next
  fix s t
  assume "quest_inv s" "quest_step s t"
  then show "quest_inv t" by (blast intro: quest_step_inv)
qed

section \<open>Facts of the rules\<close>

lemma evaluateSequence_iff: "evaluateSequence expected actual \<longleftrightarrow> actual = expected"
  by (auto simp: evaluateSequence_def nth_opt_def list_all_length nth_enumerate_eq intro: nth_equalityI)

lemma evaluateQuiz_passed: "fst (evaluateQuiz results) \<longleftrightarrow> 2 \<le> length (filter id results)"
  by (simp add: evaluateQuiz_def Let_def id_def)

text \<open>A state from which no timer and no button leads on.\<close>

definition quest_stuck :: "quest \<Rightarrow> bool" where
  "quest_stuck s = (\<not> qs_showConfetti s \<and> \<not> qs_oracleOpen s \<and> qs_phase s = AtOctopus)"

lemma quest_stuck_no_step: "quest_stuck s \<Longrightarrow> \<not> quest_step s t"
  by (auto simp: quest_stuck_def quest_defs elim!: quest_step.cases)

text \<open>Every other reachable state, its confetti apart, has a next step.\<close>

lemma quest_progress:
  assumes "quest_inv s" "\<not> (qs_phase s = AtOctopus \<and> \<not> qs_oracleOpen s)"
  shows "\<exists>t. quest_step s t"
proof (cases "qs_phase s")
  case ReadyToBuy
  with assms have "canPayForBurger s" by (simp add: quest_inv_def quest_defs)
  then show ?thesis by (blast intro: quest_step.intros)
next
  case IdleAtCrab
  then have "canRequestBurger s" by (simp add: canRequestBurger_def)
  then show ?thesis by (blast intro: quest_step.intros)
next
  case BurgerReceived
  then have "canRequestBurger s" by (simp add: canRequestBurger_def)
  then show ?thesis by (blast intro: quest_step.intros)
next
  case FailedTask
  then have "canRetryTask s" by (simp add: canRetryTask_def)
  then show ?thesis by (blast intro: quest_step.intros)
qed (use assms in \<open>blast intro: quest_step.intros\<close>)+

section \<open>The burger can be had\<close>

definition can_finish :: "quest \<Rightarrow> bool" where
  "can_finish s = (\<exists>t. quest_step\<^sup>*\<^sup>* s t \<and> qs_phase t = BurgerReceived)"

lemma can_finish_step: "quest_step s t \<Longrightarrow> can_finish t \<Longrightarrow> can_finish s"
  unfolding can_finish_def by (blast intro: converse_rtranclp_into_rtranclp)

lemma finish_received: "qs_phase s = BurgerReceived \<Longrightarrow> can_finish s"
  unfolding can_finish_def by blast

lemma finish_ready: "qs_phase s = ReadyToBuy \<Longrightarrow> 100 \<le> qs_meows s \<Longrightarrow> can_finish s"
  by (rule can_finish_step [OF pay_burger]) (simp_all add: quest_defs finish_received)

lemma finish_walking: "qs_phase s = WalkingToCrab \<Longrightarrow> 100 \<le> qs_meows s \<Longrightarrow> can_finish s"
  by (rule can_finish_step [OF arrive_at_crab]) (simp_all add: finish_ready)

lemma finish_earned: "qs_phase s = EarnedMeows \<Longrightarrow> 100 \<le> qs_meows s \<Longrightarrow> can_finish s"
  by (rule can_finish_step [OF walk_to_crab]) (simp_all add: startWalkToCrab_def finish_walking)

lemma finish_passed:
  "qs_oracleOpen s \<Longrightarrow> qs_lastTrialPassed s = Some True \<Longrightarrow> 100 \<le> qs_meows s \<Longrightarrow> can_finish s"
  by (rule can_finish_step [OF close_panel])
    (simp_all add: closePanel_def resetToChoice_def handleOracleClose_def finish_earned)

text \<open>The red trial, one pearl after the other.\<close>

lemma finish_red_last:
  assumes "qs_oracleOpen s" "qs_mode s = RedMode" "qs_sequenceInput s = [BlueC, RedC, VioletC]" "0 \<le> qs_meows s"
  shows "can_finish s"
  by (rule can_finish_step [OF choose_color [of s AmberC]], use assms in simp, use assms in simp)
    (rule finish_passed, use assms in \<open>simp_all add: chooseColor_def RED_TRIAL_SEQUENCE_def evaluateSequence_iff
       handleTrialResult_def rewardForOracleResult_def ORACLE_REWARD_MEOWS_def Let_def\<close>)

lemma finish_red_one:
  assumes "qs_oracleOpen s" "qs_mode s = RedMode" "length (qs_sequenceInput s) < 3"
    and "can_finish (s\<lparr>qs_sequenceInput := qs_sequenceInput s @ [c]\<rparr>)"
  shows "can_finish s"
proof (rule can_finish_step [OF choose_color [of s c]])
  have "chooseColor c s = s\<lparr>qs_sequenceInput := qs_sequenceInput s @ [c]\<rparr>"
    using assms(3) by (simp add: chooseColor_def RED_TRIAL_SEQUENCE_def Let_def)
  with assms(4) show "can_finish (chooseColor c s)" by simp
qed (use assms in simp_all)

lemma finish_red:
  assumes "qs_oracleOpen s" "qs_mode s = RedMode" "0 \<le> qs_meows s"
  shows "can_finish s"
proof (rule can_finish_step [OF reset_sequence [OF assms(1,2)]])
  show "can_finish (s\<lparr>qs_sequenceInput := []\<rparr>)"
    by (rule finish_red_one [where c = BlueC], use assms in simp_all,
        rule finish_red_one [where c = RedC], use assms in simp_all,
        rule finish_red_one [where c = VioletC], use assms in simp_all,
        rule finish_red_last, use assms in simp_all)
qed

lemma finish_open:
  assumes "qs_oracleOpen s" "0 \<le> qs_meows s"
  shows "can_finish s"
proof -
  have choice: "can_finish t" if "qs_oracleOpen t" "qs_mode t = ChoiceMode" "0 \<le> qs_meows t" for t
    by (rule can_finish_step [OF take_red [OF that(1,2)]]) (use that in \<open>simp add: finish_red\<close>)
  show ?thesis
  proof (cases "qs_mode s = ChoiceMode")
    case False
    show ?thesis
      by (rule can_finish_step [OF go_back [OF assms(1) False]], rule choice) (use assms in \<open>simp_all add: resetToChoice_def\<close>)
  qed (use choice assms in blast)
qed

lemma quest_can_finish:
  assumes "quest_inv s" "\<not> (qs_phase s = AtOctopus \<and> \<not> qs_oracleOpen s)"
  shows "can_finish s"
proof -
  from assms have m: "0 \<le> qs_meows s" by (simp add: quest_inv_def)
  have walking: "can_finish t" if "qs_phase t = WalkingToOctopus" "0 \<le> qs_meows t" for t
    by (rule can_finish_step [OF arrive_at_octopus [OF that(1)]]) (use that in \<open>simp add: finish_open\<close>)
  have needs: "can_finish t" if "qs_phase t = NeedsMeows" "0 \<le> qs_meows t" for t
    by (rule can_finish_step [OF walk_to_octopus [OF that(1)]]) (use that in \<open>simp add: startWalkToOctopus_def walking\<close>)
  show ?thesis
  proof (cases "qs_phase s")
    case IdleAtCrab
    then show ?thesis
      by - (rule can_finish_step [OF request_burger], simp_all add: canRequestBurger_def requestBurger_def needs)
  next
    case FailedTask
    then show ?thesis
      using m by - (rule can_finish_step [OF retry_task], simp_all add: canRetryTask_def retryTask_def finish_open)
  qed (use assms m in \<open>auto simp: quest_inv_def intro: needs walking finish_open finish_earned finish_walking
    finish_ready finish_received\<close>)
qed

text \<open>Closing the panel without a trial is the dead end.\<close>

lemma quest_reach: "quest_reachable s \<Longrightarrow> quest_step s t \<Longrightarrow> quest_reachable t"
  by (rule reachable.next_step)

lemma dead_end_reachable:
  "\<exists>s. quest_reachable s \<and> quest_stuck s"
proof -
  let ?a = "requestBurger initial_quest"
  let ?b = "startWalkToOctopus ?a"
  let ?c = "?b\<lparr>qs_phase := AtOctopus, qs_oracleOpen := True\<rparr>"
  have 1: "quest_step initial_quest ?a"
    by (rule request_burger) (simp add: canRequestBurger_def initial_quest_def)
  have 2: "quest_step ?a ?b" by (rule walk_to_octopus) (simp add: requestBurger_def)
  have 3: "quest_step ?b ?c" by (rule arrive_at_octopus) (simp add: startWalkToOctopus_def)
  have 4: "quest_step ?c (closePanel ?c)" by (rule close_panel) simp
  have "quest_reachable initial_quest" by (rule reachable.start) (rule refl)
  from quest_reach [OF quest_reach [OF quest_reach [OF quest_reach [OF this 1] 2] 3] 4]
  have "quest_reachable (closePanel ?c)" .
  moreover have "quest_stuck (closePanel ?c)"
    by (simp add: quest_stuck_def closePanel_def handleOracleClose_def resetToChoice_def requestBurger_def
        startWalkToOctopus_def initial_quest_def)
  ultimately show ?thesis by blast
qed

end
