(* ===== verification/Ui_Guests.thy ===== *)
theory Ui_Guests
  imports Ui_Clients
begin

text \<open>
  The guests of the application: the selectable ones (\<^verbatim>\<open>data/guests.json\<close>, read by \<^verbatim>\<open>data/guests.ts\<close>), the
  synthetic ones of the traffic generator (\<^verbatim>\<open>features/simulation/data/synthetic-guests.ts\<close>), and the
  lookups by id (\<^verbatim>\<open>lib/guest.ts\<close>).
\<close>

definition guest_profile ::
  "string \<Rightarrow> string \<Rightarrow> string \<Rightarrow> int \<Rightarrow> string \<Rightarrow> string \<Rightarrow> bool \<Rightarrow> string \<Rightarrow> string \<Rightarrow> GuestProfile" where
  "guest_profile i name surname age passport priority disability avatar personality =
     \<lparr>gp_id = i, gp_name = name, gp_surname = surname, gp_age = age, gp_passport = passport,
      gp_priority = priority, gp_disability = disability, gp_avatar = avatar, gp_personality = personality\<rparr>"

definition guests :: "GuestProfile list" where
  "guests =
     [guest_profile ''mango-miles'' ''Miles'' ''Mango'' 34 ''EU'' ''standard'' False
        ''mango-miles.png''
        ''Always books the earliest beach yoga slot.'',
      guest_profile ''luna-lagoon'' ''Luna'' ''Lagoon'' 29 ''non-EU'' ''fast'' False
        ''luna-lagoon.png''
        ''Collects seashells and airport lounge snacks.'',
      guest_profile ''coral-reef'' ''Coral'' ''Reef'' 42 ''non-EU'' ''standard'' True
        ''coral-reef.png''
        ''Knows every accessible path through the resort.'',
      guest_profile ''solana-breeze'' ''Solana'' ''Breeze'' 25 ''EU'' ''standard'' False
        ''solana-breeze.png''
        ''Plans every activity around the sunset.'',
      guest_profile ''palm-pierce'' ''Pierce'' ''Palm'' 51 ''EU'' ''fast'' False
        ''palm-pierce.png''
        ''Asks every parrot for investment advice.'',
      guest_profile ''marina-shells'' ''Marina'' ''Shells'' 37 ''EU'' ''standard'' False
        ''marina-shells.png''
        ''Rates hotels by pillow softness and juice quality.'',
      guest_profile ''captain-coconut'' ''Cody'' ''Coconut'' 46 ''EU'' ''standard'' False
        ''captain-coconut.png''
        ''Insists he can navigate by palm tree shadows.'',
      guest_profile ''talia-tide'' ''Talia'' ''Tide'' 31 ''EU'' ''standard'' False
        ''talia-tide.png''
        ''Cancels beach plans only for better beach plans.'',
      guest_profile ''reef-rivers'' ''Reef'' ''Rivers'' 68 ''EU'' ''standard'' True
        ''reef-rivers.png''
        ''Keeps a handwritten map of every quiet corner.'']"

definition syntheticGuests :: "GuestProfile list" where
  "syntheticGuests =
     [guest_profile ''sim-guest-mango-0001'' ''Mango'' ''Marin'' 29 ''EU'' ''standard'' False
        ''avatar-mango.png''
        ''Arrives with a camera and asks everyone for the best sunset spot.'',
      guest_profile ''sim-guest-coral-0002'' ''Coral'' ''Vale'' 34 ''non-EU'' ''fast'' False
        ''avatar-coral.png''
        ''Plans every resort activity before unpacking.'',
      guest_profile ''sim-guest-palm-0003'' ''Palm'' ''Ionescu'' 41 ''EU'' ''standard'' True
        ''avatar-palm.png''
        ''Looks for quiet corners and accessible routes around the island.'',
      guest_profile ''sim-guest-lagoon-0004'' ''Lagoon'' ''Reef'' 25 ''non-EU'' ''standard'' False
        ''avatar-lagoon.png''
        ''Only came for water sports and fresh pineapple juice.'',
      guest_profile ''sim-guest-sunny-0005'' ''Sunny'' ''Popescu'' 52 ''EU'' ''fast'' False
        ''avatar-sunny.png''
        ''Asks practical questions and always books early.'',
      guest_profile ''sim-guest-breeze-0006'' ''Breeze'' ''Costa'' 31 ''non-EU'' ''standard'' False
        ''avatar-breeze.png''
        ''Changes plans often and follows whatever looks fun nearby.'',
      guest_profile ''sim-guest-coconut-0007'' ''Coconut'' ''Dima'' 38 ''EU'' ''standard'' False
        ''avatar-coconut.png''
        ''Travels light, books late, and trusts the parrot too much.'',
      guest_profile ''sim-guest-pearl-0008'' ''Pearl'' ''Nistor'' 46 ''EU'' ''standard'' False
        ''avatar-pearl.png''
        ''Wants a calm suite and one perfect beach activity.'',
      guest_profile ''sim-guest-tide-0009'' ''Tide'' ''Lupu'' 33 ''non-EU'' ''standard'' False
        ''avatar-tide.png''
        ''Arrives late, leaves early, always has a good time.'',
      guest_profile ''sim-guest-dune-0010'' ''Dune'' ''Florescu'' 27 ''EU'' ''fast'' False
        ''avatar-dune.png''
        ''First-timer who photographs everything and asks lots of questions.'',
      guest_profile ''sim-guest-wave-0011'' ''Wave'' ''Barbu'' 39 ''EU'' ''standard'' True
        ''avatar-wave.png''
        ''Methodical planner who confirms every booking twice.'',
      guest_profile ''sim-guest-shell-0012'' ''Shell'' ''Oprea'' 44 ''non-EU'' ''standard'' False
        ''avatar-shell.png''
        ''Collects beach memories and always tips the parrot.'',
      guest_profile ''sim-guest-reef-0013'' ''Reef'' ''Stan'' 22 ''non-EU'' ''standard'' False
        ''avatar-reef.png''
        ''Impulsive traveller who switches activities on a whim.'',
      guest_profile ''sim-guest-cove-0014'' ''Cove'' ''Gheorghe'' 55 ''EU'' ''fast'' False
        ''avatar-cove.png''
        ''Veteran resort guest who knows the best spots already.'',
      guest_profile ''sim-guest-gale-0015'' ''Gale'' ''Matei'' 30 ''EU'' ''standard'' False
        ''avatar-gale.png''
        ''Spontaneous and always up for something new.'',
      guest_profile ''sim-guest-drift-0016'' ''Drift'' ''Popa'' 48 ''non-EU'' ''standard'' False
        ''avatar-drift.png''
        ''Quiet observer who lets the island come to them.'']"

section \<open>lib/guest.ts\<close>

text \<open>The last of the entries of a \<^verbatim>\<open>Map\<close> with the same key is the one it holds.\<close>

definition guestsById :: "string \<rightharpoonup> GuestProfile" where
  "guestsById = map_of (rev (map (\<lambda>guest. (gp_id guest, guest)) (guests @ syntheticGuests)))"

text \<open>\<^verbatim>\<open>s[0] ?? ""\<close>: the first character, nothing for the empty string.\<close>

definition getInitials :: "GuestProfile option \<Rightarrow> string" where
  "getInitials guest =
     (case guest of None \<Rightarrow> [] | Some g \<Rightarrow> take 1 (gp_name g) @ take 1 (gp_surname g))"

definition findGuestName :: "string option \<Rightarrow> string option" where
  "findGuestName guestId =
     (if \<not> truthy_str guestId then None
      else map_option (\<lambda>guest. gp_name guest @ '' '' @ gp_surname guest) (Option.bind guestId guestsById))"

definition resolveGuestName :: "string \<Rightarrow> string" where
  "resolveGuestName guestId = nullish (findGuestName (Some guestId)) guestId"

section \<open>Facts\<close>

lemma distinct_guest_ids: "distinct (map gp_id (guests @ syntheticGuests))"
  by code_simp

lemma guestsById_mem: "g \<in> set (guests @ syntheticGuests) \<Longrightarrow> guestsById (gp_id g) = Some g"
proof -
  assume g: "g \<in> set (guests @ syntheticGuests)"
  have "distinct (map fst (rev (map (\<lambda>guest. (gp_id guest, guest)) (guests @ syntheticGuests))))"
    using distinct_guest_ids by (auto simp: rev_map [symmetric] comp_def)
  with g show ?thesis unfolding guestsById_def by (intro map_of_is_SomeI) auto
qed

lemma guestsById_Some: "guestsById i = Some g \<Longrightarrow> g \<in> set (guests @ syntheticGuests) \<and> gp_id g = i"
  unfolding guestsById_def by (drule map_of_SomeD) auto

text \<open>The arrival form of every guest of the application passes the schema of its request.\<close>

lemma guest_data_ok:
  "list_all (\<lambda>g. gp_id g \<noteq> [] \<and> 0 < gp_age g \<and> gp_age g < 150 \<and> gp_passport g \<in> set [''EU'', ''non-EU'']
     \<and> gp_priority g \<in> set [''standard'', ''fast'']) (guests @ syntheticGuests)"
  by code_simp

end
