(* ===== verification/Ui_Lib.thy ===== *)
theory Ui_Lib
  imports Ui_Guests Ui_Broadcast Binary64 "HOL-Library.Word"
begin

text \<open>
  The helper modules of the web application: the generated avatars (\<^verbatim>\<open>lib/avatar.ts\<close>), the text of a
  room type (\<^verbatim>\<open>lib/format.ts\<close>), the game calendar (\<^verbatim>\<open>lib/simulation-time.ts\<close>) and the size of the map
  (\<^verbatim>\<open>features/map\<close>). The date library and the local calendar behind \<^verbatim>\<open>Date\<close> are parameters with the
  interface \<open>calendar\<close>.
\<close>

unbundle bit_operations_syntax

section \<open>lib/avatar.ts\<close>

definition PALETTES :: "(string \<times> string) list" where
  "PALETTES =
     [(''#FDE68A'', ''#F59E0B''), (''#A7F3D0'', ''#10B981''), (''#BFDBFE'', ''#3B82F6''),
      (''#FBCFE8'', ''#EC4899''), (''#DDD6FE'', ''#8B5CF6''), (''#FCA5A5'', ''#EF4444'')]"

text \<open>The bitwise operators of the language read their operands as signed 32-bit integers.\<close>

definition ToInt32 :: "int \<Rightarrow> int" where
  "ToInt32 i = signed_take_bit 31 i"

definition js_xor :: "int \<Rightarrow> int \<Rightarrow> int" where
  "js_xor a b = ToInt32 a XOR ToInt32 b"

definition unsigned_shift_0 :: "int \<Rightarrow> int" where
  "unsigned_shift_0 i = take_bit 32 i"

definition hash_step :: "int \<Rightarrow> char \<Rightarrow> int" where
  "hash_step hash c = js_xor (hash * 33) (of_char c)"

definition hashSeed :: "string \<Rightarrow> int" where
  "hashSeed seed = unsigned_shift_0 (foldl hash_step 5381 seed)"

text \<open>What a face is made of; the picture is drawn from this alone.\<close>

record face =
  fc_skin :: string
  fc_accent :: string
  fc_ears :: bool
  fc_blush :: bool
  fc_eyeSpacing :: int
  fc_mouthY :: int

definition face_of :: "string \<Rightarrow> face" where
  "face_of seed =
     (let hash = hashSeed (if seed = [] then ''guest'' else seed);
          (skin, accent) = PALETTES ! nat (hash mod int (length PALETTES))
      in \<lparr>fc_skin = skin, fc_accent = accent,
          fc_ears = (hash div 8 mod 2 = 0),
          fc_blush = (hash div 32 mod 2 = 0),
          fc_eyeSpacing = 8 + hash div 128 mod 4,
          fc_mouthY = (if hash div 512 mod 2 = 0 then 62 else 46)\<rparr>)"

definition face_ears :: "face \<Rightarrow> string" where
  \<open>face_ears f =
     (if fc_ears f
      then ''<path d="M20 24 L12 6 L30 17 Z" fill="'' @ fc_skin f @ ''"/><path d="M80 24 L88 6 L70 17 Z" fill="'' @ fc_skin f @ ''"/>''
      else [])\<close>

definition face_blush :: "face \<Rightarrow> string" where
  \<open>face_blush f =
     (if fc_blush f
      then ''<circle cx="'' @ show_int (50 - fc_eyeSpacing f - 7) @ ''" cy="60" r="5" fill="'' @ fc_accent f @ ''" opacity="0.35"/><circle cx="''
         @ show_int (50 + fc_eyeSpacing f + 7) @ ''" cy="60" r="5" fill="'' @ fc_accent f @ ''" opacity="0.35"/>''
      else [])\<close>

definition face_svg :: "face \<Rightarrow> string" where
  \<open>face_svg f =
     ''<svg xmlns="http://www.w3.org/2000/svg" viewBox="0 0 100 100">'' @
     face_ears f @
     ''<circle cx="50" cy="52" r="38" fill="'' @ fc_skin f @ ''"/>'' @
     ''<circle cx="50" cy="52" r="38" fill="none" stroke="'' @ fc_accent f @ ''" stroke-width="3" opacity="0.5"/>'' @
     face_blush f @
     ''<circle cx="'' @ show_int (50 - fc_eyeSpacing f) @ ''" cy="48" r="4.5" fill="#1f2937"/>'' @
     ''<circle cx="'' @ show_int (50 + fc_eyeSpacing f) @ ''" cy="48" r="4.5" fill="#1f2937"/>'' @
     ''<path d="M'' @ show_int (50 - 9) @ '' 52 Q50 '' @ show_int (fc_mouthY f) @ '' '' @ show_int (50 + 9)
       @ '' 52" fill="none" stroke="#1f2937" stroke-width="3" stroke-linecap="round"/>'' @
     ''</svg>''\<close>

definition getAvatarDataUri :: "string \<Rightarrow> string" where
  "getAvatarDataUri seed = ''data:image/svg+xml;utf8,'' @ encodeURIComponent (face_svg (face_of seed))"

section \<open>lib/format.ts\<close>

text \<open>\<^verbatim>\<open>s.split(c)\<close> for one character, and \<^verbatim>\<open>toLowerCase\<close> on the letters of ASCII.\<close>

fun js_split :: "char \<Rightarrow> string \<Rightarrow> string list" where
  "js_split c [] = [[]]"
| "js_split c (x # xs) =
     (if x = c then [] # js_split c xs
      else (case js_split c xs of [] \<Rightarrow> [[x]] | w # ws \<Rightarrow> (x # w) # ws))"

definition lower_char :: "char \<Rightarrow> char" where
  "lower_char c = (if 65 \<le> (of_char c :: nat) \<and> (of_char c :: nat) \<le> 90 then char_of (of_char c + 32 :: nat) else c)"

definition formatRoomType :: "string \<Rightarrow> string" where
  "formatRoomType roomType =
     js_join '' '' (map (\<lambda>word. take 1 word @ map lower_char (drop 1 word)) (js_split (CHR ''_'') roomType))"

section \<open>lib/simulation-time.ts\<close>

text \<open>A start time that cannot be read is an invalid date, and every number made from it NaN (\<open>None\<close>).\<close>

definition getCurrentSimulationDay :: "(string \<Rightarrow> int option) \<Rightarrow> ui_env \<Rightarrow> int \<Rightarrow> int option" where
  "getCurrentSimulationDay Date_parse env nowMs =
     map_option (\<lambda>anchorMs.
       let elapsedRealSeconds = round64 (round64 (of_int (nowMs - anchorMs)) / 1000);
           elapsedGameSeconds = round64 (elapsedRealSeconds * ev_gameSpeed env)
       in \<lfloor>round64 (elapsedGameSeconds / 86400)\<rfloor>)
     (Date_parse (ev_simulationStartTime env))"

definition dateToSimulationDay :: "('d \<Rightarrow> 'd) \<Rightarrow> ('d \<Rightarrow> 'd \<Rightarrow> int) \<Rightarrow> 'd \<Rightarrow> 'd \<Rightarrow> int" where
  "dateToSimulationDay startOfDay differenceInDays anchor date =
     differenceInDays (startOfDay date) (startOfDay anchor)"

definition simulationDayToDate :: "('d \<Rightarrow> 'd) \<Rightarrow> ('d \<Rightarrow> int) \<Rightarrow> ('d \<Rightarrow> int \<Rightarrow> 'd) \<Rightarrow> 'd \<Rightarrow> int \<Rightarrow> 'd" where
  "simulationDayToDate startOfDay getDate setDate anchor day =
     startOfDay (setDate anchor (getDate anchor + day))"

text \<open>
  What the code relies on of a calendar: days are numbered, the start of a day depends on its number
  alone, the difference of two starts of days is the difference of their numbers (the date library
  counts calendar days, whatever their length), and setting the day of the month moves by days.
\<close>

locale calendar =
  fixes startOfDay :: "'d \<Rightarrow> 'd"
    and differenceInDays :: "'d \<Rightarrow> 'd \<Rightarrow> int"
    and getDate :: "'d \<Rightarrow> int"
    and setDate :: "'d \<Rightarrow> int \<Rightarrow> 'd"
    and day_no :: "'d \<Rightarrow> int"
  assumes startOfDay_eq: "startOfDay a = startOfDay b \<longleftrightarrow> day_no a = day_no b"
    and day_no_start: "day_no (startOfDay a) = day_no a"
    and difference_starts: "differenceInDays (startOfDay a) (startOfDay b) = day_no a - day_no b"
    and day_no_setDate: "day_no (setDate a (getDate a + k)) = day_no a + k"
begin

lemma startOfDay_idem: "startOfDay (startOfDay a) = startOfDay a"
  using startOfDay_eq day_no_start by blast

lemma day_of_date: "dateToSimulationDay startOfDay differenceInDays anchor date = day_no date - day_no anchor"
  by (simp add: dateToSimulationDay_def difference_starts)

lemma date_to_day_to_date:
  "simulationDayToDate startOfDay getDate setDate anchor
     (dateToSimulationDay startOfDay differenceInDays anchor date) = startOfDay date"
  by (simp add: simulationDayToDate_def day_of_date startOfDay_eq day_no_setDate)

lemma day_to_date_to_day:
  "dateToSimulationDay startOfDay differenceInDays anchor
     (simulationDayToDate startOfDay getDate setDate anchor day) = day"
  by (simp add: simulationDayToDate_def day_of_date day_no_start day_no_setDate)

end

text \<open>The calendar of UTC on milliseconds, with any numbering of the days of a month.\<close>

definition DAY_MS :: int where "DAY_MS = 86400000"
definition utc_day :: "int \<Rightarrow> int" where "utc_day ms = ms div DAY_MS"
definition utc_startOfDay :: "int \<Rightarrow> int" where "utc_startOfDay ms = utc_day ms * DAY_MS"
definition utc_differenceInDays :: "int \<Rightarrow> int \<Rightarrow> int" where
  "utc_differenceInDays a b = (if a \<ge> b then (a - b) div DAY_MS else - ((b - a) div DAY_MS))"
definition utc_setDate :: "(int \<Rightarrow> int) \<Rightarrow> int \<Rightarrow> int \<Rightarrow> int" where
  "utc_setDate getDate ms n = ms + (n - getDate ms) * DAY_MS"

interpretation utc: calendar utc_startOfDay utc_differenceInDays getDate "utc_setDate getDate" utc_day
  for getDate
proof unfold_locales
  fix a b k :: int
  show "utc_startOfDay a = utc_startOfDay b \<longleftrightarrow> utc_day a = utc_day b"
    by (simp add: utc_startOfDay_def DAY_MS_def)
  show "utc_day (utc_startOfDay a) = utc_day a"
    by (simp add: utc_startOfDay_def utc_day_def DAY_MS_def)
  show "utc_differenceInDays (utc_startOfDay a) (utc_startOfDay b) = utc_day a - utc_day b"
  proof -
    have "utc_startOfDay a - utc_startOfDay b = (utc_day a - utc_day b) * DAY_MS"
      "utc_startOfDay b - utc_startOfDay a = (utc_day b - utc_day a) * DAY_MS"
      by (simp_all add: utc_startOfDay_def left_diff_distrib)
    then have "(utc_startOfDay a - utc_startOfDay b) div DAY_MS = utc_day a - utc_day b"
      "(utc_startOfDay b - utc_startOfDay a) div DAY_MS = utc_day b - utc_day a"
      using nonzero_mult_div_cancel_right [of DAY_MS] by (simp_all only: DAY_MS_def)
    then show ?thesis by (simp add: utc_differenceInDays_def)
  qed
  show "utc_day (utc_setDate getDate a (getDate a + k)) = utc_day a + k"
    by (simp add: utc_setDate_def utc_day_def DAY_MS_def)
qed

section \<open>The size of the map\<close>

definition MAP_W :: rat where "MAP_W = 3200"
definition MAP_H :: rat where "MAP_H = 2000"
definition MAP_ASPECT :: rat where "MAP_ASPECT = round64 (MAP_W / MAP_H)"
definition MAP_ZOOM_BUDGET :: rat where "MAP_ZOOM_BUDGET = round64 (28 / 10)"
definition ZONE_HIT_RADIUS :: rat where "ZONE_HIT_RADIUS = 160"

record MapDimensions =
  md_w :: rat
  md_h :: rat
  md_minScale :: rat

definition compute :: "rat \<Rightarrow> rat \<Rightarrow> MapDimensions" where
  "compute vpW vpH =
     (let byWidth = round64 (vpW * MAP_ZOOM_BUDGET);
          byHeight = round64 (round64 (vpH * MAP_ZOOM_BUDGET) * MAP_ASPECT);
          w = max byWidth byHeight;
          h = round64 (w / MAP_ASPECT)
      in \<lparr>md_w = w, md_h = h, md_minScale = max (round64 (vpW / w)) (round64 (vpH / h))\<rparr>)"

text \<open>The hook: the size of the first render, then that of every resize.\<close>

definition useMapDimensions :: "rat \<times> rat \<Rightarrow> (rat \<times> rat) list \<Rightarrow> MapDimensions" where
  "useMapDimensions window resizes = foldl (\<lambda>_ (w, h). compute w h) (case window of (w, h) \<Rightarrow> compute w h) resizes"

section \<open>Facts of the hash\<close>

definition hash_word :: "string \<Rightarrow> 32 word" where
  "hash_word seed = foldl (\<lambda>w c. w * 33 XOR of_char c) 5381 seed"

lemma word_of_ToInt32: "(word_of_int (ToInt32 i) :: 32 word) = word_of_int i"
  unfolding ToInt32_def by (rule bit_word_eqI) (simp add: bit_simps)

lemma word_of_hash_step: "(word_of_int (hash_step h c) :: 32 word) = word_of_int h * 33 XOR of_char c"
proof -
  have "(word_of_int (hash_step h c) :: 32 word)
      = word_of_int (ToInt32 (h * 33)) XOR word_of_int (ToInt32 (of_char c))"
    unfolding hash_step_def js_xor_def by (rule bit_word_eqI) (simp add: bit_simps)
  also have "\<dots> = word_of_int (h * 33) XOR word_of_int (of_char c)" by (simp only: word_of_ToInt32)
  finally show ?thesis by (simp add: of_int_of_char)
qed

lemma hashSeed_word: "hashSeed seed = uint (hash_word seed)"
proof -
  have "(word_of_int (foldl hash_step h seed) :: 32 word)
      = foldl (\<lambda>w c. w * 33 XOR of_char c) (word_of_int h) seed" for h
    by (induction seed arbitrary: h) (simp_all add: word_of_hash_step)
  from this [of 5381] have "hash_word seed = word_of_int (foldl hash_step 5381 seed)"
    by (simp add: hash_word_def)
  then show ?thesis by (simp add: hashSeed_def unsigned_shift_0_def uint_word_of_int_eq)
qed

lemma hashSeed_bounds: "0 \<le> hashSeed seed" "hashSeed seed < 2 ^ 32"
  using take_bit_int_less_exp [of 32] by (simp_all add: hashSeed_def unsigned_shift_0_def)

text \<open>The multiplication is done on binary64 numbers; every product is small enough to be exact.\<close>

lemma js_xor_bounds: "- (2 ^ 31) \<le> js_xor a b" "js_xor a b < 2 ^ 31"
proof -
  have "js_xor a b = signed_take_bit 31 (a XOR b)"
    unfolding js_xor_def ToInt32_def by (rule bit_eqI) (simp add: bit_simps)
  then show "- (2 ^ 31) \<le> js_xor a b" "js_xor a b < 2 ^ 31"
    using signed_take_bit_int_greater_eq_minus_exp [of 31 "a XOR b"] signed_take_bit_int_less_exp [of 31 "a XOR b"]
    by simp_all
qed

lemma hash_product_exact: "round64 (of_int (foldl hash_step 5381 seed * 33)) = of_int (foldl hash_step 5381 seed * 33)"
proof (rule binary64.rnd_exact)
  have "\<bar>foldl hash_step 5381 seed\<bar> \<le> 2 ^ 31"
  proof (cases seed rule: rev_cases)
    case (snoc s c)
    then show ?thesis
      using js_xor_bounds [of "foldl hash_step 5381 s * 33" "of_char c"] by (simp add: hash_step_def abs_le_iff)
  qed simp
  then show "\<bar>foldl hash_step 5381 seed * 33\<bar> \<le> 2 ^ 53" by (simp add: abs_mult)
qed

lemma formatRoomType_rooms:
  "map formatRoomType ROOM_TYPES = [''Standard'', ''Deluxe'', ''Suite'']"
  by code_simp

text \<open>The faces are not distinct: two of the synthetic guests share one.\<close>

lemma face_collision:
  "face_of ''sim-guest-coconut-0007'' = face_of ''sim-guest-drift-0016''"
  by code_simp

end
