(* ===== verification/Ui_Simulation.thy ===== *)
theory Ui_Simulation
  imports Ui_Lib
begin

text \<open>
  The traffic generator (\<^verbatim>\<open>features/simulation\<close>): the actions of a synthetic guest, the stages it goes
  through, and the loops that run them. The network is a parameter over a world of its own: a request
  changes the world and has an answer. The random numbers of one step are a sequence, each call of
  \<^verbatim>\<open>Math.random\<close> taking the next one.
\<close>

section \<open>actions.ts\<close>

definition PARROT_QUESTIONS :: "string list" where
  "PARROT_QUESTIONS =
     [''What should I do first on the island?'', ''Can you suggest a beach activity?'',
      ''What should I know before checking in?'', ''What is the resort like this afternoon?'']"

definition randomInt :: "rat \<Rightarrow> int \<Rightarrow> int \<Rightarrow> int" where
  "randomInt r lo hi = \<lfloor>round64 (r * of_int (hi - lo + 1))\<rfloor> + lo"

definition sample :: "rat \<Rightarrow> 'a list \<Rightarrow> 'a option" where
  "sample r items = nth_opt items (nat \<lfloor>round64 (r * of_int (int (length items)))\<rfloor>)"

type_synonym randoms = "nat \<Rightarrow> rat"

text \<open>The numbers that are left after the first \<open>n\<close> calls.\<close>

definition later :: "nat \<Rightarrow> randoms \<Rightarrow> randoms" where
  "later n r = (\<lambda>i. r (n + i))"

definition guestToArrivalBody :: "GuestProfile \<Rightarrow> jsval" where
  "guestToArrivalBody guest = JObj
     [(''guest_id'', JStr (gp_id guest)), (''name'', JStr (gp_name guest)), (''surname'', JStr (gp_surname guest)),
      (''age'', jint (gp_age guest)), (''passport_type'', JStr (gp_passport guest)),
      (''priority'', JStr (gp_priority guest)), (''disability'', JBool (gp_disability guest))]"

text \<open>A day number, NaN when the start of the calendar cannot be read.\<close>

definition jday :: "int option \<Rightarrow> jsval" where
  "jday day = (case day of None \<Rightarrow> JNum NaN | Some d \<Rightarrow> jint d)"

text \<open>The body of a reservation: check-in, room type, party and length of stay in the order they are drawn.\<close>

definition randomReservationBody :: "int option \<Rightarrow> randoms \<Rightarrow> GuestProfile \<Rightarrow> jsval" where
  "randomReservationBody day r guest =
     (let today = map_option (max 0) day;
          checkIn = map_option (\<lambda>d. d + randomInt (r 0) 0 2) today;
          roomType = nullish (sample (r 1) ROOM_TYPES) [];
          guestCount = randomInt (r 2) 1 (nullish (ROOM_MAX_GUESTS roomType) 0)
      in JObj
        [(''guest_id'', JStr (gp_id guest)), (''room_type'', JStr roomType), (''guest_count'', jint guestCount),
         (''check_in_day'', jday checkIn),
         (''check_out_day'', jday (map_option (\<lambda>d. d + randomInt (r 3) 1 3) checkIn))])"

text \<open>A string property of an answer.\<close>

definition str_field :: "string \<Rightarrow> jsval \<Rightarrow> string option" where
  "str_field k v = (case v of JObj ob \<Rightarrow> as_string (jget ob k) | _ \<Rightarrow> None)"

type_synonym 'w network = "'w \<Rightarrow> api_request \<Rightarrow> 'w \<times> (api_error + jsval)"

text \<open>
  What the actions share: the world, the time of the last question (\<^verbatim>\<open>lastParrotChatAt\<close>) and the states
  of the guests.
\<close>

datatype SimGuestState =
    SimNew
  | SimArrived string
  | SimHotelBooked string string
  | SimBeachBooked string string string

record 'w sim =
  sm_world :: 'w
  sm_lastParrotChatAt :: int
  sm_states :: "string \<rightharpoonup> SimGuestState"

text \<open>The configuration, the readings of the clock at the time of the step, and the network.\<close>

record 'w sim_context =
  sc_env :: ui_env
  sc_now :: int
  sc_day :: "int option"
  sc_net :: "'w network"

definition send :: "'w sim_context \<Rightarrow> api_request \<Rightarrow> 'w sim \<Rightarrow> 'w sim \<times> (api_error + jsval)" where
  "send c req s = (case sc_net c (sm_world s) req of (w, answer) \<Rightarrow> (s\<lparr>sm_world := w\<rparr>, answer))"

definition arrive :: "'w sim_context \<Rightarrow> GuestProfile \<Rightarrow> 'w sim \<Rightarrow> 'w sim \<times> string option" where
  "arrive c guest s =
     (case send c (postArrival (guestToArrivalBody guest)) s of
        (s', Inr result) \<Rightarrow> (s', str_field ''gate'' result)
      | (s', Inl e) \<Rightarrow> (s', None))"

definition askParrot :: "'w sim_context \<Rightarrow> randoms \<Rightarrow> GuestProfile \<Rightarrow> 'w sim \<Rightarrow> 'w sim" where
  "askParrot c r guest s =
     (if of_int (sc_now c - sm_lastParrotChatAt s) < ev_parrotChatCooldownMs (sc_env c) then s
      else fst (send c (postChat (gp_id guest) (nullish (sample (r 0) PARROT_QUESTIONS) []))
                  (s\<lparr>sm_lastParrotChatAt := sc_now c\<rparr>)))"

definition bookHotel :: "'w sim_context \<Rightarrow> randoms \<Rightarrow> GuestProfile \<Rightarrow> 'w sim \<Rightarrow> 'w sim \<times> string option" where
  "bookHotel c r guest s =
     (case send c (postReservation (randomReservationBody (sc_day c) r guest)) s of
        (s', Inr result) \<Rightarrow> (s', str_field ''id'' result)
      | (s', Inl e) \<Rightarrow>
          (case send c (getReservationByGuest (gp_id guest)) s' of
             (s'', Inr existing) \<Rightarrow> (s'', str_field ''id'' existing)
           | (s'', Inl e) \<Rightarrow> (s'', None)))"

definition activities_of :: "jsval \<Rightarrow> jsobj list" where
  "activities_of v =
     (case v of
        JObj ob \<Rightarrow> (case jget ob ''activities'' of JArr vs \<Rightarrow> List.map_filter as_obj vs | _ \<Rightarrow> [])
      | _ \<Rightarrow> [])"

fun positive_num :: "jsval \<Rightarrow> bool" where
  "positive_num (JNum (Fin q)) = (0 < q)"
| "positive_num (JNum PosInf) = True"
| "positive_num _ = False"

definition bookRandomActivity :: "'w sim_context \<Rightarrow> randoms \<Rightarrow> GuestProfile \<Rightarrow> 'w sim \<Rightarrow> 'w sim \<times> string option" where
  "bookRandomActivity c r guest s =
     (case send c getActivities s of
        (s', Inl e) \<Rightarrow> (s', None)
      | (s', Inr activities) \<Rightarrow>
          (let available = filter (\<lambda>a. positive_num (jget a ''remaining'')) (activities_of activities)
           in case Option.bind (sample (r 0) available) (\<lambda>a. as_string (jget a ''activity_id'')) of
                None \<Rightarrow> (s', None)
              | Some activity_id \<Rightarrow>
                  (case send c (bookActivity activity_id (gp_id guest)) s' of
                     (s'', Inr _) \<Rightarrow> (s'', Some activity_id)
                   | (s'', Inl e) \<Rightarrow> (s'', None))))"

definition cancelBeachActivity :: "'w sim_context \<Rightarrow> string \<Rightarrow> GuestProfile \<Rightarrow> 'w sim \<Rightarrow> 'w sim" where
  "cancelBeachActivity c activityId guest s = fst (send c (cancelActivity activityId (gp_id guest)) s)"

definition cancelHotelReservation :: "'w sim_context \<Rightarrow> string \<Rightarrow> 'w sim \<Rightarrow> 'w sim" where
  "cancelHotelReservation c reservationId s = fst (send c (cancelReservation reservationId) s)"

section \<open>machine.ts\<close>

datatype SimGuestStage = StNew | StArrived | StHotelBooked | StBeachBooked

definition STAGES :: "SimGuestStage list" where
  "STAGES = [StNew, StArrived, StHotelBooked, StBeachBooked]"

definition roll :: "rat \<Rightarrow> rat \<Rightarrow> bool" where
  "roll chance r = (r < chance)"

text \<open>A fractional literal is the binary64 number nearest to it.\<close>

definition percent :: "int \<Rightarrow> rat" where
  "percent p = round64 (of_int p / 100)"

text \<open>A handler returns the state it passes to \<^verbatim>\<open>setState\<close>, if it calls it.\<close>

definition handleNew :: "'w sim_context \<Rightarrow> GuestProfile \<Rightarrow> 'w sim \<Rightarrow> 'w sim \<times> SimGuestState option" where
  "handleNew c guest s =
     (case arrive c guest s of
        (s', gate) \<Rightarrow> (s', if truthy_str gate then Some (SimArrived (the gate)) else None))"

definition handleArrived ::
  "'w sim_context \<Rightarrow> randoms \<Rightarrow> GuestProfile \<Rightarrow> string \<Rightarrow> 'w sim \<Rightarrow> 'w sim \<times> SimGuestState option" where
  "handleArrived c r guest gate s =
     (if roll (percent 80) (r 0)
      then (case bookHotel c (later 1 r) guest s of
              (s', reservationId) \<Rightarrow>
                (s', if truthy_str reservationId then Some (SimHotelBooked gate (the reservationId)) else None))
      else (askParrot c (later 1 r) guest s, None))"

definition handleHotelBooked ::
  "'w sim_context \<Rightarrow> randoms \<Rightarrow> GuestProfile \<Rightarrow> string \<Rightarrow> string \<Rightarrow> 'w sim \<Rightarrow> 'w sim \<times> SimGuestState option" where
  "handleHotelBooked c r guest gate reservationId s =
     (let action = r 0
      in if action < percent 25
         then (case bookRandomActivity c (later 1 r) guest s of
                 (s', activityId) \<Rightarrow>
                   (s', if truthy_str activityId then Some (SimBeachBooked gate reservationId (the activityId)) else None))
         else if action < percent 65 then (askParrot c (later 1 r) guest s, None)
         else (s, None))"

definition handleBeachBooked ::
  "'w sim_context \<Rightarrow> randoms \<Rightarrow> GuestProfile \<Rightarrow> string \<Rightarrow> string \<Rightarrow> string \<Rightarrow> 'w sim \<Rightarrow> 'w sim \<times> SimGuestState option" where
  "handleBeachBooked c r guest gate reservationId activityId s =
     (let action = r 0
      in if action < percent 10
         then (cancelHotelReservation c reservationId (cancelBeachActivity c activityId guest s), Some SimNew)
         else if action < percent 25
         then (cancelBeachActivity c activityId guest s, Some (SimHotelBooked gate reservationId))
         else if action < percent 45 then (askParrot c (later 1 r) guest s, None)
         else (s, None))"

fun STAGE_HANDLERS ::
  "'w sim_context \<Rightarrow> randoms \<Rightarrow> GuestProfile \<Rightarrow> SimGuestState \<Rightarrow> 'w sim \<Rightarrow> 'w sim \<times> SimGuestState option" where
  "STAGE_HANDLERS c r guest SimNew s = handleNew c guest s"
| "STAGE_HANDLERS c r guest (SimArrived gate) s = handleArrived c r guest gate s"
| "STAGE_HANDLERS c r guest (SimHotelBooked gate reservationId) s = handleHotelBooked c r guest gate reservationId s"
| "STAGE_HANDLERS c r guest (SimBeachBooked gate reservationId activityId) s =
     handleBeachBooked c r guest gate reservationId activityId s"

fun seedState :: "SimGuestStage \<Rightarrow> SimGuestState" where
  "seedState StNew = SimNew"
| "seedState StArrived = SimArrived []"
| "seedState StHotelBooked = SimHotelBooked [] []"
| "seedState StBeachBooked = SimHotelBooked [] []"

definition createInitialState :: "string \<rightharpoonup> SimGuestState" where
  "createInitialState =
     map_of (rev (map (\<lambda>(i, guest). (gp_id guest, seedState (STAGES ! (i mod length STAGES)))) (enumerate 0 syntheticGuests)))"

text \<open>
  A step reads the state of its guest when it starts and writes it when the handler calls
  \<^verbatim>\<open>setState\<close>; in between other steps may run. A guest without a state throws.
\<close>

definition start_step :: "randoms \<Rightarrow> 'w sim \<Rightarrow> (GuestProfile \<times> SimGuestState) option" where
  "start_step r s =
     Option.bind (sample (r 0) syntheticGuests) (\<lambda>guest.
       map_option (\<lambda>state. (guest, state)) (sm_states s (gp_id guest)))"

definition finish_step :: "'w sim_context \<Rightarrow> randoms \<Rightarrow> GuestProfile \<times> SimGuestState \<Rightarrow> 'w sim \<Rightarrow> 'w sim" where
  "finish_step c r step s =
     (case step of (guest, state) \<Rightarrow>
        (case STAGE_HANDLERS c (later 1 r) guest state s of
           (s', None) \<Rightarrow> s'
         | (s', Some nxt) \<Rightarrow> s'\<lparr>sm_states := (sm_states s')(gp_id guest \<mapsto> nxt)\<rparr>))"

definition runGuestStep :: "'w sim_context \<Rightarrow> randoms \<Rightarrow> 'w sim \<Rightarrow> 'w sim" where
  "runGuestStep c r s = (case start_step r s of None \<Rightarrow> s | Some step \<Rightarrow> finish_step c r step s)"

section \<open>use-traffic-generator.ts\<close>

definition MIN_DELAY_MS :: int where "MIN_DELAY_MS = 1500"
definition MAX_DELAY_MS :: int where "MAX_DELAY_MS = 4000"
definition CONCURRENT_GUESTS :: nat where "CONCURRENT_GUESTS = 3"

text \<open>
  \<open>tg_pending\<close> holds the timers that have not fired (identifier and delay), \<open>tg_inflight\<close> the steps that
  have started and not finished, each with the random numbers it draws.
\<close>

record 'w generator =
  tg_running :: bool
  tg_ticks :: "nat list"
  tg_pending :: "(nat \<times> int) list"
  tg_inflight :: "(randoms \<times> (GuestProfile \<times> SimGuestState) option) list"
  tg_next :: nat
  tg_sim :: "'w sim"

definition scheduleNext :: "rat \<Rightarrow> 'w generator \<Rightarrow> 'w generator" where
  "scheduleNext r g =
     (if \<not> tg_running g then g
      else g\<lparr>tg_pending := (tg_next g, randomInt r MIN_DELAY_MS MAX_DELAY_MS) # tg_pending g,
             tg_ticks := tg_ticks g @ [tg_next g],
             tg_next := Suc (tg_next g)\<rparr>)"

definition mount_generator :: "bool \<Rightarrow> randoms \<Rightarrow> 'w generator \<Rightarrow> 'w generator" where
  "mount_generator on r g =
     (if \<not> on then g
      else fold (\<lambda>i. scheduleNext (r i)) [0..<CONCURRENT_GUESTS] (g\<lparr>tg_running := True\<rparr>))"

definition unmount_generator :: "bool \<Rightarrow> 'w generator \<Rightarrow> 'w generator" where
  "unmount_generator on g =
     (if \<not> on then g
      else g\<lparr>tg_running := False,
             tg_pending := filter (\<lambda>t. fst t \<notin> set (tg_ticks g)) (tg_pending g),
             tg_ticks := []\<rparr>)"

text \<open>A timer fires: its step reads its guest and waits for the network; it ends: the next is scheduled.\<close>

definition timer_fires :: "nat \<Rightarrow> randoms \<Rightarrow> 'w generator \<Rightarrow> 'w generator" where
  "timer_fires i r g =
     g\<lparr>tg_pending := filter (\<lambda>t. fst t \<noteq> i) (tg_pending g),
       tg_inflight := (r, start_step r (tg_sim g)) # tg_inflight g\<rparr>"

definition step_ends :: "'w sim_context \<Rightarrow> nat \<Rightarrow> rat \<Rightarrow> 'w generator \<Rightarrow> 'w generator" where
  "step_ends c k r' g =
     (case tg_inflight g ! k of
        (r, step) \<Rightarrow>
          scheduleNext r'
            (g\<lparr>tg_inflight := splice1 k (tg_inflight g),
               tg_sim := (case step of None \<Rightarrow> tg_sim g | Some st \<Rightarrow> finish_step c r st (tg_sim g))\<rparr>))"

text \<open>
  The events of one instance of the hook. The framework mounts it when nothing of it is running: once,
  and in its development mode again right after the first clean-up.
\<close>

inductive generator_step :: "bool \<Rightarrow> 'w generator \<Rightarrow> 'w generator \<Rightarrow> bool" for on :: bool where
  mounts: "\<not> tg_running g \<Longrightarrow> tg_inflight g = [] \<Longrightarrow> \<forall>i. random_num (r i) \<Longrightarrow> generator_step on g (mount_generator on r g)"
| fires: "(i, d) \<in> set (tg_pending g) \<Longrightarrow> \<forall>j. random_num (r j) \<Longrightarrow> generator_step on g (timer_fires i r g)"
| ends: "k < length (tg_inflight g) \<Longrightarrow> random_num r' \<Longrightarrow> generator_step on g (step_ends c k r' g)"
| unmounts: "generator_step on g (unmount_generator on g)"

definition initial_generator :: "'w \<Rightarrow> 'w generator" where
  "initial_generator w =
     \<lparr>tg_running = False, tg_ticks = [], tg_pending = [], tg_inflight = [], tg_next = 0,
      tg_sim = \<lparr>sm_world = w, sm_lastParrotChatAt = 0, sm_states = createInitialState\<rparr>\<rparr>"

section \<open>What is drawn\<close>

lemma randomInt_bounds:
  assumes "random_num r" "lo \<le> hi" "hi - lo + 1 < 2 ^ 52"
  shows "lo \<le> randomInt r lo hi" "randomInt r lo hi \<le> hi"
  using random_index [OF assms(1), of "hi - lo + 1"] assms(2,3) unfolding randomInt_def by linarith+

lemma sample_Some:
  assumes "random_num r" "items \<noteq> []" "int (length items) < 2 ^ 52"
  shows "\<exists>x \<in> set items. sample r items = Some x"
proof -
  let ?i = "\<lfloor>round64 (r * of_int (int (length items)))\<rfloor>"
  have "0 \<le> ?i" "?i < int (length items)"
    using random_index [OF assms(1), of "int (length items)"] assms(2,3) by auto
  then have "nat ?i < length items" by linarith
  then show ?thesis by (auto simp: sample_def nth_opt_def)
qed

lemma sample_in: "sample r items = Some x \<Longrightarrow> x \<in> set items"
  by (auto simp: sample_def dest: nth_opt_in)

lemma room_drawn:
  assumes "random_num r"
  obtains t m where "sample r ROOM_TYPES = Some t" "t \<in> set ROOM_TYPES" "ROOM_MAX_GUESTS t = Some m" "1 \<le> m" "m \<le> 4"
  using sample_Some [OF assms, of ROOM_TYPES] by (auto simp: ROOM_TYPES_def ROOM_MAX_GUESTS_def)

section \<open>The stages\<close>

text \<open>The edges of the state machine: a handler only moves its guest along one.\<close>

fun stage_edge :: "SimGuestState \<Rightarrow> SimGuestState \<Rightarrow> bool" where
  "stage_edge SimNew (SimArrived gate) = (gate \<noteq> [])"
| "stage_edge (SimArrived gate) (SimHotelBooked gate' rid) = (gate' = gate \<and> rid \<noteq> [])"
| "stage_edge (SimHotelBooked gate rid) (SimBeachBooked gate' rid' aid) = (gate' = gate \<and> rid' = rid \<and> aid \<noteq> [])"
| "stage_edge (SimBeachBooked gate rid aid) SimNew = True"
| "stage_edge (SimBeachBooked gate rid aid) (SimHotelBooked gate' rid') = (gate' = gate \<and> rid' = rid)"
| "stage_edge _ _ = False"

lemmas stage_handler_defs = handleNew_def handleArrived_def handleHotelBooked_def handleBeachBooked_def

lemma truthy_the: "truthy_str x \<Longrightarrow> the x \<noteq> []"
  by (cases x) auto

lemma handler_edge: "STAGE_HANDLERS c r guest state s = (s', Some nxt) \<Longrightarrow> stage_edge state nxt"
  by (cases state) (auto simp: stage_handler_defs Let_def truthy_the split: prod.splits if_splits)

text \<open>No action touches the states of the guests.\<close>

lemma send_states [simp]: "sm_states (fst (send c req s)) = sm_states s"
  by (simp add: send_def split: prod.split)

lemma send_states': "send c req s = (s', a) \<Longrightarrow> sm_states s' = sm_states s"
  using send_states [of c req s] by simp

lemma askParrot_states [simp]: "sm_states (askParrot c r guest s) = sm_states s"
  by (simp add: askParrot_def)

lemma handler_states: "STAGE_HANDLERS c r guest state s = (s', a) \<Longrightarrow> sm_states s' = sm_states s"
  by (cases state) (auto simp: stage_handler_defs Let_def arrive_def bookHotel_def bookRandomActivity_def cancelBeachActivity_def
      cancelHotelReservation_def dest!: send_states' split: prod.splits if_splits sum.splits option.splits)

lemma finish_step_states:
  "sm_states (finish_step c r (guest, state) s) = sm_states s \<or>
   (\<exists>nxt. stage_edge state nxt \<and> sm_states (finish_step c r (guest, state) s) = (sm_states s)(gp_id guest \<mapsto> nxt))"
proof -
  obtain s' a where h: "STAGE_HANDLERS c (later 1 r) guest state s = (s', a)" by (cases "STAGE_HANDLERS c (later 1 r) guest state s")
  with handler_states [OF h] show ?thesis
    by (cases a) (auto simp: finish_step_def dest: handler_edge)
qed

definition sim_keys :: "string set" where
  "sim_keys = gp_id ` set syntheticGuests"

lemma createInitialState_dom: "dom createInitialState = sim_keys"
proof -
  let ?f = "\<lambda>(i, guest). (gp_id guest, seedState (STAGES ! (i mod length STAGES)))"
  have "map fst (map ?f (enumerate 0 syntheticGuests)) = map gp_id (map snd (enumerate 0 syntheticGuests))"
    by (simp add: comp_def case_prod_unfold del: map_snd_enumerate)
  then have "fst ` set (map ?f (enumerate 0 syntheticGuests)) = gp_id ` set syntheticGuests"
    by (metis list.set_map map_snd_enumerate)
  then show ?thesis
    unfolding createInitialState_def sim_keys_def by (simp add: dom_map_of_conv_image_fst)
qed

lemma start_step_guest:
  assumes "start_step r s = Some (guest, state)"
  shows "guest \<in> set syntheticGuests" "sm_states s (gp_id guest) = Some state"
  using assms by (auto simp: start_step_def bind_eq_Some_conv dest: sample_in)

lemma start_step_defined:
  assumes "dom (sm_states s) = sim_keys" "random_num (r 0)"
  shows "\<exists>guest state. start_step r s = Some (guest, state)"
proof -
  have "syntheticGuests \<noteq> []" "int (length syntheticGuests) < 2 ^ 52" by (simp_all add: syntheticGuests_def)
  from sample_Some [OF assms(2) this] obtain guest
    where "guest \<in> set syntheticGuests" "sample (r 0) syntheticGuests = Some guest" by blast
  moreover from this(1) assms(1) obtain state where "sm_states s (gp_id guest) = Some state"
    by (auto simp: sim_keys_def)
  ultimately show ?thesis by (simp add: start_step_def)
qed

section \<open>The loops\<close>

text \<open>
  While the generator runs there are three loops, each waiting for its timer or for its step; once it
  is stopped no timer is left. Every guest keeps a state, so that no step throws.
\<close>

definition generator_inv :: "bool \<Rightarrow> 'w generator \<Rightarrow> bool" where
  "generator_inv on g =
     ((tg_running g \<longrightarrow> on \<and> length (tg_pending g) + length (tg_inflight g) = CONCURRENT_GUESTS) \<and>
      (\<not> tg_running g \<longrightarrow> tg_pending g = []) \<and>
      length (tg_inflight g) \<le> CONCURRENT_GUESTS \<and>
      distinct (map fst (tg_pending g)) \<and>
      (\<forall>(i, d) \<in> set (tg_pending g). i \<in> set (tg_ticks g) \<and> i < tg_next g \<and> MIN_DELAY_MS \<le> d \<and> d \<le> MAX_DELAY_MS) \<and>
      (\<forall>(r, step) \<in> set (tg_inflight g). \<exists>guest \<in> set syntheticGuests. \<exists>state. step = Some (guest, state)) \<and>
      dom (sm_states (tg_sim g)) = sim_keys)"

lemma delay_bounds:
  "random_num r \<Longrightarrow> MIN_DELAY_MS \<le> randomInt r MIN_DELAY_MS MAX_DELAY_MS"
  "random_num r \<Longrightarrow> randomInt r MIN_DELAY_MS MAX_DELAY_MS \<le> MAX_DELAY_MS"
  using randomInt_bounds [of r MIN_DELAY_MS MAX_DELAY_MS] by (simp_all add: MIN_DELAY_MS_def MAX_DELAY_MS_def)

text \<open>The parts of the invariant that do not count the loops, and how scheduling keeps them.\<close>

definition timers_ok :: "'w generator \<Rightarrow> bool" where
  "timers_ok g =
     (distinct (map fst (tg_pending g)) \<and>
      (\<forall>(i, d) \<in> set (tg_pending g). i \<in> set (tg_ticks g) \<and> i < tg_next g \<and> MIN_DELAY_MS \<le> d \<and> d \<le> MAX_DELAY_MS))"

definition steps_ok :: "'w generator \<Rightarrow> bool" where
  "steps_ok g =
     ((\<forall>(r, step) \<in> set (tg_inflight g). \<exists>guest \<in> set syntheticGuests. \<exists>state. step = Some (guest, state)) \<and>
      dom (sm_states (tg_sim g)) = sim_keys)"

lemma generator_inv_alt:
  "generator_inv on g \<longleftrightarrow>
     (tg_running g \<longrightarrow> on \<and> length (tg_pending g) + length (tg_inflight g) = CONCURRENT_GUESTS) \<and>
     (\<not> tg_running g \<longrightarrow> tg_pending g = []) \<and>
     length (tg_inflight g) \<le> CONCURRENT_GUESTS \<and> timers_ok g \<and> steps_ok g"
  by (simp add: generator_inv_def timers_ok_def steps_ok_def conj_assoc)

lemma scheduleNext_ok:
  assumes "timers_ok g" "random_num r"
  shows "timers_ok (scheduleNext r g)"
  using assms delay_bounds [OF assms(2)] by (fastforce simp: timers_ok_def scheduleNext_def)

lemma scheduleNext_simps [simp]:
  "tg_running (scheduleNext r g) = tg_running g"
  "tg_inflight (scheduleNext r g) = tg_inflight g"
  "tg_sim (scheduleNext r g) = tg_sim g"
  "length (tg_pending (scheduleNext r g)) = (if tg_running g then Suc (length (tg_pending g)) else length (tg_pending g))"
  "\<not> tg_running g \<Longrightarrow> scheduleNext r g = g"
  by (simp_all add: scheduleNext_def)

lemma steps_ok_schedule [simp]: "steps_ok (scheduleNext r g) = steps_ok g"
  by (simp add: steps_ok_def)

lemma initial_generator_inv: "generator_inv on (initial_generator w)"
  by (simp add: generator_inv_def initial_generator_def createInitialState_dom)

lemma mount_inv:
  assumes "generator_inv on g" "\<not> tg_running g" "tg_inflight g = []" "\<forall>i. random_num (r i)"
  shows "generator_inv on (mount_generator on r g)"
proof (cases on)
  case True
  let ?g = "g\<lparr>tg_running := True\<rparr>"
  have "timers_ok ?g" "steps_ok ?g" "tg_pending g = []"
    using assms(1,2) by (simp_all add: generator_inv_alt timers_ok_def steps_ok_def)
  moreover have "[0..<CONCURRENT_GUESTS] = [0, 1, 2]" by (simp add: CONCURRENT_GUESTS_def upt_rec)
  ultimately show ?thesis
    using True assms(3,4)
    by (simp add: mount_generator_def generator_inv_alt scheduleNext_ok CONCURRENT_GUESTS_def)
qed (use assms in \<open>simp add: mount_generator_def\<close>)

lemma unmount_inv:
  assumes "generator_inv on g"
  shows "generator_inv on (unmount_generator on g)"
proof (cases on)
  case True
  have "filter (\<lambda>t. fst t \<notin> set (tg_ticks g)) (tg_pending g) = []"
    using assms by (auto simp: generator_inv_def filter_empty_conv)
  with True assms show ?thesis by (simp add: generator_inv_def unmount_generator_def)
qed (use assms in \<open>simp add: unmount_generator_def\<close>)

lemma length_filter_key:
  "distinct (map fst xs) \<Longrightarrow> (i, d) \<in> set xs \<Longrightarrow> Suc (length (filter (\<lambda>t. fst t \<noteq> i) xs)) = length xs"
proof (induction xs)
  case (Cons x xs)
  show ?case
  proof (cases "fst x = i")
    case True
    with Cons.prems have "\<forall>t \<in> set xs. fst t \<noteq> i" by (metis distinct.simps(2) imageI list.set_map list.simps(9))
    then have "filter (\<lambda>t. fst t \<noteq> i) xs = xs" by (simp add: filter_id_conv)
    with True show ?thesis by simp
  qed (use Cons in auto)
qed simp

lemma timer_fires_inv:
  assumes "generator_inv on g" "(i, d) \<in> set (tg_pending g)" "\<forall>j. random_num (r j)"
  shows "generator_inv on (timer_fires i r g)"
proof -
  have run: "tg_running g" using assms(1,2) by (auto simp: generator_inv_def)
  obtain guest state where start: "start_step r (tg_sim g) = Some (guest, state)"
    using start_step_defined [of "tg_sim g" r] assms(1,3) by (auto simp: generator_inv_def)
  have "Suc (length (filter (\<lambda>t. fst t \<noteq> i) (tg_pending g))) = length (tg_pending g)"
    using length_filter_key [OF _ assms(2)] assms(1) by (simp add: generator_inv_def)
  moreover have "timers_ok (timer_fires i r g)"
    using assms(1) by (auto simp: generator_inv_alt timers_ok_def timer_fires_def distinct_map_filter)
  moreover have "steps_ok (timer_fires i r g)"
    using assms(1) start_step_guest [OF start] start
    by (auto simp: generator_inv_alt steps_ok_def timer_fires_def)
  ultimately show ?thesis
    using assms(1) run by (auto simp: generator_inv_alt timer_fires_def)
qed

lemma step_ends_inv:
  assumes "generator_inv on g" "k < length (tg_inflight g)" "random_num r'"
  shows "generator_inv on (step_ends c k r' g)"
proof -
  obtain r step where k: "tg_inflight g ! k = (r, step)" by (cases "tg_inflight g ! k")
  then have "(r, step) \<in> set (tg_inflight g)" using assms(2) by (metis nth_mem)
  then obtain guest state where step: "step = Some (guest, state)" "guest \<in> set syntheticGuests"
    using assms(1) by (auto simp: generator_inv_def)
  let ?g = "g\<lparr>tg_inflight := splice1 k (tg_inflight g), tg_sim := finish_step c r (guest, state) (tg_sim g)\<rparr>"
  have len: "Suc (length (splice1 k (tg_inflight g))) = length (tg_inflight g)"
    using assms(2) by (simp add: splice1_def)
  have "dom (sm_states (finish_step c r (guest, state) (tg_sim g))) = sim_keys"
  proof -
    have "dom (sm_states (tg_sim g)) = sim_keys" "gp_id guest \<in> sim_keys"
      using assms(1) step(2) by (simp_all add: generator_inv_def sim_keys_def)
    with finish_step_states [of c r guest state "tg_sim g"] show ?thesis
      by (elim disjE exE conjE) (simp_all add: insert_absorb)
  qed
  then have steps: "steps_ok ?g"
    using assms(1) set_splice1 [of k "tg_inflight g"] by (fastforce simp: generator_inv_alt steps_ok_def)
  have "timers_ok ?g" using assms(1) by (simp add: generator_inv_alt timers_ok_def)
  with steps len assms(1,3) show ?thesis
    by (auto simp: step_ends_def k step generator_inv_alt scheduleNext_ok)
qed

interpretation generator: relation_invariant "\<lambda>g. \<exists>w. g = initial_generator w" "generator_step on" "generator_inv on"
  for on
proof unfold_locales
  fix g h
  assume "\<exists>w. g = initial_generator w"
  then show "generator_inv on g" by (auto simp: initial_generator_inv)
next
  fix g h
  assume inv: "generator_inv on g" and "generator_step on g h"
  from this(2) show "generator_inv on h"
    by cases (use inv in \<open>auto intro: mount_inv timer_fires_inv step_ends_inv unmount_inv\<close>)
qed

section \<open>Questions to the parrot\<close>

text \<open>
  A network that records every request with the time it is made, newest first, and answers in any
  way; the end of a step at some time, for a guest in the state the step has read.
\<close>

type_synonym request_log = "(int \<times> api_request) list"

definition logged :: "(request_log \<Rightarrow> api_request \<Rightarrow> api_error + jsval) \<Rightarrow> int \<Rightarrow> request_log network" where
  "logged answer now reqs req = ((now, req) # reqs, answer reqs req)"

record traffic_event =
  te_now :: int
  te_day :: "int option"
  te_answer :: "request_log \<Rightarrow> api_request \<Rightarrow> api_error + jsval"
  te_randoms :: randoms
  te_step :: "GuestProfile \<times> SimGuestState"

definition traffic_context :: "ui_env \<Rightarrow> traffic_event \<Rightarrow> request_log sim_context" where
  "traffic_context env e =
     \<lparr>sc_env = env, sc_now = te_now e, sc_day = te_day e, sc_net = logged (te_answer e) (te_now e)\<rparr>"

definition traffic_step :: "ui_env \<Rightarrow> request_log sim \<Rightarrow> traffic_event \<Rightarrow> request_log sim" where
  "traffic_step env s e = finish_step (traffic_context env e) (te_randoms e) (te_step e) s"

definition is_chat :: "api_request \<Rightarrow> bool" where
  "is_chat req = (aq_base req = api_parrot \<and> ax_url (aq_config req) = ''/chat'')"

definition chat_times :: "request_log \<Rightarrow> int list" where
  "chat_times reqs = map fst (filter (\<lambda>e. is_chat (snd e)) reqs)"

text \<open>Each time is at least the cooldown after the one before it.\<close>

fun spaced :: "rat \<Rightarrow> int list \<Rightarrow> bool" where
  "spaced gap [] = True"
| "spaced gap [t] = True"
| "spaced gap (t # t' # ts) = (gap \<le> of_int (t - t') \<and> spaced gap (t' # ts))"

definition cooldown_inv :: "ui_env \<Rightarrow> request_log sim \<Rightarrow> bool" where
  "cooldown_inv env s =
     (spaced (ev_parrotChatCooldownMs env) (chat_times (sm_world s)) \<and>
      (chat_times (sm_world s) \<noteq> [] \<longrightarrow> hd (chat_times (sm_world s)) = sm_lastParrotChatAt s))"

lemma cooldown_states [simp]: "cooldown_inv env (s\<lparr>sm_states := m\<rparr>) = cooldown_inv env s"
  by (simp add: cooldown_inv_def)

lemma send_cooldown:
  assumes "\<not> is_chat req" "cooldown_inv env s"
  shows "cooldown_inv env (fst (send (traffic_context env e) req s))"
  using assms by (simp add: send_def traffic_context_def logged_def cooldown_inv_def chat_times_def)

lemma send_cooldown':
  "send (traffic_context env e) req s = (s', a) \<Longrightarrow> \<not> is_chat req \<Longrightarrow> cooldown_inv env s \<Longrightarrow> cooldown_inv env s'"
  using send_cooldown [of req env s e] by simp

lemma no_chat [simp]:
  "\<not> is_chat (postArrival b)" "\<not> is_chat (postReservation b)" "\<not> is_chat (getReservationByGuest i)"
  "\<not> is_chat getActivities" "\<not> is_chat (bookActivity i j)" "\<not> is_chat (cancelActivity i j)" "\<not> is_chat (cancelReservation i)"
  by (simp_all add: is_chat_def postArrival_def postReservation_def getReservationByGuest_def getActivities_def
      bookActivity_def cancelActivity_def cancelReservation_def api_get_def api_post_def api_delete_def
      api_airport_def api_hotel_def api_beach_def api_parrot_def)

lemma askParrot_cooldown:
  assumes "cooldown_inv env s"
  shows "cooldown_inv env (askParrot (traffic_context env e) r guest s)"
proof (cases "of_int (te_now e - sm_lastParrotChatAt s) < ev_parrotChatCooldownMs env")
  case True
  with assms show ?thesis by (simp add: askParrot_def traffic_context_def)
next
  case False
  have "is_chat (postChat i m)" for i m by (simp add: is_chat_def postChat_def api_post_def)
  with False assms show ?thesis
    by (cases "chat_times (sm_world s)")
      (auto simp: askParrot_def traffic_context_def send_def logged_def cooldown_inv_def chat_times_def)
qed

lemma handler_cooldown:
  assumes "STAGE_HANDLERS (traffic_context env e) r guest state s = (s', a)" "cooldown_inv env s"
  shows "cooldown_inv env s'"
proof (cases state)
  case SimNew
  with assms show ?thesis
    by (auto simp: handleNew_def arrive_def dest: send_cooldown' split: prod.splits sum.splits)
next
  case (SimArrived gate)
  with assms show ?thesis
    by (auto simp: handleArrived_def bookHotel_def intro: askParrot_cooldown
        dest!: send_cooldown' split: prod.splits sum.splits if_splits)
next
  case (SimHotelBooked gate rid)
  with assms show ?thesis
    by (auto simp: handleHotelBooked_def bookRandomActivity_def Let_def intro: askParrot_cooldown
        dest!: send_cooldown' split: prod.splits sum.splits if_splits option.splits)
next
  case (SimBeachBooked gate rid aid)
  with assms show ?thesis
    by (auto simp: handleBeachBooked_def cancelBeachActivity_def cancelHotelReservation_def Let_def
        intro!: askParrot_cooldown send_cooldown split: if_splits)
qed

interpretation cooldown: machine_invariant "traffic_step env" "cooldown_inv env" for env
proof unfold_locales
  fix s and e :: traffic_event
  assume inv: "cooldown_inv env s"
  obtain guest state where st: "te_step e = (guest, state)" by (cases "te_step e")
  obtain s' a where "STAGE_HANDLERS (traffic_context env e) (later 1 (te_randoms e)) guest state s = (s', a)"
    by (cases "STAGE_HANDLERS (traffic_context env e) (later 1 (te_randoms e)) guest state s")
  with handler_cooldown [OF this inv] show "cooldown_inv env (traffic_step env s e)"
    by (simp add: traffic_step_def finish_step_def st split: option.split)
qed

end
