(* ===== verification/Ui_Props.thy ===== *)
theory Ui_Props
  imports Ui_Broadcast Ui_Hooks Ui_Parrot Ui_Mock Ui_Quest Ui_Simulation
begin

text \<open>
  The properties of the web application, each with an instance on concrete data where it has
  hypotheses.
\<close>

section \<open>The feed\<close>

text \<open>The bucket of a channel is, after any sequence of ingested events and clearings, the newest
  hundred of what was delivered to that channel since it was last cleared: its own events, a copy of
  every admin announcement, and in the resort-wide bucket a copy of what is mirrored. Every event in
  it carries that channel, and the activity tick counts all deliveries.
\<close>

lemma events_feed:
  "es_events (run store_step initial_events calls) c = take MAX_EVENTS (feed c calls) \<and>
   es_activityTick (run store_step initial_events calls) c = length (concat (map (delivered c) calls)) \<and>
   {event \<in> set (es_events (run store_step initial_events calls) c). be_channel event \<noteq> c} = {}"
proof -
  have 0: "es_events initial_events c = take MAX_EVENTS []" "es_activityTick initial_events c = 0"
    by (simp_all add: initial_events_def createEmptyChannelEvents_def createEmptyActivityTicks_def)
  have "be_channel event = c" if "event \<in> set (take MAX_EVENTS (feed c calls))" for event
    using feed_channel [of event c "[]" calls] that by (auto simp: feed_def dest: in_set_takeD)
  then show ?thesis
    using run_store_events [OF 0(1), of calls] run_store_tick [of initial_events calls c] 0(2)
    by (auto simp: feed_def)
qed

section \<open>The connection to the event stream\<close>

lemma run_mounted:
  assumes "bc_gatewayUrl cfg \<noteq> []" "Unmount \<notin> set es" "uc_active s"
    "uc_opened s \<noteq> [] \<or> Mount \<in> set es" "uc_opened s = [] \<longrightarrow> uc_connection s = None \<and> uc_timer s = None"
  shows "uc_active (run (broadcast_step sp nv cfg) s es) \<and> uc_opened (run (broadcast_step sp nv cfg) s es) \<noteq> []"
  using assms
proof (induction es arbitrary: s)
  case (Cons e es)
  let ?t = "broadcast_step sp nv cfg s e"
  have "uc_active ?t \<and> (uc_opened s \<noteq> [] \<longrightarrow> uc_opened ?t \<noteq> []) \<and> (e = Mount \<and> uc_opened s = [] \<longrightarrow> uc_opened ?t \<noteq> [])
      \<and> (uc_opened ?t = [] \<longrightarrow> uc_connection ?t = None \<and> uc_timer ?t = None)"
  proof (cases e)
    case (OnMessage d u)
    with handleMessage_same_link [of s sp nv u d] Cons.prems show ?thesis
      by (auto simp: broadcast_step_def same_link_def)
  qed (use Cons.prems in \<open>auto simp: broadcast_step_def link_defs Let_def\<close>)
  then show ?case using Cons.IH [of ?t] Cons.prems by auto
qed auto

text \<open>C24.
  Once the hook has mounted with a gateway configured, and until it is unmounted, it is never stuck:
  exactly one of an open connection and a pending timer exists, whatever the browser delivers; the
  timer waits between one and thirty seconds, and when it fires the stream is opened again at the
  same address. Unmounting leaves neither a connection nor a timer, and nothing that follows but a
  new mount opens one or reads a message.
\<close>

theorem stream_never_stuck:
  assumes "bc_gatewayUrl cfg \<noteq> []" "Mount \<in> set es" "Unmount \<notin> set es" "Mount \<notin> set late"
    and s_def: "s = run (broadcast_step sp nv cfg) (initial_broadcast cfg) es"
  shows "(uc_connection s = None \<longleftrightarrow> uc_timer s \<noteq> None) \<and>
     (uc_timer s = Some delay \<longrightarrow> 1000 \<le> delay \<and> delay \<le> 30000 \<and>
        uc_connection (broadcast_step sp nv cfg s TimerFires) = Some (stream_url cfg)) \<and>
     run (broadcast_step sp nv cfg) (broadcast_step sp nv cfg s Unmount) late = broadcast_step sp nv cfg s Unmount"
proof -
  have inv: "link_inv cfg s"
    unfolding s_def by (rule link.run_inv [OF initial_broadcast_inv])
  have act: "uc_active s" "uc_opened s \<noteq> []"
    using run_mounted [OF assms(1,3), of "initial_broadcast cfg" sp nv] assms(2)
    by (simp_all add: s_def initial_broadcast_def)
  let ?u = "broadcast_step sp nv cfg s Unmount"
  have u: "uc_connection ?u = None" "uc_timer ?u = None" "\<not> uc_active ?u"
    using assms(1) by (simp_all add: broadcast_step_def unmount_def)
  have "broadcast_step sp nv cfg ?u e = ?u" if "e \<noteq> Mount" for e
  proof (cases "e = Unmount")
    case True
    then show ?thesis using assms(1) by (simp add: broadcast_step_def unmount_def)
  qed (use u that in \<open>cases e; simp add: broadcast_step_def [of sp nv cfg ?u]\<close>)
  then have "run (broadcast_step sp nv cfg) ?u late = ?u"
    using assms(4) by (induction late) auto
  with inv act show ?thesis
    by (auto simp: link_inv_def broadcast_step_def reconnect_def connect_def BACKOFF_INITIAL_MS_def BACKOFF_MAX_MS_def Let_def)
qed

definition sample_gateway :: broadcast_config where
  "sample_gateway = \<lparr>bc_gatewayUrl = ''https://resort/'', bc_feToken = ''fe token''\<rparr>"

theorem stream_never_stuck_witness:
  "uc_connection (run (broadcast_step zod_reference (\<lambda>_. NaN) sample_gateway) (initial_broadcast sample_gateway)
     [Mount, OnOpen, OnError]) = None \<longleftrightarrow>
   uc_timer (run (broadcast_step zod_reference (\<lambda>_. NaN) sample_gateway) (initial_broadcast sample_gateway)
     [Mount, OnOpen, OnError]) \<noteq> None"
  using stream_never_stuck [of sample_gateway "[Mount, OnOpen, OnError]" "[TimerFires]" _ zod_reference "\<lambda>_. NaN" 1000, OF _ _ _ _ refl]
  by (simp add: sample_gateway_def)

text \<open>The delay before a reconnection doubles with every failure in a row from one second up to thirty:
  after \<open>n\<close> failed attempts the next one waits \<open>min (1000 * 2 ^ n) 30000\<close> milliseconds, and an open
  connection starts the sequence again.
\<close>

lemma backoff_schedule:
  assumes "bc_gatewayUrl cfg \<noteq> []" "uc_active s" "uc_connection s \<noteq> None"
  shows "uc_timer (run (broadcast_step sp nv cfg) s ([OnOpen] @ concat (replicate n [OnError, TimerFires]) @ [OnError]))
    = Some (min (1000 * 2 ^ n) 30000)"
proof -
  have fail: "uc_active (run (broadcast_step sp nv cfg) t (concat (replicate n [OnError, TimerFires]))) \<and>
      uc_connection (run (broadcast_step sp nv cfg) t (concat (replicate n [OnError, TimerFires]))) \<noteq> None \<and>
      uc_backoff (run (broadcast_step sp nv cfg) t (concat (replicate n [OnError, TimerFires]))) = backoff_after (m + n)"
    if "uc_active t" "uc_connection t \<noteq> None" "uc_backoff t = backoff_after m" for t m n
    using that
  proof (induction n arbitrary: t m)
    case (Suc n)
    let ?t = "broadcast_step sp nv cfg (broadcast_step sp nv cfg t OnError) TimerFires"
    have "uc_active ?t" "uc_connection ?t \<noteq> None" "uc_backoff ?t = backoff_after (Suc m)"
      using Suc.prems backoff_after_Suc [of m]
      by (simp_all add: broadcast_step_def onerror_def reconnect_def connect_def Let_def)
    from Suc.IH [OF this] show ?case by simp
  qed simp
  let ?s = "broadcast_step sp nv cfg s OnOpen"
  have "uc_active ?s" "uc_connection ?s \<noteq> None" "uc_backoff ?s = backoff_after 0"
    using assms by (auto simp: broadcast_step_def onopen_def backoff_after_def BACKOFF_INITIAL_MS_def BACKOFF_MAX_MS_def)
  from fail [OF this, of n] show ?thesis
    by (auto simp: run_append broadcast_step_def [of sp nv cfg _ OnError] onerror_def Let_def backoff_after_def
        BACKOFF_INITIAL_MS_def BACKOFF_MAX_MS_def)
qed

lemma backoff_schedule_example:
  "uc_timer (run (broadcast_step zod_reference (\<lambda>_. NaN) sample_gateway)
     (broadcast_step zod_reference (\<lambda>_. NaN) sample_gateway (initial_broadcast sample_gateway) Mount)
     ([OnOpen] @ concat (replicate 5 [OnError, TimerFires]) @ [OnError])) = Some 30000"
  by (subst backoff_schedule)
    (simp_all add: sample_gateway_def broadcast_step_def initial_broadcast_def mount_def connect_def)

section \<open>The mocked beach\<close>

text \<open>C32.
  The mocked beach neither loses nor invents a place: over any sequence of requests the number of
  remaining places of every activity plus the number of guests who hold one stays what it was, and no
  activity goes below zero places.
\<close>

theorem mock_places_conserved:
  assumes "mock_inv sg"
  shows "places (run mock_step sg reqs) i = places sg i \<and>
    list_all (\<lambda>a. 0 \<le> ac_remaining a) (the_activities (run mock_step sg reqs))"
proof -
  have "mock_inv (run mock_step sg reqs)" by (rule mock.run_inv [OF assms])
  then have "list_all (\<lambda>a. 0 \<le> ac_remaining a) (the_activities (run mock_step sg reqs))"
    by (auto simp: mock_inv_def list_all_iff activity_ok_def)
  with run_places [OF assms] show ?thesis by blast
qed

theorem mock_places_conserved_witness:
  "places (run mock_step \<lparr>sg_activities = None, sg_bookings = Some [(''g1'', Booked (Some ''activity-kayaking''))]\<rparr>
     [BookRequest ''activity-beach-yoga'' ''g1'', CancelRequest ''activity-kayaking'' ''g1'']) ''activity-kayaking'' = Some 5"
  by (subst conjunct1 [OF mock_places_conserved])
    (simp_all add: mock_inv_def loadBookings_def the_activities_def SEED_def mock_activity_def activity_ok_def
      places_def taken_def find_activity_def)

section \<open>The session\<close>

text \<open>C28.
  The session survives a reload of the page: after any sequence of calls of the store, what is written
  to the session storage is read back, whatever state the fresh page starts in, as the same session;
  and the guest and the admin flag always follow from the session itself.
\<close>

theorem session_reload:
  "merge_session (Some (partialize (run session_step EMPTY_SESSION_STATE cs))) fresh = run session_step EMPTY_SESSION_STATE cs \<and>
   sn_guest (run session_step EMPTY_SESSION_STATE cs) = deriveGuest (sn_session (run session_step EMPTY_SESSION_STATE cs)) \<and>
   sn_isAdmin (run session_step EMPTY_SESSION_STATE cs) = useIsAdmin (run session_step EMPTY_SESSION_STATE cs)"
proof -
  have "session_inv EMPTY_SESSION_STATE" by (simp add: session_defs)
  from session.run_inv [OF this] have inv: "session_inv (run session_step EMPTY_SESSION_STATE cs)" .
  from inv rehydrate_partialize [OF inv] show ?thesis by (simp add: session_inv_def)
qed


definition sample_guest :: GuestProfile where
  "sample_guest = guest_profile ''g1'' ''Ana'' ''Reef'' 30 ''EU'' ''fast'' False ''a.png'' ''Calm.''"


section \<open>Requests\<close>



section \<open>The chat\<close>



section \<open>Kiki's quest\<close>

text \<open>C33.
  In every state that the quest can reach the number of meows is a multiple of a hundred and never
  negative, the oracle's panel is open only at the octopus, and when Kiki is ready to buy she has
  passed a trial: the button that pays is on the screen, and paying takes exactly the price.
\<close>

theorem quest_pays:
  assumes "quest_reachable s"
  shows "0 \<le> qs_meows s \<and> 100 dvd qs_meows s \<and> (qs_oracleOpen s \<longrightarrow> qs_phase s = AtOctopus) \<and>
    (qs_phase s = ReadyToBuy \<longrightarrow> canPayForBurger s \<and> qs_lastTrialPassed s = Some True \<and>
       qs_meows (buyBurger s) = qs_meows s - BURGER_PRICE_MEOWS \<and> 0 \<le> qs_meows (buyBurger s))"
  using quest.reachable_inv [OF assms]
  by (auto simp: quest_inv_def canPayForBurger_def canBuyBurger_def buyBurger_def spendBurgerMeows_def BURGER_PRICE_MEOWS_def)

theorem quest_pays_witness: "0 \<le> qs_meows (requestBurger initial_quest)"
proof -
  have "quest_reachable (requestBurger initial_quest)"
    by (rule quest_reach [OF reachable.start request_burger]) (simp_all add: canRequestBurger_def initial_quest_def)
  from quest_pays [OF this] show ?thesis by blast
qed

text \<open>C34.
  The quest can always be finished: from every reachable state, except the one where the oracle's panel
  was closed before a trial, some sequence of clicks and timers ends with the burger.
\<close>

theorem quest_completable:
  assumes "quest_reachable s" "qs_phase s = AtOctopus \<longrightarrow> qs_oracleOpen s"
  shows "\<exists>t. quest_step\<^sup>*\<^sup>* s t \<and> qs_phase t = BurgerReceived"
  using quest_can_finish [OF quest.reachable_inv [OF assms(1)]] assms(2) by (auto simp: can_finish_def)

theorem quest_completable_witness: "\<exists>t. quest_step\<^sup>*\<^sup>* initial_quest t \<and> qs_phase t = BurgerReceived"
  by (rule quest_completable) (auto intro: reachable.start simp: initial_quest_def)

text \<open>Closing the panel before a trial ends the quest for good: a reachable state has no click and no timer
  left, so the burger can no longer be requested, earned or bought.
\<close>

lemma quest_dead_end:
  "\<exists>s. quest_reachable s \<and> qs_phase s = AtOctopus \<and> \<not> canRequestBurger s \<and> \<not> canRetryTask s \<and> \<not> canPayForBurger s \<and>
     {t. quest_step s t} = {}"
proof -
  obtain s where s: "quest_reachable s" "quest_stuck s" using dead_end_reachable by blast
  with quest_stuck_no_step show ?thesis
    by (intro exI [of _ s]) (auto simp: quest_stuck_def canRequestBurger_def canRetryTask_def canPayForBurger_def)
qed

section \<open>The traffic generator\<close>

text \<open>C37.
  Whatever the order in which timers fire and requests end, a running generator consists of exactly
  three loops, each waiting for its timer (between one and a half and four seconds) or for its request;
  a stopped one has no timer; no step ever throws for want of a state, because every synthetic guest,
  and nobody else, has one.
\<close>

theorem generator_three_loops:
  assumes "reachable (\<lambda>g. \<exists>w. g = initial_generator w) (generator_step on) g"
  shows "(tg_running g \<longrightarrow> length (tg_pending g) + length (tg_inflight g) = 3) \<and>
    (\<not> tg_running g \<longrightarrow> tg_pending g = [] \<and> length (tg_inflight g) \<le> 3) \<and>
    list_all (\<lambda>(i, d). 1500 \<le> d \<and> d \<le> 4000) (tg_pending g) \<and>
    list_all (\<lambda>(r, step). step \<noteq> None) (tg_inflight g) \<and>
    dom (sm_states (tg_sim g)) = set (map gp_id syntheticGuests)"
proof -
  from generator.reachable_inv [OF assms] have inv: "generator_inv on g" .
  then have "list_all (\<lambda>(i, d). 1500 \<le> d \<and> d \<le> 4000) (tg_pending g)"
    by (auto simp: generator_inv_def MIN_DELAY_MS_def MAX_DELAY_MS_def list_all_iff)
  moreover from inv have "list_all (\<lambda>(r, step). step \<noteq> None) (tg_inflight g)"
    unfolding generator_inv_def list_all_iff by auto
  moreover from inv have "dom (sm_states (tg_sim g)) = set (map gp_id syntheticGuests)"
    by (simp add: generator_inv_def sim_keys_def)
  ultimately show ?thesis using inv by (simp add: generator_inv_def CONCURRENT_GUESTS_def)
qed

theorem generator_three_loops_witness:
  "length (tg_pending (mount_generator True (\<lambda>_. 1 / 2) (initial_generator ())))
     + length (tg_inflight (mount_generator True (\<lambda>_. 1 / 2) (initial_generator ()))) = 3"
proof -
  have "generator_step True (initial_generator ()) (mount_generator True (\<lambda>_. 1 / 2) (initial_generator ()))"
    by (rule mounts) (simp_all add: initial_generator_def random_num_def)
  then have "reachable (\<lambda>g. \<exists>w. g = initial_generator w) (generator_step True)
      (mount_generator True (\<lambda>_. 1 / 2) (initial_generator ()))"
    by (intro reachable.next_step [OF reachable.start]) auto
  from generator_three_loops [OF this] show ?thesis
    by (simp add: mount_generator_def CONCURRENT_GUESTS_def upt_rec)
qed

text \<open>A booking of the traffic generator is always well formed, whatever is drawn: the room type exists,
  the party fits it, the stay starts today or within two days, lasts one to three nights, and the body
  passes the schema of the request. No random number makes the arithmetic of \<^verbatim>\<open>Math.floor\<close> step out of
  the range, rounding included.
\<close>

lemma traffic_bookings_valid:
  assumes "\<forall>i. random_num (r i)" "\<bar>day\<bar> \<le> 2 ^ 50"
  shows "\<exists>t n m i u. randomReservationBody (Some day) r guest = JObj
      [(''guest_id'', JStr (gp_id guest)), (''room_type'', JStr t), (''guest_count'', jint n),
       (''check_in_day'', jint i), (''check_out_day'', jint u)] \<and>
    t \<in> set ROOM_TYPES \<and> ROOM_MAX_GUESTS t = Some m \<and> 1 \<le> n \<and> n \<le> m \<and>
    max 0 day \<le> i \<and> i \<le> max 0 day + 2 \<and> i < u \<and> u \<le> i + 3 \<and>
    zod_reads PostReservationRequestSchema (randomReservationBody (Some day) r guest)
      = Some (randomReservationBody (Some day) r guest)"
proof -
  have r: "random_num (r k)" for k using assms(1) by blast
  obtain t m where t: "sample (r 1) ROOM_TYPES = Some t" "t \<in> set ROOM_TYPES" "ROOM_MAX_GUESTS t = Some m" "1 \<le> m" "m \<le> 4"
    by (rule room_drawn [OF r])
  define n where "n = randomInt (r 2) 1 m"
  define i where "i = max 0 day + randomInt (r 0) 0 2"
  define u where "u = i + randomInt (r 3) 1 3"
  have n: "1 \<le> n" "n \<le> m" using randomInt_bounds [OF r, of 1 m 2] t(4,5) by (simp_all add: n_def)
  have i: "max 0 day \<le> i" "i \<le> max 0 day + 2" using randomInt_bounds [OF r, of 0 2 0] by (simp_all add: i_def)
  have u: "i < u" "u \<le> i + 3" using randomInt_bounds [OF r, of 1 3 3] by (simp_all add: u_def)
  have body: "randomReservationBody (Some day) r guest = JObj
      [(''guest_id'', JStr (gp_id guest)), (''room_type'', JStr t), (''guest_count'', jint n),
       (''check_in_day'', jint i), (''check_out_day'', jint u)]"
    using t by (simp add: randomReservationBody_def Let_def jday_def n_def i_def u_def)
  have safe: "\<bar>n\<bar> \<le> 9007199254740991" "\<bar>i\<bar> \<le> 9007199254740991" "\<bar>u\<bar> \<le> 9007199254740991"
    using n i u t(5) assms(2) by auto
  have "zod_reads PostReservationRequestSchema (randomReservationBody (Some day) r guest)
      = Some (randomReservationBody (Some day) r guest)"
    unfolding body using safe n(1) i(1) u(1) t(2)
    by (simp add: PostReservationRequestSchema_def RoomTypeSchema_def jint_def)
  with body t n i u show ?thesis by blast
qed

lemma traffic_bookings_valid_example:
  "zod_reads PostReservationRequestSchema (randomReservationBody (Some (- 3)) (\<lambda>_. 1 / 2) sample_guest)
     = Some (randomReservationBody (Some (- 3)) (\<lambda>_. 1 / 2) sample_guest)"
proof -
  have "\<forall>i :: nat. random_num ((\<lambda>_. 1 / 2) i)" by (simp add: random_num_def)
  from traffic_bookings_valid [OF this, of "- 3" sample_guest] show ?thesis by auto
qed

text \<open>The questions to the parrot are rate limited: however the steps of the loops interleave and whatever
  the network answers, two consecutive questions of the generator are at least the configured cooldown
  apart.
\<close>

lemma parrot_rate_limit:
  assumes "sm_world s = []"
  shows "spaced (ev_parrotChatCooldownMs env) (chat_times (sm_world (run (traffic_step env) s es)))"
proof -
  from assms have "cooldown_inv env s" by (simp add: cooldown_inv_def chat_times_def)
  from cooldown.run_inv [OF this] show ?thesis by (simp add: cooldown_inv_def)
qed

definition sample_event :: "int \<Rightarrow> traffic_event" where
  "sample_event now = \<lparr>te_now = now, te_day = Some 0, te_answer = (\<lambda>_ _. Inl (Rethrown ''down'')), te_randoms = (\<lambda>_. 1 / 2),
     te_step = (sample_guest, SimHotelBooked ''A'' ''r1'')\<rparr>"

definition sample_ui_env :: ui_env where
  "sample_ui_env = parse_env (\<lambda>_. NaN) (\<lambda>_. None)"

lemma parrot_rate_limit_example:
  "spaced 30000 (chat_times (sm_world (run (traffic_step sample_ui_env)
     \<lparr>sm_world = [], sm_lastParrotChatAt = 0, sm_states = Map.empty\<rparr> [sample_event 40000, sample_event 50000, sample_event 80000])))"
  using parrot_rate_limit [of "\<lparr>sm_world = [], sm_lastParrotChatAt = 0, sm_states = Map.empty\<rparr>" sample_ui_env
      "[sample_event 40000, sample_event 50000, sample_event 80000]"]
  by (simp add: sample_ui_env_def parse_env_def)

section \<open>Avatars and the calendar\<close>

text \<open>C39.
  The hash of an avatar, computed by the language on floating point numbers with 32-bit bitwise
  operators, is the fold of \<open>h * 33 XOR c\<close> over machine words of 32 bits: every product it forms is
  exact, so no character of the seed is lost to rounding, and the result lies below \<open>2 ^ 32\<close>.
\<close>

theorem avatar_hash:
  "hashSeed seed = uint (foldl (\<lambda>w c. w * 33 XOR of_char c) (5381 :: 32 word) seed) \<and>
   0 \<le> hashSeed seed \<and> hashSeed seed < 2 ^ 32 \<and>
   round64 (of_int (foldl hash_step 5381 (take n seed) * 33)) = of_int (foldl hash_step 5381 (take n seed) * 33)"
  using hashSeed_word [of seed] hashSeed_bounds [of seed] hash_product_exact [of "take n seed"]
  by (simp add: hash_word_def)



end
