(* ===== verification/Island.thy ===== *)
theory Island
  imports Hub_Props Hotel_Props Hotel_Http Ui_Props
begin

text \<open>
  Where the parts meet: the frames of the broadcast service as messages of the web application, the
  events of the hotel as payloads of the broadcast service, and the answers of the hotel as values of
  the web application's schemas.
\<close>

section \<open>From the broadcast service to the browser\<close>

text \<open>
  A chunk of the stream as the browser reads it: the text after \<^verbatim>\<open>data: \<close> up to the empty line that
  ends the message; a comment (the greeting) is no message.
\<close>

definition sse_message :: "string \<Rightarrow> string option" where
  "sse_message chunk =
     (if startsWith ''data: '' chunk then Some (take (length chunk - 8) (drop 6 chunk)) else None)"

fun ui_channel :: "ChannelId \<Rightarrow> Channel" where
  "ui_channel Airport = AirportCh"
| "ui_channel Hotel = HotelCh"
| "ui_channel Beach = BeachCh"
| "ui_channel Crab = CrabCh"
| "ui_channel Parrot = ParrotCh"
| "ui_channel Broadcast = BroadcastCh"
| "ui_channel ResortWide = ResortWideCh"

text \<open>The event as the application should show it.\<close>

definition shown_event :: "Hub_Types.IslandEvent \<Rightarrow> BroadcastEvent" where
  "shown_event ev =
     \<lparr>be_id = JStr (ie_id ev), be_channel = ui_channel (ie_channel ev),
      be_event_type = event_type_str (ie_event_type ev), be_message = ie_message ev, be_sender = ie_sender ev,
      be_guest_id = ie_guest_id ev, be_guest_name = ie_guest_name ev, be_data = ie_data ev\<rparr>"

lemma ui_channel_str [simp]: "ui_channel_str (ui_channel c) = channel_str c"
  by (cases c) simp_all

lemma channel_of_str [simp]: "channel_of (channel_str c) = Some (ui_channel c)"
  by (cases c) (simp_all add: channel_of_def UI_CHANNELS_def)

lemma channel_str_known: "channel_str c \<in> set (map ui_channel_str UI_CHANNELS)"
  by (cases c) (simp_all add: UI_CHANNELS_def)

lemma those_pairs: "those (map Some ob) = Some ob"
  by (induction ob) auto

lemma reads_opt_str:
  "zod_reads (ZOptional (ZString [])) (nullish (map_option JStr x) JUndefined) = Some (nullish (map_option JStr x) JUndefined)"
  by (cases x) simp_all

lemma reads_opt_data:
  "zod_reads (ZOptional (ZRecord ZUnknown)) (nullish (map_option JObj x) JUndefined) = Some (nullish (map_option JObj x) JUndefined)"
  by (cases x) (simp_all add: those_pairs)

lemma as_string_nullish [simp]: "as_string (nullish (map_option JStr x) JUndefined) = x"
  by (cases x) simp_all

lemma as_obj_nullish [simp]: "as_obj (nullish (map_option JObj x) JUndefined) = x"
  by (cases x) simp_all

lemma event_obj_keys:
  "has_key k (event_obj ev) \<longleftrightarrow> k \<in> {''id'', ''channel'', ''event_type'', ''message'', ''sender''} \<or>
     k = ''guest_id'' \<and> ie_guest_id ev \<noteq> None \<or> k = ''guest_name'' \<and> ie_guest_name ev \<noteq> None \<or> k = ''data'' \<and> ie_data ev \<noteq> None"
  by (auto simp: event_obj_def)

text \<open>The schema of the application reads every event of the service, and reads it as it was sent.\<close>

lemma reads_event:
  "\<exists>ob. zod_reads BroadcastEventSchema (JObj (event_obj ev)) = Some (JObj ob) \<and> broadcast_event_of ob = shown_event ev"
proof -
  let ?rs = "[(''id'', JStr (ie_id ev)), (''channel'', JStr (channel_str (ie_channel ev))),
      (''event_type'', JStr (event_type_str (ie_event_type ev))), (''message'', JStr (ie_message ev)),
      (''sender'', JStr (ie_sender ev)), (''guest_id'', nullish (map_option JStr (ie_guest_id ev)) JUndefined),
      (''guest_name'', nullish (map_option JStr (ie_guest_name ev)) JUndefined),
      (''data'', nullish (map_option JObj (ie_data ev)) JUndefined)]"
  let ?ob = "filter (\<lambda>kv. has_key (fst kv) (event_obj ev)) ?rs"
  have "zod_reads BroadcastEventSchema (JObj (event_obj ev)) = Some (JObj ?ob)"
    unfolding BroadcastEventSchema_def
    using channel_str_known [of "ie_channel ev"]
    by (simp add: jget_event_obj reads_opt_str reads_opt_data del: zod_reads.simps(9) filter.simps)
  moreover have "broadcast_event_of ?ob = shown_event ev"
  proof -
    have j: "jget ?ob k = (if has_key k (event_obj ev) then jget ?rs k else JUndefined)" for k
      using jget_filter_keys [of "\<lambda>k. has_key k (event_obj ev)" ?rs k] .
    show ?thesis
      unfolding broadcast_event_of_def j shown_event_def
      by (cases "ie_guest_id ev"; cases "ie_guest_name ev"; cases "ie_data ev") (simp_all add: event_obj_keys)
  qed
  ultimately show ?thesis by blast
qed

lemma not_island_event: "normalizeIslandEvent (JObj (event_obj ev)) = None"
proof -
  have "jget (event_obj ev) ''source'' = JUndefined" by (rule jget_absent) (simp add: event_obj_keys)
  then show ?thesis by (simp add: normalizeIslandEvent_def)
qed

lemma handle_hub_event:
  assumes "zod sp" "json_ok ns nv (JObj (event_obj ev))"
  shows "handleMessage sp nv uuid (json_text ns (JObj (event_obj ev))) s = ingestBroadcastEvent uuid (shown_event ev) s"
proof -
  obtain t where t: "JSON_stringify ns (JObj (event_obj ev)) = Some t" "JSON_parse nv t = Some (JObj (event_obj ev))"
    using JSON_parse_stringify [OF assms(2)] by blast
  obtain ob where "zod_reads BroadcastEventSchema (JObj (event_obj ev)) = Some (JObj ob)" "broadcast_event_of ob = shown_event ev"
    using reads_event by blast
  with zod.parse_success [OF assms(1)] t not_island_event show ?thesis
    by (simp add: handleMessage_def parseIslandEventMessage_def json_text_def)
qed

lemma sse_message_hello: "sse_message hello = None"
  by (simp add: sse_message_def hello_def startsWith_def LF_def)

lemma sse_message_frame:
  assumes "json_ok ns nv (JObj (event_obj ev))"
  shows "sse_message (event_frame ns ev) = Some (json_text ns (JObj (event_obj ev)))"
  using json_ok_text [OF assms] by (simp add: sse_message_def event_frame_def startsWith_def)

text \<open>The events behind the frames of a connection, in the same order as its transcript.\<close>

fun heard :: "environment \<Rightarrow> nat \<Rightarrow> nat \<Rightarrow> ChannelId set option \<Rightarrow> hub_input list \<Rightarrow> Hub_Types.IslandEvent list" where
  "heard env r n sub [] = []"
| "heard env r n sub (GetStream req # ins) =
     (case identifyService env req of
        Some identity \<Rightarrow> heard env r (Suc n) (if n = r then Some (si_allowedChannels identity) else sub) ins
      | None \<Rightarrow> heard env r (Suc n) sub ins)"
| "heard env r n sub (Post rt req uuid # ins) =
     (case (ingest_reads env rt req, sub) of
        (Some ob, Some S) \<Rightarrow>
          (if ie_channel (ingest_event rt uuid ob) \<in> S then [ingest_event rt uuid ob] else []) @ heard env r (Suc n) sub ins
      | _ \<Rightarrow> heard env r (Suc n) sub ins)"
| "heard env r n sub (CloseConnection c # ins) = heard env r n (if c = r then None else sub) ins"

lemma session_messages:
  assumes "\<forall>ev \<in> set (heard env r n sub ins). json_ok ns nv (JObj (event_obj ev))"
  shows "List.map_filter sse_message (session ns env r n sub ins)
    = map (\<lambda>ev. json_text ns (JObj (event_obj ev))) (heard env r n sub ins)"
  using assms
proof (induction env r n sub ins rule: heard.induct)
  case (2 env r n sub req ins)
  then show ?case by (cases "identifyService env req") (auto simp: map_filter_simps sse_message_hello)
next
  case (3 env r n sub rt req uuid ins)
  then show ?case
    by (cases "ingest_reads env rt req"; cases sub) (auto simp: map_filter_simps sse_message_frame)
qed (simp_all add: map_filter_simps)

text \<open>The messages of a stream as the browser delivers them, each with the identifiers drawn for it.\<close>

definition messages :: "(nat \<Rightarrow> Channel \<Rightarrow> string) \<Rightarrow> string list \<Rightarrow> browser_event list" where
  "messages u texts = map (\<lambda>(k, t). OnMessage t (u k)) (enumerate 0 texts)"

definition ingests :: "(nat \<Rightarrow> Channel \<Rightarrow> string) \<Rightarrow> Hub_Types.IslandEvent list \<Rightarrow> store_call list" where
  "ingests u evs = map (\<lambda>(k, ev). Ui_Events.Ingest (u k) (shown_event ev) (Some True)) (enumerate 0 evs)"

lemma ingest_store: "uc_store (ingestBroadcastEvent uuid event s) = ingestEvent uuid event (Some True) (uc_store s)"
  by (simp add: ingestBroadcastEvent_def Let_def split: option.split)

lemma run_messages:
  assumes "zod sp" "\<forall>ev \<in> set evs. json_ok ns nv (JObj (event_obj ev))" "uc_connection s \<noteq> None"
  shows "uc_store (run (broadcast_step sp nv cfg) s
      (map (\<lambda>(k, t). OnMessage t (u k)) (enumerate n (map (\<lambda>ev. json_text ns (JObj (event_obj ev))) evs))))
    = run store_step (uc_store s) (map (\<lambda>(k, ev). Ui_Events.Ingest (u k) (shown_event ev) (Some True)) (enumerate n evs))"
  using assms(2,3)
proof (induction evs arbitrary: s n)
  case (Cons ev evs)
  let ?s = "ingestBroadcastEvent (u n) (shown_event ev) s"
  have step: "broadcast_step sp nv cfg s (OnMessage (json_text ns (JObj (event_obj ev))) (u n)) = ?s"
    using Cons.prems handle_hub_event [OF assms(1), of ns nv ev] by (simp add: broadcast_step_def)
  have "uc_connection ?s \<noteq> None" using ingest_same_link [of s "u n" "shown_event ev"] Cons.prems by (simp add: same_link_def)
  from Cons.IH [OF _ this, of "Suc n"] Cons.prems(1) show ?case by (simp add: step ingest_store)
qed simp

section \<open>Beach events\<close>

lemma beach_payload_keys:
  assumes "ingest_reads env rt req = Some ob" "rt = PostBeachFull \<or> rt = PostBeachAvailable"
  shows "jget (obj_rest ks ob) ''activityId'' = JUndefined"
proof -
  from assms obtain v where v: "zod_reads BeachEventSchema (rq_body req) = Some v" "body_obj v = ob"
    by (auto simp: ingest_reads_def split: if_splits)
  have d: "distinct (map fst (BaseFields @ [(''activity'', ZOptional (ZString []))]))" by (simp add: BaseFields_def)
  have "\<not> has_key ''activityId'' ob"
    by (rule zod_reads_ObjectE [OF v(1) [unfolded BeachEventSchema_def] d]) (use v(2) in \<open>auto simp: BaseFields_def\<close>)
  then show ?thesis by (simp add: jget_absent)
qed

lemma beach_no_payload:
  assumes "ingest_reads env rt req = Some ob" "rt = PostBeachFull \<or> rt = PostBeachAvailable"
  shows "getBeachAvailabilityPayload (shown_event (ingest_event rt uuid ob)) = None"
  using assms(2) beach_payload_keys [OF assms, of "[''message'', ''guest_id'', ''guest_name'']"]
  by (auto simp: getBeachAvailabilityPayload_def shown_event_def base_event_def)

section \<open>From the hotel to the broadcast service and the browser\<close>

definition safe_days :: "ReservationResponseDto \<Rightarrow> bool" where
  "safe_days r =
     list_all (\<lambda>n. \<bar>n\<bar> \<le> 9007199254740991) [rr_guest_count r, rr_check_in_day r, rr_check_out_day r]"

lemma room_type_known [simp]: "room_type_str t \<in> set ROOM_TYPES"
  by (cases t) (simp_all add: ROOM_TYPES_def)

lemma reservation_accepted:
  "safe_days r \<Longrightarrow> zod_reads ReservationSchema (JObj (reservation_json r))
     = Some (JObj (filter (\<lambda>kv. fst kv \<noteq> ''party_guest_ids'') (reservation_json r)))"
  by (cases "rr_status r")
    (simp_all add: ReservationSchema_def reservation_json_def RoomTypeSchema_def ReservationStatusSchema_def z_int_def
      jint_def safe_days_def del: is_safe_int.simps)

lemma cancellation_accepted:
  "cr_status r = CANCELLED \<Longrightarrow> zod_reads CancelReservationResponseSchema (JObj (cancellation_json r)) = Some (JObj (cancellation_json r))"
  by (simp add: CancelReservationResponseSchema_def cancellation_json_def)

lemma hotel_event_read:
  assumes "rt = PostHotelConfirm \<or> rt = PostHotelCancel" "rq_body req = JObj (hotel_event_obj e)"
  shows "ingest_reads env rt req = Some
     [(''message'', JStr (he_message e)), (''guest_id'', JStr (he_guest_id e)), (''reservation_id'', JStr (he_reservation_id e)),
      (''room_type'', JStr (room_type_str (he_room_type e))), (''guest_count'', jint (he_guest_count e)),
      (''check_in_day'', jint (he_check_in_day e)), (''check_out_day'', jint (he_check_out_day e))]"
  using assms
  by (auto simp: ingest_reads_def admin_refused_def HotelEventSchema_def BaseFields_def hotel_event_obj_def jint_def)

end
