(* ===== verification/Ui_Theme.thy ===== *)
theory Ui_Theme
  imports Ui_Lib
begin

text \<open>
  The colour theme of the application (\<^verbatim>\<open>components/theme-provider.tsx\<close>): the state of the provider, its
  three effects and the local storage it shares with the other tabs of the same origin. React runs an
  effect after the render that follows a change of its dependencies, so the effect is a step of its
  own; a storage event is delivered some time after the other tab wrote. The queries of the document
  (\<^verbatim>\<open>matchMedia\<close>, \<^verbatim>\<open>closest\<close>) are fields of the state and of the events.
\<close>

section \<open>Themes\<close>

datatype Theme = DarkTheme | LightTheme | SystemTheme

datatype ResolvedTheme = ResolvedDark | ResolvedLight

fun theme_str :: "Theme \<Rightarrow> string" where
  "theme_str DarkTheme = ''dark''"
| "theme_str LightTheme = ''light''"
| "theme_str SystemTheme = ''system''"

fun resolved_str :: "ResolvedTheme \<Rightarrow> string" where
  "resolved_str ResolvedDark = ''dark''"
| "resolved_str ResolvedLight = ''light''"

fun as_theme :: "ResolvedTheme \<Rightarrow> Theme" where
  "as_theme ResolvedDark = DarkTheme"
| "as_theme ResolvedLight = LightTheme"

definition THEME_VALUES :: "Theme list" where
  "THEME_VALUES = [DarkTheme, LightTheme, SystemTheme]"

definition isTheme :: "string option \<Rightarrow> bool" where
  "isTheme v = (case v of None \<Rightarrow> False | Some s \<Rightarrow> s \<in> set (map theme_str THEME_VALUES))"

text \<open>The stored text as a theme, or the default: \<^verbatim>\<open>isTheme(v) ? v : defaultTheme\<close>.\<close>

definition theme_or :: "Theme \<Rightarrow> string option \<Rightarrow> Theme" where
  "theme_or defaultTheme v =
     (if isTheme v
      then nullish (List.find (\<lambda>t. Some (theme_str t) = v) THEME_VALUES) defaultTheme
      else defaultTheme)"

section \<open>The provider\<close>

record StorageEvent =
  se_local :: bool
  se_key :: "string option"
  se_newValue :: "string option"

text \<open>
  \<open>th_applied\<close> is the dependency of the last run of the first effect (none before the first run),
  \<open>th_listening\<close> whether its listener is registered, \<open>th_styles\<close> the style elements that switch
  transitions off, each with the animation frames left to it, \<open>th_queue\<close> the storage events on their
  way.
\<close>

record theme_page =
  th_theme :: Theme
  th_applied :: "Theme option"
  th_listening :: bool
  th_systemDark :: bool
  th_classList :: "string list"
  th_styles :: "nat list"
  th_storage :: "string \<rightharpoonup> string"
  th_queue :: "StorageEvent list"

record theme_props =
  tp_defaultTheme :: Theme
  tp_storageKey :: string
  tp_disableTransitionOnChange :: bool

definition default_props :: theme_props where
  "default_props = \<lparr>tp_defaultTheme = SystemTheme, tp_storageKey = ''theme'', tp_disableTransitionOnChange = True\<rparr>"

definition getSystemTheme :: "theme_page \<Rightarrow> ResolvedTheme" where
  "getSystemTheme s = (if th_systemDark s then ResolvedDark else ResolvedLight)"

fun resolve_theme :: "Theme \<Rightarrow> theme_page \<Rightarrow> ResolvedTheme" where
  "resolve_theme SystemTheme s = getSystemTheme s"
| "resolve_theme DarkTheme s = ResolvedDark"
| "resolve_theme LightTheme s = ResolvedLight"

text \<open>The element is removed in the second frame after it was added.\<close>

definition disableTransitionsTemporarily :: "theme_page \<Rightarrow> theme_page" where
  "disableTransitionsTemporarily s = s\<lparr>th_styles := th_styles s @ [2]\<rparr>"

definition animation_frame :: "theme_page \<Rightarrow> theme_page" where
  "animation_frame s = s\<lparr>th_styles := map (\<lambda>n. n - 1) (filter (\<lambda>n. 1 < n) (th_styles s))\<rparr>"

record EventTarget =
  tg_isHTMLElement :: bool
  tg_isContentEditable :: bool
  tg_closestField :: bool

definition isEditableTarget :: "EventTarget option \<Rightarrow> bool" where
  "isEditableTarget target =
     (case target of None \<Rightarrow> False
      | Some t \<Rightarrow> tg_isHTMLElement t \<and> (tg_isContentEditable t \<or> tg_closestField t))"

fun getNextShortcutTheme :: "Theme \<Rightarrow> theme_page \<Rightarrow> ResolvedTheme" where
  "getNextShortcutTheme DarkTheme s = ResolvedLight"
| "getNextShortcutTheme LightTheme s = ResolvedDark"
| "getNextShortcutTheme SystemTheme s = (if getSystemTheme s = ResolvedDark then ResolvedLight else ResolvedDark)"

definition initial_theme :: "theme_props \<Rightarrow> bool \<Rightarrow> (string \<rightharpoonup> string) \<Rightarrow> string list \<Rightarrow> theme_page" where
  "initial_theme p dark storage classes =
     \<lparr>th_theme = theme_or (tp_defaultTheme p) (storage (tp_storageKey p)),
      th_applied = None, th_listening = False, th_systemDark = dark, th_classList = classes, th_styles = [],
      th_storage = storage, th_queue = []\<rparr>"

definition setTheme :: "theme_props \<Rightarrow> Theme \<Rightarrow> theme_page \<Rightarrow> theme_page" where
  "setTheme p nextTheme s =
     s\<lparr>th_storage := (th_storage s)(tp_storageKey p \<mapsto> theme_str nextTheme), th_theme := nextTheme\<rparr>"

text \<open>\<^verbatim>\<open>classList.remove\<close> and \<^verbatim>\<open>classList.add\<close>, which keeps a token that is there.\<close>

definition swap_class :: "string \<Rightarrow> string list \<Rightarrow> string list" where
  "swap_class c cs =
     (let rest = filter (\<lambda>x. x \<noteq> ''light'' \<and> x \<noteq> ''dark'') cs in if c \<in> set rest then rest else rest @ [c])"

definition applyTheme :: "theme_props \<Rightarrow> Theme \<Rightarrow> theme_page \<Rightarrow> theme_page" where
  "applyTheme p nextTheme s =
     (let resolvedTheme = resolve_theme nextTheme s;
          t = (if tp_disableTransitionOnChange p then disableTransitionsTemporarily s else s)
      in t\<lparr>th_classList := swap_class (resolved_str resolvedTheme) (th_classList t)\<rparr>)"

text \<open>The first effect: the cleanup of its last run removes the listener; nothing runs while the theme is the same.\<close>

definition theme_effect :: "theme_props \<Rightarrow> theme_page \<Rightarrow> theme_page" where
  "theme_effect p s =
     (if th_applied s = Some (th_theme s) then s
      else (applyTheme p (th_theme s) (s\<lparr>th_listening := False\<rparr>))
             \<lparr>th_applied := Some (th_theme s), th_listening := (th_theme s = SystemTheme)\<rparr>)"

text \<open>The preference of the system changes; \<^verbatim>\<open>handleChange\<close> runs when it is registered.\<close>

definition handleChange :: "theme_props \<Rightarrow> bool \<Rightarrow> theme_page \<Rightarrow> theme_page" where
  "handleChange p dark s =
     (let t = s\<lparr>th_systemDark := dark\<rparr> in if th_listening t then applyTheme p SystemTheme t else t)"

record KeyboardEvent =
  ke_repeat :: bool
  ke_metaKey :: bool
  ke_ctrlKey :: bool
  ke_altKey :: bool
  ke_target :: "EventTarget option"
  ke_key :: string

definition handleKeyDown :: "theme_props \<Rightarrow> KeyboardEvent \<Rightarrow> theme_page \<Rightarrow> theme_page" where
  "handleKeyDown p e s =
     (if ke_repeat e then s
      else if ke_metaKey e \<or> ke_ctrlKey e \<or> ke_altKey e then s
      else if isEditableTarget (ke_target e) then s
      else if map lower_char (ke_key e) \<noteq> ''d'' then s
      else
        (let nextTheme = as_theme (getNextShortcutTheme (th_theme s) s)
         in s\<lparr>th_storage := (th_storage s)(tp_storageKey p \<mapsto> theme_str nextTheme), th_theme := nextTheme\<rparr>))"

definition handleStorageChange :: "theme_props \<Rightarrow> StorageEvent \<Rightarrow> theme_page \<Rightarrow> theme_page" where
  "handleStorageChange p e s =
     (if \<not> se_local e then s
      else if se_key e \<noteq> Some (tp_storageKey p) then s
      else s\<lparr>th_theme := theme_or (tp_defaultTheme p) (se_newValue e)\<rparr>)"

text \<open>Outside a provider the context is undefined and the hook throws.\<close>

definition useTheme :: "theme_page option \<Rightarrow> string + Theme" where
  "useTheme ctx = (case ctx of None \<Rightarrow> Inl ''useTheme must be used within a ThemeProvider'' | Some s \<Rightarrow> Inr (th_theme s))"

section \<open>The page as a machine\<close>

text \<open>
  Another tab sets or removes an item (which announces nothing when nothing changes) or clears the
  storage (whose event has no key); a session storage event is announced with its own area.
\<close>

datatype theme_event =
    RunEffect
  | SetTheme Theme
  | KeyDown KeyboardEvent
  | SystemChange bool
  | AnimationFrame
  | OtherSets string string
  | OtherRemoves string
  | OtherClears
  | SessionStorage "string option" "string option"
  | Deliver

definition announce :: "StorageEvent \<Rightarrow> theme_page \<Rightarrow> theme_page" where
  "announce e s = s\<lparr>th_queue := th_queue s @ [e]\<rparr>"

fun theme_step :: "theme_props \<Rightarrow> theme_page \<Rightarrow> theme_event \<Rightarrow> theme_page" where
  "theme_step p s RunEffect = theme_effect p s"
| "theme_step p s (SetTheme t) = setTheme p t s"
| "theme_step p s (KeyDown e) = handleKeyDown p e s"
| "theme_step p s (SystemChange d) = handleChange p d s"
| "theme_step p s AnimationFrame = animation_frame s"
| "theme_step p s (OtherSets k v) =
     (if th_storage s k = Some v then s
      else announce \<lparr>se_local = True, se_key = Some k, se_newValue = Some v\<rparr>
             (s\<lparr>th_storage := (th_storage s)(k \<mapsto> v)\<rparr>))"
| "theme_step p s (OtherRemoves k) =
     (if th_storage s k = None then s
      else announce \<lparr>se_local = True, se_key = Some k, se_newValue = None\<rparr>
             (s\<lparr>th_storage := (th_storage s)(k := None)\<rparr>))"
| "theme_step p s OtherClears =
     announce \<lparr>se_local = True, se_key = None, se_newValue = None\<rparr> (s\<lparr>th_storage := Map.empty\<rparr>)"
| "theme_step p s (SessionStorage k v) = announce \<lparr>se_local = False, se_key = k, se_newValue = v\<rparr> s"
| "theme_step p s Deliver =
     (case th_queue s of [] \<Rightarrow> s | e # es \<Rightarrow> handleStorageChange p e (s\<lparr>th_queue := es\<rparr>))"

section \<open>The document shows the applied theme\<close>

lemma theme_or_str [simp]: "theme_or d (Some (theme_str t)) = t"
  by (cases t) (simp_all add: theme_or_def isTheme_def THEME_VALUES_def)

lemma theme_or_None [simp]: "theme_or d None = d"
  by (simp add: theme_or_def isTheme_def)

text \<open>The theme tokens among the classes of the root element.\<close>

definition theme_tokens :: "string list \<Rightarrow> string list" where
  "theme_tokens cs = filter (\<lambda>x. x = ''light'' \<or> x = ''dark'') cs"

lemma theme_tokens_swap: "theme_tokens (swap_class (resolved_str r) cs) = [resolved_str r]"
  by (cases r) (auto simp: theme_tokens_def swap_class_def filter_empty_conv Let_def)

lemma swap_class_others: "x \<noteq> ''light'' \<Longrightarrow> x \<noteq> ''dark'' \<Longrightarrow> x \<in> set (swap_class (resolved_str r) cs) \<longleftrightarrow> x \<in> set cs"
  by (cases r) (auto simp: swap_class_def Let_def)

text \<open>
  Once the effect has run, the root element carries exactly the token of the theme it applied,
  resolved with the preference the system has now, and the listener is registered for the system
  theme alone; no style element has more than two frames left.
\<close>

definition shown_inv :: "theme_page \<Rightarrow> bool" where
  "shown_inv s =
     ((case th_applied s of None \<Rightarrow> \<not> th_listening s
       | Some t \<Rightarrow> (th_listening s \<longleftrightarrow> t = SystemTheme) \<and>
           theme_tokens (th_classList s) = [resolved_str (resolve_theme t s)]) \<and>
      list_all (\<lambda>n. n \<le> 2) (th_styles s))"

lemmas theme_defs = setTheme_def applyTheme_def theme_effect_def handleChange_def handleKeyDown_def
  handleStorageChange_def announce_def animation_frame_def disableTransitionsTemporarily_def Let_def

lemma resolve_theme_cong: "th_systemDark s = th_systemDark t \<Longrightarrow> resolve_theme x s = resolve_theme x t"
  by (cases x) (simp_all add: getSystemTheme_def)

lemma apply_shown:
  "list_all (\<lambda>n. n \<le> 2) (th_styles s) \<Longrightarrow>
   shown_inv ((applyTheme p t s)\<lparr>th_applied := Some t, th_listening := (t = SystemTheme)\<rparr>)"
  using resolve_theme_cong [of "(applyTheme p t s)\<lparr>th_applied := Some t, th_listening := (t = SystemTheme)\<rparr>" s t]
  by (auto simp: shown_inv_def applyTheme_def disableTransitionsTemporarily_def theme_tokens_swap Let_def)

lemma shown_inv_cong:
  "shown_inv s \<Longrightarrow> th_applied t = th_applied s \<Longrightarrow> th_listening t = th_listening s \<Longrightarrow>
   th_systemDark t = th_systemDark s \<Longrightarrow> th_classList t = th_classList s \<Longrightarrow>
   list_all (\<lambda>n. n \<le> 2) (th_styles t) \<Longrightarrow> shown_inv t"
  using resolve_theme_cong [of t s] by (auto simp: shown_inv_def split: option.splits)

lemma shown_styles: "shown_inv s \<Longrightarrow> list_all (\<lambda>n. n \<le> 2) (th_styles s)"
  by (simp add: shown_inv_def)

text \<open>The steps that only touch the theme, the storage and the queue.\<close>

lemma shown_inv_keep:
  "shown_inv s \<Longrightarrow> th_applied t = th_applied s \<and> th_listening t = th_listening s \<and>
   th_systemDark t = th_systemDark s \<and> th_classList t = th_classList s \<and> th_styles t = th_styles s \<Longrightarrow> shown_inv t"
  using shown_inv_cong [of s t] by (simp add: shown_styles)

lemma handleChange_shown:
  assumes "shown_inv s"
  shows "shown_inv (handleChange p d s)"
proof (cases "th_listening s")
  case True
  let ?t = "s\<lparr>th_systemDark := d\<rparr>"
  from assms True have "th_applied s = Some SystemTheme"
    by (auto simp: shown_inv_def split: option.splits)
  with True have "(applyTheme p SystemTheme ?t)\<lparr>th_applied := Some SystemTheme, th_listening := (SystemTheme = SystemTheme)\<rparr>
      = applyTheme p SystemTheme ?t"
    by (simp add: applyTheme_def disableTransitionsTemporarily_def Let_def)
  with apply_shown [of ?t SystemTheme p] True shown_styles [OF assms] show ?thesis
    by (simp add: handleChange_def Let_def)
next
  case False
  with assms show ?thesis
    by (auto simp: shown_inv_def handleChange_def Let_def split: option.splits) (metis Theme.exhaust resolve_theme.simps(2,3))
qed

lemma theme_step_shown: "shown_inv s \<Longrightarrow> shown_inv (theme_step p s e)"
proof (cases e)
  case RunEffect
  assume inv: "shown_inv s"
  show ?thesis unfolding RunEffect theme_step.simps theme_effect_def
    using inv apply_shown [of "s\<lparr>th_listening := False\<rparr>" "th_theme s" p] by (simp add: shown_styles)
next
  case AnimationFrame
  assume "shown_inv s"
  then show ?thesis unfolding AnimationFrame theme_step.simps
    by (rule shown_inv_cong) (use shown_styles [of s] \<open>shown_inv s\<close> in \<open>auto simp: animation_frame_def list_all_iff\<close>)
next
  case (SystemChange d)
  assume "shown_inv s"
  then show ?thesis by (simp add: SystemChange handleChange_shown)
qed (erule shown_inv_keep, simp add: setTheme_def handleKeyDown_def handleStorageChange_def announce_def Let_def split: list.split)+

interpretation shown: machine_invariant "theme_step p" shown_inv for p
  by unfold_locales (rule theme_step_shown)

lemma initial_shown: "shown_inv (initial_theme p d st cs)"
  by (simp add: shown_inv_def initial_theme_def)

text \<open>After any history, one run of the effect puts the theme of the provider on the page.\<close>

lemma effect_shows_theme:
  "let s = theme_effect p (run (theme_step p) (initial_theme p d st cs) es)
   in theme_tokens (th_classList s) = [resolved_str (resolve_theme (th_theme s) s)]"
proof -
  let ?s = "theme_effect p (run (theme_step p) (initial_theme p d st cs) es)"
  have "shown_inv ?s"
    using theme_step_shown [OF shown.run_inv [OF initial_shown], where e = RunEffect and p = p] by simp
  moreover have "th_applied ?s = Some (th_theme ?s)"
    by (auto simp: theme_effect_def applyTheme_def disableTransitionsTemporarily_def Let_def)
  ultimately show ?thesis by (simp add: shown_inv_def Let_def)
qed

text \<open>Transitions come back: two animation frames after the last change no style element is left.\<close>

lemma transitions_restored:
  "shown_inv s \<Longrightarrow> th_styles (animation_frame (animation_frame s)) = []"
  by (auto simp: shown_inv_def animation_frame_def list_all_iff filter_empty_conv)

text \<open>The shortcut always changes what is shown.\<close>

lemma shortcut_changes: "resolve_theme (as_theme (getNextShortcutTheme t s)) s \<noteq> resolve_theme t s"
  by (cases t) (auto simp: getSystemTheme_def)

section \<open>The theme and the storage\<close>

text \<open>The theme a tab that is opened now would start with.\<close>

definition stored_theme :: "theme_props \<Rightarrow> theme_page \<Rightarrow> Theme" where
  "stored_theme p s = theme_or (tp_defaultTheme p) (th_storage s (tp_storageKey p))"

definition relevant :: "theme_props \<Rightarrow> StorageEvent \<Rightarrow> bool" where
  "relevant p e = (se_local e \<and> se_key e = Some (tp_storageKey p))"

text \<open>
  The theme after all events on their way are delivered. It agrees with the storage as long as this
  tab writes only while no event is on its way, and no other tab clears the whole storage.
\<close>

definition settled_theme :: "theme_props \<Rightarrow> theme_page \<Rightarrow> Theme" where
  "settled_theme p s =
     foldl (\<lambda>t e. if relevant p e then theme_or (tp_defaultTheme p) (se_newValue e) else t) (th_theme s) (th_queue s)"

definition agrees :: "theme_props \<Rightarrow> theme_page \<Rightarrow> bool" where
  "agrees p s = (settled_theme p s = stored_theme p s)"

fun calm :: "theme_page \<Rightarrow> theme_event \<Rightarrow> bool" where
  "calm s OtherClears = False"
| "calm s (SetTheme t) = (th_queue s = [])"
| "calm s (KeyDown e) = (th_queue s = [])"
| "calm s _ = True"

definition calm_step :: "theme_props \<Rightarrow> theme_page \<Rightarrow> theme_event \<Rightarrow> theme_page" where
  "calm_step p s e = (if calm s e then theme_step p s e else s)"

lemma agrees_cong:
  "agrees p s \<Longrightarrow> th_theme t = th_theme s \<and> th_queue t = th_queue s \<and> th_storage t = th_storage s \<Longrightarrow> agrees p t"
  by (simp add: agrees_def settled_theme_def stored_theme_def)

lemma deliver_agrees: "agrees p s \<Longrightarrow> agrees p (theme_step p s Deliver)"
  by (cases "th_queue s")
    (auto simp: agrees_def settled_theme_def stored_theme_def handleStorageChange_def relevant_def)

lemma calm_step_agrees: "agrees p s \<Longrightarrow> agrees p (calm_step p s e)"
proof (cases e)
  case Deliver
  assume "agrees p s"
  then show ?thesis by (simp add: Deliver calm_step_def deliver_agrees del: theme_step.simps)
next
  case (SetTheme t)
  assume "agrees p s"
  then show ?thesis
    by (simp add: SetTheme calm_step_def agrees_def settled_theme_def stored_theme_def setTheme_def)
next
  case (KeyDown k)
  assume "agrees p s"
  then show ?thesis
    by (auto simp: KeyDown calm_step_def agrees_def settled_theme_def stored_theme_def handleKeyDown_def Let_def)
next
  case (OtherSets k v)
  assume "agrees p s"
  then show ?thesis
    by (auto simp: OtherSets calm_step_def agrees_def settled_theme_def stored_theme_def announce_def relevant_def)
next
  case (OtherRemoves k)
  assume "agrees p s"
  then show ?thesis
    by (auto simp: OtherRemoves calm_step_def agrees_def settled_theme_def stored_theme_def announce_def relevant_def)
next
  case (SessionStorage k v)
  assume "agrees p s"
  then show ?thesis
    by (simp add: SessionStorage calm_step_def agrees_def settled_theme_def stored_theme_def announce_def relevant_def)
qed (erule agrees_cong, simp add: calm_step_def theme_effect_def applyTheme_def handleChange_def animation_frame_def
    disableTransitionsTemporarily_def Let_def)+

interpretation calm: machine_invariant "calm_step p" "agrees p" for p
  by unfold_locales (rule calm_step_agrees)

lemma initial_agrees: "agrees p (initial_theme p d st cs)"
  by (simp add: agrees_def settled_theme_def stored_theme_def initial_theme_def)

text \<open>With no event on its way, a reload would start with the very theme the page has.\<close>

lemma theme_survives_reload:
  assumes "s = run (calm_step p) (initial_theme p d st cs) es" and "th_queue s = []"
  shows "th_theme (initial_theme p d' (th_storage s) cs') = th_theme s"
  using calm.run_inv [OF initial_agrees, of p d st cs es] assms
  by (simp add: agrees_def settled_theme_def stored_theme_def initial_theme_def)

text \<open>
  The two conditions are needed. When this tab chooses a theme while the event of another tab's choice
  is on its way, the event wins on the page and the choice wins in the storage; and a cleared storage,
  whose event has no key, leaves the old theme on the page.
\<close>

lemma crossing_writes_diverge:
  "let s = run (theme_step default_props) (initial_theme default_props False Map.empty [])
             [OtherSets ''theme'' ''light'', SetTheme DarkTheme, Deliver]
   in th_queue s = [] \<and> th_theme s = LightTheme \<and> stored_theme default_props s = DarkTheme"
  by (simp add: default_props_def initial_theme_def announce_def setTheme_def handleStorageChange_def stored_theme_def
      theme_or_def isTheme_def THEME_VALUES_def Let_def)

lemma cleared_storage_diverges:
  "let s = run (theme_step default_props) (initial_theme default_props False [''theme'' \<mapsto> ''dark''] [])
             [OtherClears, Deliver]
   in th_queue s = [] \<and> th_theme s = DarkTheme \<and> stored_theme default_props s = SystemTheme"
  by (simp add: default_props_def initial_theme_def announce_def handleStorageChange_def stored_theme_def
      theme_or_def isTheme_def THEME_VALUES_def Let_def)

end
