(* ===== verification/Ui_Pages.thy ===== *)
theory Ui_Pages
  imports Ui_Hooks Ui_Guests Ui_Parrot
begin

text \<open>
  The three pages and the way between them (\<^verbatim>\<open>app/router.tsx\<close>, \<^verbatim>\<open>features/guest-selection\<close>,
  \<^verbatim>\<open>features/map/pages\<close>, \<^verbatim>\<open>features/map/components/require-session.tsx\<close>, \<^verbatim>\<open>guest-hud.tsx\<close>): choosing a guest,
  the admin login, the open panel, leaving. A page that is left loses the state of its components; the
  session is kept by the browser and comes back with a reload.
\<close>

section \<open>State\<close>

datatype Path = RootPath | MapPath | QuitPath

record app_page =
  ap_path :: Path
  ap_session :: SessionState
  ap_flipped :: bool
  ap_error :: "string option"
  ap_activeZone :: "ZoneId option"

text \<open>The component a path renders; \<open>GuardedMap\<close> is the map inside \<^verbatim>\<open>RequireSession\<close>.\<close>

datatype route_element = GuestSelectionPage | GuardedMap | QuitPageElement

definition router :: "Path \<Rightarrow> route_element" where
  "router path = (case path of RootPath \<Rightarrow> GuestSelectionPage | MapPath \<Rightarrow> GuardedMap | QuitPath \<Rightarrow> QuitPageElement)"

text \<open>The effect of the quit page, run when it is mounted.\<close>

definition QuitPage :: "app_page \<Rightarrow> app_page" where
  "QuitPage s = s\<lparr>ap_session := clearGuest (ap_session s)\<rparr>"

definition visit :: "Path \<Rightarrow> app_page \<Rightarrow> app_page" where
  "visit path s =
     (let t = s\<lparr>ap_path := path, ap_flipped := False, ap_error := None, ap_activeZone := None\<rparr>
      in if router path = QuitPageElement then QuitPage t else t)"

definition RequireSession :: "app_page \<Rightarrow> app_page" where
  "RequireSession s = (if useSession (ap_session s) = None then visit RootPath s else s)"

text \<open>What is rendered after a change: the guard runs when the map is the page.\<close>

definition render :: "app_page \<Rightarrow> app_page" where
  "render s = (if router (ap_path s) = GuardedMap then RequireSession s else s)"

section \<open>Guest selection\<close>

definition handleSelectGuest :: "GuestProfile \<Rightarrow> app_page \<Rightarrow> app_page" where
  "handleSelectGuest guest s = visit MapPath (s\<lparr>ap_session := selectGuest guest (ap_session s)\<rparr>)"

definition handleAdminLogin :: "string \<Rightarrow> app_page \<Rightarrow> app_page" where
  "handleAdminLogin passcode s =
     visit MapPath (s\<lparr>ap_session := loginAdmin passcode (Some ''Admin Observer'') (ap_session s)\<rparr>)"

definition AdminLoginSchema :: "string \<Rightarrow> string + string" where
  "AdminLoginSchema passcode =
     (let trimmed = js_trim passcode in if trimmed = [] then Inl ''Enter the admin passcode.'' else Inr trimmed)"

text \<open>\<^verbatim>\<open>handleSubmit\<close> of the login card; the form library calls it with the values the schema returned.\<close>

definition admin_handleSubmit :: "ui_env \<Rightarrow> string \<Rightarrow> app_page \<Rightarrow> app_page" where
  "admin_handleSubmit env passcode s =
     (if ev_adminPasscode env = []
      then s\<lparr>ap_error := Some ''Admin login is not configured for this environment.''\<rparr>
      else if passcode \<noteq> ev_adminPasscode env
      then s\<lparr>ap_error := Some ''That admin passcode does not look right.''\<rparr>
      else handleAdminLogin passcode s)"

definition submit_login :: "ui_env \<Rightarrow> string \<Rightarrow> app_page \<Rightarrow> app_page" where
  "submit_login env raw s =
     (case AdminLoginSchema raw of
        Inl msg \<Rightarrow> s\<lparr>ap_error := Some msg\<rparr>
      | Inr passcode \<Rightarrow> admin_handleSubmit env passcode (s\<lparr>ap_error := None\<rparr>))"

section \<open>The map page and the session box\<close>

definition panelOpen :: "app_page \<Rightarrow> bool" where
  "panelOpen s = (ap_activeZone s \<noteq> None)"

definition close_panel :: "app_page \<Rightarrow> app_page" where
  "close_panel s = s\<lparr>ap_activeZone := None\<rparr>"

text \<open>The key listener of the panel's shell is registered while the panel is open.\<close>

definition shell_onKeyDown :: "string \<Rightarrow> app_page \<Rightarrow> app_page" where
  "shell_onKeyDown key s = (if panelOpen s \<and> key = ''Escape'' then close_panel s else s)"

definition handleSwitchSession :: "app_page \<Rightarrow> app_page" where
  "handleSwitchSession s = visit RootPath (s\<lparr>ap_session := clearSession (ap_session s)\<rparr>)"

definition handleQuit :: "app_page \<Rightarrow> app_page" where
  "handleQuit s = visit QuitPath s"

text \<open>The box: the role, the name, the line below it and the label of the first button.\<close>

record hud_view =
  hv_role :: string
  hv_name :: string
  hv_line :: string
  hv_switchLabel :: string

fun GuestHud :: "AppSession option \<Rightarrow> hud_view option" where
  "GuestHud None = None"
| "GuestHud (Some (AdminSession displayName passcode)) =
     Some \<lparr>hv_role = ''admin'', hv_name = displayName, hv_line = ''Admin observer mode'', hv_switchLabel = ''Switch session''\<rparr>"
| "GuestHud (Some (GuestSession guest)) =
     Some \<lparr>hv_role = ''guest'', hv_name = gp_name guest @ '' '' @ gp_surname guest,
           hv_line = gp_priority guest @ '' guest'', hv_switchLabel = ''Switch guest''\<rparr>"

section \<open>The application as a machine\<close>

text \<open>
  A control exists on its page only: the cards show \<^const>\<open>guests\<close>, the buttons of the box are there when
  the box is. \<open>Navigate\<close> is the address bar or the history, \<open>Reload\<close> a new start with the session that
  was persisted.
\<close>

datatype app_event =
    ChooseGuest GuestProfile
  | FlipTo bool
  | TypePasscode
  | SubmitPasscode string
  | ClickZone ZoneId
  | ClickClose
  | PressKey string
  | SwitchSession
  | ClickQuit
  | Navigate Path
  | Reload

fun app_handler :: "ui_env \<Rightarrow> app_page \<Rightarrow> app_event \<Rightarrow> app_page" where
  "app_handler env s (ChooseGuest g) =
     (if ap_path s = RootPath \<and> g \<in> set guests then handleSelectGuest g s else s)"
| "app_handler env s (FlipTo b) = (if ap_path s = RootPath then s\<lparr>ap_flipped := b\<rparr> else s)"
| "app_handler env s TypePasscode = (if ap_path s = RootPath then s\<lparr>ap_error := None\<rparr> else s)"
| "app_handler env s (SubmitPasscode raw) = (if ap_path s = RootPath then submit_login env raw s else s)"
| "app_handler env s (ClickZone z) = (if ap_path s = MapPath then s\<lparr>ap_activeZone := Some z\<rparr> else s)"
| "app_handler env s ClickClose = (if ap_path s = MapPath then close_panel s else s)"
| "app_handler env s (PressKey k) = (if ap_path s = MapPath then shell_onKeyDown k s else s)"
| "app_handler env s SwitchSession =
     (if ap_path s = MapPath \<and> GuestHud (useSession (ap_session s)) \<noteq> None then handleSwitchSession s else s)"
| "app_handler env s ClickQuit =
     (if ap_path s = MapPath \<and> GuestHud (useSession (ap_session s)) \<noteq> None then handleQuit s else s)"
| "app_handler env s (Navigate path) = visit path s"
| "app_handler env s Reload =
     visit (ap_path s) (s\<lparr>ap_session := merge_session (Some (partialize (ap_session s))) EMPTY_SESSION_STATE\<rparr>)"

definition app_step :: "ui_env \<Rightarrow> app_page \<Rightarrow> app_event \<Rightarrow> app_page" where
  "app_step env s e = render (app_handler env s e)"

text \<open>A new tab: no session is stored yet.\<close>

definition initial_app :: "Path \<Rightarrow> app_page" where
  "initial_app path =
     render (visit path \<lparr>ap_path = path, ap_session = EMPTY_SESSION_STATE, ap_flipped = False,
       ap_error = None, ap_activeZone = None\<rparr>)"

section \<open>Invariant\<close>

text \<open>
  The map is only shown to somebody; an admin has entered the configured passcode, which is not empty;
  a guest is one of the cards; nobody is left after the quit page; a panel is open on the map only.
\<close>

fun session_ok :: "ui_env \<Rightarrow> AppSession option \<Rightarrow> bool" where
  "session_ok env None = True"
| "session_ok env (Some (AdminSession d p)) = (p = ev_adminPasscode env \<and> p \<noteq> [] \<and> d = ''Admin Observer'')"
| "session_ok env (Some (GuestSession g)) = (g \<in> set guests)"

definition pages_inv :: "ui_env \<Rightarrow> app_page \<Rightarrow> bool" where
  "pages_inv env s =
     (session_inv (ap_session s) \<and> session_ok env (sn_session (ap_session s)) \<and>
      (ap_path s = MapPath \<longrightarrow> sn_session (ap_session s) \<noteq> None) \<and>
      (ap_path s = QuitPath \<longrightarrow> sn_session (ap_session s) = None) \<and>
      (ap_activeZone s \<noteq> None \<longrightarrow> ap_path s = MapPath) \<and>
      (ap_path s \<noteq> RootPath \<longrightarrow> ap_error s = None \<and> \<not> ap_flipped s))"

text \<open>What a handler has to leave for the guard to restore the rest.\<close>

definition before_render :: "ui_env \<Rightarrow> app_page \<Rightarrow> bool" where
  "before_render env s =
     (session_inv (ap_session s) \<and> session_ok env (sn_session (ap_session s)) \<and>
      (ap_path s = QuitPath \<longrightarrow> sn_session (ap_session s) = None) \<and>
      (ap_activeZone s \<noteq> None \<longrightarrow> ap_path s = MapPath) \<and>
      (ap_path s \<noteq> RootPath \<longrightarrow> ap_error s = None \<and> \<not> ap_flipped s))"

lemmas page_defs = visit_def QuitPage_def RequireSession_def render_def router_def useSession_def Let_def

lemma inv_before: "pages_inv env s \<Longrightarrow> before_render env s"
  by (simp add: pages_inv_def before_render_def)

lemma empty_session [simp]:
  "sn_session EMPTY_SESSION_STATE = None" "session_inv EMPTY_SESSION_STATE"
  by (simp_all add: session_defs)

lemma visit_before:
  "session_inv (ap_session s) \<Longrightarrow> session_ok env (sn_session (ap_session s)) \<Longrightarrow> before_render env (visit path s)"
  by (cases path) (simp_all add: before_render_def page_defs clearGuest_def)

lemma render_inv: "before_render env s \<Longrightarrow> pages_inv env (render s)"
  by (cases "ap_path s") (auto simp: before_render_def pages_inv_def page_defs)

lemma submit_before:
  assumes "before_render env s" "ap_path s = RootPath"
  shows "before_render env (submit_login env raw s)"
proof -
  have "before_render env (handleAdminLogin (ev_adminPasscode env) t)" if "ev_adminPasscode env \<noteq> []" for t
    unfolding handleAdminLogin_def using that by (intro visit_before) (simp_all add: session_defs)
  with assms show ?thesis
    by (auto simp: submit_login_def admin_handleSubmit_def before_render_def split: sum.split)
qed

lemma reload_session: "session_inv s \<Longrightarrow> merge_session (Some (partialize s)) t = s"
  by (rule rehydrate_partialize)

lemma handler_before:
  assumes "pages_inv env s"
  shows "before_render env (app_handler env s e)"
proof -
  have b: "before_render env s" and ok: "session_inv (ap_session s)" "session_ok env (sn_session (ap_session s))"
    using assms by (simp_all add: inv_before pages_inv_def)
  show ?thesis
  proof (cases e)
    case (ChooseGuest g)
    have "g \<in> set guests \<Longrightarrow> before_render env (handleSelectGuest g s)"
      unfolding handleSelectGuest_def by (rule visit_before) (simp_all add: session_defs)
    with b show ?thesis by (simp add: ChooseGuest)
  next
    case (SubmitPasscode raw)
    with b show ?thesis by (simp add: submit_before)
  next
    case SwitchSession
    have "before_render env (handleSwitchSession s)"
      unfolding handleSwitchSession_def by (rule visit_before) (simp_all add: clearSession_def)
    with b show ?thesis by (simp add: SwitchSession)
  next
    case ClickQuit
    with b ok show ?thesis by (simp add: handleQuit_def visit_before)
  next
    case (Navigate path)
    with ok show ?thesis by (simp add: visit_before)
  next
    case Reload
    with ok show ?thesis by (simp add: visit_before reload_session)
  qed (use b in \<open>auto simp: before_render_def close_panel_def shell_onKeyDown_def\<close>)
qed

lemma app_step_inv: "pages_inv env s \<Longrightarrow> pages_inv env (app_step env s e)"
  by (simp add: app_step_def handler_before render_inv)

interpretation pages: machine_invariant "app_step env" "pages_inv env" for env
  by unfold_locales (rule app_step_inv)

lemma initial_pages: "pages_inv env (initial_app path)"
  unfolding initial_app_def by (rule render_inv) (rule visit_before; simp)

section \<open>The login\<close>

text \<open>The passcode is compared after its white space is removed, so a configured passcode with white space around it is never accepted.\<close>

lemma login_accepts:
  "ap_path s = RootPath \<Longrightarrow>
   ap_path (app_step env s (SubmitPasscode raw)) = MapPath \<longleftrightarrow> js_trim raw \<noteq> [] \<and> js_trim raw = ev_adminPasscode env"
  by (auto simp: app_step_def submit_login_def AdminLoginSchema_def admin_handleSubmit_def handleAdminLogin_def
      page_defs loginAdmin_def adminSessionState_def)

lemma untrimmed_passcode_locks_out:
  "ap_path s = RootPath \<Longrightarrow> js_trim (ev_adminPasscode env) \<noteq> ev_adminPasscode env \<Longrightarrow>
   ap_path (app_step env s (SubmitPasscode raw)) \<noteq> MapPath"
  by (metis js_trim_idem login_accepts)

end
