(* ===== verification/Ui_Panels.thy ===== *)
theory Ui_Panels
  imports Ui_Pages Ui_Lib
begin

text \<open>
  What the panel of a zone shows (\<^verbatim>\<open>features/*/components/*-panel.tsx\<close> and the lists they hold). A panel is a
  function from the session, the feed and the answers of the hooks to the widgets it renders, in the
  order of the page; markup and styling are left out, a button is whether it is disabled and its label
  (none while it shows a spinner). A character outside ASCII is written as its UTF-8 bytes.
\<close>

section \<open>The feed in a panel (event-log.tsx, event-card.tsx, zone-event-log.tsx)\<close>

record event_card =
  cd_message :: string
  cd_guestName :: "string option"
  cd_sender :: string

definition EventCard :: "BroadcastEvent \<Rightarrow> event_card" where
  "EventCard event =
     (let guestName = (case be_guest_name event of Some n \<Rightarrow> Some n | None \<Rightarrow> findGuestName (be_guest_id event))
      in \<lparr>cd_message = be_message event, cd_guestName = (if truthy_str guestName then guestName else None),
          cd_sender = be_sender event\<rparr>)"

text \<open>No limit, or the limit zero, shows every event; an empty log shows its placeholder.\<close>

definition event_log_visible :: "BroadcastEvent list \<Rightarrow> nat option \<Rightarrow> BroadcastEvent list" where
  "event_log_visible events limit = (case limit of Some (Suc n) \<Rightarrow> take (Suc n) events | _ \<Rightarrow> events)"

datatype event_log_view = NoEventsYet | EventCards "event_card list"

definition EventLog :: "BroadcastEvent list \<Rightarrow> nat option \<Rightarrow> event_log_view" where
  "EventLog events limit =
     (let visible = event_log_visible events limit in if visible = [] then NoEventsYet else EventCards (map EventCard visible))"

definition ZoneEventLog :: "BroadcastEvent list \<Rightarrow> nat option \<Rightarrow> event_log_view" where
  "ZoneEventLog events limit = EventLog events (Some (nullish limit 25))"

section \<open>Activities (activities-list.tsx, activity-action.tsx, activity-card.tsx)\<close>

record button =
  bt_disabled :: bool
  bt_label :: "string option"

datatype activity_button = CancelButton button | BookButton button

definition ActivityAction :: "bool \<Rightarrow> bool \<Rightarrow> bool \<Rightarrow> bool \<Rightarrow> bool \<Rightarrow> activity_button" where
  "ActivityAction isBooked isReplacing isFull isBooking isCancelling =
     (let isMutating = isBooking \<or> isCancelling
      in if isBooked
         then CancelButton \<lparr>bt_disabled = isMutating, bt_label = (if isCancelling then None else Some ''Cancel'')\<rparr>
         else BookButton \<lparr>bt_disabled = (isFull \<or> isMutating),
           bt_label = (if isBooking then None else if isReplacing then Some ''Switch booking'' else Some ''Book'')\<rparr>)"

datatype bar_color = Destructive | Amber | Accent

definition activity_filled :: "Activity \<Rightarrow> rat" where
  "activity_filled a =
     (if 0 < ac_capacity a then round64 (round64 (ac_capacity a - ac_remaining a) / ac_capacity a) else 1)"

record activity_card =
  av_activity :: Activity
  av_isBooked :: bool
  av_isFull :: bool
  av_barColor :: bar_color
  av_text :: string

definition ActivityCard :: "(rat \<Rightarrow> string) \<Rightarrow> Activity \<Rightarrow> bool \<Rightarrow> activity_card" where
  "ActivityCard numstr activity isBooked =
     (let isFull = (ac_remaining activity = 0);
          filled = activity_filled activity
      in \<lparr>av_activity = activity, av_isBooked = isBooked, av_isFull = isFull,
          av_barColor = (if 1 \<le> filled then Destructive else if round64 (8 / 10) \<le> filled then Amber else Accent),
          av_text = (if isFull then ''Full'' else numstr (ac_remaining activity) @ '' left'')\<rparr>)"

datatype activities_view =
    ActivitiesLoading
  | NoActivities
  | ActivityRows "(activity_card \<times> activity_button) list"

record activities_data =
  ad_activities :: "Activity list"
  ad_isLoading :: bool
  ad_bookedActivityId :: "string option"
  ad_isLoadingBooked :: bool
  ad_isBooking :: bool
  ad_isCancelling :: bool

definition activity_row :: "(rat \<Rightarrow> string) \<Rightarrow> activities_data \<Rightarrow> Activity \<Rightarrow> activity_card \<times> activity_button" where
  "activity_row numstr d activity =
     (let isBooked = (ad_bookedActivityId d = Some (ac_activity_id activity));
          isReplacing = (ad_bookedActivityId d \<noteq> None \<and> \<not> isBooked)
      in (ActivityCard numstr activity isBooked,
          ActivityAction isBooked isReplacing (ac_remaining activity = 0) (ad_isBooking d) (ad_isCancelling d)))"

definition ActivitiesList :: "(rat \<Rightarrow> string) \<Rightarrow> activities_data \<Rightarrow> activities_view" where
  "ActivitiesList numstr d =
     (if ad_isLoading d \<or> ad_isLoadingBooked d then ActivitiesLoading
      else if ad_activities d = [] then NoActivities
      else ActivityRows (map (activity_row numstr d) (ad_activities d)))"

section \<open>The menu (crab-panel.tsx)\<close>

record MenuItem =
  mi_id :: string
  mi_name :: string
  mi_emoji :: string
  mi_description :: string
  mi_price :: int
  mi_available :: bool
  mi_remaining :: "int option"

record menu_data =
  mn_items :: "MenuItem list option"
  mn_isLoading :: bool
  mn_isPending :: bool

record menu_row =
  mr_item :: MenuItem
  mr_left :: "string option"
  mr_button :: button

definition menu_row_of :: "menu_data \<Rightarrow> MenuItem \<Rightarrow> menu_row" where
  "menu_row_of d item =
     (let soldOut = \<not> mi_available item
      in \<lparr>mr_item = item,
          mr_left = (case mi_remaining item of None \<Rightarrow> None | Some n \<Rightarrow> if soldOut then None else Some (show_int n @ '' left'')),
          mr_button = \<lparr>bt_disabled = (soldOut \<or> mn_isPending d), bt_label = Some (if soldOut then ''Sold out'' else ''Order'')\<rparr>\<rparr>)"

text \<open>The click on a row orders one of the item.\<close>

definition menu_order :: "MenuItem \<Rightarrow> (string \<times> int) list" where
  "menu_order item = [(mi_id item, 1)]"

section \<open>Arrival (arrival-status.tsx)\<close>

datatype arrival_card = ClearedAt jsval | WaitingAt string jsval "jsval option"

definition ArrivalStatusCard :: "jsobj \<Rightarrow> arrival_card" where
  "ArrivalStatusCard status =
     (if jget status ''status'' = JStr ''processed'' then ClearedAt (jget status ''gate'')
      else WaitingAt (if jget status ''status'' = JStr ''processing'' then ''Processing'' else ''Queued'')
             (jget status ''gate'') (if jget status ''position'' = JNull then None else Some (jget status ''position'')))"

section \<open>The panels\<close>

datatype chat_area =
    ChatLoadingState
  | ChatLoadErrorState string bool
  | ChatThread "GuestProfile option" "ParrotThreadItem list" bool

datatype widget =
    BoardingPass GuestProfile
  | ArrivalStatusW jsval
  | BoardForm button
  | ArrivalFormResult jsval
  | NotLandedGate
  | NotCheckedInGate
  | Spinner
  | ActiveReservationCard jsval bool
  | ReservationForm bool
  | ReservationResult jsval
  | ActivitiesListW activities_view
  | Menu bool "menu_row list"
  | Chat chat_area bool
  | AirportAdminQueueSummary
  | HotelAdminRoomSummary
  | BeachAdminActivitiesSummary
  | ParrotAdminPanel
  | AnnouncementComposer
  | EventLogW event_log_view

text \<open>The session, the feed and what the hooks of the panels answer.\<close>

record panel_data =
  pd_session :: SessionState
  pd_events :: EventsState
  pd_arrival :: "jsval option"
  pd_arrivalResult :: "jsval option"
  pd_isBoarding :: bool
  pd_reservation :: "jsval option"
  pd_isLoadingReservation :: bool
  pd_isCancelling :: bool
  pd_confirmed :: "jsval option"
  pd_isReserving :: bool
  pd_activities :: activities_data
  pd_menu :: menu_data
  pd_chat :: parrot_chat
  pd_historyLoading :: bool
  pd_historyError :: "string option"
  pd_historyReady :: bool

abbreviation pd_isAdmin :: "panel_data \<Rightarrow> bool" where
  "pd_isAdmin d \<equiv> useIsAdmin (pd_session d)"

abbreviation pd_landed :: "panel_data \<Rightarrow> bool" where
  "pd_landed d \<equiv> useLanded (pd_arrival d)"

abbreviation pd_checkedIn :: "panel_data \<Rightarrow> bool" where
  "pd_checkedIn d \<equiv> useCheckedIn (pd_isLoadingReservation d) (pd_reservation d)"

definition zone_log :: "ZoneId \<Rightarrow> panel_data \<Rightarrow> widget" where
  "zone_log zone d = EventLogW (ZoneEventLog (useZoneEvents zone (pd_events d)) None)"

definition AirportPanel :: "panel_data \<Rightarrow> widget list" where
  "AirportPanel d =
     (if pd_isAdmin d then [AirportAdminQueueSummary, zone_log AirportZone d]
      else
        (case useGuest (pd_session d) of None \<Rightarrow> [] | Some guest \<Rightarrow> [BoardingPass guest])
        @ (case pd_arrival d of
             Some status \<Rightarrow> [ArrivalStatusW status]
           | None \<Rightarrow>
               BoardForm \<lparr>bt_disabled = pd_isBoarding d,
                 bt_label = Some (if pd_isBoarding d then ''Joining queue'' @ [CHR 0xE2, CHR 0x80, CHR 0xA6] else ''Board the flight'')\<rparr>
               # (case pd_arrivalResult d of None \<Rightarrow> [] | Some result \<Rightarrow> [ArrivalFormResult result])))"

definition HotelPanel :: "panel_data \<Rightarrow> widget list" where
  "HotelPanel d =
     (if pd_isAdmin d then [HotelAdminRoomSummary, zone_log HotelZone d]
      else if useGuest (pd_session d) = None then []
      else if \<not> pd_landed d then [NotLandedGate]
      else if pd_isLoadingReservation d then [Spinner]
      else
        (case pd_reservation d of
           Some reservation \<Rightarrow> [ActiveReservationCard reservation (pd_isCancelling d)]
         | None \<Rightarrow>
             ReservationForm (pd_isReserving d)
             # (case pd_confirmed d of None \<Rightarrow> [] | Some confirmed \<Rightarrow> [ReservationResult confirmed])))"

definition BeachPanel :: "(rat \<Rightarrow> string) \<Rightarrow> panel_data \<Rightarrow> widget list" where
  "BeachPanel numstr d =
     (if pd_isAdmin d then [BeachAdminActivitiesSummary, zone_log BeachZone d]
      else if \<not> pd_landed d then [NotLandedGate]
      else if \<not> pd_checkedIn d then [NotCheckedInGate]
      else [ActivitiesListW (ActivitiesList numstr (pd_activities d))])"

definition CrabPanel :: "panel_data \<Rightarrow> widget list" where
  "CrabPanel d =
     (if pd_isAdmin d then [zone_log CrabZone d]
      else if \<not> pd_landed d \<or> useGuest (pd_session d) = None then [NotLandedGate]
      else [Menu (mn_isLoading (pd_menu d)) (map (menu_row_of (pd_menu d)) (nullish (mn_items (pd_menu d)) [])),
            zone_log CrabZone d])"

definition composerDisabled :: "panel_data \<Rightarrow> bool" where
  "composerDisabled d = (pd_historyLoading d \<or> \<not> pd_historyReady d \<or> isPending (pd_chat d))"

definition ParrotPanel :: "panel_data \<Rightarrow> widget list" where
  "ParrotPanel d =
     (if pd_isAdmin d then [ParrotAdminPanel]
      else if useGuest (pd_session d) \<noteq> None \<and> \<not> pd_landed d then [NotLandedGate]
      else
        [Chat
           (if pd_historyLoading d then ChatLoadingState
            else if truthy_str (pd_historyError d)
            then ChatLoadErrorState (nullish (pd_historyError d) []) (isPending (pd_chat d))
            else ChatThread (useGuest (pd_session d)) (threadItems (pd_chat d)) (isPending (pd_chat d)))
           (composerDisabled d)])"

definition PUBLIC_EVENT_PREFIX :: string where "PUBLIC_EVENT_PREFIX = ''public.''"

definition broadcast_visible :: "panel_data \<Rightarrow> BroadcastEvent list" where
  "broadcast_visible d =
     (let events = es_events (pd_events d) (zn_channel (getZone BroadcastZone))
      in if pd_isAdmin d then events
         else filter (\<lambda>event. startsWith PUBLIC_EVENT_PREFIX (be_event_type event) \<or>
                be_event_type event = ADMIN_ANNOUNCEMENT_EVENT_TYPE) events)"

definition BroadcastPanel :: "panel_data \<Rightarrow> widget list" where
  "BroadcastPanel d =
     (if pd_isAdmin d then [AnnouncementComposer] else []) @ [EventLogW (EventLog (broadcast_visible d) None)]"

definition ZonePanelContent :: "(rat \<Rightarrow> string) \<Rightarrow> ZoneId \<Rightarrow> panel_data \<Rightarrow> widget list" where
  "ZonePanelContent numstr zone d =
     (case zone of
        AirportZone \<Rightarrow> AirportPanel d
      | HotelZone \<Rightarrow> HotelPanel d
      | BeachZone \<Rightarrow> BeachPanel numstr d
      | CrabZone \<Rightarrow> CrabPanel d
      | ParrotZone \<Rightarrow> ParrotPanel d
      | BroadcastZone \<Rightarrow> BroadcastPanel d)"

text \<open>The panel of the map page: nothing while no zone is active.\<close>

definition ZonePanel :: "(rat \<Rightarrow> string) \<Rightarrow> ZoneId option \<Rightarrow> panel_data \<Rightarrow> widget list" where
  "ZonePanel numstr zone d = (case zone of None \<Rightarrow> [] | Some z \<Rightarrow> ZonePanelContent numstr z d)"

text \<open>The heading of the shell: accent, title and description.\<close>

definition ZonePanelShell :: "ZoneId option \<Rightarrow> bool \<Rightarrow> string \<times> string option \<times> string option" where
  "ZonePanelShell zone isAdmin =
     (case zone of
        None \<Rightarrow> (''#34d399'', None, None)
      | Some z \<Rightarrow>
          (zn_accent (getZone z), Some (zn_label (getZone z)),
           Some (if isAdmin then zn_adminDescription (getZone z) else zn_description (getZone z))))"

text \<open>The marker of a zone on the map (\<^verbatim>\<open>zone-indicator.tsx\<close>).\<close>

definition zone_locked :: "ZoneId \<Rightarrow> panel_data \<Rightarrow> bool" where
  "zone_locked zone d =
     (let needsLanding = (zone \<noteq> AirportZone);
          needsCheckin = (zone = BeachZone);
          isLockedForGuest = (needsLanding \<and> \<not> pd_landed d) \<or> (needsCheckin \<and> \<not> pd_checkedIn d)
      in \<not> pd_isAdmin d \<and> isLockedForGuest)"

section \<open>Who sees what\<close>

text \<open>The widgets a guest acts through, those made for the admin, and the gates.\<close>

fun guest_control :: "widget \<Rightarrow> bool" where
  "guest_control (BoardForm b) = True"
| "guest_control (ActiveReservationCard r c) = True"
| "guest_control (ReservationForm b) = True"
| "guest_control (ActivitiesListW v) = True"
| "guest_control (Menu l rows) = True"
| "guest_control (Chat area dis) = True"
| "guest_control _ = False"

fun admin_view :: "widget \<Rightarrow> bool" where
  "admin_view AirportAdminQueueSummary = True"
| "admin_view HotelAdminRoomSummary = True"
| "admin_view BeachAdminActivitiesSummary = True"
| "admin_view ParrotAdminPanel = True"
| "admin_view AnnouncementComposer = True"
| "admin_view _ = False"

fun gate :: "widget \<Rightarrow> bool" where
  "gate NotLandedGate = True"
| "gate NotCheckedInGate = True"
| "gate _ = False"

lemmas panel_defs = ZonePanelContent_def AirportPanel_def HotelPanel_def BeachPanel_def CrabPanel_def ParrotPanel_def
  BroadcastPanel_def zone_log_def

lemma admin_sees_admin_views:
  "w \<in> set (ZonePanelContent numstr zone d) \<Longrightarrow> admin_view w \<Longrightarrow> pd_isAdmin d"
  by (cases zone) (auto simp: panel_defs split: if_splits option.splits)

lemma guest_sees_controls:
  "w \<in> set (ZonePanelContent numstr zone d) \<Longrightarrow> guest_control w \<Longrightarrow> \<not> pd_isAdmin d"
  by (cases zone) (auto simp: panel_defs split: if_splits option.splits)

text \<open>A marker is drawn as locked exactly when its panel is a gate; the lighthouse is drawn as locked but its panel has no gate.\<close>

lemma locked_iff_gate:
  assumes "pd_isAdmin d \<or> useGuest (pd_session d) \<noteq> None" "zone \<noteq> BroadcastZone"
  shows "zone_locked zone d \<longleftrightarrow> (\<exists>w \<in> set (ZonePanelContent numstr zone d). gate w)"
  using assms by (cases zone) (auto simp: panel_defs zone_locked_def Let_def split: option.split)

lemma locked_panel_only_gate:
  assumes "useGuest (pd_session d) \<noteq> None" "zone_locked zone d" "zone \<noteq> BroadcastZone"
  shows "ZonePanelContent numstr zone d = [if pd_landed d then NotCheckedInGate else NotLandedGate]"
  using assms by (cases zone) (auto simp: panel_defs zone_locked_def Let_def)

lemma lighthouse_locked_without_gate:
  "\<not> pd_isAdmin d \<Longrightarrow> \<not> pd_landed d \<Longrightarrow>
   zone_locked BroadcastZone d \<and> (\<forall>w \<in> set (ZonePanelContent numstr BroadcastZone d). \<not> gate w)"
  by (simp add: panel_defs zone_locked_def)

text \<open>A control of a guest stands in an unlocked zone.\<close>

lemma control_unlocked:
  assumes "w \<in> set (ZonePanelContent numstr zone d)" "guest_control w" "useGuest (pd_session d) \<noteq> None"
  shows "\<not> zone_locked zone d"
proof (cases "zone = BroadcastZone")
  case True
  with assms show ?thesis by (auto simp: panel_defs split: if_splits)
next
  case False
  with assms locked_panel_only_gate [of d zone numstr] show ?thesis by (auto split: if_splits)
qed

section \<open>Lists\<close>

lemma event_log_visible_sub: "set (event_log_visible events limit) \<subseteq> set events"
  by (auto simp: event_log_visible_def dest: in_set_takeD split: option.splits nat.splits)

lemma zone_log_newest: "ZoneEventLog events None = EventLog (take 25 events) None"
  by (simp add: ZoneEventLog_def EventLog_def event_log_visible_def numeral_eq_Suc)

text \<open>One activity at most is shown as booked, with the only cancel button; a full one cannot be booked.\<close>

lemma activity_row_booked:
  "av_isBooked (fst (activity_row numstr d a)) \<longleftrightarrow> (\<exists>b. snd (activity_row numstr d a) = CancelButton b)"
  by (simp add: activity_row_def ActivityAction_def ActivityCard_def Let_def)

lemma one_booked_row:
  assumes "distinct (map ac_activity_id (ad_activities d))" "ActivitiesList numstr d = ActivityRows rows"
  shows "length (filter (\<lambda>(card, btn). av_isBooked card) rows) \<le> 1"
proof -
  have rows: "rows = map (activity_row numstr d) (ad_activities d)"
    using assms(2) by (simp add: ActivitiesList_def split: if_splits)
  have "length (filter (\<lambda>a. ad_bookedActivityId d = Some (ac_activity_id a)) as) \<le> 1"
    if "distinct (map ac_activity_id as)" for as
    using that by (induction as) (auto simp: filter_empty_conv)
  with assms(1) show ?thesis
    unfolding rows by (simp add: filter_map o_def split_def activity_row_def ActivityCard_def Let_def)
qed

lemma full_not_bookable:
  "ac_remaining a = 0 \<Longrightarrow> snd (activity_row numstr d a) = BookButton b \<Longrightarrow> bt_disabled b"
  by (auto simp: activity_row_def ActivityAction_def Let_def split: if_splits)

text \<open>The bar is red exactly for a full activity while the remaining places are between none and all.\<close>

lemma bar_red_iff_full:
  assumes "ac_capacity a = of_int c" "ac_remaining a = of_int r" "0 < c" "0 \<le> r" "r \<le> c" "c < 2 ^ 52"
  shows "av_barColor (ActivityCard numstr a booked) = Destructive \<longleftrightarrow> av_isFull (ActivityCard numstr a booked)"
proof -
  have sub: "round64 (of_int c - of_int r) = (of_int (c - r) :: rat)"
    using assms round64_exact_pos [of "c - r"] by (cases "r = c") auto
  show ?thesis
  proof (cases "r = 0")
    case True
    with assms sub show ?thesis
      using round64_exact_pos [of 1] by (simp add: ActivityCard_def activity_filled_def Let_def)
  next
    case False
    have "c \<le> 2 ^ 53" using assms(6) by simp
    then have c53: "(of_int c :: rat) \<le> 2 ^ 53" by (metis of_int_le_iff of_int_numeral of_int_power)
    have "round64 (of_int (c - r) / of_int c) \<le> round64 (1 - 1 / of_int c)"
      using assms False by (intro round64_mono) (simp add: field_simps)
    also have "\<dots> \<le> round64 (1 - 1 / 2 ^ 53)"
      using c53 assms(3) by (intro round64_mono diff_mono order_refl frac_le) simp_all
    finally show ?thesis using assms sub False round64_below_int [of 1]
      by (simp add: ActivityCard_def activity_filled_def Let_def)
  qed
qed

text \<open>Nothing sold out can be ordered, and one order is placed at a time.\<close>

lemma order_enabled_iff:
  "\<not> bt_disabled (mr_button (menu_row_of d item)) \<longleftrightarrow> mi_available item \<and> \<not> mn_isPending d"
  by (simp add: menu_row_of_def Let_def)

end
