(* ===== verification/Ui_Summaries.thy ===== *)
theory Ui_Summaries
  imports Ui_Panels "HOL-Library.Multiset"
begin

text \<open>
  The admin's views of the zones (\<^verbatim>\<open>*-admin-*-summary.tsx\<close>, \<^verbatim>\<open>airport-gate-card.tsx\<close>,
  \<^verbatim>\<open>features/parrot/components/parrot-*.tsx\<close>): what they compute from the answers of the services. The
  answers have passed their schemas, so they are records here; dates printed by the date library are
  left out.
\<close>

section \<open>Loading, error, answer\<close>

datatype 'a summary_view = SummaryLoading | SummaryError string | SummaryReady 'a

text \<open>The order of the branches all summaries share: an answer is shown even when a later request failed.\<close>

definition summary :: "string \<Rightarrow> bool \<Rightarrow> string option \<Rightarrow> ('a \<Rightarrow> 'b) \<Rightarrow> 'a option \<Rightarrow> 'b summary_view" where
  "summary fallback isLoading error show_data data =
     (if isLoading then SummaryLoading
      else (case data of None \<Rightarrow> SummaryError (nullish error fallback) | Some d \<Rightarrow> SummaryReady (show_data d)))"

text \<open>The separator between two facts of a line.\<close>

definition middle_dot :: string where "middle_dot = '' '' @ [CHR 0xC2, CHR 0xB7] @ '' ''"

section \<open>Airport\<close>

record QueuedGuest =
  qg_guest_id :: string
  qg_name :: string
  qg_surname :: string
  qg_priority :: string
  qg_disability :: bool
  qg_position :: int

record GateStatus =
  gs_gate_id :: string
  gs_gate_type :: string
  gs_queue_size :: int
  gs_queue :: "QueuedGuest list"

record QueueResponse =
  qr_gates :: "GateStatus list"
  qr_total_queued :: int

definition MAX_VISIBLE_GUESTS :: nat where "MAX_VISIBLE_GUESTS = 5"

record gate_card =
  gc_title :: string
  gc_gate_id :: string
  gc_passports :: string
  gc_queued :: int
  gc_guests :: "QueuedGuest list"
  gc_more :: "nat option"

definition AirportGateCard :: "GateStatus \<Rightarrow> gate_card" where
  "AirportGateCard g =
     (let isEu = (gs_gate_type g = ''EU'')
      in \<lparr>gc_title = (if isEu then ''EU Gate'' else ''Non-EU Gate''),
          gc_gate_id = gs_gate_id g,
          gc_passports = (if isEu then ''European passports'' else ''All other passports''),
          gc_queued = gs_queue_size g,
          gc_guests = take MAX_VISIBLE_GUESTS (gs_queue g),
          gc_more = (if MAX_VISIBLE_GUESTS < length (gs_queue g)
            then Some (length (gs_queue g) - MAX_VISIBLE_GUESTS) else None)\<rparr>)"

definition queue_total :: "QueueResponse \<Rightarrow> int" where
  "queue_total q = qr_total_queued q + 1"

definition airport_queue_summary :: "bool \<Rightarrow> string option \<Rightarrow> QueueResponse option \<Rightarrow> (string \<times> gate_card list) summary_view" where
  "airport_queue_summary =
     (\<lambda>isLoading error. summary ''Queue state could not be loaded.'' isLoading error
        (\<lambda>q. (show_int (queue_total q) @ '' total'', map AirportGateCard (qr_gates q))))"

section \<open>Hotel\<close>

record RoomAnswer =
  ra_id :: string
  ra_type :: string
  ra_capacity :: int
  ra_price_per_night :: int
  ra_occupancy :: int

definition occupancy_pct :: "int \<Rightarrow> int \<Rightarrow> rat" where
  "occupancy_pct current capacity =
     (if 0 < capacity then min (round64 (round64 (of_int current / of_int capacity) * 100)) 100 else 0)"

datatype occupancy_color = BarDestructive | BarAmber | BarPrimary

definition OccupancyBar :: "int \<Rightarrow> int \<Rightarrow> occupancy_color \<times> string" where
  "OccupancyBar current capacity =
     (let pct = occupancy_pct current capacity
      in (if 100 \<le> pct then BarDestructive else if 60 \<le> pct then BarAmber else BarPrimary,
          show_int current @ ''/'' @ show_int capacity))"

record room_card =
  rc_title :: string
  rc_type :: string
  rc_line :: string
  rc_vacant :: bool
  rc_bar :: "occupancy_color \<times> string"

definition RoomCard :: "RoomAnswer \<Rightarrow> room_card" where
  "RoomCard room =
     \<lparr>rc_title = ra_id room, rc_type = formatRoomType (ra_type room),
      rc_line = show_int (ra_capacity room) @ '' guests max'' @ middle_dot @ ''$'' @ show_int (ra_price_per_night room) @ ''/night'',
      rc_vacant = (ra_occupancy room = 0),
      rc_bar = OccupancyBar (ra_occupancy room) (ra_capacity room)\<rparr>"

definition occupiedCount :: "RoomAnswer list \<Rightarrow> nat" where
  "occupiedCount rooms = length (filter (\<lambda>r. 0 < ra_occupancy r) rooms)"

definition hotel_room_summary :: "bool \<Rightarrow> string option \<Rightarrow> RoomAnswer list option \<Rightarrow> (string \<times> room_card list) summary_view" where
  "hotel_room_summary =
     (\<lambda>isLoading error. summary ''Room state could not be loaded.'' isLoading error
        (\<lambda>rooms. (show_nat (occupiedCount rooms) @ ''/'' @ show_nat (length rooms) @ '' occupied'', map RoomCard rooms)))"

section \<open>Beach\<close>

definition totalRemaining :: "Activity list \<Rightarrow> rat" where
  "totalRemaining activities = foldl (\<lambda>sum a. round64 (sum + ac_remaining a)) 0 activities"

definition beach_activities_summary ::
  "(rat \<Rightarrow> string) \<Rightarrow> bool \<Rightarrow> bool \<Rightarrow> string option \<Rightarrow> Activity list option
    \<Rightarrow> (string \<times> (activity_card \<times> button) list) summary_view" where
  "beach_activities_summary numstr isRemoving =
     (\<lambda>isLoading error. summary ''Activity state could not be loaded.'' isLoading error
        (\<lambda>activities. (numstr (totalRemaining activities) @ '' slots left'',
           map (\<lambda>a. (ActivityCard numstr a False, \<lparr>bt_disabled = isRemoving, bt_label = Some ''Remove''\<rparr>)) activities)))"

section \<open>Parrot\<close>

text \<open>The entries of the object, most calls first; the sort of the language is stable.\<close>

definition tool_entries :: "(string \<times> rat) list \<Rightarrow> (string \<times> rat) list" where
  "tool_entries byName = sort_key (\<lambda>(name, calls). - calls) byName"

datatype breakdown_view = NoToolCalls | ToolBars "(string \<times> rat \<times> rat) list"

definition ParrotToolBreakdown :: "(string \<times> rat) list \<Rightarrow> breakdown_view" where
  "ParrotToolBreakdown byName =
     (let entries = tool_entries byName
      in if entries = [] then NoToolCalls
         else
           (let top = foldl max (snd (hd entries)) (map snd (tl entries))
            in ToolBars (map (\<lambda>(name, calls). (name, round64 (round64 (calls / top) * 100), calls)) entries)))"

record QualityItem =
  qi_label :: string
  qi_total :: rat
  qi_conversations :: rat
  qi_flagged :: bool

record metrics_data =
  mt_total_conversations :: rat
  mt_max_conversations :: rat
  mt_total_messages :: rat
  mt_total_user_turns :: rat
  mt_total_assistant_turns :: rat
  mt_tool_calls_total :: rat
  mt_tool_calls_by_name :: "(string \<times> rat) list"
  mt_tool_errors_total :: rat
  mt_conversations_with_tool_error :: rat
  mt_fallback_total :: rat
  mt_conversations_with_fallback :: rat
  mt_censored_messages_total :: rat
  mt_conversations_with_censored :: rat

definition ParrotQualityRow :: "metrics_data \<Rightarrow> QualityItem list" where
  "ParrotQualityRow m =
     map (\<lambda>(label, total, conversations).
           \<lparr>qi_label = label, qi_total = total, qi_conversations = conversations, qi_flagged = (0 < total)\<rparr>)
       [(''Tool errors'', mt_tool_errors_total m, mt_conversations_with_tool_error m),
        (''Fallbacks'', mt_fallback_total m, mt_conversations_with_fallback m),
        (''Censored'', mt_censored_messages_total m, mt_conversations_with_censored m)]"

text \<open>Label, number and hint of a card; \<open>numstr\<close> prints a number.\<close>

definition parrot_stat_cards :: "(rat \<Rightarrow> string) \<Rightarrow> metrics_data \<Rightarrow> (string \<times> string \<times> string option) list" where
  "parrot_stat_cards numstr m =
     [(''Conversations'', numstr (mt_total_conversations m), Some (''of '' @ numstr (mt_max_conversations m))),
      (''Messages'', numstr (mt_total_messages m), None),
      (''Turns'', numstr (mt_total_user_turns m) @ '' / '' @ numstr (mt_total_assistant_turns m), Some ''user / assistant''),
      (''Tool calls'', numstr (mt_tool_calls_total m), None)]"

record ConversationSummary =
  cs_guest_id :: string
  cs_turns :: rat
  cs_total_messages :: rat
  cs_tool_calls_total :: rat
  cs_has_tool_error :: bool
  cs_has_fallback :: bool
  cs_has_censored :: bool

text \<open>Name, counts and badges of a row.\<close>

definition ParrotConversationRow :: "(rat \<Rightarrow> string) \<Rightarrow> ConversationSummary \<Rightarrow> string \<times> string \<times> string list" where
  "ParrotConversationRow numstr c =
     (resolveGuestName (cs_guest_id c),
      numstr (cs_turns c) @ '' turns'' @ middle_dot @ numstr (cs_total_messages c) @ '' msgs'' @ middle_dot
        @ numstr (cs_tool_calls_total c) @ '' tools'',
      (if cs_has_tool_error c then [''tool error''] else []) @ (if cs_has_fallback c then [''fallback''] else [])
        @ (if cs_has_censored c then [''censored''] else []))"

text \<open>The list checks the error before the answer, so a failed refetch hides what was loaded.\<close>

definition parrot_conversation_list ::
  "(rat \<Rightarrow> string) \<Rightarrow> bool \<Rightarrow> string option \<Rightarrow> ConversationSummary list option
    \<Rightarrow> (string \<times> (string \<times> string \<times> string list) list) summary_view" where
  "parrot_conversation_list numstr isLoading errorMessage data =
     (if isLoading then SummaryLoading
      else if truthy_str errorMessage then SummaryError (nullish errorMessage [])
      else
        (let conversations = nullish data []
         in SummaryReady (show_nat (length conversations) @ '' active'', map (ParrotConversationRow numstr) conversations)))"

record TranscriptToolCall =
  tc_name :: "string option"
  tc_arguments :: "string option"

record TranscriptEntry =
  te_role :: string
  te_content :: "string option"
  te_tool_calls :: "TranscriptToolCall list option"
  te_name :: "string option"

datatype transcript_item =
    ToolResult string string
  | ToolCalls "(string \<times> string) list" "string option"
  | MessageBubble string string
  | NothingShown

definition TranscriptItem :: "TranscriptEntry \<Rightarrow> transcript_item" where
  "TranscriptItem entry =
     (if te_role entry = ''tool'' then ToolResult (nullish (te_name entry) ''tool'') (nullish (te_content entry) [])
      else if nullish (te_tool_calls entry) [] \<noteq> []
      then ToolCalls (map (\<lambda>call. (nullish (tc_name call) ''unknown'', nullish (tc_arguments call) []))
                        (nullish (te_tool_calls entry) []))
             (if truthy_str (te_content entry) then te_content entry else None)
      else (case te_content entry of Some content \<Rightarrow> MessageBubble (te_role entry) content | None \<Rightarrow> NothingShown))"

definition parrot_transcript ::
  "bool \<Rightarrow> string option \<Rightarrow> TranscriptEntry list option \<Rightarrow> transcript_item list summary_view" where
  "parrot_transcript =
     (\<lambda>isLoading error. summary ''Transcript could not be loaded.'' isLoading error (map TranscriptItem))"

definition parrot_metrics_view ::
  "(rat \<Rightarrow> string) \<Rightarrow> bool \<Rightarrow> string option \<Rightarrow> metrics_data option
    \<Rightarrow> ((string \<times> string \<times> string option) list \<times> breakdown_view \<times> QualityItem list) summary_view" where
  "parrot_metrics_view numstr =
     (\<lambda>isLoading error. summary ''Metrics could not be loaded.'' isLoading error
        (\<lambda>m. (parrot_stat_cards numstr m, ParrotToolBreakdown (mt_tool_calls_by_name m), ParrotQualityRow m)))"

text \<open>The admin panel shows the transcript of the selected guest, or the metrics and the list.\<close>

datatype parrot_admin_view = TranscriptOf string | Overview

definition parrot_admin_panel :: "string option \<Rightarrow> parrot_admin_view" where
  "parrot_admin_panel selectedGuestId =
     (if truthy_str selectedGuestId then TranscriptOf (nullish selectedGuestId []) else Overview)"

section \<open>Facts\<close>

text \<open>
  The airport counts everybody in its queues, the one being processed included
  (\<open>total_queued = sum of the queues\<close>); the headline is one more than the guests on the cards below it.
\<close>

lemma gate_card_guests:
  "length (gc_guests (AirportGateCard g)) + nullish (gc_more (AirportGateCard g)) 0 = length (gs_queue g)"
  by (auto simp: AirportGateCard_def Let_def)

lemma queue_total_off_by_one:
  assumes "qr_total_queued q = int (sum_list (map (length \<circ> gs_queue) (qr_gates q)))"
  shows "queue_total q = int (sum_list (map (\<lambda>g. length (gc_guests (AirportGateCard g))
           + nullish (gc_more (AirportGateCard g)) 0) (qr_gates q))) + 1"
  unfolding gate_card_guests using assms by (simp add: queue_total_def o_def)

lemma occupancy_pct_bounds: "0 \<le> current \<Longrightarrow> 0 \<le> occupancy_pct current capacity \<and> occupancy_pct current capacity \<le> 100"
  by (auto simp: occupancy_pct_def intro!: round64_nonneg)

lemma full_room_red:
  assumes "0 < capacity" "capacity \<le> current"
  shows "fst (OccupancyBar current capacity) = BarDestructive"
proof -
  have one: "round64 1 = 1" using round64_exact_pos [of 1] by simp
  have hundred: "round64 100 = 100" using round64_exact_pos [of 100] by simp
  have "1 \<le> round64 (of_int current / of_int capacity)"
    using round64_mono [of 1 "of_int current / of_int capacity"] assms one by simp
  then have "100 \<le> round64 (round64 (of_int current / of_int capacity) * 100)"
    using round64_mono [of 100 "round64 (of_int current / of_int capacity) * 100"] hundred by simp
  with assms show ?thesis by (simp add: OccupancyBar_def occupancy_pct_def Let_def)
qed

text \<open>The bars are the entries of the object, in descending order, and the longest one is full.\<close>

lemma tool_entries_perm: "mset (tool_entries byName) = mset byName"
  by (simp add: tool_entries_def)

lemma tool_entries_desc: "sorted_wrt (\<lambda>x y. snd y \<le> snd x) (tool_entries byName)"
  using sorted_sort_key [of "\<lambda>(name, calls). - calls" byName]
  by (simp add: tool_entries_def sorted_map split_def)

lemma foldl_max_dominated: "list_all (\<lambda>y. y \<le> x) ys \<Longrightarrow> foldl max x ys = (x :: rat)"
  by (induction ys) (simp_all add: max_absorb1)

lemma breakdown_first_full:
  assumes "tool_entries byName = (name, calls) # rest" "0 < calls"
  shows "\<exists>bars. ParrotToolBreakdown byName = ToolBars ((name, 100, calls) # bars)"
proof -
  have "list_all (\<lambda>y. y \<le> calls) (map snd rest)"
    using tool_entries_desc [of byName] assms(1) by (simp add: list_all_iff)
  then have "foldl max calls (map snd rest) = calls" by (rule foldl_max_dominated)
  with assms round64_exact_pos [of 1] round64_exact_pos [of 100] show ?thesis
    by (simp add: ParrotToolBreakdown_def Let_def)
qed

text \<open>No entry of a transcript with a text or a tool call is dropped.\<close>

lemma transcript_item_dropped:
  "TranscriptItem e = NothingShown \<longleftrightarrow>
   te_role e \<noteq> ''tool'' \<and> nullish (te_tool_calls e) [] = [] \<and> te_content e = None"
  by (auto simp: TranscriptItem_def split: option.split)

end
