(* ===== verification/Ui_Controls.thy ===== *)
theory Ui_Controls
  imports Ui_Panels
begin

text \<open>
  The small components with a state of their own: the announcement and chat composers, the form that
  adds an activity, the guest stepper and the reservation button, the flash of a zone marker and the
  goat farm's shop with its countdown. A control that is disabled takes no event.
\<close>

section \<open>announcement-composer.tsx\<close>

text \<open>\<open>an_sent\<close> are the texts handed to the mutation, newest first; it runs while \<open>an_isPublishing\<close>.\<close>

record announcement_composer =
  an_message :: string
  an_isPublishing :: bool
  an_sent :: "string list"

datatype announcement_event = TypeAnnouncement string | SubmitAnnouncement | PublishSucceeded | PublishFailed

definition announcement_handleSubmit :: "announcement_composer \<Rightarrow> announcement_composer" where
  "announcement_handleSubmit s =
     (let trimmed = js_trim (an_message s)
      in if trimmed = [] then s else s\<lparr>an_isPublishing := True, an_sent := trimmed # an_sent s\<rparr>)"

fun announcement_step :: "announcement_composer \<Rightarrow> announcement_event \<Rightarrow> announcement_composer" where
  "announcement_step s (TypeAnnouncement m) = (if an_isPublishing s then s else s\<lparr>an_message := m\<rparr>)"
| "announcement_step s SubmitAnnouncement =
     (if an_isPublishing s \<or> js_trim (an_message s) = [] then s else announcement_handleSubmit s)"
| "announcement_step s PublishSucceeded =
     (if an_isPublishing s then s\<lparr>an_isPublishing := False, an_message := []\<rparr> else s)"
| "announcement_step s PublishFailed = (if an_isPublishing s then s\<lparr>an_isPublishing := False\<rparr> else s)"

definition initial_announcement :: announcement_composer where
  "initial_announcement = \<lparr>an_message = [], an_isPublishing = False, an_sent = []\<rparr>"

text \<open>While a text is being published the field still holds it, so that it is there when publishing fails.\<close>

definition announcement_inv :: "announcement_composer \<Rightarrow> bool" where
  "announcement_inv s =
     (list_all clean_text (an_sent s) \<and>
      (an_isPublishing s \<longrightarrow> an_sent s \<noteq> [] \<and> hd (an_sent s) = js_trim (an_message s)))"

lemma announcement_step_inv: "announcement_inv s \<Longrightarrow> announcement_inv (announcement_step s e)"
  by (cases e) (auto simp: announcement_inv_def announcement_handleSubmit_def clean_text_def Let_def)

interpretation announcement: machine_invariant announcement_step announcement_inv
  by unfold_locales (rule announcement_step_inv)

lemma failed_announcement_kept:
  assumes "s = run announcement_step initial_announcement es" "an_isPublishing s"
  shows "js_trim (an_message (announcement_step s PublishFailed)) = hd (an_sent s)"
  using announcement.run_inv [of initial_announcement es] assms
  by (simp add: announcement_inv_def initial_announcement_def)

section \<open>chat-composer.tsx\<close>

text \<open>The text that is handed to \<^verbatim>\<open>onSend\<close>, if any, and the field afterwards.\<close>

definition composer_submit :: "bool \<Rightarrow> string \<Rightarrow> string option \<times> string" where
  "composer_submit disabled text =
     (let trimmed = js_trim text in if trimmed = [] \<or> disabled then (None, text) else (Some trimmed, []))"

definition composer_handleKeyDown :: "bool \<Rightarrow> string \<Rightarrow> bool \<Rightarrow> string \<Rightarrow> string option \<times> string" where
  "composer_handleKeyDown disabled key shiftKey text =
     (if key = ''Enter'' \<and> \<not> shiftKey then composer_submit disabled text else (None, text))"

definition send_button_disabled :: "bool \<Rightarrow> string \<Rightarrow> bool" where
  "send_button_disabled disabled text = (disabled \<or> js_trim text = [])"

lemma send_button_sends:
  "\<not> send_button_disabled disabled text \<longleftrightarrow> (\<exists>m. composer_submit disabled text = (Some m, []) \<and> clean_text m)"
  by (auto simp: send_button_disabled_def composer_submit_def clean_text_def Let_def)

text \<open>
  The composer empties its field exactly when the chat takes the message: under the panel's own
  condition for disabling it, a text that leaves the field is in flight.
\<close>

lemma composer_loses_nothing:
  assumes "composer_submit (composerDisabled d) text = (Some m, [])"
    and "participantId (pd_chat d) = Some g" "g \<noteq> []"
  shows "pc_inflight (sendMessage localId m (pd_chat d)) = Some \<lparr>pt_guestId = g, pt_message = m, pt_localId = localId\<rparr>"
proof -
  have m: "m = js_trim text" "m \<noteq> []" and idle: "\<not> isPending (pd_chat d)"
    using assms(1) by (auto simp: composer_submit_def composerDisabled_def Let_def split: if_splits)
  with assms show ?thesis by (simp add: sendMessage_def mutate_chat_def Let_def)
qed

section \<open>add-activity-form.tsx\<close>

record activity_form =
  af_id :: string
  af_name :: string
  af_description :: string
  af_capacity :: string

definition EMPTY_FORM :: activity_form where
  "EMPTY_FORM = \<lparr>af_id = [], af_name = [], af_description = [], af_capacity = []\<rparr>"

text \<open>\<^verbatim>\<open>Number.isInteger\<close>.\<close>

fun js_isInteger :: "jsnum \<Rightarrow> bool" where
  "js_isInteger (Fin q) = (of_int \<lfloor>q\<rfloor> = q)"
| "js_isInteger _ = False"

fun num_positive :: "jsnum \<Rightarrow> bool" where
  "num_positive (Fin q) = (0 < q)"
| "num_positive _ = False"

text \<open>The body handed to the mutation, or nothing; \<open>Number_of\<close> is \<^verbatim>\<open>Number(text)\<close>.\<close>

definition activity_handleSubmit :: "(string \<Rightarrow> jsnum) \<Rightarrow> activity_form \<Rightarrow> jsval option" where
  "activity_handleSubmit Number_of form =
     (let capacity = Number_of (af_capacity form)
      in if js_trim (af_id form) = [] \<or> js_trim (af_name form) = [] \<or> \<not> js_isInteger capacity \<or> \<not> num_positive capacity
         then None
         else Some (JObj
           [(''id'', JStr (js_trim (af_id form))), (''name'', JStr (js_trim (af_name form))),
            (''description'', if js_trim (af_description form) = [] then JUndefined else JStr (js_trim (af_description form))),
            (''capacity'', JNum capacity)]))"

lemma activity_form_valid:
  assumes "activity_handleSubmit Number_of form = Some body"
  shows "\<exists>ob i n q. body = JObj ob \<and> jget ob ''id'' = JStr i \<and> clean_text i \<and> jget ob ''name'' = JStr n \<and> clean_text n \<and>
    jget ob ''capacity'' = JNum (Fin (of_int q)) \<and> 0 < q"
proof -
  obtain c where c: "Number_of (af_capacity form) = Fin c" "of_int \<lfloor>c\<rfloor> = c" "0 < c"
    using assms by (cases "Number_of (af_capacity form)") (auto simp: activity_handleSubmit_def Let_def split: if_splits)
  have "0 < \<lfloor>c\<rfloor>" using c(2,3) by (metis of_int_0_less_iff)
  with assms c show ?thesis
    by (auto simp: activity_handleSubmit_def clean_text_def Let_def split: if_splits intro!: exI [of _ "\<lfloor>c\<rfloor>"])
qed

section \<open>guest-stepper.tsx, reservation-form.tsx\<close>

definition stepper_minus_disabled :: "bool \<Rightarrow> int \<Rightarrow> bool" where
  "stepper_minus_disabled disabled n = (disabled \<or> n \<le> 1)"

datatype stepper_click = Minus | Plus

fun GuestStepper :: "bool \<Rightarrow> int \<Rightarrow> stepper_click \<Rightarrow> int" where
  "GuestStepper disabled n Minus = (if stepper_minus_disabled disabled n then n else n - 1)"
| "GuestStepper disabled n Plus = (if disabled then n else n + 1)"

interpretation stepper: machine_invariant "GuestStepper disabled" "\<lambda>n. 1 \<le> n" for disabled
proof unfold_locales
  fix n :: int and c
  show "1 \<le> n \<Longrightarrow> 1 \<le> GuestStepper disabled n c"
    by (cases c) (simp_all add: stepper_minus_disabled_def)
qed

text \<open>The dates are milliseconds, none while a field is empty; \<open>diff\<close> is the date library's difference in days.\<close>

definition reservation_nights :: "(int \<Rightarrow> int \<Rightarrow> int) \<Rightarrow> int option \<Rightarrow> int option \<Rightarrow> int option" where
  "reservation_nights diff checkIn checkOut =
     (case (checkIn, checkOut) of (Some i, Some u) \<Rightarrow> if i < u then Some (diff u i) else None | _ \<Rightarrow> None)"

definition reservation_button :: "(int \<Rightarrow> int \<Rightarrow> int) \<Rightarrow> bool \<Rightarrow> int option \<Rightarrow> int option \<Rightarrow> string" where
  "reservation_button diff isSubmitting checkIn checkOut =
     (if isSubmitting then ''Booking'' @ [CHR 0xE2, CHR 0x80, CHR 0xA6]
      else (case reservation_nights diff checkIn checkOut of
              Some n \<Rightarrow> if n = 0 then ''Book room'' else ''Book '' @ show_int n @ '' night'' @ (if 1 < n then ''s'' else [])
            | None \<Rightarrow> ''Book room''))"

text \<open>The form starts with one guest and the stepper never goes below, so the guest count of the form's schema holds.\<close>

lemma stepper_keeps_form_valid:
  assumes "ReservationFormSchema (v\<lparr>fv_guest_count := 1\<rparr>)"
  shows "ReservationFormSchema (v\<lparr>fv_guest_count := run (GuestStepper disabled) 1 clicks\<rparr>)"
  using assms stepper.run_inv [of 1 disabled clicks] by (simp add: ReservationFormSchema_def)

section \<open>zone-indicator.tsx: the flash of a marker\<close>

definition MARKER_ACTIVITY_MS :: nat where "MARKER_ACTIVITY_MS = 820"

text \<open>
  The tick of the feed, the last tick the effect saw (the ref), the tick of its last run (its
  dependency, none before the first), the flash and the milliseconds left to its timer.
\<close>

record zone_indicator =
  zi_activityTick :: nat
  zi_previousTick :: nat
  zi_deps :: "nat option"
  zi_isActive :: bool
  zi_timer :: "nat option"

definition initial_indicator :: "nat \<Rightarrow> zone_indicator" where
  "initial_indicator tick =
     \<lparr>zi_activityTick = tick, zi_previousTick = tick, zi_deps = None, zi_isActive = False, zi_timer = None\<rparr>"

definition indicator_effect :: "zone_indicator \<Rightarrow> zone_indicator" where
  "indicator_effect s =
     (if zi_deps s = Some (zi_activityTick s) then s
      else
        (let t = s\<lparr>zi_deps := Some (zi_activityTick s), zi_timer := None\<rparr>
         in if zi_activityTick s = 0 \<or> zi_activityTick s = zi_previousTick s
            then t\<lparr>zi_previousTick := zi_activityTick s\<rparr>
            else t\<lparr>zi_previousTick := zi_activityTick s, zi_isActive := True, zi_timer := Some MARKER_ACTIVITY_MS\<rparr>))"

text \<open>The store only ever counts a tick up; time passes for the timer, which ends the flash.\<close>

datatype indicator_event = TicksArrive nat | IndicatorEffect | Elapse nat

fun indicator_step :: "zone_indicator \<Rightarrow> indicator_event \<Rightarrow> zone_indicator" where
  "indicator_step s (TicksArrive n) = s\<lparr>zi_activityTick := zi_activityTick s + n\<rparr>"
| "indicator_step s IndicatorEffect = indicator_effect s"
| "indicator_step s (Elapse ms) =
     (case zi_timer s of
        None \<Rightarrow> s
      | Some left \<Rightarrow> if left \<le> ms then s\<lparr>zi_isActive := False, zi_timer := None\<rparr> else s\<lparr>zi_timer := Some (left - ms)\<rparr>)"

text \<open>A marker flashes exactly while its timer runs, which is never longer than \<^const>\<open>MARKER_ACTIVITY_MS\<close>.\<close>

definition indicator_inv :: "zone_indicator \<Rightarrow> bool" where
  "indicator_inv s =
     ((zi_isActive s \<longleftrightarrow> zi_timer s \<noteq> None) \<and>
      (case zi_timer s of None \<Rightarrow> True | Some left \<Rightarrow> left \<le> MARKER_ACTIVITY_MS) \<and>
      zi_previousTick s \<le> zi_activityTick s \<and>
      (case zi_deps s of None \<Rightarrow> \<not> zi_isActive s \<and> zi_previousTick s \<le> zi_activityTick s
       | Some k \<Rightarrow> k = zi_previousTick s))"

lemma indicator_step_inv: "indicator_inv s \<Longrightarrow> indicator_inv (indicator_step s e)"
  by (cases e) (auto simp: indicator_inv_def indicator_effect_def Let_def split: option.splits)

interpretation indicator: machine_invariant indicator_step indicator_inv
  by unfold_locales (rule indicator_step_inv)

lemma flash_ends:
  assumes "s = run indicator_step (initial_indicator tick) es"
  shows "\<not> zi_isActive (indicator_step s (Elapse MARKER_ACTIVITY_MS))"
  using indicator.run_inv [of "initial_indicator tick" es] assms
  by (auto simp: indicator_inv_def initial_indicator_def split: option.split)

text \<open>New activity flashes: the effect after a new tick of a marker that was mounted starts the timer again.\<close>

lemma new_tick_flashes:
  "indicator_inv s \<Longrightarrow> zi_deps s = Some k \<Longrightarrow> zi_activityTick s \<noteq> k \<Longrightarrow>
   zi_isActive (indicator_effect s) \<and> zi_timer (indicator_effect s) = Some MARKER_ACTIVITY_MS"
  by (auto simp: indicator_inv_def indicator_effect_def Let_def)

section \<open>goat-farm-popup.tsx\<close>

text \<open>\<^verbatim>\<open>String(rest).padStart(2, "0")\<close>.\<close>

definition pad_seconds :: "string \<Rightarrow> string" where
  "pad_seconds t = replicate (2 - length t) (CHR ''0'') @ t"

definition formatRestock :: "int \<Rightarrow> string" where
  "formatRestock seconds =
     (let safeSeconds = max 0 seconds
      in show_int (safeSeconds div 60) @ '':'' @ pad_seconds (show_int (safeSeconds mod 60)))"

record goat_item =
  gi_id :: string
  gi_name :: string
  gi_stock :: int
  gi_max_stock :: int

definition goat_buy_button :: "GuestProfile option \<Rightarrow> bool \<Rightarrow> goat_item \<Rightarrow> button" where
  "goat_buy_button guest isPurchasing item =
     (let soldOut = gi_stock item \<le> 0
      in \<lparr>bt_disabled = (guest = None \<or> soldOut \<or> isPurchasing), bt_label = Some (if soldOut then ''Sold out'' else ''Buy'')\<rparr>)"

text \<open>
  The answer of the stock query with the time it arrived, the clock of the popup (milliseconds, read
  every second while it is open), the timer of the second effect and the dependencies of its last run;
  \<open>gf_refetches\<close> counts the requests its timer made.
\<close>

record goat_popup =
  gf_open :: bool
  gf_stock :: "(int \<times> int) option"
  gf_nowMs :: int
  gf_timeout :: bool
  gf_deps :: "(bool \<times> int option) option"
  gf_refetches :: nat

text \<open>The quotient of two integers of this size rounds to the same floor as the exact one.\<close>

definition secondsUntilRestock :: "goat_popup \<Rightarrow> int option" where
  "secondsUntilRestock s =
     (case gf_stock s of
        None \<Rightarrow> None
      | Some (seconds, dataUpdatedAt) \<Rightarrow>
          if 0 < dataUpdatedAt then Some (max 0 (seconds - (gf_nowMs s - dataUpdatedAt) div 1000)) else None)"

definition restock_label :: "goat_popup \<Rightarrow> string" where
  "restock_label s = (case secondsUntilRestock s of Some n \<Rightarrow> formatRestock n | None \<Rightarrow> ''--:--'')"

definition restock_effect :: "goat_popup \<Rightarrow> goat_popup" where
  "restock_effect s =
     (if gf_deps s = Some (gf_open s, secondsUntilRestock s) then s
      else
        s\<lparr>gf_deps := Some (gf_open s, secondsUntilRestock s),
          gf_timeout := (case secondsUntilRestock s of None \<Rightarrow> False | Some n \<Rightarrow> gf_open s \<and> n \<le> 0)\<rparr>)"

datatype goat_event =
    ToggleGoatFarm
  | CloseGoatFarm
  | ClockTick int
  | StockArrives int int
  | RestockEffect
  | RestockTimeout

fun goat_step :: "goat_popup \<Rightarrow> goat_event \<Rightarrow> goat_popup" where
  "goat_step s ToggleGoatFarm = s\<lparr>gf_open := \<not> gf_open s\<rparr>"
| "goat_step s CloseGoatFarm = s\<lparr>gf_open := False\<rparr>"
| "goat_step s (ClockTick now) = (if gf_open s then s\<lparr>gf_nowMs := now\<rparr> else s)"
| "goat_step s (StockArrives seconds now) = s\<lparr>gf_stock := Some (seconds, now)\<rparr>"
| "goat_step s RestockEffect = restock_effect s"
| "goat_step s RestockTimeout =
     (if gf_timeout s then s\<lparr>gf_timeout := False, gf_refetches := gf_refetches s + 1\<rparr> else s)"

definition initial_goat :: "int \<Rightarrow> goat_popup" where
  "initial_goat now =
     \<lparr>gf_open = False, gf_stock = None, gf_nowMs = now, gf_timeout = False, gf_deps = None, gf_refetches = 0\<rparr>"

text \<open>The timer only runs for an open shop whose countdown was at zero when the effect ran.\<close>

definition goat_inv :: "goat_popup \<Rightarrow> bool" where
  "goat_inv s = (gf_timeout s \<longrightarrow> gf_deps s = Some (True, Some 0))"

lemma secondsUntilRestock_nonneg: "secondsUntilRestock s = Some n \<Longrightarrow> 0 \<le> n"
  by (auto simp: secondsUntilRestock_def split: option.splits prod.splits if_splits)

lemma goat_step_inv: "goat_inv s \<Longrightarrow> goat_inv (goat_step s e)"
  using secondsUntilRestock_nonneg [of s]
  by (cases e) (auto simp: goat_inv_def restock_effect_def split: option.splits)

interpretation goat: machine_invariant goat_step goat_inv
  by unfold_locales (rule goat_step_inv)

text \<open>A closed shop asks for nothing: after its effect ran no timer is left.\<close>

lemma closed_shop_silent:
  assumes "s = run goat_step (initial_goat now) es" "\<not> gf_open s"
  shows "\<not> gf_timeout (restock_effect s)"
  using goat.run_inv [of "initial_goat now" es] assms
  by (auto simp: goat_inv_def initial_goat_def restock_effect_def split: option.split)

text \<open>When the countdown of an open shop comes to zero, the effect starts the timer that asks again.\<close>

lemma countdown_refetches:
  assumes "gf_open s" "secondsUntilRestock s = Some 0" "gf_deps s \<noteq> Some (True, Some 0)"
  shows "gf_refetches (goat_step (goat_step s RestockEffect) RestockTimeout) = gf_refetches s + 1"
  using assms by (simp add: restock_effect_def)

text \<open>
  With the clock read no earlier than the answer, the countdown never shows more than the service
  said; an answer that is newer than the last reading shows one second more until the next reading.
\<close>

lemma countdown_bounded:
  assumes "gf_stock s = Some (seconds, updated)" "0 < updated" "updated \<le> gf_nowMs s" "0 \<le> seconds"
  shows "\<exists>n. secondsUntilRestock s = Some n \<and> n \<le> seconds"
  using assms by (simp add: secondsUntilRestock_def pos_imp_zdiv_nonneg_iff)

lemma countdown_stale_clock:
  assumes "gf_stock s = Some (seconds, updated)" "0 < updated" "gf_nowMs s < updated" "updated \<le> gf_nowMs s + 1000" "0 \<le> seconds"
  shows "secondsUntilRestock s = Some (seconds + 1)"
proof -
  have "(gf_nowMs s - updated) div 1000 = - 1" 
    using assms(3,4) int_div_pos_eq [of "gf_nowMs s - updated" 1000 "- 1" "gf_nowMs s - updated + 1000"] by simp
  with assms show ?thesis by (simp add: secondsUntilRestock_def)
qed

lemma formatRestock_minute: "0 \<le> s \<Longrightarrow> s < 60 \<Longrightarrow> formatRestock s = ''0:'' @ pad_seconds (show_int s)"
proof -
  have "char_of (48 :: nat) = CHR ''0''" by code_simp
  then show "0 \<le> s \<Longrightarrow> s < 60 \<Longrightarrow> ?thesis" by (simp add: formatRestock_def show_int_def show_nat.simps max_def)
qed

section \<open>Placing the markers (zone-layer.tsx, goat-farm-marker.tsx)\<close>

definition marker_box :: "rat \<Rightarrow> rat \<Rightarrow> ZoneId \<Rightarrow> rat \<times> rat \<times> rat" where
  "marker_box mapW mapH zone =
     (let scaleX = round64 (mapW / MAP_W);
          scaleY = round64 (mapH / MAP_H);
          scale = min scaleX scaleY;
          (x, y) = zn_position (getZone zone)
      in (round64 (of_int x * scaleX), round64 (of_int y * scaleY), round64 (ZONE_HIT_RADIUS * scale)))"

definition GOAT_FARM_POSITION :: "rat \<times> rat" where "GOAT_FARM_POSITION = (2480, 700)"

definition goat_marker :: "rat \<Rightarrow> rat \<Rightarrow> rat \<times> rat \<times> rat" where
  "goat_marker mapW mapH =
     (let scaleX = round64 (mapW / MAP_W);
          scaleY = round64 (mapH / MAP_H);
          scale = min scaleX scaleY
      in (round64 (fst GOAT_FARM_POSITION * scaleX), round64 (snd GOAT_FARM_POSITION * scaleY), max 150 (round64 (310 * scale))))"

text \<open>At the canonical size every marker is where the registry puts it.\<close>

lemma marker_box_canonical:
  "marker_box MAP_W MAP_H zone = (case zn_position (getZone zone) of (x, y) \<Rightarrow> (of_int x, of_int y, ZONE_HIT_RADIUS))"
proof -
  have one: "round64 1 = 1" using round64_exact_pos [of 1] by simp
  have "round64 (numeral n) = numeral n" if "(numeral n :: int) \<le> 2 ^ 53" for n
    using round64_exact_pos [of "numeral n"] that by simp
  with one show ?thesis by (cases zone) (simp_all add: marker_box_def MAP_W_def MAP_H_def ZONE_HIT_RADIUS_def)
qed

end
