(* ===== verification/Ui_App_Props.thy ===== *)
theory Ui_App_Props
  imports Ui_Theme Ui_Summaries Ui_Controls
begin

text \<open>
  The properties of the application as its user meets it: who can be on which page, and which panel
  shows what to whom.
\<close>

section \<open>Pages\<close>


definition desk_env :: ui_env where
  "desk_env = (parse_env (\<lambda>_. NaN) (\<lambda>_. None))\<lparr>ev_adminPasscode := ''purr''\<rparr>"


section \<open>Panels\<close>


definition sample_panel :: panel_data where
  "sample_panel =
     \<lparr>pd_session = guestSessionState (hd guests), pd_events = initial_events,
      pd_arrival = Some (JObj [(''status'', JStr ''processed'')]), pd_arrivalResult = None, pd_isBoarding = False,
      pd_reservation = None, pd_isLoadingReservation = False, pd_isCancelling = False, pd_confirmed = None,
      pd_isReserving = False,
      pd_activities = \<lparr>ad_activities = [], ad_isLoading = False, ad_bookedActivityId = None, ad_isLoadingBooked = False,
        ad_isBooking = False, ad_isCancelling = False\<rparr>,
      pd_menu = \<lparr>mn_items = None, mn_isLoading = True, mn_isPending = False\<rparr>,
      pd_chat = initial_chat (Some (hd guests)), pd_historyLoading = False, pd_historyError = None, pd_historyReady = True\<rparr>"


end
