(* ===== verification/Ui_Cache.thy ===== *)
theory Ui_Cache
  imports Ui_Hooks
begin

text \<open>
  The cache of the query library, as far as the hooks rely on it. The library is the record \<open>Q\<close> of its
  operations with the contract of locale \<open>query_client\<close>: data that was set is there, a removal and an
  invalidation concern the keys that begin with the given one, and an invalidated entry keeps its data
  until a new answer replaces it. An association of keys with data is one such library.
\<close>

record 'c query_ops =
  qc_get :: "'c \<Rightarrow> query_key \<Rightarrow> jsval option"
  qc_setData :: "query_key \<Rightarrow> jsval \<Rightarrow> 'c \<Rightarrow> 'c"
  qc_remove :: "query_key \<Rightarrow> 'c \<Rightarrow> 'c"
  qc_invalidate :: "query_key \<Rightarrow> 'c \<Rightarrow> 'c"

definition key_matches :: "query_key \<Rightarrow> query_key \<Rightarrow> bool" where
  "key_matches pre key = (take (length pre) key = pre)"

text \<open>The effects of a mutation that concern the cache, in their order.\<close>

fun apply_effect :: "'c query_ops \<Rightarrow> 'c \<Rightarrow> ui_effect \<Rightarrow> 'c" where
  "apply_effect Q c (SetQueryData key data) = qc_setData Q key data c"
| "apply_effect Q c (RemoveQueries key) = qc_remove Q key c"
| "apply_effect Q c (InvalidateQueries key) = qc_invalidate Q key c"
| "apply_effect Q c _ = c"

abbreviation run_effects :: "'c query_ops \<Rightarrow> 'c \<Rightarrow> ui_effect list \<Rightarrow> 'c" where
  "run_effects Q \<equiv> run (apply_effect Q)"

text \<open>The answer of an enabled query is stored under its key; an error leaves what is there.\<close>

definition settle_query ::
  "'c query_ops \<Rightarrow> (api_request \<Rightarrow> api_error + jsval) \<Rightarrow> query_hook \<Rightarrow> 'c \<Rightarrow> 'c" where
  "settle_query Q send h c =
     (case qh_request h of
        None \<Rightarrow> c
      | Some req \<Rightarrow> (case send req of Inl e \<Rightarrow> c | Inr data \<Rightarrow> qc_setData Q (qh_key h) data c))"

locale query_client =
  fixes Q :: "'c query_ops"
  assumes get_setData: "qc_get Q (qc_setData Q key data c) key' = (if key' = key then Some data else qc_get Q c key')"
    and get_remove: "qc_get Q (qc_remove Q pre c) key = (if key_matches pre key then None else qc_get Q c key)"
    and get_invalidate: "qc_get Q (qc_invalidate Q pre c) key = qc_get Q c key"
begin

lemmas cache_laws = get_setData get_remove get_invalidate

text \<open>A confirmed booking is the guest's reservation at once, and nobody else's.\<close>

lemma booked_cached:
  "qc_get Q (run_effects Q c (mh_onSuccess (useReservationForm day_of (Some g)) data)) key =
     (if key = guest_key HOTEL_RESERVATION_KEY (Some g) then Some data else qc_get Q c key)"
  by (simp add: useReservationForm_def cache_laws)

text \<open>After a cancellation the guest has no reservation in the cache, and every other entry is as before.\<close>

lemma guest_key_matches: "key_matches (guest_key ks g) (guest_key ks g') \<longleftrightarrow> map_option gp_id g = map_option gp_id g'"
  by (auto simp: key_matches_def guest_key_def)

lemma cancelled_cached:
  "qc_get Q (run_effects Q c (mh_onSuccess (snd (useActiveReservation (Some g))) data)) (guest_key HOTEL_RESERVATION_KEY g')
     = (if map_option gp_id g' = Some (gp_id g) then None else qc_get Q c (guest_key HOTEL_RESERVATION_KEY g'))"
  by (cases g') (simp_all add: useActiveReservation_def cache_laws guest_key_matches eq_commute)

text \<open>A failed mutation of a hook that reports by toast leaves the cache alone.\<close>

lemma toast_cached: "run_effects Q c (toast_error msg) = c"
  by (simp add: toast_error_def)

lemma settle_query_data:
  "qh_request h = Some req \<Longrightarrow> send req = Inr data \<Longrightarrow> qc_get Q (settle_query Q send h c) (qh_key h) = Some data"
  by (simp add: settle_query_def cache_laws)

end

definition map_cache :: "(query_key \<rightharpoonup> jsval) query_ops" where
  "map_cache =
     \<lparr>qc_get = (\<lambda>c. c),
      qc_setData = (\<lambda>key data c. c(key \<mapsto> data)),
      qc_remove = (\<lambda>pre c key. if key_matches pre key then None else c key),
      qc_invalidate = (\<lambda>pre c. c)\<rparr>"

interpretation mapped: query_client map_cache
  by unfold_locales (simp_all add: map_cache_def)

end
