(* ===== verification/Json_Pretty.thy ===== *)
theory Json_Pretty
  imports Json
begin

text \<open>
  More on \<^verbatim>\<open>JSON.parse\<close> and \<^verbatim>\<open>JSON.stringify\<close>. The fuel of the parser never decides its answer: any fuel above
  twice the length of the text gives the same one. The parser reads every rendition of a value,
  whatever the white space between its tokens (relation \<open>renders\<close>), so in particular the indented text
  of \<^verbatim>\<open>JSON.stringify(v, null, 2)\<close>.
\<close>

section \<open>Fuel\<close>

lemma length_skip_ws: "length (skip_ws s) \<le> length s"
  by (simp add: skip_ws_def length_dropWhile_le)

lemma parse_chars_shorter: "parse_chars s = Some (t, r) \<Longrightarrow> length r < length s"
proof (induction s arbitrary: t r rule: parse_chars.induct)
  case (2 c s)
  then show ?case
    by (fastforce split: if_splits list.splits option.splits dest: unicode_escape_shorter)
qed simp

lemma json_number_nonempty: "json_number (takeWhile num_char s) \<Longrightarrow> length (dropWhile num_char s) < length s"
  by (cases s) (auto simp: json_number_def Let_def less_Suc_eq_le length_dropWhile_le split: if_splits)

lemma skip_Cons_shorter: "skip_ws s = c # u \<Longrightarrow> length u < length s"
  using length_skip_ws [of s] by simp

lemma tl_skip_shorter: "startsWith [c] (skip_ws r) \<Longrightarrow> length (tl (skip_ws r)) < length r"
  using length_skip_ws [of r] by (cases "skip_ws r") auto

text \<open>What the parser can have read.\<close>

lemma parse_valueE:
  assumes "parse_value numval (Suc n) s = Some (v, r)"
  obtains (str) u t where "skip_ws s = CHR 0x22 # u" "parse_chars u = Some (t, r)" "v = JStr t"
  | (no_elems) u where "skip_ws s = CHR ''['' # u" "startsWith '']'' (skip_ws u)" "v = JArr []" "r = tl (skip_ws u)"
  | (elems) u vs where "skip_ws s = CHR ''['' # u" "parse_elems numval n u = Some (vs, r)" "v = JArr vs"
  | (no_members) u where "skip_ws s = CHR ''{'' # u" "startsWith ''}'' (skip_ws u)" "v = JObj []" "r = tl (skip_ws u)"
  | (members) u kvs where "skip_ws s = CHR ''{'' # u" "parse_members numval n u = Some (kvs, r)" "v = JObj (obj_of kvs)"
  | (word) k where "v \<in> {JBool True, JBool False, JNull}" "r = drop (Suc k) (skip_ws s)" "skip_ws s \<noteq> []"
  | (number) "json_number (takeWhile num_char (skip_ws s))" "v = JNum (numval (takeWhile num_char (skip_ws s)))"
      "r = dropWhile num_char (skip_ws s)"
proof (cases "skip_ws s")
  case Nil
  with assms show ?thesis by simp
next
  case (Cons c u)
  consider (q) "c = CHR 0x22" | (a) "c = CHR ''[''" | (o) "c = CHR ''{''" | (w) "c \<notin> {CHR 0x22, CHR ''['', CHR ''{''}" by blast
  then show ?thesis
  proof cases
    case q
    with assms Cons str [of u] show ?thesis by auto
  next
    case a
    with assms Cons no_elems [of u] elems [of u] show ?thesis by (auto split: if_splits)
  next
    case o
    with assms Cons no_members [of u] members [of u] show ?thesis by (auto split: if_splits)
  next
    case w
    with assms Cons word [of 3] word [of 4] number show ?thesis by (auto simp: parse_number_def split: if_splits)
  qed
qed

lemma parse_elemsE:
  assumes "parse_elems numval (Suc n) s = Some (vs, r)"
  obtains (more) v u vs' where "parse_value numval n s = Some (v, u)" "startsWith '','' (skip_ws u)"
      "parse_elems numval n (tl (skip_ws u)) = Some (vs', r)" "vs = v # vs'"
  | (last) v u where "parse_value numval n s = Some (v, u)" "startsWith '']'' (skip_ws u)" "vs = [v]" "r = tl (skip_ws u)"
  using assms by (auto split: option.splits prod.splits if_splits)

lemma parse_membersE:
  assumes "parse_members numval (Suc n) s = Some (kvs, r)"
  obtains (more) k t v u kvs' where "startsWith [CHR 0x22] (skip_ws s)" "parse_chars (tl (skip_ws s)) = Some (k, t)"
      "startsWith '':'' (skip_ws t)" "parse_value numval n (tl (skip_ws t)) = Some (v, u)" "startsWith '','' (skip_ws u)"
      "parse_members numval n (tl (skip_ws u)) = Some (kvs', r)" "kvs = (k, v) # kvs'"
  | (last) k t v u where "startsWith [CHR 0x22] (skip_ws s)" "parse_chars (tl (skip_ws s)) = Some (k, t)"
      "startsWith '':'' (skip_ws t)" "parse_value numval n (tl (skip_ws t)) = Some (v, u)" "startsWith ''}'' (skip_ws u)"
      "kvs = [(k, v)]" "r = tl (skip_ws u)"
  using assms by (auto split: option.splits prod.splits if_splits)

lemma parse_shorter:
  "parse_value numval n s = Some (v, r) \<Longrightarrow> length r < length s"
  "parse_elems numval n s = Some (vs, r) \<Longrightarrow> length r < length s"
  "parse_members numval n s = Some (kvs, r) \<Longrightarrow> length r < length s"
proof (induction n arbitrary: s v vs kvs r)
  case (Suc n)
  { case 1
    then show ?case
    proof (cases rule: parse_valueE)
      case (str u t)
      with parse_chars_shorter [OF str(2)] skip_Cons_shorter [OF str(1)] show ?thesis by simp
    next
      case (no_elems u)
      with tl_skip_shorter [OF no_elems(2)] skip_Cons_shorter [OF no_elems(1)] show ?thesis by simp
    next
      case (elems u vs)
      with Suc.IH(2) [OF elems(2)] skip_Cons_shorter [OF elems(1)] show ?thesis by simp
    next
      case (no_members u)
      with tl_skip_shorter [OF no_members(2)] skip_Cons_shorter [OF no_members(1)] show ?thesis by simp
    next
      case (members u kvs)
      with Suc.IH(3) [OF members(2)] skip_Cons_shorter [OF members(1)] show ?thesis by simp
    next
      case (word k)
      then obtain c u where u: "skip_ws s = c # u" by (cases "skip_ws s") auto
      with word(2) skip_Cons_shorter [OF u] show ?thesis by simp
    next
      case number
      have "length (dropWhile num_char (skip_ws s)) < length s" using json_number_nonempty [OF number(1)] length_skip_ws [of s] by linarith
      with number(3) show ?thesis by simp
    qed
  next
    case 2
    then show ?case
    proof (cases rule: parse_elemsE)
      case (more v u vs')
      with Suc.IH(1) [OF more(1)] tl_skip_shorter [OF more(2)] Suc.IH(2) [OF more(3)] show ?thesis by simp
    next
      case (last v u)
      with Suc.IH(1) [OF last(1)] tl_skip_shorter [OF last(2)] show ?thesis by simp
    qed
  next
    case 3
    then show ?case
    proof (cases rule: parse_membersE)
      case (more k t v u kvs')
      with tl_skip_shorter [OF more(1)] parse_chars_shorter [OF more(2)] tl_skip_shorter [OF more(3)] Suc.IH(1) [OF more(4)]
        tl_skip_shorter [OF more(5)] Suc.IH(3) [OF more(6)] show ?thesis by simp
    next
      case (last k t v u)
      with tl_skip_shorter [OF last(1)] parse_chars_shorter [OF last(2)] tl_skip_shorter [OF last(3)] Suc.IH(1) [OF last(4)]
        tl_skip_shorter [OF last(5)] show ?thesis by simp
    qed
  }
qed simp_all

text \<open>Any two fuels above the bound agree.\<close>

lemma parse_fuel:
  "2 * length s < n \<Longrightarrow> 2 * length s < m \<Longrightarrow> parse_value numval n s = parse_value numval m s"
  "2 * length s + 1 < n \<Longrightarrow> 2 * length s + 1 < m \<Longrightarrow> parse_elems numval n s = parse_elems numval m s"
  "2 * length s + 1 < n \<Longrightarrow> 2 * length s + 1 < m \<Longrightarrow> parse_members numval n s = parse_members numval m s"
proof (induction "length s" arbitrary: s n m rule: less_induct)
  case less
  have val: "parse_value numval n s = parse_value numval m s" if nm: "2 * length s < n" "2 * length s < m" for n m
  proof -
    obtain n' m' where k: "n = Suc n'" "m = Suc m'" using nm by (cases n; cases m) auto
    show ?thesis
    proof (cases "skip_ws s")
      case (Cons c u)
      then have u: "length u < length s" using length_skip_ws [of s] by simp
      from less(2) [OF u, of n' m'] less(3) [OF u, of n' m'] u nm k Cons show ?thesis by simp
    qed (simp add: k)
  qed
  { case 1
    then show ?case by (rule val)
  next
    case 2
    then obtain n' m' where k: "n = Suc n'" "m = Suc m'" by (cases n; cases m) auto
    with 2 val [of n' m'] have v: "parse_value numval n' s = parse_value numval m' s" by simp
    have "parse_elems numval n' (tl (skip_ws u)) = parse_elems numval m' (tl (skip_ws u))"
      if "parse_value numval m' s = Some (x, u)" "startsWith '','' (skip_ws u)" for x u
      using less(2) [of "tl (skip_ws u)" n' m'] parse_shorter(1) [OF that(1)] tl_skip_shorter [OF that(2)] 2 k by simp
    with v k show ?case by (auto split: option.split)
  next
    case 3
    then obtain n' m' where k: "n = Suc n'" "m = Suc m'" by (cases n; cases m) auto
    have v: "parse_value numval n' (tl (skip_ws t)) = parse_value numval m' (tl (skip_ws t))"
      if "startsWith [CHR 0x22] (skip_ws s)" "parse_chars (tl (skip_ws s)) = Some (x, t)" "startsWith '':'' (skip_ws t)" for x t
      using less(1) [of "tl (skip_ws t)" n' m'] tl_skip_shorter [OF that(1)] parse_chars_shorter [OF that(2)]
        tl_skip_shorter [OF that(3)] 3 k by simp
    have "parse_members numval n' (tl (skip_ws u)) = parse_members numval m' (tl (skip_ws u))"
      if "startsWith [CHR 0x22] (skip_ws s)" "parse_chars (tl (skip_ws s)) = Some (x, t)" "startsWith '':'' (skip_ws t)"
        "parse_value numval m' (tl (skip_ws t)) = Some (y, u)" "startsWith '','' (skip_ws u)" for x t y u
      using less(3) [of "tl (skip_ws u)" n' m'] tl_skip_shorter [OF that(1)] parse_chars_shorter [OF that(2)]
        tl_skip_shorter [OF that(3)] parse_shorter(1) [OF that(4)] tl_skip_shorter [OF that(5)] 3 k by simp
    with v k show ?case by (auto split: option.split)
  }
qed

lemma JSON_parse_fuel:
  "2 * length s < n \<Longrightarrow> JSON_parse numval s =
     (case parse_value numval n s of None \<Rightarrow> None | Some (v, r) \<Rightarrow> if skip_ws r = [] then Some v else None)"
  using parse_fuel(1) [of s n "2 * length s + 2"] by (simp add: JSON_parse_def del: parse_value.simps)

section \<open>Renditions\<close>

text \<open>The texts of a value, with white space around every token.\<close>

abbreviation blank :: "string \<Rightarrow> bool" where
  "blank w \<equiv> list_all json_ws w"

inductive renders :: "(rat \<Rightarrow> string) \<Rightarrow> jsval \<Rightarrow> string \<Rightarrow> bool"
  and renders_elems :: "(rat \<Rightarrow> string) \<Rightarrow> jsval list \<Rightarrow> string \<Rightarrow> bool"
  and renders_members :: "(rat \<Rightarrow> string) \<Rightarrow> jsobj \<Rightarrow> string \<Rightarrow> bool"
  for numstr
where
  renders_null: "renders numstr JNull ''null''"
| renders_bool: "renders numstr (JBool b) (if b then ''true'' else ''false'')"
| renders_num: "renders numstr (JNum (Fin q)) (numstr q)"
| renders_str: "renders numstr (JStr s) (json_quote s)"
| renders_no_elems: "blank w \<Longrightarrow> renders numstr (JArr []) (''['' @ w @ '']'')"
| renders_arr: "renders_elems numstr vs t \<Longrightarrow> renders numstr (JArr vs) (''['' @ t @ '']'')"
| renders_no_members: "blank w \<Longrightarrow> renders numstr (JObj []) (''{'' @ w @ ''}'')"
| renders_obj: "renders_members numstr ob t \<Longrightarrow> renders numstr (JObj ob) (''{'' @ t @ ''}'')"
| renders_last: "blank w \<Longrightarrow> renders numstr v t \<Longrightarrow> blank w' \<Longrightarrow> renders_elems numstr [v] (w @ t @ w')"
| renders_more: "blank w \<Longrightarrow> renders numstr v t \<Longrightarrow> blank w' \<Longrightarrow> renders_elems numstr vs u \<Longrightarrow>
    renders_elems numstr (v # vs) (w @ t @ w' @ '','' @ u)"
| renders_last_member: "blank w \<Longrightarrow> blank wk \<Longrightarrow> blank wv \<Longrightarrow> renders numstr v t \<Longrightarrow> blank w' \<Longrightarrow>
    renders_members numstr [(k, v)] (w @ json_quote k @ wk @ '':'' @ wv @ t @ w')"
| renders_more_members: "blank w \<Longrightarrow> blank wk \<Longrightarrow> blank wv \<Longrightarrow> renders numstr v t \<Longrightarrow> blank w' \<Longrightarrow> renders_members numstr ob u \<Longrightarrow>
    renders_members numstr ((k, v) # ob) (w @ json_quote k @ wk @ '':'' @ wv @ t @ w' @ '','' @ u)"

lemma skip_blank: "blank w \<Longrightarrow> skip_ws (w @ s) = skip_ws s"
  by (induction w) (simp_all add: skip_ws_def)

lemma skip_skip: "skip_ws (skip_ws s) = skip_ws s"
  by (induction s) (simp_all add: skip_ws_def)

lemma parse_value_skip: "parse_value numval n (skip_ws s) = parse_value numval n s"
  by (cases n) (simp_all add: skip_skip)

lemma parse_value_blank: "blank w \<Longrightarrow> parse_value numval n (w @ s) = parse_value numval n s"
  by (metis parse_value_skip skip_blank)

text \<open>Enough fuel reads a rendition, whatever follows it.\<close>

definition read_as :: "(nat \<Rightarrow> string \<Rightarrow> ('a \<times> string) option) \<Rightarrow> 'a \<Rightarrow> string \<Rightarrow> string \<Rightarrow> bool" where
  "read_as parse x t r = (\<exists>n. \<forall>m \<ge> n. parse m (t @ r) = Some (x, r))"

lemma read_asI: "(\<And>m. parse (Suc m) (t @ r) = Some (x, r)) \<Longrightarrow> read_as parse x t r"
  unfolding read_as_def by (intro exI [of _ 1]) (metis Suc_le_D One_nat_def)

lemma read_as_Suc: "(\<exists>n. \<forall>m \<ge> n. parse (Suc m) (t @ r) = Some (x, r)) \<Longrightarrow> read_as parse x t r"
  unfolding read_as_def by (metis Suc_le_D Suc_le_mono)

lemma stops_blank: "blank w \<Longrightarrow> \<not> num_char c \<Longrightarrow> stops (w @ c # r)"
  by (cases w) (auto simp: stops_def json_ws_def num_char_def digit_def)

lemma no_elems_parsed: "startsWith '']'' (skip_ws s) \<Longrightarrow> parse_elems numval n s = None"
proof (cases n)
  case (Suc m)
  assume "startsWith '']'' (skip_ws s)"
  then obtain u where u: "skip_ws s = CHR '']'' # u" by (cases "skip_ws s") auto
  then have "parse_value numval m s = None"
    by (cases m) (simp_all add: parse_number_def num_char_def digit_def json_number_def)
  with Suc show ?thesis by simp
qed simp

lemma no_members_parsed: "startsWith ''}'' (skip_ws s) \<Longrightarrow> parse_members numval n s = None"
  by (cases n; cases "skip_ws s") auto

lemma read_value:
  assumes "json_ok numstr numval v" "v \<in> {JNull, JBool b, JNum q, JStr s}" "stops r"
  shows "read_as (parse_value numval) v (json_text numstr v) r"
  using json_reads_back [OF assms(1)] assms(3) unfolding reads_back_def read_as_def
  by (intro exI [of _ "Suc (2 * length (json_text numstr v))"]) auto

lemma read_arr:
  assumes "read_as (parse_elems numval) vs (t @ '']'') r"
  shows "read_as (parse_value numval) (JArr vs) (''['' @ t @ '']'') r"
proof (rule read_as_Suc)
  obtain n where n: "parse_elems numval m ((t @ '']'') @ r) = Some (vs, r)" if "n \<le> m" for m
    using assms unfolding read_as_def by blast
  then have "\<not> startsWith '']'' (skip_ws (t @ CHR '']'' # r))"
    using no_elems_parsed [of "t @ CHR '']'' # r" numval n] by fastforce
  with n have "parse_value numval (Suc m) ((''['' @ t @ '']'') @ r) = Some (JArr vs, r)" if "n \<le> m" for m
    using that by (simp add: skip_ws_Cons json_ws_def)
  then show "\<exists>n. \<forall>m \<ge> n. parse_value numval (Suc m) ((''['' @ t @ '']'') @ r) = Some (JArr vs, r)" by blast
qed

lemma read_obj:
  assumes "read_as (parse_members numval) ob (t @ ''}'') r" "distinct (map fst ob)"
  shows "read_as (parse_value numval) (JObj ob) (''{'' @ t @ ''}'') r"
proof (rule read_as_Suc)
  obtain n where n: "parse_members numval m ((t @ ''}'') @ r) = Some (ob, r)" if "n \<le> m" for m
    using assms(1) unfolding read_as_def by blast
  then have "\<not> startsWith ''}'' (skip_ws (t @ CHR ''}'' # r))"
    using no_members_parsed [of "t @ CHR ''}'' # r" numval n] by fastforce
  with n have "parse_value numval (Suc m) ((''{'' @ t @ ''}'') @ r) = Some (JObj ob, r)" if "n \<le> m" for m
    using that obj_of_distinct [OF assms(2)] by (simp add: skip_ws_Cons json_ws_def)
  then show "\<exists>n. \<forall>m \<ge> n. parse_value numval (Suc m) ((''{'' @ t @ ''}'') @ r) = Some (JObj ob, r)" by blast
qed

lemma skip_punct: "blank w \<Longrightarrow> c \<in> set '',:]}'' \<Longrightarrow> skip_ws (w @ c # s) = c # s"
  by (auto simp: skip_blank skip_ws_Cons json_ws_def)

lemma read_last:
  assumes "blank w" "blank w'" "read_as (parse_value numval) v t (w' @ CHR '']'' # r)"
  shows "read_as (parse_elems numval) [v] ((w @ t @ w') @ '']'') r"
proof (rule read_as_Suc)
  obtain n where n: "parse_value numval m (t @ w' @ CHR '']'' # r) = Some (v, w' @ CHR '']'' # r)" if "n \<le> m" for m
    using assms(3) unfolding read_as_def by blast
  have "parse_elems numval (Suc m) (((w @ t @ w') @ '']'') @ r) = Some ([v], r)" if "n \<le> m" for m
    using n [OF that] assms(1,2) by (simp add: parse_value_blank skip_punct)
  then show "\<exists>n. \<forall>m \<ge> n. parse_elems numval (Suc m) (((w @ t @ w') @ '']'') @ r) = Some ([v], r)" by blast
qed

lemma read_more:
  assumes "blank w" "blank w'" "read_as (parse_value numval) v t (w' @ CHR '','' # u @ CHR '']'' # r)"
    and "read_as (parse_elems numval) vs (u @ '']'') r"
  shows "read_as (parse_elems numval) (v # vs) ((w @ t @ w' @ '','' @ u) @ '']'') r"
proof (rule read_as_Suc)
  obtain n where n: "parse_value numval m (t @ w' @ CHR '','' # u @ CHR '']'' # r) = Some (v, w' @ CHR '','' # u @ CHR '']'' # r)"
    if "n \<le> m" for m
    using assms(3) unfolding read_as_def by blast
  obtain n' where n': "parse_elems numval m (u @ CHR '']'' # r) = Some (vs, r)" if "n' \<le> m" for m
    using assms(4) unfolding read_as_def by auto
  have "parse_elems numval (Suc m) (((w @ t @ w' @ '','' @ u) @ '']'') @ r) = Some (v # vs, r)" if "max n n' \<le> m" for m
    using n [of m] n' [of m] that assms(1,2) by (simp add: parse_value_blank skip_punct)
  then show "\<exists>n. \<forall>m \<ge> n. parse_elems numval (Suc m) (((w @ t @ w' @ '','' @ u) @ '']'') @ r) = Some (v # vs, r)" by blast
qed

lemma skip_quote: "blank w \<Longrightarrow> skip_ws (w @ json_quote k @ s) = CHR 0x22 # concat (map json_char k) @ CHR 0x22 # s"
  by (simp add: skip_blank json_quote_def skip_ws_Cons json_ws_def)

lemma read_last_member:
  assumes "blank w" "blank wk" "blank wv" "blank w'" "read_as (parse_value numval) v t (w' @ CHR ''}'' # r)"
  shows "read_as (parse_members numval) [(k, v)] ((w @ json_quote k @ wk @ '':'' @ wv @ t @ w') @ ''}'') r"
proof (rule read_as_Suc)
  obtain n where n: "parse_value numval m (t @ w' @ CHR ''}'' # r) = Some (v, w' @ CHR ''}'' # r)" if "n \<le> m" for m
    using assms(5) unfolding read_as_def by blast
  have "parse_members numval (Suc m) (((w @ json_quote k @ wk @ '':'' @ wv @ t @ w') @ ''}'') @ r) = Some ([(k, v)], r)"
    if "n \<le> m" for m
    using n [OF that] assms(1-4) by (simp add: skip_quote parse_chars_quoted parse_value_blank skip_punct)
  then show "\<exists>n. \<forall>m \<ge> n. parse_members numval (Suc m) (((w @ json_quote k @ wk @ '':'' @ wv @ t @ w') @ ''}'') @ r)
      = Some ([(k, v)], r)" by blast
qed

lemma read_more_members:
  assumes "blank w" "blank wk" "blank wv" "blank w'" "read_as (parse_value numval) v t (w' @ CHR '','' # u @ CHR ''}'' # r)"
    and "read_as (parse_members numval) ob (u @ ''}'') r"
  shows "read_as (parse_members numval) ((k, v) # ob) ((w @ json_quote k @ wk @ '':'' @ wv @ t @ w' @ '','' @ u) @ ''}'') r"
proof (rule read_as_Suc)
  obtain n where n: "parse_value numval m (t @ w' @ CHR '','' # u @ CHR ''}'' # r) = Some (v, w' @ CHR '','' # u @ CHR ''}'' # r)"
    if "n \<le> m" for m
    using assms(5) unfolding read_as_def by blast
  obtain n' where n': "parse_members numval m (u @ CHR ''}'' # r) = Some (ob, r)" if "n' \<le> m" for m
    using assms(6) unfolding read_as_def by auto
  have "parse_members numval (Suc m) (((w @ json_quote k @ wk @ '':'' @ wv @ t @ w' @ '','' @ u) @ ''}'') @ r) = Some ((k, v) # ob, r)"
    if "max n n' \<le> m" for m
    using n [of m] n' [of m] that assms(1-4) by (simp add: skip_quote parse_chars_quoted parse_value_blank skip_punct)
  then show "\<exists>n. \<forall>m \<ge> n. parse_members numval (Suc m) (((w @ json_quote k @ wk @ '':'' @ wv @ t @ w' @ '','' @ u) @ ''}'') @ r)
      = Some ((k, v) # ob, r)" by blast
qed

lemma renders_read:
  "renders numstr v t \<Longrightarrow> json_ok numstr numval v \<Longrightarrow> stops r \<Longrightarrow> read_as (parse_value numval) v t r"
  "renders_elems numstr vs t \<Longrightarrow> list_all (json_ok numstr numval) vs \<Longrightarrow> read_as (parse_elems numval) vs (t @ '']'') r"
  "renders_members numstr ob t \<Longrightarrow> list_all (\<lambda>(k, v). json_ok numstr numval v) ob \<Longrightarrow> read_as (parse_members numval) ob (t @ ''}'') r"
proof (induction arbitrary: r and r and r rule: renders_renders_elems_renders_members.inducts)
  case renders_null
  then show ?case using read_value [of numstr numval JNull] by (simp add: json_text_def)
next
  case (renders_bool b)
  then show ?case using read_value [of numstr numval "JBool b" b] by (simp add: json_text_def)
next
  case (renders_num q)
  then show ?case using read_value [of numstr numval "JNum (Fin q)" _ "Fin q"] by (simp add: json_text_def)
next
  case (renders_str s)
  then show ?case using read_value [of numstr numval "JStr s" _ _ s] by (simp add: json_text_def)
next
  case (renders_no_elems w)
  then show ?case by (intro read_asI) (simp add: skip_ws_Cons json_ws_def skip_blank)
next
  case (renders_no_members w)
  then show ?case by (intro read_asI) (simp add: skip_ws_Cons json_ws_def skip_blank)
next
  case (renders_arr vs t)
  then show ?case by (intro read_arr) simp
next
  case (renders_obj ob t)
  then show ?case by (intro read_obj) simp_all
next
  case (renders_last w v t w')
  then show ?case by (intro read_last) (simp_all add: stops_blank num_char_def digit_def)
next
  case (renders_more w v t w' vs u)
  then show ?case by (intro read_more) (simp_all add: stops_blank num_char_def digit_def)
next
  case (renders_last_member w wk wv v t w' k)
  then show ?case by (intro read_last_member) (simp_all add: stops_blank num_char_def digit_def)
next
  case (renders_more_members w wk wv v t w' ob u k)
  then show ?case by (intro read_more_members) (simp_all add: stops_blank num_char_def digit_def)
qed

text \<open>So \<^verbatim>\<open>JSON.parse\<close> reads a rendition as its value, also between blanks.\<close>

lemma JSON_parse_renders:
  assumes "renders numstr v t" "json_ok numstr numval v" "blank w" "blank w'"
  shows "JSON_parse numval (w @ t @ w') = Some v"
proof -
  have w: "skip_ws w' = []" using assms(4) skip_blank [of w' "[]"] by (simp add: skip_ws_def)
  have "stops w'" using assms(4) by (cases w') (auto simp: stops_def json_ws_def num_char_def digit_def)
  from renders_read(1) [OF assms(1,2) this] obtain n where n: "parse_value numval m (t @ w') = Some (v, w')" if "n \<le> m" for m
    unfolding read_as_def by blast
  define m where "m = max n (Suc (2 * length (w @ t @ w')))"
  have "parse_value numval m (w @ t @ w') = Some (v, w')"
    using n [of m] assms(3) by (simp add: parse_value_blank m_def del: parse_value.simps)
  moreover have "2 * length (w @ t @ w') < m" by (simp add: m_def)
  ultimately show ?thesis using JSON_parse_fuel [of "w @ t @ w'" m numval] w by simp
qed

section \<open>Indented text\<close>

text \<open>\<^verbatim>\<open>JSON.stringify(v, null, 2)\<close>: parts on lines of their own, two more blanks per level, nothing between empty brackets.\<close>

definition bracket_lines :: "string \<Rightarrow> string \<Rightarrow> string \<Rightarrow> string list \<Rightarrow> string" where
  "bracket_lines indent opening closing parts =
     (if parts = [] then opening @ closing
      else opening @ LF # indent @ ''  '' @ js_join ('','' @ LF # indent @ ''  '') parts @ LF # indent @ closing)"

fun JSON_indent :: "(rat \<Rightarrow> string) \<Rightarrow> string \<Rightarrow> jsval \<Rightarrow> string option" where
  "JSON_indent numstr indent (JArr vs) =
     Some (bracket_lines indent ''['' '']'' (map (\<lambda>v. nullish (JSON_indent numstr (indent @ ''  '') v) ''null'') vs))"
| "JSON_indent numstr indent (JObj ob) =
     Some (bracket_lines indent ''{'' ''}'' (concat (map (\<lambda>(k, v).
       case JSON_indent numstr (indent @ ''  '') v of None \<Rightarrow> [] | Some t \<Rightarrow> [json_quote k @ '': '' @ t]) ob)))"
| "JSON_indent numstr indent v = JSON_stringify numstr v"

lemma blank_LF [simp]: "json_ws LF" "json_ws (CHR '' '')"
  by (simp_all add: json_ws_def LF_def)

lemma renders_joined:
  assumes "vs \<noteq> []" "\<forall>v \<in> set vs. renders numstr v (f v)" "blank w" "blank w'"
  shows "renders_elems numstr vs (w @ js_join ('','' @ w) (map f vs) @ w')"
  using assms(1,2)
proof (induction vs rule: list_nonempty_induct)
  case (single v)
  with renders_last [of w numstr v "f v" w'] assms(3,4) show ?case by simp
next
  case (cons v vs)
  with renders_more [of w numstr v "f v" "[]" vs] assms(3) show ?case by (cases vs) simp_all
qed

lemma renders_joined_members:
  assumes "ob \<noteq> []" "\<forall>kv \<in> set ob. renders numstr (snd kv) (f (snd kv))" "blank w" "blank w'"
  shows "renders_members numstr ob (w @ js_join ('','' @ w) (map (\<lambda>(k, v). json_quote k @ '': '' @ f v) ob) @ w')"
  using assms(1,2)
proof (induction ob rule: list_nonempty_induct)
  case (single kv)
  obtain k v where kv: "kv = (k, v)" by (cases kv)
  with single renders_last_member [of w "[]" "'' ''" numstr v "f v" w' k] assms(3,4) show ?case by simp
next
  case (cons kv ob)
  obtain k v where kv: "kv = (k, v)" by (cases kv)
  with cons renders_more_members [of w "[]" "'' ''" numstr v "f v" "[]" ob _ k] assms(3) show ?case by (cases ob) simp_all
qed

lemma bracket_lines_arr:
  assumes "blank indent" "\<forall>v \<in> set vs. renders numstr v (f v)"
  shows "renders numstr (JArr vs) (bracket_lines indent ''['' '']'' (map f vs))"
proof (cases "vs = []")
  case True
  then show ?thesis using renders_no_elems [of "[]" numstr] by (simp add: bracket_lines_def)
next
  case False
  with renders_arr [OF renders_joined [OF False assms(2), of "LF # indent @ ''  ''" "LF # indent"]] assms(1) show ?thesis
    by (simp add: bracket_lines_def)
qed

lemma bracket_lines_obj:
  assumes "blank indent" "\<forall>kv \<in> set ob. renders numstr (snd kv) (f (snd kv))"
  shows "renders numstr (JObj ob) (bracket_lines indent ''{'' ''}'' (map (\<lambda>(k, v). json_quote k @ '': '' @ f v) ob))"
proof (cases "ob = []")
  case True
  then show ?thesis using renders_no_members [of "[]" numstr] by (simp add: bracket_lines_def)
next
  case False
  with renders_obj [OF renders_joined_members [OF False assms(2), of "LF # indent @ ''  ''" "LF # indent"]] assms(1) show ?thesis
    by (simp add: bracket_lines_def)
qed

definition indented :: "(rat \<Rightarrow> string) \<Rightarrow> string \<Rightarrow> jsval \<Rightarrow> string" where
  "indented numstr indent v = nullish (JSON_indent numstr indent v) []"

lemma indent_Some: "json_ok numstr numval v \<Longrightarrow> JSON_indent numstr indent v = Some (indented numstr indent v)"
  by (cases v) (auto simp: indented_def json_ok_text)

lemma indented_arr:
  "list_all (json_ok numstr numval) vs \<Longrightarrow>
     indented numstr indent (JArr vs) = bracket_lines indent ''['' '']'' (map (indented numstr (indent @ ''  '')) vs)"
  by (auto simp: indented_def [of numstr indent] indent_Some [of numstr numval] list_all_iff intro!: arg_cong [where f = "bracket_lines _ _ _"])

lemma indented_members:
  "list_all (\<lambda>(k, v). json_ok numstr numval v) ob \<Longrightarrow>
     concat (map (\<lambda>(k, v). case JSON_indent numstr indent v of None \<Rightarrow> [] | Some t \<Rightarrow> [json_quote k @ '': '' @ t]) ob)
     = map (\<lambda>(k, v). json_quote k @ '': '' @ indented numstr indent v) ob"
  by (induction ob) (auto simp: indent_Some)

lemma indented_renders:
  "json_ok numstr numval v \<Longrightarrow> blank indent \<Longrightarrow> renders numstr v (indented numstr indent v)"
proof (induction numstr numval v arbitrary: indent rule: json_ok.induct)
  case (7 numstr numval vs)
  then have "\<forall>v \<in> set vs. renders numstr v (indented numstr (indent @ ''  '') v)" by (simp add: list_all_iff)
  with 7 show ?case using bracket_lines_arr [of indent vs numstr] indented_arr [of numstr numval vs indent] by simp
next
  case (8 numstr numval ob)
  then have "\<forall>kv \<in> set ob. renders numstr (snd kv) (indented numstr (indent @ ''  '') (snd kv))" by (fastforce simp: list_all_iff)
  with 8 show ?case
    using bracket_lines_obj [of indent ob numstr] indented_members [of numstr numval ob "indent @ ''  ''"]
    by (simp add: indented_def [of numstr indent])
qed (simp_all add: indented_def renders_renders_elems_renders_members.intros)

section \<open>What was parsed can be printed\<close>

lemma put_key_keys: "map fst (put_key k v ob) = (if has_key k ob then map fst ob else map fst ob @ [k])"
  by (induction ob) auto

lemma put_key_distinct: "distinct (map fst ob) \<Longrightarrow> distinct (map fst (put_key k v ob))"
  by (auto simp: put_key_keys has_key_def)

lemma put_key_all: "P v \<Longrightarrow> list_all (\<lambda>(k, v). P v) ob \<Longrightarrow> list_all (\<lambda>(k, v). P v) (put_key k v ob)"
  by (induction ob) auto

lemma obj_of_ok:
  assumes "list_all (\<lambda>(k, v). P v) kvs"
  shows "distinct (map fst (obj_of kvs)) \<and> list_all (\<lambda>(k, v). P v) (obj_of kvs)"
proof -
  have "distinct (map fst acc) \<and> list_all (\<lambda>(k, v). P v) acc \<Longrightarrow>
    distinct (map fst (foldl (\<lambda>ob (k, v). put_key k v ob) acc kvs)) \<and>
    list_all (\<lambda>(k, v). P v) (foldl (\<lambda>ob (k, v). put_key k v ob) acc kvs)" for acc
    using assms by (induction kvs arbitrary: acc) (auto simp: put_key_distinct put_key_all)
  from this [of "[]"] show ?thesis by (simp add: obj_of_def)
qed

lemma parsed_ok:
  assumes "\<And>t. json_number t \<Longrightarrow> json_ok numstr numval (JNum (numval t))"
  shows "parse_value numval n s = Some (v, r) \<Longrightarrow> json_ok numstr numval v"
    "parse_elems numval n s = Some (vs, r) \<Longrightarrow> list_all (json_ok numstr numval) vs"
    "parse_members numval n s = Some (kvs, r) \<Longrightarrow> list_all (\<lambda>(k, v). json_ok numstr numval v) kvs"
proof (induction n arbitrary: s v vs kvs r)
  case (Suc n)
  { case 1
    then show ?case
      by (cases rule: parse_valueE) (auto simp: assms Suc.IH obj_of_ok [of "json_ok numstr numval", OF Suc.IH(3)])
  next
    case 2
    then show ?case by (cases rule: parse_elemsE) (auto simp: Suc.IH)
  next
    case 3
    then show ?case by (cases rule: parse_membersE) (auto simp: Suc.IH)
  }
qed simp_all

lemma JSON_parse_ok:
  assumes "\<And>t. json_number t \<Longrightarrow> json_ok numstr numval (JNum (numval t))" "JSON_parse numval s = Some v"
  shows "json_ok numstr numval v"
  using assms(2) parsed_ok(1) [of numstr numval, OF assms(1)] unfolding JSON_parse_def
  by (auto simp del: parse_value.simps split: option.splits prod.splits if_splits)

end
