(* ===== verification/Ui_Cards.thy ===== *)
theory Ui_Cards
  imports Ui_Controls Ui_Summaries Json_Pretty
begin

text \<open>
  The cards inside the panels: what they print of the guest, the reservation, the chat and the stock they
  are given, the fields of the reservation form, and the payloads of the parrot's tools. The date
  library is a parameter (\<open>toDate\<close> for \<^verbatim>\<open>simulationDayToDate\<close>, \<open>format\<close> for its printing).
\<close>

definition dots :: string where "dots = [CHR 0xE2, CHR 0x80, CHR 0xA6]"

section \<open>Guests (pass-field.tsx, boarding-pass.tsx, guest-card.tsx)\<close>

record pass_field =
  pf_label :: string
  pf_value :: string

record pass_card =
  ps_header :: string
  ps_badge :: string
  ps_title :: string
  ps_subtitle :: string
  ps_fields :: "pass_field list"
  ps_footer :: "button option"

definition full_name :: "GuestProfile \<Rightarrow> string" where
  "full_name guest = gp_name guest @ '' '' @ gp_surname guest"

definition boarding_pass :: "GuestProfile \<Rightarrow> pass_card" where
  "boarding_pass guest =
     \<lparr>ps_header = ''Boarding Pass'',
      ps_badge = (if gp_priority guest = ''fast'' then ''Fast Pass'' else ''Standard''),
      ps_title = full_name guest,
      ps_subtitle = ''Resort guest'' @ middle_dot @ gp_id guest,
      ps_fields =
        [\<lparr>pf_label = ''Passport'', pf_value = gp_passport guest\<rparr>,
         \<lparr>pf_label = ''Age'', pf_value = show_int (gp_age guest)\<rparr>,
         \<lparr>pf_label = ''Priority'', pf_value = gp_priority guest\<rparr>,
         \<lparr>pf_label = ''Access'', pf_value = (if gp_disability guest then ''Accessible'' else ''Standard'')\<rparr>],
      ps_footer = None\<rparr>"

record guest_card_view =
  gk_src :: string
  gk_alt :: string
  gk_fallback :: string
  gk_badge :: string
  gk_title :: string
  gk_description :: string
  gk_personality :: string
  gk_route :: string
  gk_onSelect :: GuestProfile

definition guest_card :: "GuestProfile \<Rightarrow> guest_card_view" where
  "guest_card guest =
     \<lparr>gk_src = getAvatarDataUri (gp_id guest),
      gk_alt = full_name guest,
      gk_fallback = getInitials (Some guest),
      gk_badge = (if gp_priority guest = ''fast'' then ''Fast pass'' else ''Standard''),
      gk_title = full_name guest,
      gk_description = ''Age '' @ show_int (gp_age guest) @ middle_dot @ ''Passport '' @ gp_passport guest,
      gk_personality = gp_personality guest,
      gk_route = (if gp_disability guest then ''Accessible route requested'' else ''Standard route''),
      gk_onSelect = guest\<rparr>"

text \<open>The cards of the selection page, in the order of the data, and the guest a click chooses.\<close>

definition selection_cards :: "guest_card_view list" where
  "selection_cards = map guest_card guests"

lemma selection_cards_choose: "map gk_onSelect selection_cards = guests"
  by (simp add: selection_cards_def guest_card_def comp_def)

section \<open>Reservations (reservation-card.tsx, reservation-fields.tsx)\<close>

record UiReservation =
  rv_id :: string
  rv_guest_id :: string
  rv_room_id :: string
  rv_room_type :: string
  rv_guest_count :: int
  rv_check_in_day :: int
  rv_check_out_day :: int
  rv_status :: string

fun as_integer :: "jsval \<Rightarrow> int option" where
  "as_integer (JNum (Fin q)) = (if of_int \<lfloor>q\<rfloor> = q then Some \<lfloor>q\<rfloor> else None)"
| "as_integer _ = None"

definition reservation_of :: "jsobj \<Rightarrow> UiReservation option" where
  "reservation_of ob =
     (case (as_string (jget ob ''id''), as_string (jget ob ''guest_id''), as_string (jget ob ''room_id''),
            as_string (jget ob ''room_type''), as_integer (jget ob ''guest_count''), as_integer (jget ob ''check_in_day''),
            as_integer (jget ob ''check_out_day''), as_string (jget ob ''status'')) of
        (Some i, Some g, Some room, Some ty, Some n, Some check_in, Some check_out, Some status) \<Rightarrow>
          Some \<lparr>rv_id = i, rv_guest_id = g, rv_room_id = room, rv_room_type = ty, rv_guest_count = n,
                rv_check_in_day = check_in, rv_check_out_day = check_out, rv_status = status\<rparr>
      | _ \<Rightarrow> None)"

definition ReservationFields :: "(int \<Rightarrow> 'd) \<Rightarrow> ('d \<Rightarrow> string) \<Rightarrow> UiReservation \<Rightarrow> pass_field list" where
  "ReservationFields toDate format r =
     [\<lparr>pf_label = ''Check-in'', pf_value = format (toDate (rv_check_in_day r))\<rparr>,
      \<lparr>pf_label = ''Check-out'', pf_value = format (toDate (rv_check_out_day r))\<rparr>,
      \<lparr>pf_label = ''Room type'', pf_value = formatRoomType (rv_room_type r)\<rparr>,
      \<lparr>pf_label = ''Guests'', pf_value = show_int (rv_guest_count r) @ '' guest'' @ (if rv_guest_count r \<noteq> 1 then ''s'' else [])\<rparr>]"

definition active_reservation_card :: "(int \<Rightarrow> 'd) \<Rightarrow> ('d \<Rightarrow> string) \<Rightarrow> UiReservation \<Rightarrow> bool \<Rightarrow> pass_card" where
  "active_reservation_card toDate format r isCancelling =
     \<lparr>ps_header = ''Room Reservation'', ps_badge = ''Confirmed'', ps_title = rv_room_id r,
      ps_subtitle = formatRoomType (rv_room_type r) @ '' room'',
      ps_fields = ReservationFields toDate format r,
      ps_footer = Some \<lparr>bt_disabled = isCancelling,
        bt_label = Some (if isCancelling then ''Cancelling'' @ dots else ''Cancel reservation'')\<rparr>\<rparr>"

definition reservation_result :: "(int \<Rightarrow> 'd) \<Rightarrow> ('d \<Rightarrow> string) \<Rightarrow> UiReservation \<Rightarrow> pass_card" where
  "reservation_result toDate format r =
     \<lparr>ps_header = ''Booking Confirmed'', ps_badge = formatRoomType (rv_room_type r), ps_title = rv_room_id r,
      ps_subtitle = ''Resort guest'' @ middle_dot @ ''confirmed'',
      ps_fields = ReservationFields toDate format r, ps_footer = None\<rparr>"

section \<open>The reservation form (reservation-form.tsx, room-type-picker.tsx, date-field.tsx)\<close>

record room_option =
  ro_label :: string
  ro_sub :: string
  ro_selected :: bool
  ro_disabled :: bool
  ro_onClick :: string

definition ROOM_TYPE_OPTIONS :: "string \<rightharpoonup> string \<times> string" where
  "ROOM_TYPE_OPTIONS = map_of
     [(''STANDARD'', (''Standard'', ''1 queen bed'')), (''DELUXE'', (''Deluxe'', ''1 king bed'')),
      (''SUITE'', (''Suite'', ''King + lounge''))]"

definition RoomTypePicker :: "string \<Rightarrow> bool \<Rightarrow> room_option list" where
  "RoomTypePicker field disabled =
     map (\<lambda>v. case the (ROOM_TYPE_OPTIONS v) of (label, sub) \<Rightarrow>
       \<lparr>ro_label = label, ro_sub = sub, ro_selected = (field = v), ro_disabled = disabled, ro_onClick = v\<rparr>) ROOM_TYPES"

text \<open>An empty field is no date; a date that is picked is the start of its day in UTC (\<^verbatim>\<open>valueAsDate\<close>).\<close>

definition date_field_text :: "('d \<Rightarrow> string) \<Rightarrow> 'd option \<Rightarrow> string" where
  "date_field_text format field = (case field of None \<Rightarrow> [] | Some d \<Rightarrow> format d)"

definition date_field_onChange :: "int option \<Rightarrow> int option" where
  "date_field_onChange picked_day = map_option (\<lambda>day. day * DAY_MS) picked_day"

record reservation_form_view =
  rf_rooms :: "room_option list"
  rf_checkIn :: string
  rf_checkOut :: string
  rf_nights :: "string option"
  rf_guestCount :: int
  rf_minusDisabled :: bool
  rf_submitDisabled :: bool
  rf_submit :: string
  rf_errors :: "string option list"

text \<open>
  The values that the form watches: the room type, the guest count (one while it has none) and the two
  dates; \<open>errors\<close> are the messages of the form library by field, \<open>diff\<close> and \<open>format\<close> the date library's.
\<close>

definition reservation_form ::
  "(int \<Rightarrow> int \<Rightarrow> int) \<Rightarrow> (int \<Rightarrow> string) \<Rightarrow> (string \<rightharpoonup> string) \<Rightarrow> string \<Rightarrow> int option \<Rightarrow> int option \<Rightarrow> int option \<Rightarrow> bool \<Rightarrow> reservation_form_view" where
  "reservation_form diff format errors room_type guest_count checkIn checkOut isSubmitting =
     (let guestCount = nullish guest_count 1
      in \<lparr>rf_rooms = RoomTypePicker room_type isSubmitting,
          rf_checkIn = date_field_text format checkIn,
          rf_checkOut = date_field_text format checkOut,
          rf_nights = map_option (\<lambda>n. show_int n @ ''n'') (reservation_nights diff checkIn checkOut),
          rf_guestCount = guestCount,
          rf_minusDisabled = stepper_minus_disabled isSubmitting guestCount,
          rf_submitDisabled = isSubmitting,
          rf_submit = reservation_button diff isSubmitting checkIn checkOut,
          rf_errors = map errors [''check_in_date'', ''check_out_date'', ''guest_count'']\<rparr>)"

section \<open>Chat (chat-thread.tsx, chat-message.tsx)\<close>

datatype chat_bubble =
    ParrotBubble "string option" string
  | GuestBubble "string option" "string option"
  | ThinkingBubble string string
  | ErrorBubble string bool

definition ChatMessage :: "ChatHistoryMessage \<Rightarrow> GuestProfile option \<Rightarrow> chat_bubble" where
  "ChatMessage message guest =
     (if cm_role message = ''assistant'' then ParrotBubble (cm_content message) ''Island Parrot''
      else GuestBubble (cm_content message) (map_option (\<lambda>g. getInitials (Some g)) guest))"

definition ChatThinkingMessage :: "GuestProfile option \<Rightarrow> chat_bubble" where
  "ChatThinkingMessage guest =
     ThinkingBubble ''The parrot is thinking'' (if guest \<noteq> None then ''Island Parrot'' else ''Assistant'')"

text \<open>A thread item as its bubble; the error's bubble carries whether its retry button is disabled.\<close>

fun thread_bubble :: "GuestProfile option \<Rightarrow> bool \<Rightarrow> ParrotThreadItem \<Rightarrow> chat_bubble" where
  "thread_bubble guest isSending (MessageItem key message) = ChatMessage message guest"
| "thread_bubble guest isSending (ThinkingItem key) = ChatThinkingMessage guest"
| "thread_bubble guest isSending (ErrorItem key message error) = ErrorBubble error isSending"

definition thread_bubbles :: "GuestProfile option \<Rightarrow> ParrotThreadItem list \<Rightarrow> bool \<Rightarrow> chat_bubble list" where
  "thread_bubbles guest items isSending = map (thread_bubble guest isSending) items"

section \<open>The payloads of the parrot's tools (parrot-tool-row.tsx)\<close>

definition prettyJson :: "(rat \<Rightarrow> string) \<Rightarrow> (string \<Rightarrow> jsnum) \<Rightarrow> string \<Rightarrow> string" where
  "prettyJson numstr numval raw =
     (case JSON_parse numval raw of None \<Rightarrow> raw | Some v \<Rightarrow> nullish (JSON_indent numstr [] v) [])"

datatype tool_variant = ToolCall | ToolResult

record tool_row =
  tw_name :: string
  tw_verb :: string
  tw_payload :: string

definition ParrotToolRow :: "(rat \<Rightarrow> string) \<Rightarrow> (string \<Rightarrow> jsnum) \<Rightarrow> tool_variant \<Rightarrow> string \<Rightarrow> string \<Rightarrow> tool_row" where
  "ParrotToolRow numstr numval variant name payload =
     \<lparr>tw_name = name, tw_verb = (case variant of ToolCall \<Rightarrow> ''called'' | ToolResult \<Rightarrow> ''returned''),
      tw_payload = prettyJson numstr numval payload\<rparr>"

section \<open>Small cards (arrival-form-result.tsx, connection-status.tsx, octopus-oracle-marker.tsx, goat-farm-popup.tsx)\<close>

definition arrival_form_result :: "(rat \<Rightarrow> string) \<Rightarrow> jsobj \<Rightarrow> string \<times> string \<times> string" where
  "arrival_form_result numstr result =
     (''Queued'', ''Gate '' @ nullish (as_string (jget result ''gate'')) [],
      ''Position #'' @ js_String numstr (jget result ''position'') @ '' of '' @ js_String numstr (jget result ''queue_size''))"

fun connection_label :: "ConnectionStatus \<Rightarrow> string" where
  "connection_label Connected = ''Live''"
| "connection_label Reconnecting = ''Reconnecting'' @ dots"
| "connection_label Dropped = ''Offline''"

definition ORACLE_MARKER_POSITION :: "rat \<times> rat" where "ORACLE_MARKER_POSITION = (2850, 185)"

definition oracle_marker :: "rat \<Rightarrow> rat \<Rightarrow> rat \<times> rat \<times> rat" where
  "oracle_marker mapW mapH =
     (let scaleX = round64 (mapW / MAP_W);
          scaleY = round64 (mapH / MAP_H);
          scale = min scaleX scaleY
      in (round64 (fst ORACLE_MARKER_POSITION * scaleX), round64 (snd ORACLE_MARKER_POSITION * scaleY),
          max 230 (round64 (480 * scale))))"

record shelf_row_view =
  sh_name :: string
  sh_available :: string
  sh_width :: "rat option"
  sh_cheese :: bool
  sh_button :: button

text \<open>The width of the bar in per cent; none for an item whose shelf has no places (zero by zero).\<close>

definition shelf_width :: "goat_item \<Rightarrow> rat option" where
  "shelf_width item =
     (if gi_max_stock item = 0 then (if gi_stock item = 0 then None else Some (if gi_stock item < 0 then 0 else 100))
      else Some (max 0 (min 100 (round64 (round64 (of_int (gi_stock item) / of_int (gi_max_stock item)) * 100)))))"

definition shelf_row :: "GuestProfile option \<Rightarrow> bool \<Rightarrow> goat_item \<Rightarrow> shelf_row_view" where
  "shelf_row guest isPurchasing item =
     \<lparr>sh_name = gi_name item,
      sh_available = show_int (gi_stock item) @ '' of '' @ show_int (gi_max_stock item) @ '' available'',
      sh_width = shelf_width item,
      sh_cheese = (gi_id item = ''goat_cheese''),
      sh_button = goat_buy_button guest isPurchasing item\<rparr>"

record shelf_page =
  sv_restock :: string
  sv_loading :: bool
  sv_error :: "string option"
  sv_rows :: "shelf_row_view list"
  sv_needGuest :: bool

definition shelf_view :: "goat_popup \<Rightarrow> GuestProfile option \<Rightarrow> bool \<Rightarrow> string option \<Rightarrow> goat_item list option \<Rightarrow> bool \<Rightarrow> shelf_page option" where
  "shelf_view popup guest isLoading stockError items isPurchasing =
     (if \<not> gf_open popup then None
      else Some \<lparr>sv_restock = ''Restock in '' @ restock_label popup, sv_loading = isLoading, sv_error = stockError,
        sv_rows = map (shelf_row guest isPurchasing) (nullish items []), sv_needGuest = (guest = None)\<rparr>)"

section \<open>Times (format.ts)\<close>

text \<open>The date library's own printing is a parameter; the second argument is milliseconds.\<close>

definition formatTime :: "(string \<Rightarrow> 'd) \<Rightarrow> ('d \<Rightarrow> string \<Rightarrow> string) \<Rightarrow> string \<Rightarrow> string" where
  "formatTime new_Date format isoText = format (new_Date isoText) ''HH:mm:ss''"

definition formatRelativeFromEpoch :: "(rat \<Rightarrow> string) \<Rightarrow> rat \<Rightarrow> string" where
  "formatRelativeFromEpoch formatDistanceToNow epochSeconds = formatDistanceToNow (round64 (epochSeconds * 1000))"

section \<open>The marker of a zone (zone-indicator.tsx)\<close>

record marker_view =
  mv_left :: rat
  mv_top :: rat
  mv_size :: rat
  mv_scale :: rat
  mv_label :: string
  mv_accent :: string
  mv_locked :: bool
  mv_active :: bool
  mv_onClick :: ZoneId

definition ZoneIndicator :: "rat \<Rightarrow> rat \<Rightarrow> ZoneId \<Rightarrow> panel_data \<Rightarrow> bool \<Rightarrow> marker_view" where
  "ZoneIndicator mapW mapH zone d isActive =
     (case marker_box mapW mapH zone of (x, y, radius) \<Rightarrow>
        \<lparr>mv_left = round64 (x - radius), mv_top = round64 (y - radius), mv_size = round64 (radius * 2),
         mv_scale = round64 (zn_markerScale (getZone zone)), mv_label = zn_label (getZone zone), mv_accent = zn_accent (getZone zone),
         mv_locked = zone_locked zone d, mv_active = isActive, mv_onClick = zone\<rparr>)"

section \<open>The form that adds an activity (add-activity-form.tsx)\<close>

text \<open>The form, whether its mutation runs, and the bodies handed to it, newest first.\<close>

record add_activity =
  aa_form :: activity_form
  aa_isCreating :: bool
  aa_created :: "jsval list"

datatype add_activity_event =
    TypeActivityId string
  | TypeActivityCapacity string
  | TypeActivityName string
  | TypeActivityDescription string
  | SubmitActivity
  | ActivityCreated
  | ActivityRefused

definition add_activity_edit :: "(activity_form \<Rightarrow> activity_form) \<Rightarrow> add_activity \<Rightarrow> add_activity" where
  "add_activity_edit f s = (if aa_isCreating s then s else s\<lparr>aa_form := f (aa_form s)\<rparr>)"

fun add_activity_step :: "(string \<Rightarrow> jsnum) \<Rightarrow> add_activity \<Rightarrow> add_activity_event \<Rightarrow> add_activity" where
  "add_activity_step N s (TypeActivityId t) = add_activity_edit (\<lambda>f. f\<lparr>af_id := t\<rparr>) s"
| "add_activity_step N s (TypeActivityCapacity t) = add_activity_edit (\<lambda>f. f\<lparr>af_capacity := t\<rparr>) s"
| "add_activity_step N s (TypeActivityName t) = add_activity_edit (\<lambda>f. f\<lparr>af_name := t\<rparr>) s"
| "add_activity_step N s (TypeActivityDescription t) = add_activity_edit (\<lambda>f. f\<lparr>af_description := t\<rparr>) s"
| "add_activity_step N s SubmitActivity =
     (if aa_isCreating s then s
      else case activity_handleSubmit N (aa_form s) of
        None \<Rightarrow> s
      | Some body \<Rightarrow> s\<lparr>aa_isCreating := True, aa_created := body # aa_created s\<rparr>)"
| "add_activity_step N s ActivityCreated =
     (if aa_isCreating s then s\<lparr>aa_isCreating := False, aa_form := EMPTY_FORM\<rparr> else s)"
| "add_activity_step N s ActivityRefused = (if aa_isCreating s then s\<lparr>aa_isCreating := False\<rparr> else s)"

definition add_activity_button :: "add_activity \<Rightarrow> button" where
  "add_activity_button s =
     \<lparr>bt_disabled = aa_isCreating s, bt_label = Some (if aa_isCreating s then ''Adding...'' else ''Add activity'')\<rparr>"

definition initial_add_activity :: add_activity where
  "initial_add_activity = \<lparr>aa_form = EMPTY_FORM, aa_isCreating = False, aa_created = []\<rparr>"

text \<open>While an activity is being created the form is the one it was made of, so a refused one can be sent again.\<close>

definition add_activity_inv :: "(string \<Rightarrow> jsnum) \<Rightarrow> add_activity \<Rightarrow> bool" where
  "add_activity_inv N s =
     (list_all (\<lambda>body. \<exists>form. activity_handleSubmit N form = Some body) (aa_created s) \<and>
      (aa_isCreating s \<longrightarrow> aa_created s \<noteq> [] \<and> activity_handleSubmit N (aa_form s) = Some (hd (aa_created s))))"

lemma add_activity_step_inv: "add_activity_inv N s \<Longrightarrow> add_activity_inv N (add_activity_step N s e)"
  by (cases e) (auto simp: add_activity_inv_def add_activity_edit_def split: option.splits)

interpretation add_activity: machine_invariant "add_activity_step N" "add_activity_inv N" for N
  by unfold_locales (rule add_activity_step_inv)

lemma refused_activity_resent:
  assumes "s = run (add_activity_step N) initial_add_activity es" "aa_isCreating s"
  shows "aa_created (run (add_activity_step N) s [ActivityRefused, SubmitActivity]) = hd (aa_created s) # aa_created s"
  using add_activity.run_inv [of N initial_add_activity es] assms
  by (simp add: add_activity_inv_def initial_add_activity_def)

section \<open>Facts\<close>

text \<open>The picker offers each room type once and marks exactly the chosen one.\<close>

lemma picker_types: "map ro_onClick (RoomTypePicker field disabled) = ROOM_TYPES"
  by (simp add: RoomTypePicker_def comp_def case_prod_beta)

lemma picker_one_selected:
  "field \<in> set ROOM_TYPES \<Longrightarrow> map ro_onClick (filter ro_selected (RoomTypePicker field disabled)) = [field]"
  by (auto simp: RoomTypePicker_def ROOM_TYPES_def ROOM_TYPE_OPTIONS_def)

text \<open>A reservation that the schema has read has every field the cards print.\<close>

lemma z_int_integer: "zod_reads z_int v = Some w \<Longrightarrow> \<exists>i. as_integer w = Some i"
  by (cases v) (auto simp: z_int_def split: if_splits elim!: is_safe_int.elims)

lemma reservation_typed:
  assumes "zod_reads ReservationSchema v = Some (JObj ob)"
  shows "\<exists>r. reservation_of ob = Some r \<and> rv_room_type r \<in> set ROOM_TYPES \<and> rv_status r \<in> {''CONFIRMED'', ''CANCELLED''}"
proof -
  let ?F = "[(''id'', ZString []), (''guest_id'', ZString []), (''room_id'', ZString []), (''room_type'', RoomTypeSchema),
      (''guest_count'', z_int), (''check_in_day'', z_int), (''check_out_day'', z_int), (''status'', ReservationStatusSchema)]"
  have d: "distinct (map fst ?F)" by simp
  obtain ob0 where f: "\<And>k s. (k, s) \<in> set ?F \<Longrightarrow> has_key k ob0 \<Longrightarrow> zod_reads s (jget ob0 k) = Some (jget ob k)"
    "\<And>k s. (k, s) \<in> set ?F \<Longrightarrow> \<not> has_key k ob0 \<Longrightarrow> zod_reads s JUndefined \<noteq> None \<and> jget ob k = JUndefined"
    by (rule zod_reads_ObjectE [OF assms [unfolded ReservationSchema_def] d]) auto
  have read: "\<exists>u. zod_reads s u = Some (jget ob k)" if "(k, s) \<in> set ?F" "zod_reads s JUndefined = None" for k s
    using f [OF that(1)] that(2) by blast
  have str: "\<exists>t. jget ob k = JStr t" if "(k, ZString []) \<in> set ?F" for k
  proof -
    from read [OF that] obtain u where "zod_reads (ZString []) u = Some (jget ob k)" by auto
    then show ?thesis by (cases u) (auto split: if_splits dest: sym)
  qed
  have int: "\<exists>i. as_integer (jget ob k) = Some i" if "(k, z_int) \<in> set ?F" for k
  proof -
    from read [OF that] obtain u where "zod_reads z_int u = Some (jget ob k)" by (auto simp: z_int_def)
    then show ?thesis by (rule z_int_integer)
  qed
  have ty: "\<exists>t \<in> set ROOM_TYPES. jget ob ''room_type'' = JStr t"
  proof -
    from read [of "''room_type''" RoomTypeSchema] obtain u where "zod_reads RoomTypeSchema u = Some (jget ob ''room_type'')"
      by (auto simp: RoomTypeSchema_def)
    then show ?thesis by (cases u) (auto simp: RoomTypeSchema_def split: if_splits dest: sym)
  qed
  have st: "\<exists>t \<in> {''CONFIRMED'', ''CANCELLED''}. jget ob ''status'' = JStr t"
  proof -
    from read [of "''status''" ReservationStatusSchema] obtain u where "zod_reads ReservationStatusSchema u = Some (jget ob ''status'')"
      by (auto simp: ReservationStatusSchema_def)
    then show ?thesis by (cases u) (auto simp: ReservationStatusSchema_def split: if_splits dest: sym)
  qed
  from str [of "''id''"] str [of "''guest_id''"] str [of "''room_id''"] int [of "''guest_count''"] int [of "''check_in_day''"]
    int [of "''check_out_day''"] ty st show ?thesis by (auto simp: reservation_of_def)
qed

text \<open>The bar of the shelf stays between nothing and full.\<close>

lemma shelf_width_bounds: "shelf_width item = Some w \<Longrightarrow> 0 \<le> w \<and> w \<le> 100"
  by (auto simp: shelf_width_def split: if_splits)

text \<open>A row of the shelf that can be clicked has something to sell and somebody to sell it to.\<close>

lemma shelf_row_enabled:
  "\<not> bt_disabled (sh_button (shelf_row guest isPurchasing item)) \<longleftrightarrow> guest \<noteq> None \<and> 0 < gi_stock item \<and> \<not> isPurchasing"
  by (auto simp: shelf_row_def goat_buy_button_def Let_def)

text \<open>In the thread of a chat the retry button is there exactly for a failed turn of the guest who is chatting.\<close>

lemma no_error_bubble: "ErrorBubble e b \<notin> set (map (thread_bubble guest sending) (map (\<lambda>(i, m). MessageItem (k m i) m) ms))"
  by (auto simp: ChatMessage_def split: if_splits)

lemma error_bubble_iff:
  "ErrorBubble e b \<in> set (thread_bubbles guest (threadItems s) isSending) \<longleftrightarrow>
     b = isSending \<and> (\<exists>turn. pc_failed s = Some turn \<and> Some (pt_guestId turn) = participantId s \<and> ft_error turn = e)"
proof -
  have "ErrorBubble e b \<notin> set (thread_bubbles guest (pending_items s) isSending)"
    by (auto simp: thread_bubbles_def pending_items_def ChatMessage_def ChatThinkingMessage_def split: option.splits if_splits)
  moreover have "ErrorBubble e b \<in> set (thread_bubbles guest (failed_items s) isSending) \<longleftrightarrow>
      b = isSending \<and> (\<exists>turn. pc_failed s = Some turn \<and> Some (pt_guestId turn) = participantId s \<and> ft_error turn = e)"
  proof (cases "pc_failed s")
    case (Some turn)
    have "ChatMessage (user_message t) guest \<noteq> ErrorBubble e b" for t by (simp add: ChatMessage_def)
    with Some show ?thesis
      by (cases "Some (pt_guestId turn) = participantId s") (auto simp: thread_bubbles_def failed_items_def dest: sym)
  qed (simp add: thread_bubbles_def failed_items_def)
  ultimately show ?thesis
    using no_error_bubble [of e b guest isSending getMessageKey "enumerate 0 (history_messages s)"]
    by (simp add: thread_bubbles_def threadItems_def)
qed

subsection \<open>Dates\<close>

text \<open>
  Days of a place whose clocks are \<open>off\<close> milliseconds ahead of UTC: the date library prints and counts in
  these, while the field hands over the start of the picked day in UTC.
\<close>

definition local_day :: "int \<Rightarrow> int \<Rightarrow> int" where
  "local_day off ms = (ms + off) div DAY_MS"

lemma picked_day_east: "0 \<le> off \<Longrightarrow> off < DAY_MS \<Longrightarrow> map_option (local_day off) (date_field_onChange (Some day)) = Some day"
  by (simp add: date_field_onChange_def local_day_def DAY_MS_def)

lemma picked_day_west:
  assumes "- DAY_MS \<le> off" "off < 0"
  shows "map_option (local_day off) (date_field_onChange (Some day)) = Some (day - 1)"
proof -
  have "(day * DAY_MS + off) div DAY_MS = (off + DAY_MS + (day - 1) * DAY_MS) div DAY_MS" by (simp add: algebra_simps)
  also have "\<dots> = (off + DAY_MS) div DAY_MS + (day - 1)" by (simp add: DAY_MS_def)
  also have "(off + DAY_MS) div DAY_MS = 0" using assms by (intro div_pos_pos_trivial) simp_all
  finally show ?thesis by (simp add: date_field_onChange_def local_day_def)
qed

text \<open>
  The nights on the badge are full days between two instants, those that are booked are the days between
  two dates: the badge can show one night less than will be booked, never more.
\<close>

lemma nights_shown_and_booked:
  assumes "reservation_nights utc_differenceInDays (Some checkIn) (Some checkOut) = Some n"
  shows "n \<le> utc_day checkOut - utc_day checkIn \<and> utc_day checkOut - utc_day checkIn \<le> n + 1"
proof -
  have "checkIn < checkOut" and n: "n = (checkOut - checkIn) div 86400000"
    using assms by (auto simp: reservation_nights_def utc_differenceInDays_def DAY_MS_def split: if_splits)
  then show ?thesis unfolding utc_day_def DAY_MS_def n by linarith
qed

lemma nights_missing:
  "reservation_nights utc_differenceInDays (Some (DAY_MS - 1)) (Some DAY_MS) = Some 0 \<and> utc_day DAY_MS - utc_day (DAY_MS - 1) = 1"
  by (simp add: reservation_nights_def utc_differenceInDays_def utc_day_def DAY_MS_def)

section \<open>Properties\<close>



end
