(* ===== verification/Island_Booking.thy ===== *)
theory Island_Booking
  imports Island Ui_App_Props Ui_Cache Ui_Cards
begin

text \<open>
  A booking from the form of the web application to the tables of the hotel and back to the panel: the
  form's values, the mutation of the hook, the request, the hotel's routes, decoding and service, the
  schema that reads the answer, the cache and what the panel shows then.
\<close>

section \<open>The pieces\<close>

definition form_dto :: "(int \<Rightarrow> int) \<Rightarrow> ReservationFormValues \<Rightarrow> RoomType \<Rightarrow> GuestProfile \<Rightarrow> CreateReservationDto" where
  "form_dto day_of values ty g =
     \<lparr>dto_guest_id = gp_id g, dto_room_type = ty, dto_guest_count = fv_guest_count values, dto_party_guest_ids = None,
      dto_check_in_day = day_of (fv_check_in_date values), dto_check_out_day = day_of (fv_check_out_date values)\<rparr>"

definition form_request :: "(int \<Rightarrow> int) \<Rightarrow> ReservationFormValues \<Rightarrow> GuestProfile \<Rightarrow> api_request" where
  "form_request day_of values g = postReservation (formToRequest day_of values (gp_id g))"

text \<open>The numbers of the form that the validation library takes for integers.\<close>

definition safe_form :: "(int \<Rightarrow> int) \<Rightarrow> ReservationFormValues \<Rightarrow> bool" where
  "safe_form day_of values =
     list_all (\<lambda>n. \<bar>n\<bar> \<le> 9007199254740991)
       [fv_guest_count values, day_of (fv_check_in_date values), day_of (fv_check_out_date values)]"

text \<open>The application's HTTP layer, with the hotel behind it.\<close>

definition send_to_hotel ::
  "(zschema \<Rightarrow> jsval \<Rightarrow> zresult) \<Rightarrow> (rat \<Rightarrow> string) \<Rightarrow> string \<Rightarrow> 'db prisma_client \<Rightarrow> hotel_server \<Rightarrow> 'db
    \<Rightarrow> api_request \<Rightarrow> api_error + jsval" where
  "send_to_hotel sp numstr gatewayUrl P srv db =
     api_send sp numstr (\<lambda>_ cfg. snd (snd (hotel_serve P srv cfg db))) gatewayUrl"

text \<open>A reservation as the application keeps it, and the words of a refusal.\<close>

definition shown_reservation :: "ReservationResponseDto \<Rightarrow> jsval" where
  "shown_reservation r = JObj (filter (\<lambda>kv. fst kv \<noteq> ''party_guest_ids'') (reservation_json r))"

fun hotel_words :: "hotel_error \<Rightarrow> string" where
  "hotel_words (HttpException status msg) = msg"
| "hotel_words Unhandled = ''Internal server error''"

section \<open>Facts\<close>

lemma create_words: "create P rt store dto db = (db', fx, Inl e) \<Longrightarrow> hotel_words e \<noteq> []"
  by (auto simp: create_def rejectIfGuestHasNotClearedAirport_def select_room_def confirm_reservation_def
      bindE_Inl db_call_def map_sum_def Let_def split: if_splits sum.splits prod.splits option.splits)

lemma form_decoded:
  assumes "ReservationFormSchema values" "fv_room_type values = room_type_str ty"
  shows "decode_dto N (ax_data (aq_config (form_request day_of values g))) = Some (form_dto day_of values ty g)"
  using assms by (simp add: form_request_def postReservation_def api_post_def formToRequest_def decode_form
      ReservationFormSchema_def form_dto_def)

lemma form_served:
  assumes "ReservationFormSchema values" "fv_room_type values = room_type_str ty"
  shows "hotel_serve P srv (aq_config (form_request day_of values g)) db =
    (case create P (hs_runtime srv) (hs_store srv) (form_dto day_of values ty g) db of
       (db', fx, r) \<Rightarrow> (db', fx, answer_of (respond Reserved r)))"
  using form_decoded [OF assms, of "hs_Number_of srv" day_of g]
  by (simp add: hotel_serve_def form_request_def route_post controller_def reservation_controller_def split: prod.split)

lemma created_safe:
  assumes "prisma P content id_le" "create P rt store (form_dto day_of values ty g) db = (db', fx, Inr r)" "safe_form day_of values"
  shows "safe_days r"
  using prisma.create_Inr [OF assms(1,2)] assms(3)
  by (auto simp: safe_days_def safe_form_def reservation_dto_def row_of_def new_reservation_def form_dto_def)

context zod
begin

lemma send_served:
  assumes "snd (snd (hotel_serve P srv (aq_config req) db)) = Inr data" "zod_reads (aq_schema req) data = Some v"
  shows "send_to_hotel safeParse numstr gw P srv db req = Inr v"
  using assms parse_success_iff [of "aq_schema req" data v] by (simp add: send_to_hotel_def api_send_def)

lemma send_refused:
  assumes "snd (snd (hotel_serve P srv (aq_config req) db)) = answer_of (Refused e)" "hotel_words e \<noteq> []"
  shows "send_to_hotel safeParse numstr gw P srv db req = Inl (ApiError (hotel_words e))"
  using assms by (cases e) (simp_all add: send_to_hotel_def api_send_def failed_request_def first_field_def non_empty_def)

end

section \<open>What the user sees\<close>

lemma guest_panel:
  assumes "pd_session d = guestSessionState g" "useLanded (pd_arrival d)" "\<not> pd_isLoadingReservation d"
  shows "HotelPanel d = (case pd_reservation d of Some r \<Rightarrow> [ActiveReservationCard r (pd_isCancelling d)]
    | None \<Rightarrow> ReservationForm (pd_isReserving d) # (case pd_confirmed d of None \<Rightarrow> [] | Some c \<Rightarrow> [ReservationResult c]))"
  using assms by (simp add: HotelPanel_def useIsAdmin_def useGuest_def guestSessionState_def)

text \<open>What makes a request bookable: a night, no objection of the airport, a room that suits.\<close>

definition bookable :: "runtime \<Rightarrow> string option \<Rightarrow> tables \<Rightarrow> CreateReservationDto \<Rightarrow> bool" where
  "bookable rt store t dto =
     (dto_check_in_day dto < dto_check_out_day dto \<and>
      fst (hasGuestClearedProcessing rt store (dto_guest_id dto)) \<noteq> Some False \<and> (\<exists>m \<in> set (tb_rooms t). suits t dto m))"

lemma create_bookable:
  assumes "prisma_up P content id_le" "dto_party_guest_ids dto = None" "bookable rt store (content db) dto"
  shows "\<exists>db' fx m k. create P rt store dto db = (db', fx, Inr (reservation_dto (row_of k (new_reservation dto m)) (dto_room_type dto) [])) \<and>
    suits (content db) dto m \<and> content db' = insert_row (row_of k (new_reservation dto m)) [] (content db)"
proof -
  have P: "prisma P content id_le" using assms(1) by (simp add: prisma_up_def)
  obtain m0 where m0: "dto_check_in_day dto < dto_check_out_day dto"
    "fst (hasGuestClearedProcessing rt store (dto_guest_id dto)) \<noteq> Some False" "m0 \<in> set (tb_rooms (content db))" "suits (content db) dto m0"
    using assms(3) by (auto simp: bookable_def)
  obtain db' fx r where c: "create P rt store dto db = (db', fx, Inr r)"
    using prisma_up.create_complete_up [OF assms(1) m0(1,2) _ m0(4)] assms(2) by auto
  from prisma.create_Inr [OF P c] obtain m k where m: "select_room P db dto = Inr m"
    and r: "content db' = insert_row (row_of k (new_reservation dto m)) [] (content db)"
      "r = reservation_dto (row_of k (new_reservation dto m)) (rm_type m) []"
    using assms(2) by auto
  from prisma.select_room_Inr [OF P m] have "suits (content db) dto m" by simp
  with c r show ?thesis by (auto simp: suits_def)
qed

lemma create_not_bookable:
  assumes "prisma P content id_le" "\<not> bookable rt store (content db) dto"
  shows "\<exists>fx e. create P rt store dto db = (db, fx, Inl e) \<and> hotel_words e \<noteq> []"
proof -
  obtain db' fx res where c: "create P rt store dto db = (db', fx, res)" by (cases "create P rt store dto db")
  show ?thesis
  proof (cases res)
    case (Inl e)
    with c have i: "create P rt store dto db = (db', fx, Inl e)" by simp
    with prisma.create_Inl [OF assms(1) i] create_words [OF i] show ?thesis by simp
  next
    case (Inr r)
    with c have "create P rt store dto db = (db', fx, Inr r)" by simp
    from prisma.create_Inr [OF assms(1) this] obtain m where
      c: "dto_check_in_day dto < dto_check_out_day dto" "fst (hasGuestClearedProcessing rt store (dto_guest_id dto)) \<noteq> Some False"
      and m: "select_room P db dto = Inr m" by blast
    from c prisma.select_room_Inr [OF assms(1) m] assms(2) show ?thesis by (auto simp: bookable_def suits_def)
  qed
qed

section \<open>Submitting the form\<close>

text \<open>
  One submission: the mutation of the hook runs, the hotel serves the request it sent, and the effects
  reach the cache. The result is the cache, the hotel's database and the effects.
\<close>

definition submit_form ::
  "'c query_ops \<Rightarrow> (zschema \<Rightarrow> jsval \<Rightarrow> zresult) \<Rightarrow> (zissue list \<Rightarrow> string) \<Rightarrow> (rat \<Rightarrow> string) \<Rightarrow> string \<Rightarrow> (int \<Rightarrow> int)
    \<Rightarrow> 'db prisma_client \<Rightarrow> hotel_server \<Rightarrow> GuestProfile \<Rightarrow> ReservationFormValues \<Rightarrow> 'c \<Rightarrow> 'db \<Rightarrow> 'c \<times> 'db \<times> ui_effect list" where
  "submit_form Q sp zod_text numstr gw day_of P srv g values cache db =
     (case mutate zod_text (send_to_hotel sp numstr gw P srv db) (useReservationForm day_of (Some g)) values of
        (req, effects) \<Rightarrow>
          (run_effects Q cache effects,
           case req of None \<Rightarrow> db | Some r \<Rightarrow> fst (hotel_serve P srv (aq_config r) db),
           effects))"

lemma submit_served:
  assumes "zod sp" "ReservationFormSchema values" "fv_room_type values = room_type_str ty"
    and "create P (hs_runtime srv) (hs_store srv) (form_dto day_of values ty g) db = (db', fx, Inr r)" "safe_days r"
  shows "submit_form Q sp zod_text numstr gw day_of P srv g values cache db =
    (let effects = mh_onSuccess (useReservationForm day_of (Some g)) (shown_reservation r)
     in (run_effects Q cache effects, db', effects))"
proof -
  have served: "hotel_serve P srv (aq_config (form_request day_of values g)) db = (db', fx, Inr (JObj (reservation_json r)))"
    using form_served [OF assms(2,3), of P srv day_of g db] assms(4) by (simp add: respond_def)
  have "zod_reads (aq_schema (form_request day_of values g)) (JObj (reservation_json r)) = Some (shown_reservation r)"
    using reservation_accepted [OF assms(5)] by (simp add: form_request_def postReservation_def api_post_def shown_reservation_def)
  with served have "send_to_hotel sp numstr gw P srv db (form_request day_of values g) = Inr (shown_reservation r)"
    by (intro zod.send_served [OF assms(1)]) simp_all
  with served show ?thesis by (simp add: submit_form_def mutate_def useReservationForm_def form_request_def)
qed

lemma submit_refused:
  assumes "zod sp" "ReservationFormSchema values" "fv_room_type values = room_type_str ty"
    and "create P (hs_runtime srv) (hs_store srv) (form_dto day_of values ty g) db = (db', fx, Inl e)"
  shows "submit_form Q sp zod_text numstr gw day_of P srv g values cache db = (cache, db', [ToastError (hotel_words e)])"
proof -
  have served: "hotel_serve P srv (aq_config (form_request day_of values g)) db = (db', fx, answer_of (Refused e))"
    using form_served [OF assms(2,3), of P srv day_of g db] assms(4) by (simp add: respond_def)
  then have "send_to_hotel sp numstr gw P srv db (form_request day_of values g) = Inl (ApiError (hotel_words e))"
    by (intro zod.send_refused [OF assms(1)]) (simp_all add: create_words [OF assms(4)])
  with served show ?thesis
    by (simp add: submit_form_def mutate_def useReservationForm_def form_request_def toast_error_def)
qed


definition desk :: hotel_server where
  "desk = \<lparr>hs_Number_of = (\<lambda>_. NaN), hs_refusal = (\<lambda>_. []), hs_runtime = quiet, hs_store = None, hs_day = None\<rparr>"

definition two_nights :: ReservationFormValues where
  "two_nights = \<lparr>fv_room_type = ''SUITE'', fv_guest_count = 2, fv_check_in_date = 3, fv_check_out_date = 5\<rparr>"

abbreviation two_nights_dto :: CreateReservationDto where
  "two_nights_dto \<equiv> form_dto id two_nights SUITE sample_guest"

lemma two_nights_bookable: "bookable quiet None inn two_nights_dto"
proof -
  have "suits inn two_nights_dto (seed_room ''room-suite-'' SUITE 4 400 0)" by code_simp
  moreover have "dto_check_in_day two_nights_dto < dto_check_out_day two_nights_dto" by code_simp
  moreover have "fst (hasGuestClearedProcessing quiet None (dto_guest_id two_nights_dto)) \<noteq> Some False"
    by (simp add: hasGuestClearedProcessing_def quiet_def)
  ultimately show ?thesis unfolding bookable_def by (auto simp: suits_def)
qed


text \<open>
  The card then prints the row that the hotel has written: its room, its days, its type and its guests.
\<close>

lemma shown_reservation_read:
  "shown_reservation r = JObj ob \<Longrightarrow> reservation_of ob = Some
     \<lparr>rv_id = rr_id r, rv_guest_id = rr_guest_id r, rv_room_id = rr_room_id r, rv_room_type = room_type_str (rr_room_type r),
      rv_guest_count = rr_guest_count r, rv_check_in_day = rr_check_in_day r, rv_check_out_day = rr_check_out_day r,
      rv_status = status_str (rr_status r)\<rparr>"
  by (auto simp: shown_reservation_def reservation_json_def reservation_of_def jint_def)

lemma booked_card:
  assumes "shown_reservation (reservation_dto (row_of k (new_reservation dto m)) ty []) = JObj ob" "reservation_of ob = Some r"
  shows "ps_title (active_reservation_card toDate format r isCancelling) = rm_id m \<and>
    map pf_value (ps_fields (active_reservation_card toDate format r isCancelling)) =
      [format (toDate (dto_check_in_day dto)), format (toDate (dto_check_out_day dto)), formatRoomType (room_type_str ty),
       show_int (dto_guest_count dto) @ '' guest'' @ (if dto_guest_count dto \<noteq> 1 then ''s'' else [])]"
proof -
  from shown_reservation_read [OF assms(1)] assms(2) have
    "rv_room_id r = rm_id m" "rv_room_type r = room_type_str ty" "rv_guest_count r = dto_guest_count dto"
    "rv_check_in_day r = dto_check_in_day dto" "rv_check_out_day r = dto_check_out_day dto"
    by (auto simp: reservation_dto_def row_of_def new_reservation_def)
  then show ?thesis by (simp add: active_reservation_card_def ReservationFields_def)
qed

text \<open>
  The form compares instants, the hotel days: two times of one day pass the form's schema, and the hotel
  then refuses the stay.
\<close>

lemma same_day_refused:
  assumes "day_of (fv_check_in_date values) = day_of (fv_check_out_date values)"
  shows "\<not> bookable rt store t (form_dto day_of values ty g)"
  using assms by (simp add: bookable_def form_dto_def)

lemma same_day_accepted_by_form:
  "ReservationFormSchema \<lparr>fv_room_type = ''SUITE'', fv_guest_count = 1, fv_check_in_date = 0, fv_check_out_date = 36000000\<rparr> \<and>
   utc_day 0 = utc_day 36000000"
  by (simp add: ReservationFormSchema_def ROOM_TYPES_def utc_day_def DAY_MS_def)

section \<open>Cancelling from the card\<close>

text \<open>
  The cancel button of the card: the mutation is started and the confirmation is reset, then the hotel
  answers. The effects come in that order.
\<close>

definition cancel_from_card ::
  "'c query_ops \<Rightarrow> (zschema \<Rightarrow> jsval \<Rightarrow> zresult) \<Rightarrow> (zissue list \<Rightarrow> string) \<Rightarrow> (rat \<Rightarrow> string) \<Rightarrow> string
    \<Rightarrow> 'db prisma_client \<Rightarrow> hotel_server \<Rightarrow> GuestProfile \<Rightarrow> string \<Rightarrow> 'c \<Rightarrow> 'db \<Rightarrow> 'c \<times> 'db \<times> ui_effect list" where
  "cancel_from_card Q sp zod_text numstr gw P srv g i cache db =
     (case mutate zod_text (send_to_hotel sp numstr gw P srv db) (snd (useActiveReservation (Some g))) i of
        (req, effects) \<Rightarrow>
          (run_effects Q cache effects,
           case req of None \<Rightarrow> db | Some r \<Rightarrow> fst (hotel_serve P srv (aq_config r) db),
           SetConfirmed None # effects))"

fun set_confirmed :: "jsval option \<Rightarrow> ui_effect \<Rightarrow> jsval option" where
  "set_confirmed c (SetConfirmed c') = c'"
| "set_confirmed c _ = c"

lemma cancel_words: "cancel P rt store i db = (db', fx, Inl e) \<Longrightarrow> hotel_words e \<noteq> []"
  by (auto simp: cancel_def not_found_def split: sum.splits option.splits prod.splits if_splits)

lemma cancel_served:
  assumes "i \<noteq> []" "CHR ''/'' \<notin> set i"
  shows "hotel_serve P srv (aq_config (cancelReservation i)) db =
    (case cancel P (hs_runtime srv) (hs_store srv) i db of (db', fx, r) \<Rightarrow> (db', fx, answer_of (respond Cancelled r)))"
  by (simp add: hotel_serve_def route_cancel [OF assms] controller_def reservation_controller_def split: prod.split)

lemma card_cancelled:
  assumes "zod sp" "i \<noteq> []" "CHR ''/'' \<notin> set i" "cr_status r = CANCELLED"
    and "cancel P (hs_runtime srv) (hs_store srv) i db = (db', fx, Inr r)"
  shows "cancel_from_card Q sp zod_text numstr gw P srv g i cache db =
    (let effects = mh_onSuccess (snd (useActiveReservation (Some g))) (JObj (cancellation_json r))
     in (run_effects Q cache effects, db', SetConfirmed None # effects))"
proof -
  have served: "hotel_serve P srv (aq_config (cancelReservation i)) db = (db', fx, Inr (JObj (cancellation_json r)))"
    using cancel_served [OF assms(2,3), of P srv db] assms(5) by (simp add: respond_def)
  have "zod_reads (aq_schema (cancelReservation i)) (JObj (cancellation_json r)) = Some (JObj (cancellation_json r))"
    using cancellation_accepted [OF assms(4)] by (simp add: cancelReservation_def api_delete_def)
  with served have "send_to_hotel sp numstr gw P srv db (cancelReservation i) = Inr (JObj (cancellation_json r))"
    by (intro zod.send_served [OF assms(1)]) simp_all
  with served show ?thesis by (simp add: cancel_from_card_def mutate_def useActiveReservation_def)
qed

lemma card_refused:
  assumes "zod sp" "i \<noteq> []" "CHR ''/'' \<notin> set i" "cancel P (hs_runtime srv) (hs_store srv) i db = (db', fx, Inl e)"
  shows "cancel_from_card Q sp zod_text numstr gw P srv g i cache db =
    (cache, db', [SetConfirmed None, ToastError (hotel_words e)])"
proof -
  have served: "hotel_serve P srv (aq_config (cancelReservation i)) db = (db', fx, answer_of (Refused e))"
    using cancel_served [OF assms(2,3), of P srv db] assms(4) by (simp add: respond_def)
  then have "send_to_hotel sp numstr gw P srv db (cancelReservation i) = Inl (ApiError (hotel_words e))"
    by (intro zod.send_refused [OF assms(1)]) (simp_all add: cancel_words [OF assms(4)])
  with served show ?thesis by (simp add: cancel_from_card_def mutate_def useActiveReservation_def toast_error_def)
qed

text \<open>
  C15. Cancelling from the card: when the service carries the cancellation out, the hotel's tables have
  the reservation as cancelled and the panel shows the form alone, with no trace of the booking; when it
  refuses, the hotel's database and the cache are as before, and the user reads why.
\<close>

theorem cancelling_from_the_card:
  assumes "prisma P content id_le" "hotel_inv (content db)" "zod sp" "query_client Q"
    and "i \<noteq> []" "CHR ''/'' \<notin> set i"
    and "cancel_from_card Q sp zod_text numstr gw P srv g i cache db = (cache', db', effects)"
    and "pd_session d = guestSessionState g" "useLanded (pd_arrival d)" "\<not> pd_isLoadingReservation d"
    and "pd_reservation d = qc_get Q cache' (guest_key HOTEL_RESERVATION_KEY (Some g))"
    and "pd_confirmed d = run set_confirmed confirmed effects"
  shows "if isl (snd (snd (cancel P (hs_runtime srv) (hs_store srv) i db)))
    then db' = db \<and> cache' = cache \<and> (\<exists>msg. msg \<noteq> [] \<and> effects = [SetConfirmed None, ToastError msg])
    else content db' = set_status i CANCELLED (content db) \<and> HotelPanel d = [ReservationForm (pd_isReserving d)]"
proof (cases "cancel P (hs_runtime srv) (hs_store srv) i db")
  case (fields db1 fx result)
  show ?thesis
  proof (cases result)
    case (Inl e)
    with fields have c: "cancel P (hs_runtime srv) (hs_store srv) i db = (db1, fx, Inl e)" by simp
    then have "db1 = db" by (cases rule: prisma.cancel_cases [OF assms(1)]) auto
    with card_refused [OF assms(3,5,6) c, of Q zod_text numstr gw g cache] assms(7) cancel_words [OF c] c show ?thesis by auto
  next
    case (Inr r)
    with fields have c: "cancel P (hs_runtime srv) (hs_store srv) i db = (db1, fx, Inr r)" by simp
    from prisma.cancel_first [OF assms(1,2) c] have r: "content db1 = set_status i CANCELLED (content db)" "cr_status r = CANCELLED"
      by auto
    let ?done = "mh_onSuccess (snd (useActiveReservation (Some g))) (JObj (cancellation_json r))"
    from card_cancelled [OF assms(3,5,6) r(2) c, of Q zod_text numstr gw g cache] assms(7)
    have e: "db' = db1" "cache' = run_effects Q cache ?done" "effects = SetConfirmed None # ?done" by (simp_all add: Let_def)
    have "pd_reservation d = None"
      using query_client.cancelled_cached [OF assms(4)] assms(11) e(2) by simp
    moreover have "pd_confirmed d = None" using assms(12) by (simp add: e(3) useActiveReservation_def)
    ultimately show ?thesis using guest_panel [OF assms(8,9,10)] r(1) e(1) c by simp
  qed
qed

theorem cancelling_from_the_card_witness:
  "fst (snd (cancel_from_card map_cache zod_reference (\<lambda>_. []) (\<lambda>_. []) [] mem_client desk sample_guest ''x'' Map.empty booked_inn))
     = set_status ''x'' CANCELLED booked_inn"
proof -
  obtain cache' db' effects where s: "cancel_from_card map_cache zod_reference (\<lambda>_. []) (\<lambda>_. []) [] mem_client desk
      sample_guest ''x'' Map.empty booked_inn = (cache', db', effects)" by (rule prod_cases3)
  let ?d = "sample_panel\<lparr>pd_session := guestSessionState sample_guest,
    pd_reservation := qc_get map_cache cache' (guest_key HOTEL_RESERVATION_KEY (Some sample_guest)),
    pd_confirmed := run set_confirmed None effects\<rparr>"
  have d: "useLanded (pd_arrival ?d)" "\<not> pd_isLoadingReservation ?d" by code_simp+
  from cancelling_from_the_card [OF mem_prisma booked_inn_inv zref.zod_axioms mapped.query_client_axioms _ _ s _ d,
      where confirmed = None] booked_inn_cancel s
  show ?thesis by (simp add: desk_def)
qed

end
