(* ===== verification/Island_Rooms.thy ===== *)
theory Island_Rooms
  imports Island_Booking
begin

text \<open>
  The admin's view of the rooms, from the hotel's tables to the screen: the request of the hook, the
  hotel's route and service, the schema with its transformation, and the summary.
\<close>

section \<open>Reading the answer\<close>

text \<open>A room as the schema leaves it, with the property its transformation adds.\<close>

definition room_answer_of :: "jsobj \<Rightarrow> RoomAnswer option" where
  "room_answer_of ob =
     (case (as_string (jget ob ''id''), as_string (jget ob ''type''), as_integer (jget ob ''capacity''),
            as_integer (jget ob ''price_per_night''), as_integer (jget ob ''occupancy'')) of
        (Some i, Some ty, Some capacity, Some price, Some n) \<Rightarrow>
          Some \<lparr>ra_id = i, ra_type = ty, ra_capacity = capacity, ra_price_per_night = price, ra_occupancy = n\<rparr>
      | _ \<Rightarrow> None)"

definition rooms_answer :: "jsval \<Rightarrow> RoomAnswer list option" where
  "rooms_answer v =
     (case v of
        JObj ob \<Rightarrow>
          (case jget ob ''rooms'' of
             JArr vs \<Rightarrow> those (map (\<lambda>v. case v of JObj room \<Rightarrow> room_answer_of (room_transform room) | _ \<Rightarrow> None) vs)
           | _ \<Rightarrow> None)
      | _ \<Rightarrow> None)"

definition safe_room :: "RoomResponseDto \<Rightarrow> bool" where
  "safe_room w = list_all (\<lambda>n. \<bar>n\<bar> \<le> 9007199254740991) [rd_capacity w, rd_price_per_night w, rd_current_guests w]"

definition answer_of_row :: "RoomResponseDto \<Rightarrow> RoomAnswer" where
  "answer_of_row w =
     \<lparr>ra_id = rd_id w, ra_type = room_type_str (rd_type w), ra_capacity = rd_capacity w,
      ra_price_per_night = rd_price_per_night w, ra_occupancy = rd_current_guests w\<rparr>"

lemma room_accepted: "safe_room w \<Longrightarrow> zod_reads RoomSchema (JObj (room_json w)) = Some (JObj (room_json w))"
  by (simp add: RoomSchema_def room_json_def RoomTypeSchema_def z_int_def jint_def safe_room_def del: is_safe_int.simps)

lemma those_map_read: "(\<And>x. x \<in> set xs \<Longrightarrow> f x = Some (g x)) \<Longrightarrow> those (map f xs) = Some (map g xs)"
  by (induction xs) auto

lemma rooms_accepted:
  assumes "list_all safe_room rows"
  shows "zod_reads RoomsResponseSchema (JObj (rooms_json rows)) = Some (JObj (rooms_json rows))"
proof -
  have "those (map (zod_reads RoomSchema) (map (\<lambda>r. JObj (room_json r)) rows)) = Some (map (\<lambda>r. JObj (room_json r)) rows)"
    using assms by (simp add: list_all_iff those_map_read room_accepted comp_def)
  then show ?thesis by (simp add: RoomsResponseSchema_def rooms_json_def del: map_map)
qed

lemma rooms_read: "rooms_answer (JObj (rooms_json rows)) = Some (map answer_of_row rows)"
  by (simp add: rooms_answer_def rooms_json_def comp_def room_answer_of_def room_transform_def room_json_def answer_of_row_def
      jint_def those_map_read)

section \<open>Counting\<close>

text \<open>A room with a confirmed stay that has begun and not yet ended.\<close>

definition covered :: "tables \<Rightarrow> int \<Rightarrow> Room \<Rightarrow> bool" where
  "covered t day m =
     list_ex (\<lambda>r. rs_room_id r = rm_id m \<and> rs_status r = CONFIRMED \<and> rs_check_in_day r \<le> day \<and> day < rs_check_out_day r)
       (tb_reservations t)"

lemma covered_iff:
  assumes "hotel_inv t" "list_all (\<lambda>r. 1 \<le> rs_guest_count r) (tb_reservations t)"
  shows "covered t day m \<longleftrightarrow> 0 < current_guests t day (rm_id m)"
proof (cases "covered t day m")
  case True
  then obtain r where r: "r \<in> set (tb_reservations t)" "rs_room_id r = rm_id m" "active r" "rs_check_in_day r \<le> day"
    "day < rs_check_out_day r" by (auto simp: covered_def list_ex_iff active_def)
  from current_guests_single [OF assms(1) r(1,3,4,5)] r(1,2) assms(2) True show ?thesis by (auto simp: list_all_iff)
next
  case False
  then have "current_guests t day (rm_id m) = 0"
    by (intro current_guests_none) (auto simp: covered_def list_ex_iff occupied_on_def)
  with False show ?thesis by simp
qed

lemma occupied_rows:
  assumes "prisma P content id_le" "findAll P (Some day) db = Inr rows" "hotel_inv (content db)"
    and "list_all (\<lambda>r. 1 \<le> rs_guest_count r) (tb_reservations (content db))"
  shows "occupiedCount (map answer_of_row rows) = length (filter (covered (content db) day) (tb_rooms (content db))) \<and>
    length rows = length (tb_rooms (content db)) \<and> mset (map rd_id rows) = mset (map rm_id (tb_rooms (content db)))"
proof -
  note rows = prisma.findAll_Inr [OF assms(1,2)]
  have cov: "covered (content db) day = (\<lambda>m. 0 < current_guests (content db) day (rm_id m))"
    using covered_iff [OF assms(3,4)] by blast
  have "size (filter_mset (\<lambda>w. 0 < rd_current_guests w) (mset rows)) = length (filter (covered (content db) day) (tb_rooms (content db)))"
    unfolding rows cov by (simp add: filter_mset_image_mset flip: size_mset mset_filter)
  moreover have "occupiedCount (map answer_of_row rows) = size (filter_mset (\<lambda>w. 0 < rd_current_guests w) (mset rows))"
    by (simp add: occupiedCount_def filter_map comp_def answer_of_row_def flip: size_mset mset_filter)
  moreover have "length rows = length (tb_rooms (content db))" using arg_cong [OF rows, of size] by simp
  moreover have "mset (map rd_id rows) = mset (map rm_id (tb_rooms (content db)))"
    using arg_cong [OF rows, of "image_mset rd_id"] by (simp add: image_mset.compositionality comp_def)
  ultimately show ?thesis by simp
qed

section \<open>The view\<close>

text \<open>
  C19. The admin sees the hotel as it is: when the hotel answers the request for its rooms, the summary
  on the screen has a card for each room of the tables, and its headline counts exactly the rooms with
  a confirmed stay that covers the current day.
\<close>

theorem admin_room_view:
  assumes "prisma P content id_le" "zod sp" "hotel_inv (content db)"
    and "list_all (\<lambda>r. 1 \<le> rs_guest_count r) (tb_reservations (content db))"
    and "hs_day srv = Some day" "findAll P (Some day) db = Inr rows" "list_all safe_room rows"
  shows "\<exists>data cards. send_to_hotel sp numstr gw P srv db getRooms = Inr data \<and>
    hotel_room_summary False None (rooms_answer data) = SummaryReady
      (show_nat (length (filter (covered (content db) day) (tb_rooms (content db)))) @ ''/'' @
       show_nat (length (tb_rooms (content db))) @ '' occupied'', cards) \<and>
    mset (map rc_title cards) = mset (map rm_id (tb_rooms (content db)))"
proof -
  have "hotel_serve P srv (aq_config getRooms) db = (db, [], Inr (JObj (rooms_json rows)))"
    by (simp add: hotel_serve_def route_rooms rooms_controller_def assms(5,6))
  moreover have "zod_reads (aq_schema getRooms) (JObj (rooms_json rows)) = Some (JObj (rooms_json rows))"
    using rooms_accepted [OF assms(7)] by (simp add: getRooms_def api_get_def)
  ultimately have "send_to_hotel sp numstr gw P srv db getRooms = Inr (JObj (rooms_json rows))"
    by (intro zod.send_served [OF assms(2)]) simp_all
  moreover have "rc_title \<circ> (RoomCard \<circ> answer_of_row) = rd_id"
    by (auto simp: RoomCard_def answer_of_row_def)
  ultimately show ?thesis
    using occupied_rows [OF assms(1,6,3,4)]
    by (simp add: rooms_read hotel_room_summary_def summary_def image_mset.compositionality)
qed

theorem admin_room_view_witness:
  "\<exists>data cards. send_to_hotel zod_reference (\<lambda>_. []) [] mem_client (desk\<lparr>hs_day := Some 3\<rparr>) booked_inn getRooms = Inr data \<and>
    hotel_room_summary False None (rooms_answer data) = SummaryReady (''1/2 occupied'', cards)"
proof -
  have g: "list_all (\<lambda>r. 1 \<le> rs_guest_count r) (tb_reservations booked_inn)" by code_simp
  have s: "list_all safe_room [listed 0 2, listed 1 0]" by code_simp
  have n: "show_nat (length (filter (covered booked_inn 3) (tb_rooms booked_inn))) @ ''/'' @ show_nat (length (tb_rooms booked_inn)) @ '' occupied''
      = ''1/2 occupied''" by code_simp
  have "hs_day (desk\<lparr>hs_day := Some 3\<rparr>) = Some 3" by simp
  from admin_room_view [OF mem_prisma zref.zod_axioms booked_inn_inv g this booked_inn_list s, of "\<lambda>_. []" "[]"] n
  show ?thesis by metis
qed

end
