(* ===== verification/Island_Reload.thy ===== *)
theory Island_Reload
  imports Island_Booking
begin

text \<open>
  The guest's reservation when the page is loaded again: the query of the hook asks the hotel for the
  guest's active reservation and stores its answer. After a booking, and after a cancellation, this is
  what the panel shows then.
\<close>

section \<open>Asking the hotel\<close>

definition active_stay :: "string \<Rightarrow> Reservation \<Rightarrow> bool" where
  "active_stay g r = (rs_guest_id r = g \<and> rs_status r = CONFIRMED)"

text \<open>The numbers of a row that the validation library takes for integers; the columns have 32 bits.\<close>

definition safe_row :: "Reservation \<Rightarrow> bool" where
  "safe_row r = list_all (\<lambda>n. \<bar>n\<bar> \<le> 9007199254740991) [rs_guest_count r, rs_check_in_day r, rs_check_out_day r]"

definition reload ::
  "'c query_ops \<Rightarrow> (zschema \<Rightarrow> jsval \<Rightarrow> zresult) \<Rightarrow> (rat \<Rightarrow> string) \<Rightarrow> string \<Rightarrow> 'db prisma_client \<Rightarrow> hotel_server
    \<Rightarrow> GuestProfile \<Rightarrow> 'c \<Rightarrow> 'db \<Rightarrow> 'c" where
  "reload Q sp numstr gw P srv g cache db =
     settle_query Q (send_to_hotel sp numstr gw P srv db) (fst (useActiveReservation (Some g))) cache"

lemma active_stay_match: "rmatch [GuestIs g, StatusIs CONFIRMED] r \<longleftrightarrow> active_stay g r"
  by (simp add: active_stay_def rmatch_def)

lemma by_guest_served:
  assumes "gp_id g \<noteq> []" "CHR ''/'' \<notin> set (gp_id g)"
  shows "hotel_serve P srv (aq_config (getReservationByGuest (gp_id g))) db =
    (db, [], answer_of (respond Reserved (findActiveByGuestId P (gp_id g) db)))"
  by (simp add: hotel_serve_def route_by_guest [OF assms] controller_def reservation_controller_def)

lemma by_guest_found:
  assumes "prisma P content id_le" "zod sp" "gp_id g \<noteq> []" "CHR ''/'' \<notin> set (gp_id g)"
    and "list_all safe_row (tb_reservations (content db))"
    and "reservation_findLatest P db [GuestIs (gp_id g), StatusIs CONFIRMED] = Inr (Some (r, m, gs))"
  shows "send_to_hotel sp numstr gw P srv db (getReservationByGuest (gp_id g)) = Inr (shown_reservation (reservation_dto r (rm_type m) gs))"
proof -
  let ?dto = "reservation_dto r (rm_type m) gs" and ?req = "getReservationByGuest (gp_id g)"
  have "safe_row r" using prisma.findLatest_row [OF assms(1,6)] assms(5) by (simp add: joined_def list_all_iff)
  then have "safe_days ?dto" by (simp add: safe_days_def safe_row_def reservation_dto_def)
  then have "zod_reads (aq_schema ?req) (JObj (reservation_json ?dto)) = Some (shown_reservation ?dto)"
    using reservation_accepted by (simp add: getReservationByGuest_def api_get_def shown_reservation_def)
  moreover have "snd (snd (hotel_serve P srv (aq_config ?req) db)) = Inr (JObj (reservation_json ?dto))"
    using assms(6) by (simp add: by_guest_served [OF assms(3,4)] findActiveByGuestId_def db_call_def respond_def)
  ultimately show ?thesis by (intro zod.send_served [OF assms(2)])
qed

lemma by_guest_none:
  assumes "zod sp" "gp_id g \<noteq> []" "CHR ''/'' \<notin> set (gp_id g)"
    and "reservation_findLatest P db [GuestIs (gp_id g), StatusIs CONFIRMED] = Inr None"
  shows "send_to_hotel sp numstr gw P srv db (getReservationByGuest (gp_id g)) = Inl (ApiError (hotel_words not_found))"
  by (rule zod.send_refused [OF assms(1)])
    (simp_all add: assms(4) by_guest_served [OF assms(2,3)] findActiveByGuestId_def db_call_def respond_def not_found_def)

lemma reload_found:
  assumes "prisma P content id_le" "zod sp" "query_client Q" "gp_id g \<noteq> []" "CHR ''/'' \<notin> set (gp_id g)"
    and "list_all safe_row (tb_reservations (content db))"
    and "reservation_findLatest P db [GuestIs (gp_id g), StatusIs CONFIRMED] = Inr (Some (r, m, gs))"
  shows "qc_get Q (reload Q sp numstr gw P srv g cache db) (guest_key HOTEL_RESERVATION_KEY (Some g))
      = Some (shown_reservation (reservation_dto r (rm_type m) gs)) \<and>
    joined (content db) (r, m, gs) \<and> active_stay (gp_id g) r \<and>
    (\<forall>s \<in> set (tb_reservations (content db)). active_stay (gp_id g) s \<longrightarrow> rs_check_in_day s \<le> rs_check_in_day r)"
proof -
  let ?req = "getReservationByGuest (gp_id g)"
  from prisma.findLatest_row [OF assms(1,7)] have row: "joined (content db) (r, m, gs)" "active_stay (gp_id g) r"
    "\<forall>s \<in> set (tb_reservations (content db)). active_stay (gp_id g) s \<longrightarrow> rs_check_in_day s \<le> rs_check_in_day r"
    by (simp_all add: active_stay_def list_all_iff)
  have "qc_get Q (reload Q sp numstr gw P srv g cache db) (guest_key HOTEL_RESERVATION_KEY (Some g))
      = Some (shown_reservation (reservation_dto r (rm_type m) gs))"
    using query_client.settle_query_data [OF assms(3), of "fst (useActiveReservation (Some g))" ?req] by_guest_found [OF assms(1,2,4-7)]
    by (simp add: reload_def useActiveReservation_def)
  with row show ?thesis by blast
qed

text \<open>Without an active stay the hotel answers that there is none, and the cache stays as it is.\<close>

lemma reload_none:
  assumes "prisma P content id_le" "zod sp" "gp_id g \<noteq> []" "CHR ''/'' \<notin> set (gp_id g)"
    and "reservation_findLatest P db [GuestIs (gp_id g), StatusIs CONFIRMED] = Inr None"
  shows "reload Q sp numstr gw P srv g cache db = cache \<and> list_all (\<lambda>r. \<not> active_stay (gp_id g) r) (tb_reservations (content db))"
  using by_guest_none [OF assms(2-5)] prisma.findLatest_none [OF assms(1,5)]
  by (simp add: reload_def settle_query_def useActiveReservation_def active_stay_def)

text \<open>
  So a card whose reservation was cancelled elsewhere stays: the refused answer does not take it off the
  screen.
\<close>

lemma stale_card_stays:
  assumes "prisma P content id_le" "zod sp" "gp_id g \<noteq> []" "CHR ''/'' \<notin> set (gp_id g)"
    and "reservation_findLatest P db [GuestIs (gp_id g), StatusIs CONFIRMED] = Inr None"
    and "qc_get Q cache (guest_key HOTEL_RESERVATION_KEY (Some g)) = Some r"
    and "pd_session d = guestSessionState g" "useLanded (pd_arrival d)" "\<not> pd_isLoadingReservation d"
    and "pd_reservation d = qc_get Q (reload Q sp numstr gw P srv g cache db) (guest_key HOTEL_RESERVATION_KEY (Some g))"
  shows "HotelPanel d = [ActiveReservationCard r (pd_isCancelling d)]"
  using reload_none [OF assms(1-5), of Q numstr gw srv cache] guest_panel [OF assms(7-9)] assms(6,10) by simp

section \<open>After a booking\<close>

text \<open>The application does not read the party of an answer.\<close>

lemma shown_party: "shown_reservation (reservation_dto r ty gs) = shown_reservation (reservation_dto r ty [])"
  by (simp add: shown_reservation_def reservation_json_def reservation_dto_def)

lemma shown_check_in:
  "shown_reservation (reservation_dto r ty gs) = shown_reservation (reservation_dto s ty' gs') \<Longrightarrow> rs_check_in_day r = rs_check_in_day s"
  by (simp add: shown_reservation_def reservation_json_def reservation_dto_def jint_def)

lemma room_by_id: "distinct (map rm_id ms) \<Longrightarrow> m \<in> set ms \<Longrightarrow> m' \<in> set ms \<Longrightarrow> rm_id m = rm_id m' \<Longrightarrow> m = m'"
  by (auto simp: distinct_map dest: inj_onD)

text \<open>What a submission that can be booked leaves in the tables and in the cache.\<close>

lemma submit_booked:
  assumes "prisma_up P content id_le" "zod sp" "query_client Q"
    and "ReservationFormSchema values" "fv_room_type values = room_type_str ty" "safe_form day_of values"
    and dto: "dto = form_dto day_of values ty g" and bookable: "bookable (hs_runtime srv) (hs_store srv) (content db) dto"
    and submit: "submit_form Q sp zod_text numstr gw day_of P srv g values cache db = (cache', db', effects)"
  obtains m k where "suits (content db) dto m" "content db' = insert_row (row_of k (new_reservation dto m)) [] (content db)"
    "qc_get Q cache' (guest_key HOTEL_RESERVATION_KEY (Some g)) = Some (shown_reservation (reservation_dto (row_of k (new_reservation dto m)) ty []))"
proof -
  have P: "prisma P content id_le" using assms(1) by (simp add: prisma_up_def)
  from create_bookable [OF assms(1) _ bookable] obtain db1 fx m k where
    c: "create P (hs_runtime srv) (hs_store srv) dto db = (db1, fx, Inr (reservation_dto (row_of k (new_reservation dto m)) ty []))"
    and m: "suits (content db) dto m" "content db1 = insert_row (row_of k (new_reservation dto m)) [] (content db)"
    by (auto simp: dto form_dto_def)
  note c' = c [unfolded dto]
  from submit_served [OF assms(2,4,5) c' created_safe [OF P c' assms(6)], of Q zod_text numstr gw cache] submit
  show ?thesis using that [of m k] m query_client.booked_cached [OF assms(3)] by (auto simp: Let_def dto)
qed



end
