(* ===== verification/Island_Traffic.thy ===== *)
theory Island_Traffic
  imports Island_Reload
begin

text \<open>
  The synthetic guests of the web application at the hotel: the booking that the traffic generator
  draws, sent through the application's HTTP layer to the hotel's routes, service and tables.
\<close>

section \<open>The network with the hotel behind it\<close>

definition hotel_network ::
  "(zschema \<Rightarrow> jsval \<Rightarrow> zresult) \<Rightarrow> (rat \<Rightarrow> string) \<Rightarrow> string \<Rightarrow> 'db prisma_client \<Rightarrow> hotel_server \<Rightarrow> 'db network" where
  "hotel_network sp numstr gw P srv db req =
     (fst (hotel_serve P srv (aq_config req) db), send_to_hotel sp numstr gw P srv db req)"

lemma known_type: "t \<in> set ROOM_TYPES \<Longrightarrow> \<exists>ty. t = room_type_str ty"
  by (simp add: ROOM_TYPES_def) (metis room_type_str.simps)

text \<open>The hotel reads every booking that is drawn, and reads it as a stay of at least one night.\<close>

lemma drawn_booking_decoded:
  assumes "\<forall>i. random_num (r i)" "\<bar>day\<bar> \<le> 2 ^ 50"
  shows "\<exists>dto. decode_dto N (randomReservationBody (Some day) r guest) = Some dto \<and> dto_guest_id dto = gp_id guest \<and>
    dto_party_guest_ids dto = None \<and> dto_check_in_day dto < dto_check_out_day dto \<and> max 0 day \<le> dto_check_in_day dto \<and>
    safe_row (row_of k (new_reservation dto m))"
proof -
  from traffic_bookings_valid [OF assms, of guest] obtain t n i u mx where
    body: "randomReservationBody (Some day) r guest = JObj
      [(''guest_id'', JStr (gp_id guest)), (''room_type'', JStr t), (''guest_count'', jint n),
       (''check_in_day'', jint i), (''check_out_day'', jint u)]"
    and t: "t \<in> set ROOM_TYPES" "ROOM_MAX_GUESTS t = Some mx" "1 \<le> n" "n \<le> mx"
    and d: "max 0 day \<le> i" "i \<le> max 0 day + 2" "i < u" "u \<le> i + 3" by blast
  obtain ty where ty: "t = room_type_str ty" using known_type [OF t(1)] by blast
  have "mx \<le> 9007199254740991" using t(2) by (cases ty) (auto simp: ty ROOM_MAX_GUESTS_def)
  then have "safe_row (row_of k (new_reservation \<lparr>dto_guest_id = gp_id guest, dto_room_type = ty, dto_guest_count = n,
      dto_party_guest_ids = None, dto_check_in_day = i, dto_check_out_day = u\<rparr> m))"
    using t(3,4) d assms(2) by (simp add: safe_row_def row_of_def new_reservation_def max_def split: if_splits)
  with decode_form [OF t(3)] d show ?thesis unfolding body ty by fastforce
qed

lemma shown_id: "str_field ''id'' (shown_reservation (reservation_dto r ty gs)) = Some (rs_id r)"
  by (simp add: str_field_def shown_reservation_def reservation_json_def reservation_dto_def)

lemma drawn_served:
  assumes "decode_dto (hs_Number_of srv) body = Some dto"
  shows "hotel_serve P srv (aq_config (postReservation body)) db =
    (case create P (hs_runtime srv) (hs_store srv) dto db of (db', fx, r) \<Rightarrow> (db', fx, answer_of (respond Reserved r)))"
proof -
  have "ax_data (aq_config (postReservation body)) = body" by (simp add: postReservation_def api_post_def)
  then show ?thesis using assms
    by (simp add: hotel_serve_def route_post controller_def reservation_controller_def split: prod.split)
qed

lemma post_booked:
  assumes "prisma P content id_le" "zod sp" "decode_dto (hs_Number_of srv) body = Some dto" "safe_row (row_of k (new_reservation dto m))"
    and "create P (hs_runtime srv) (hs_store srv) dto db = (db', fx, Inr (reservation_dto (row_of k (new_reservation dto m)) ty gs))"
  shows "hotel_network sp numstr gw P srv db (postReservation body)
    = (db', Inr (shown_reservation (reservation_dto (row_of k (new_reservation dto m)) ty gs)))"
proof -
  let ?r = "reservation_dto (row_of k (new_reservation dto m)) ty gs"
  have served: "hotel_serve P srv (aq_config (postReservation body)) db = (db', fx, Inr (JObj (reservation_json ?r)))"
    using drawn_served [OF assms(3), of P db] assms(5) by (simp add: respond_def)
  have "safe_days ?r" using assms(4) by (simp add: safe_days_def safe_row_def reservation_dto_def)
  then have "zod_reads (aq_schema (postReservation body)) (JObj (reservation_json ?r)) = Some (shown_reservation ?r)"
    using reservation_accepted by (simp add: postReservation_def api_post_def shown_reservation_def)
  with served show ?thesis unfolding hotel_network_def by (simp add: zod.send_served [OF assms(2)])
qed

lemma post_refused:
  assumes "zod sp" "decode_dto (hs_Number_of srv) body = Some dto"
    and "create P (hs_runtime srv) (hs_store srv) dto db = (db', fx, Inl e)"
  shows "hotel_network sp numstr gw P srv db (postReservation body) = (db', Inl (ApiError (hotel_words e)))"
proof -
  have served: "hotel_serve P srv (aq_config (postReservation body)) db = (db', fx, answer_of (Refused e))"
    using drawn_served [OF assms(2), of P db] assms(3) by (simp add: respond_def)
  then have "send_to_hotel sp numstr gw P srv db (postReservation body) = Inl (ApiError (hotel_words e))"
    by (intro zod.send_refused [OF assms(1)]) (simp_all add: create_words [OF assms(3)])
  with served show ?thesis by (simp add: hotel_network_def)
qed

section \<open>A synthetic guest at the hotel\<close>


definition sample_traffic :: "tables sim_context" where
  "sample_traffic = \<lparr>sc_env = sample_ui_env, sc_now = 0, sc_day = Some 3,
     sc_net = hotel_network zod_reference (\<lambda>_. []) [] mem_client desk\<rparr>"


end
