(* ===== verification/Hotel_App.thy ===== *)
theory Hotel_App
  imports Hotel_Http
begin

text \<open>
  The hotel as one application (\<^verbatim>\<open>app.module.ts\<close>): its controllers behind the access log of \<^verbatim>\<open>common/\<close>, which
  gives every request its correlation id. An answer is a status and a body; what the web application's
  HTTP library makes of it is \<open>hotel_serve\<close>.
\<close>

section \<open>Answers with their status\<close>

record http_request =
  hq_method :: "string option"
  hq_path :: string
  hq_requestId :: "string option"
  hq_body :: jsval

text \<open>The framework answers a POST with 201 and everything else with 200, unless an error is thrown.\<close>

fun http_answer :: "nat \<Rightarrow> hotel_response \<Rightarrow> nat \<times> jsval" where
  "http_answer status (Reserved r) = (status, JObj (reservation_json r))"
| "http_answer status (Cancelled r) = (status, JObj (cancellation_json r))"
| "http_answer status (Refused e) = error_answer e"

definition reservation_http ::
  "'db prisma_client \<Rightarrow> hotel_server \<Rightarrow> nat \<Rightarrow> hotel_request \<Rightarrow> 'db \<Rightarrow> 'db \<times> effect list \<times> nat \<times> jsval" where
  "reservation_http P srv status req db =
     (case reservation_controller P \<lparr>hi_runtime = hs_runtime srv, hi_store = hs_store srv, hi_request = req\<rparr> db of
        (db', fx, response) \<Rightarrow> (db', fx, http_answer status response))"

definition app_module ::
  "'db prisma_client \<Rightarrow> hotel_server \<Rightarrow> http_request \<Rightarrow> 'db \<Rightarrow> 'db \<times> effect list \<times> nat \<times> jsval" where
  "app_module P srv req db =
     (case route_of (hq_method req) (hq_path req) of
        RouteCreate \<Rightarrow>
          (case decode_dto (hs_Number_of srv) (hq_body req) of
             None \<Rightarrow> (db, [], error_answer (exceptionFactory (hs_refusal srv (hq_body req))))
           | Some dto \<Rightarrow> reservation_http P srv 201 (PostReservation dto) db)
      | RouteByGuest g \<Rightarrow> reservation_http P srv 200 (GetByGuest g) db
      | RouteById i \<Rightarrow> reservation_http P srv 200 (GetReservation i) db
      | RouteCancel i \<Rightarrow> reservation_http P srv 200 (DeleteReservation i) db
      | RouteRooms \<Rightarrow>
          (db, [], case findAll P (hs_day srv) db of Inl e \<Rightarrow> error_answer e | Inr rooms \<Rightarrow> (200, JObj (rooms_json rooms)))
      | RouteHealth \<Rightarrow> (db, [], 200, health_check)
      | NoRoute \<Rightarrow> (db, [], unrouted (hq_method req) (hq_path req)))"

text \<open>
  Every route is behind the access log: the handler runs with the correlation id as its store, and the line is
  logged when the response is finished.
\<close>

definition hotel_app ::
  "string \<Rightarrow> string \<Rightarrow> string \<Rightarrow> 'db prisma_client \<Rightarrow> hotel_server \<Rightarrow> http_request \<Rightarrow> 'db
    \<Rightarrow> 'db \<times> effect list \<times> (string \<times> string) \<times> nat \<times> jsval" where
  "hotel_app now dur uuid P srv req db =
     (case request_logger_use now dur uuid (nullish (hq_method req) ''GET'') (hq_path req) (hq_requestId req)
         (\<lambda>store. case app_module P (srv\<lparr>hs_store := store\<rparr>) req db of
            (db', fx, status, body) \<Rightarrow> (status, db', fx, status, body)) of
        (header, (db', fx, status, body), line) \<Rightarrow> (db', fx @ [line], header, status, body))"

section \<open>The client's view\<close>

text \<open>What the HTTP library of the application makes of an answer.\<close>

definition client_view :: "nat \<times> jsval \<Rightarrow> axios_failure + jsval" where
  "client_view answer = (if response_ok (fst answer) then Inr (snd answer) else Inl (failed_request answer))"

definition http_of :: "axios_config \<Rightarrow> http_request" where
  "http_of cfg = \<lparr>hq_method = ax_method cfg, hq_path = ax_url cfg, hq_requestId = None, hq_body = ax_data cfg\<rparr>"

text \<open>No error of the service has a status of success.\<close>

definition refused_properly :: "hotel_error \<Rightarrow> bool" where
  "refused_properly e = (case e of HttpException status msg \<Rightarrow> \<not> response_ok status | Unhandled \<Rightarrow> True)"

lemma create_refused_properly: "create P rt store dto db = (db', fx, Inl e) \<Longrightarrow> refused_properly e"
  by (auto simp: create_def rejectIfGuestHasNotClearedAirport_def select_room_def confirm_reservation_def refused_properly_def
      bindE_Inl db_call_def map_sum_def Let_def response_ok_def split: if_splits sum.splits prod.splits option.splits)

lemma find_refused_properly:
  "findById P i db = Inl e \<Longrightarrow> refused_properly e" "findActiveByGuestId P g db = Inl e \<Longrightarrow> refused_properly e"
  "findAll P day db = Inl e \<Longrightarrow> refused_properly e"
  by (auto simp: findById_def findActiveByGuestId_def findAll_def not_found_def refused_properly_def bindE_Inl db_call_def map_sum_def
      response_ok_def Let_def split: sum.splits option.splits)

lemma cancel_refused_properly: "cancel P rt store i db = (db', fx, Inl e) \<Longrightarrow> refused_properly e"
  by (auto simp: cancel_def not_found_def refused_properly_def response_ok_def split: sum.splits option.splits prod.splits if_splits)

lemma view_error: "refused_properly e \<Longrightarrow> client_view (error_answer e) = answer_of (Refused e)"
  by (cases e) (simp_all add: client_view_def refused_properly_def response_ok_def)

lemma controller_refused_properly:
  "reservation_controller P i db = (db', fx, Refused e) \<Longrightarrow> refused_properly e"
  by (auto simp: reservation_controller_def respond_def create_refused_properly cancel_refused_properly find_refused_properly
      split: hotel_request.splits prod.splits sum.splits)

lemma view_response:
  assumes "response_ok status" "\<And>e. response = Refused e \<Longrightarrow> refused_properly e"
  shows "client_view (http_answer status response) = answer_of response"
  using assms by (cases response) (simp_all add: view_error, simp_all add: client_view_def)

lemma view_reservation:
  assumes "response_ok status"
  shows "(case reservation_http P srv status req db of (db', fx, answer) \<Rightarrow> (db', fx, client_view answer)) = controller P srv req db"
proof -
  let ?i = "\<lparr>hi_runtime = hs_runtime srv, hi_store = hs_store srv, hi_request = req\<rparr>"
  obtain db' fx response where c: "reservation_controller P ?i db = (db', fx, response)" by (rule prod_cases3)
  have "client_view (http_answer status response) = answer_of response"
    using assms c by (intro view_response) (auto intro: controller_refused_properly)
  with c show ?thesis by (simp add: reservation_http_def controller_def)
qed

text \<open>What the application calls the hotel is what it sees of this service.\<close>

lemma hotel_serve_view:
  "hotel_serve P srv cfg db = (case app_module P srv (http_of cfg) db of (db', fx, answer) \<Rightarrow> (db', fx, client_view answer))"
proof -
  have ok: "response_ok 200" "response_ok 201" by (simp_all add: response_ok_def)
  have "refused_properly (exceptionFactory xs)" for xs by (simp add: refused_properly_def exceptionFactory_def response_ok_def)
  then show ?thesis
    by (simp add: hotel_serve_def app_module_def http_of_def view_reservation [OF ok(1)] view_reservation [OF ok(2)] view_error
        rooms_controller_def find_refused_properly split: hotel_route.split option.split sum.split)
      (simp add: client_view_def unrouted_def ok response_ok_def)
qed

section \<open>The correlation id\<close>

text \<open>An effect carries an id: a call as its header, a line of the log as its field.\<close>

definition carries :: "string \<Rightarrow> effect \<Rightarrow> bool" where
  "carries i e =
     (case e of
        Fetch call \<Rightarrow> map_of (hc_headers call) ''X-Request-Id'' = Some i
      | Log line \<Rightarrow> (\<exists>pre post. line = pre @ '' request_id='' @ i @ '' '' @ post)
      | Warn _ \<Rightarrow> True)"

fun logs :: "effect list \<Rightarrow> string list" where
  "logs [] = []"
| "logs (Log line # es) = line # logs es"
| "logs (_ # es) = logs es"

lemma logs_append [simp]: "logs (es @ fs) = logs es @ logs fs"
  by (induction es rule: logs.induct) auto

lemma carries_outbound: "carries i (outbound_log i target meth path status dur)"
  unfolding carries_def outbound_log_def
  by (simp, rule exI [where x = "''service=hotel event=outbound_call''"], simp)

lemma carries_access: "carries i (Log (''ts='' @ now @ '' level=info service=hotel request_id='' @ i @ '' method='' @ rest))"
  unfolding carries_def
  by (simp, rule exI [where x = "''ts='' @ now @ '' level=info service=hotel''"], simp)

text \<open>Effects that are traced: each carries the id, and each call has its line in the log.\<close>

definition traced :: "string \<Rightarrow> effect list \<Rightarrow> bool" where
  "traced i fx = (list_all (carries i) fx \<and> length (logs fx) = length (calls fx))"

lemma traced_Nil [simp]: "traced i []"
  by (simp add: traced_def)

lemma traced_append [simp]: "traced i fx \<Longrightarrow> traced i gx \<Longrightarrow> traced i (fx @ gx)"
  by (simp add: traced_def)

lemma traced_airport: "traced i (snd (hasGuestClearedProcessing rt (Some i) g))"
  using carries_outbound [of i "''airport''"]
  by (auto simp: hasGuestClearedProcessing_def traced_def Let_def getRequestId_def split: option.split prod.split)
    (auto simp: carries_def outbound_log_def)

lemma traced_publish: "traced i (publishHotelEvent rt (Some i) ty ev)"
proof -
  have w: "list_all (carries i) ws \<and> logs ws = [] \<and> calls ws = []" if "publish_answer ty answer = (ws, status)" for ws status answer
    using that by (auto simp: publish_answer_def carries_def split: http_result.splits if_splits)
  show ?thesis
    using carries_outbound [of i "''broadcast''"] w
    by (auto simp: publishHotelEvent_def traced_def Let_def getRequestId_def split: option.split prod.split)
      (auto simp: carries_def outbound_log_def hotel_post_def)
qed

lemma traced_create: "create P rt (Some i) dto db = (db', fx, r) \<Longrightarrow> traced i fx"
  using traced_airport [of i rt "dto_guest_id dto"] traced_publish [of i rt]
  by (auto simp: create_def rejectIfGuestHasNotClearedAirport_def confirm_reservation_def Let_def
      split: if_splits sum.splits prod.splits option.splits)

lemma traced_cancel: "cancel P rt (Some i) k db = (db', fx, r) \<Longrightarrow> traced i fx"
  using traced_publish [of i rt] by (auto simp: cancel_def split: if_splits sum.splits prod.splits option.splits)

lemma traced_module: "app_module P (srv\<lparr>hs_store := Some i\<rparr>) req db = (db', fx, answer) \<Longrightarrow> traced i fx"
  by (auto simp: app_module_def reservation_http_def reservation_controller_def
      split: hotel_route.splits option.splits prod.splits sum.splits intro: traced_create traced_cancel)

text \<open>The id of a request, and what the whole application does for it.\<close>

definition correlation_id :: "string \<Rightarrow> http_request \<Rightarrow> string" where
  "correlation_id uuid req = (case hq_requestId req of Some h \<Rightarrow> if h = [] then uuid else h | None \<Rightarrow> uuid)"

lemma hotel_app_traced:
  assumes "hotel_app now dur uuid P srv req db = (db', fx, header, status, body)"
  shows "\<exists>fx' line. fx = fx' @ [Log line] \<and> traced (correlation_id uuid req) fx' \<and> carries (correlation_id uuid req) (Log line) \<and>
    header = (''X-Request-Id'', correlation_id uuid req) \<and>
    app_module P (srv\<lparr>hs_store := Some (correlation_id uuid req)\<rparr>) req db = (db', fx', status, body)"
proof -
  let ?i = "correlation_id uuid req"
  have i: "(if truthy_str (hq_requestId req) then nullish (hq_requestId req) uuid else uuid) = ?i"
    by (cases "hq_requestId req") (simp_all add: correlation_id_def truthy_str_def)
  obtain db1 fx1 st bd where m: "app_module P (srv\<lparr>hs_store := Some ?i\<rparr>) req db = (db1, fx1, st, bd)" by (rule prod_cases4)
  have "\<exists>line. fx = fx1 @ [Log line] \<and> carries ?i (Log line)"
    using assms m carries_access [of ?i now "nullish (hq_method req) ''GET'' @ '' path='' @ hq_path req @ '' status='' @ show_nat st @ '' duration_ms='' @ dur"]
    by (auto simp: hotel_app_def request_logger_use_def i Let_def runWithRequestId_def)
  moreover have "header = (''X-Request-Id'', ?i)" "db' = db1" "status = st" "body = bd"
    using assms m by (auto simp: hotel_app_def request_logger_use_def i Let_def runWithRequestId_def)
  ultimately show ?thesis using m traced_module [OF m] by blast
qed

text \<open>The health check answers whatever the state of the database and of the network is.\<close>

lemma health_always:
  "hq_method req \<in> {None, Some ''GET''} \<Longrightarrow> hq_path req = ''/health'' \<Longrightarrow> app_module P srv req db = (db, [], 200, health_check)"
  by (auto simp: app_module_def route_of_def segment_after_def startsWith_def)

end
