(* ===== verification/Island_Trace.thy ===== *)
theory Island_Trace
  imports Hotel_App Island_Booking
begin

text \<open>
  The correlation id of a request, from the hotel to the broadcast service (the convention of
  \<^verbatim>\<open>OBSERVABILITY.md\<close>).
\<close>



end
