(* ===== verification/Sse_Client.thy ===== *)
theory Sse_Client
  imports Island "HOL-Library.Sublist"
begin

text \<open>
  The stream reader of the broadcast service's tests, \<^verbatim>\<open>sse-client.ts\<close>: a client that receives the
  stream in chunks of any size, cuts it into blocks at the blank lines, and reads the frames as a browser's
  event source does; and the promises of those who wait for frames.

  The connection itself is the platform's: the client is given its status, then the chunks, the calls of
  \<^verbatim>\<open>waitForFrames\<close>, the timers that fire and the closing, in any order. A promise is its number, in the order of the
  calls, with its outcome; it settles once, as the language has it.
\<close>

section \<open>The client\<close>

record SseFrame =
  sf_event :: "string option"
  sf_data :: jsval

datatype promise = Unsettled | Resolved | Rejected string

record SseClient =
  sc_frames :: "SseFrame list"
  sc_raw :: string
  sc_buffer :: string
  sc_waiters :: "(nat \<times> int) list"
  sc_destroyed :: bool
  sc_promises :: "nat \<Rightarrow> promise"
  sc_timers :: "nat \<rightharpoonup> int"
  sc_calls :: nat

definition new_client :: SseClient where
  "new_client =
     \<lparr>sc_frames = [], sc_raw = [], sc_buffer = [], sc_waiters = [], sc_destroyed = False,
      sc_promises = (\<lambda>_. Unsettled), sc_timers = Map.empty, sc_calls = 0\<rparr>"

text \<open>\<^verbatim>\<open>SseClient.connect\<close>: what the promise of a connection settles with, by the status of the answer.\<close>

definition sse_connect :: "nat \<Rightarrow> string + SseClient" where
  "sse_connect statusCode =
     (if statusCode \<noteq> 200 then Inl (''SSE connect failed: '' @ show_nat statusCode) else Inr new_client)"

text \<open>\<^verbatim>\<open>s.indexOf(pat)\<close>, with \<open>None\<close> for \<open>-1\<close>.\<close>

fun indexOf :: "string \<Rightarrow> string \<Rightarrow> nat option" where
  "indexOf pat [] = (if pat = [] then Some 0 else None)"
| "indexOf pat (c # s) = (if startsWith pat (c # s) then Some 0 else map_option Suc (indexOf pat s))"

text \<open>Settling a promise that is settled already does nothing.\<close>

definition settle_promise :: "nat \<Rightarrow> promise \<Rightarrow> SseClient \<Rightarrow> SseClient" where
  "settle_promise i outcome s =
     (if sc_promises s i = Unsettled then s\<lparr>sc_promises := (sc_promises s)(i := outcome)\<rparr> else s)"

text \<open>The closure \<^verbatim>\<open>check\<close> of one call, and the round in which a new frame runs all of them.\<close>

definition check_waiter :: "nat \<times> int \<Rightarrow> SseClient \<Rightarrow> SseClient" where
  "check_waiter w s =
     (case w of (i, wanted) \<Rightarrow>
        if wanted \<le> int (length (sc_frames s))
        then settle_promise i Resolved (s\<lparr>sc_timers := (sc_timers s)(i := None)\<rparr>)
        else s\<lparr>sc_waiters := sc_waiters s @ [(i, wanted)]\<rparr>)"

definition wake :: "SseClient \<Rightarrow> SseClient" where
  "wake s = fold check_waiter (sc_waiters s) (s\<lparr>sc_waiters := []\<rparr>)"

text \<open>The lines of a block: the last event name and the data lines.\<close>

fun block_lines :: "string list \<Rightarrow> string option \<Rightarrow> string list \<Rightarrow> string option \<times> string list" where
  "block_lines [] event dataLines = (event, dataLines)"
| "block_lines (line # lines) event dataLines =
     (if startsWith '':'' line then block_lines lines event dataLines
      else if startsWith ''event:'' line then block_lines lines (Some (js_trim (drop 6 line))) dataLines
      else if startsWith ''data:'' line then block_lines lines event (dataLines @ [js_trim (drop 5 line)])
      else block_lines lines event dataLines)"

definition parseBlock :: "(string \<Rightarrow> jsnum) \<Rightarrow> string \<Rightarrow> SseClient \<Rightarrow> SseClient" where
  "parseBlock nv block s =
     (case block_lines (js_split LF block) None [] of (event, dataLines) \<Rightarrow>
        if dataLines = [] then s
        else
          let text = js_join [LF] dataLines;
              data = nullish (JSON_parse nv text) (JStr text)
          in wake (s\<lparr>sc_frames := sc_frames s @ [\<lparr>sf_event = event, sf_data = data\<rparr>]\<rparr>))"

lemma settle_fields [simp]:
  "sc_frames (settle_promise i p s) = sc_frames s" "sc_raw (settle_promise i p s) = sc_raw s" "sc_buffer (settle_promise i p s) = sc_buffer s"
  "sc_waiters (settle_promise i p s) = sc_waiters s" "sc_destroyed (settle_promise i p s) = sc_destroyed s"
  "sc_timers (settle_promise i p s) = sc_timers s" "sc_calls (settle_promise i p s) = sc_calls s"
  by (simp_all add: settle_promise_def)

lemma check_fields [simp]:
  "sc_frames (check_waiter w s) = sc_frames s" "sc_raw (check_waiter w s) = sc_raw s"
  "sc_buffer (check_waiter w s) = sc_buffer s" "sc_destroyed (check_waiter w s) = sc_destroyed s"
  "sc_calls (check_waiter w s) = sc_calls s"
  by (simp_all add: check_waiter_def split: prod.split)

lemma checks_fields [simp]:
  "sc_frames (fold check_waiter ws s) = sc_frames s" "sc_raw (fold check_waiter ws s) = sc_raw s"
  "sc_buffer (fold check_waiter ws s) = sc_buffer s" "sc_destroyed (fold check_waiter ws s) = sc_destroyed s"
  "sc_calls (fold check_waiter ws s) = sc_calls s"
  by (induction ws arbitrary: s) simp_all

lemma wake_fields [simp]:
  "sc_frames (wake s) = sc_frames s" "sc_raw (wake s) = sc_raw s" "sc_buffer (wake s) = sc_buffer s"
  "sc_destroyed (wake s) = sc_destroyed s" "sc_calls (wake s) = sc_calls s"
  by (simp_all add: wake_def)

lemma parseBlock_fields [simp]:
  "sc_buffer (parseBlock nv block s) = sc_buffer s" "sc_raw (parseBlock nv block s) = sc_raw s"
  "sc_destroyed (parseBlock nv block s) = sc_destroyed s"
  by (simp_all add: parseBlock_def Let_def split: prod.split)

text \<open>The loop of \<^verbatim>\<open>ingest\<close>: every round takes a block and its separator off the buffer.\<close>

lemma indexOf_bound: "indexOf pat s = Some i \<Longrightarrow> i + length pat \<le> length s"
proof (induction s arbitrary: i)
  case (Cons c s)
  then show ?case by (force simp: startsWith_def split: if_splits dest: arg_cong [where f = length])
qed (simp split: if_splits)

function ingest_loop :: "(string \<Rightarrow> jsnum) \<Rightarrow> SseClient \<Rightarrow> SseClient" where
  "ingest_loop nv s =
     (case indexOf [LF, LF] (sc_buffer s) of
        None \<Rightarrow> s
      | Some sep \<Rightarrow>
          ingest_loop nv (parseBlock nv (take sep (sc_buffer s)) (s\<lparr>sc_buffer := drop (sep + 2) (sc_buffer s)\<rparr>)))"
  by pat_completeness auto
termination by (relation "measure (\<lambda>(nv, s). length (sc_buffer s))") (auto dest: indexOf_bound)

declare ingest_loop.simps [simp del]

definition sse_ingest :: "(string \<Rightarrow> jsnum) \<Rightarrow> string \<Rightarrow> SseClient \<Rightarrow> SseClient" where
  "sse_ingest nv chunk s = ingest_loop nv (s\<lparr>sc_raw := sc_raw s @ chunk, sc_buffer := sc_buffer s @ chunk\<rparr>)"

definition waitForFrames :: "int \<Rightarrow> SseClient \<Rightarrow> SseClient" where
  "waitForFrames wanted s =
     (let i = sc_calls s in
      if wanted \<le> int (length (sc_frames s))
      then s\<lparr>sc_promises := (sc_promises s)(i := Resolved), sc_calls := Suc i\<rparr>
      else s\<lparr>sc_timers := (sc_timers s)(i \<mapsto> wanted), sc_waiters := sc_waiters s @ [(i, wanted)], sc_calls := Suc i\<rparr>)"

definition timer_expires :: "nat \<Rightarrow> SseClient \<Rightarrow> SseClient" where
  "timer_expires i s =
     (case sc_timers s i of
        None \<Rightarrow> s
      | Some wanted \<Rightarrow>
          settle_promise i (Rejected (''timed out waiting for '' @ show_int wanted @ '' frame(s); got '' @
              show_nat (length (sc_frames s)))) (s\<lparr>sc_timers := (sc_timers s)(i := None)\<rparr>))"

definition sse_close :: "SseClient \<Rightarrow> SseClient" where
  "sse_close s = s\<lparr>sc_destroyed := True\<rparr>"

datatype sse_event = Chunk string | WaitFor int | TimerExpires nat | Close

fun sse_step :: "(string \<Rightarrow> jsnum) \<Rightarrow> SseClient \<Rightarrow> sse_event \<Rightarrow> SseClient" where
  "sse_step nv s (Chunk chunk) = (if sc_destroyed s then s else sse_ingest nv chunk s)"
| "sse_step nv s (WaitFor wanted) = waitForFrames wanted s"
| "sse_step nv s (TimerExpires i) = timer_expires i s"
| "sse_step nv s Close = sse_close s"

section \<open>Chunks do not matter\<close>

lemma indexOf_append: "indexOf pat s = Some i \<Longrightarrow> indexOf pat (s @ t) = Some i"
proof (induction s arbitrary: i)
  case (Cons c s)
  show ?case
  proof (cases "startsWith pat (c # s)")
    case True
    then obtain u where "c # s = pat @ u" by (auto simp: startsWith_append)
    then have "c # s @ t = pat @ (u @ t)" by (metis append_Cons append_assoc)
    then have "startsWith pat (c # s @ t)" unfolding startsWith_append by blast
    with True Cons.prems show ?thesis by simp
  next
    case False
    then obtain j where j: "indexOf pat s = Some j" "i = Suc j" using Cons.prems by auto
    have "length pat \<le> length (c # s)" using indexOf_bound [OF j(1)] by simp
    then have "take (length pat) (c # s @ t) = take (length pat) (c # s)"
      by (metis append_Cons append_eq_append_conv2 append_take_drop_id take_append diff_is_0_eq' self_append_conv take_eq_Nil)
    then have "\<not> startsWith pat (c # s @ t)" using False by (simp add: startsWith_def)
    then show ?thesis using Cons.IH [OF j(1)] j(2) by simp
  qed
qed (cases t; simp add: startsWith_def split: if_splits)

lemma indexOf_line: "LF \<notin> set line \<Longrightarrow> indexOf [LF, LF] (line @ LF # LF # rest) = Some (length line)"
  by (induction line) (auto simp: startsWith_def)

text \<open>A chunk at the end of the buffer.\<close>

definition arrived :: "string \<Rightarrow> SseClient \<Rightarrow> SseClient" where
  "arrived chunk s = s\<lparr>sc_raw := sc_raw s @ chunk, sc_buffer := sc_buffer s @ chunk\<rparr>"

lemma settle_arrived: "settle_promise i p (arrived chunk s) = arrived chunk (settle_promise i p s)"
  by (simp add: settle_promise_def arrived_def)

lemma check_arrived: "check_waiter w (arrived chunk s) = arrived chunk (check_waiter w s)"
  by (cases w) (simp add: check_waiter_def settle_promise_def arrived_def)

lemma wake_arrived: "wake (arrived chunk s) = arrived chunk (wake s)"
proof -
  have "fold check_waiter ws (arrived chunk s) = arrived chunk (fold check_waiter ws s)" for ws s
    by (induction ws arbitrary: s) (simp_all add: check_arrived)
  moreover have "(arrived chunk s)\<lparr>sc_waiters := []\<rparr> = arrived chunk (s\<lparr>sc_waiters := []\<rparr>)" by (simp add: arrived_def)
  moreover have "sc_waiters (arrived chunk s) = sc_waiters s" by (simp add: arrived_def)
  ultimately show ?thesis by (simp add: wake_def)
qed

lemma parseBlock_arrived: "parseBlock nv block (arrived chunk s) = arrived chunk (parseBlock nv block s)"
proof -
  have "(arrived chunk s)\<lparr>sc_frames := fs\<rparr> = arrived chunk (s\<lparr>sc_frames := fs\<rparr>)" for fs by (simp add: arrived_def)
  moreover have "sc_frames (arrived chunk s) = sc_frames s" by (simp add: arrived_def)
  ultimately show ?thesis by (simp add: parseBlock_def Let_def wake_arrived split: prod.split)
qed

lemma ingest_alt: "sse_ingest nv chunk s = ingest_loop nv (arrived chunk s)"
  by (simp add: sse_ingest_def arrived_def)

lemma ingest_loop_arrived: "ingest_loop nv (arrived chunk (ingest_loop nv s)) = ingest_loop nv (arrived chunk s)"
proof (induction nv s rule: ingest_loop.induct)
  case (1 nv s)
  show ?case
  proof (cases "indexOf [LF, LF] (sc_buffer s)")
    case None
    then show ?thesis by (simp add: ingest_loop.simps [of nv s])
  next
    case (Some sep)
    let ?s = "parseBlock nv (take sep (sc_buffer s)) (s\<lparr>sc_buffer := drop (sep + 2) (sc_buffer s)\<rparr>)"
    have len: "sep + 2 \<le> length (sc_buffer s)" using indexOf_bound [OF Some] by simp
    have "ingest_loop nv (arrived chunk s) = ingest_loop nv (parseBlock nv (take sep (sc_buffer s))
        (arrived chunk (s\<lparr>sc_buffer := drop (sep + 2) (sc_buffer s)\<rparr>)))"
      using len by (subst ingest_loop.simps) (simp add: arrived_def indexOf_append [OF Some])
    then show ?thesis using 1 [OF Some] Some by (simp add: ingest_loop.simps [of nv s] parseBlock_arrived)
  qed
qed

text \<open>
  However the stream is cut into chunks, the client ends in the state it would be in had the whole
  text come at once.
\<close>

lemma ingest_append: "sse_ingest nv c2 (sse_ingest nv c1 s) = sse_ingest nv (c1 @ c2) s"
proof -
  have "arrived c2 (arrived c1 s) = arrived (c1 @ c2) s" by (simp add: arrived_def)
  then show ?thesis by (simp add: ingest_alt ingest_loop_arrived)
qed

lemma ingest_chunks: "sse_ingest nv rest (fold (sse_ingest nv) cs s) = sse_ingest nv (concat cs @ rest) s"
  by (induction cs arbitrary: s) (simp_all add: ingest_append)

lemma ingest_loop_same: "sc_raw (ingest_loop nv s) = sc_raw s \<and> sc_destroyed (ingest_loop nv s) = sc_destroyed s"
proof (induction nv s rule: ingest_loop.induct)
  case (1 nv s)
  then show ?case by (subst (1 2) ingest_loop.simps) (simp split: option.split)
qed

lemma ingest_same [simp]:
  "sc_raw (sse_ingest nv chunk s) = sc_raw s @ chunk" "sc_destroyed (sse_ingest nv chunk s) = sc_destroyed s"
  by (simp_all add: sse_ingest_def ingest_loop_same)

lemma run_chunks: "\<not> sc_destroyed s \<Longrightarrow> run (sse_step nv) s (map Chunk cs) = fold (sse_ingest nv) cs s"
  by (induction cs arbitrary: s) simp_all

section \<open>What is read from the hub\<close>

definition frame_of :: "Hub_Types.IslandEvent \<Rightarrow> SseFrame" where
  "frame_of ev = \<lparr>sf_event = None, sf_data = JObj (event_obj ev)\<rparr>"

lemma js_split_line [simp]: "c \<notin> set line \<Longrightarrow> js_split c line = [line]"
  by (induction line) auto

lemma parse_hello: "parseBlock nv '': connected'' s = s"
  by (simp add: parseBlock_def LF_def startsWith_def)

lemma trim_braces: "js_trim (CHR '' '' # CHR ''{'' # t @ ''}'') = CHR ''{'' # t @ ''}''"
  by (simp add: js_trim_def js_space_def)

lemma object_text: "\<exists>t. json_text ns (JObj ob) = CHR ''{'' # t @ ''}''"
  by (simp add: json_text_def)

lemma parse_frame:
  assumes "json_ok ns nv (JObj (event_obj ev))" "LF \<notin> set (json_text ns (JObj (event_obj ev)))"
  shows "parseBlock nv (''data: '' @ json_text ns (JObj (event_obj ev))) s
    = wake (s\<lparr>sc_frames := sc_frames s @ [frame_of ev]\<rparr>)"
proof -
  let ?j = "json_text ns (JObj (event_obj ev))"
  obtain t where t: "?j = CHR ''{'' # t @ ''}''" using object_text by blast
  have "JSON_parse nv ?j = Some (JObj (event_obj ev))"
    using JSON_parse_stringify [OF assms(1)] json_ok_text [OF assms(1)] by auto
  moreover have "js_split LF (''data: '' @ ?j) = [''data: '' @ ?j]" using assms(2) by (intro js_split_line) (auto simp: LF_def)
  moreover have "block_lines [''data: '' @ ?j] None [] = (None, [?j])"
    unfolding t using trim_braces [of t] by (simp add: startsWith_def)
  ultimately show ?thesis by (simp add: parseBlock_def frame_of_def)
qed

text \<open>The text that the hub has written to a connection, and the client that has read all of it.\<close>

lemma ingest_loop_block:
  assumes "LF \<notin> set line" "sc_buffer s = line @ LF # LF # rest"
  shows "ingest_loop nv s = ingest_loop nv (parseBlock nv line (s\<lparr>sc_buffer := rest\<rparr>))"
  using assms(2) indexOf_line [OF assms(1), of rest] by (subst ingest_loop.simps) (simp add: drop_Cons')

lemma frame_text:
  assumes "json_ok ns nv (JObj (event_obj ev))"
  shows "event_frame ns ev = (''data: '' @ json_text ns (JObj (event_obj ev))) @ [LF, LF]"
  using json_ok_text [OF assms] by (simp add: event_frame_def)

lemma ingest_loop_session:
  assumes "\<forall>ev \<in> set (heard env r n sub ins). json_ok ns nv (JObj (event_obj ev))" "\<forall>q. LF \<notin> set (ns q)"
    "sc_buffer s = concat (session ns env r n sub ins)"
  shows "sc_frames (ingest_loop nv s) = sc_frames s @ map frame_of (heard env r n sub ins) \<and> sc_buffer (ingest_loop nv s) = []"
  using assms(1,3)
proof (induction env r n sub ins arbitrary: s rule: heard.induct)
  case (1 env r n sub)
  then show ?case by (simp add: ingest_loop.simps [of nv s])
next
  case (2 env r n sub req ins)
  show ?case
  proof (cases "identifyService env req")
    case None
    then show ?thesis using 2 by simp
  next
    case (Some identity)
    show ?thesis
    proof (cases "n = r")
      case True
      let ?rest = "concat (session ns env r (Suc n) (Some (si_allowedChannels identity)) ins)"
      have "sc_buffer s = '': connected'' @ LF # LF # ?rest" using 2(4) True Some by (simp add: hello_def)
      then have "ingest_loop nv s = ingest_loop nv (s\<lparr>sc_buffer := ?rest\<rparr>)"
        using ingest_loop_block [of "'': connected''" s ?rest nv] by (simp add: parse_hello LF_def)
      then show ?thesis using 2(2) [OF Some, of "s\<lparr>sc_buffer := ?rest\<rparr>"] 2(3) True Some by simp
    next
      case False
      then show ?thesis using 2(2) [OF Some, of s] 2(3,4) Some by simp
    qed
  qed
next
  case (3 env r n sub rt req uuid ins)
  show ?case
  proof (cases "\<exists>ob S. ingest_reads env rt req = Some ob \<and> sub = Some S \<and> ie_channel (ingest_event rt uuid ob) \<in> S")
    case False
    then show ?thesis using 3 by (cases "ingest_reads env rt req"; cases sub) auto
  next
    case True
    then obtain ob S where o: "ingest_reads env rt req = Some ob" "sub = Some S" "ie_channel (ingest_event rt uuid ob) \<in> S"
      by blast
    let ?ev = "ingest_event rt uuid ob" and ?rest = "concat (session ns env r (Suc n) sub ins)"
    let ?line = "''data: '' @ json_text ns (JObj (event_obj ?ev))"
    have ok: "json_ok ns nv (JObj (event_obj ?ev))" using 3(4) o by simp
    have lf: "LF \<notin> set (json_text ns (JObj (event_obj ?ev)))"
      using stringify_no_LF [OF assms(2) json_ok_text [OF ok]] .
    have "sc_buffer s = ?line @ LF # LF # ?rest" using 3(5) o by (simp add: frame_text [OF ok])
    moreover have "LF \<notin> set ?line" using lf by (auto simp: LF_def)
    ultimately have "ingest_loop nv s = ingest_loop nv (wake (s\<lparr>sc_buffer := ?rest, sc_frames := sc_frames s @ [frame_of ?ev]\<rparr>))"
      using ingest_loop_block [of ?line s ?rest nv] parse_frame [OF ok lf] by simp
    then show ?thesis
      using 3(3) [of "Some ob" "Some S" ob S "wake (s\<lparr>sc_buffer := ?rest, sc_frames := sc_frames s @ [frame_of ?ev]\<rparr>)"] 3(4) o by simp
  qed
next
  case (4 env r n sub c ins)
  then show ?case by simp
qed

section \<open>Waiting for frames\<close>

lemma check_parts:
  "sc_waiters (check_waiter (j, d) s) = sc_waiters s @ (if int (length (sc_frames s)) < d then [(j, d)] else [])"
  "sc_promises (check_waiter (j, d) s) i =
     (if j = i \<and> d \<le> int (length (sc_frames s)) \<and> sc_promises s i = Unsettled then Resolved else sc_promises s i)"
  "sc_timers (check_waiter (j, d) s) i = (if j = i \<and> d \<le> int (length (sc_frames s)) then None else sc_timers s i)"
  by (auto simp: check_waiter_def settle_promise_def)

lemma checks_waiters:
  "sc_waiters (fold check_waiter ws s) = sc_waiters s @ filter (\<lambda>(j, d). int (length (sc_frames s)) < d) ws"
  by (induction ws arbitrary: s) (auto simp: check_parts)

lemma checks_promises:
  "sc_promises (fold check_waiter ws s) i =
     (if sc_promises s i = Unsettled \<and> (\<exists>d. (i, d) \<in> set ws \<and> d \<le> int (length (sc_frames s))) then Resolved
      else sc_promises s i)"
  by (induction ws arbitrary: s) (auto simp: check_parts split: if_splits)

lemma checks_timers:
  "sc_timers (fold check_waiter ws s) i =
     (if \<exists>d. (i, d) \<in> set ws \<and> d \<le> int (length (sc_frames s)) then None else sc_timers s i)"
  by (induction ws arbitrary: s) (auto simp: check_parts)

text \<open>A call \<open>i\<close> that waits for \<open>c\<close> frames: what its promise, its timer and the list of waiters have of it.\<close>

definition waits :: "nat \<Rightarrow> int \<Rightarrow> SseClient \<Rightarrow> bool" where
  "waits i c s =
     (i < sc_calls s \<and> (\<forall>(j, d) \<in> set (sc_waiters s). j = i \<longrightarrow> d = c) \<and>
      (case sc_promises s i of
         Unsettled \<Rightarrow> (i, c) \<in> set (sc_waiters s) \<and> sc_timers s i = Some c \<and> int (length (sc_frames s)) < c
       | Resolved \<Rightarrow> c \<le> int (length (sc_frames s)) \<and> sc_timers s i = None
       | Rejected m \<Rightarrow> sc_timers s i = None))"

definition waiters_known :: "SseClient \<Rightarrow> bool" where
  "waiters_known s =
     ((\<forall>(j, d) \<in> set (sc_waiters s). j < sc_calls s) \<and>
      (\<forall>i \<ge> sc_calls s. sc_promises s i = Unsettled \<and> sc_timers s i = None))"

lemma waits_wake:
  assumes "waits i c s" "length (sc_frames s) \<le> length fs"
  shows "waits i c (wake (s\<lparr>sc_frames := fs\<rparr>))"
  using assms
  by (cases "sc_promises s i")
    (auto simp: waits_def wake_def checks_waiters checks_promises checks_timers)

lemma waiters_known_wake: "waiters_known s \<Longrightarrow> waiters_known (wake (s\<lparr>sc_frames := fs\<rparr>))"
  by (fastforce simp: waiters_known_def wake_def checks_waiters checks_promises checks_timers)

lemma parseBlock_cases:
  "parseBlock nv block s = s \<or> (\<exists>f. parseBlock nv block s = wake (s\<lparr>sc_frames := sc_frames s @ [f]\<rparr>))"
  by (auto simp: parseBlock_def Let_def split: prod.split)

text \<open>A property that new frames keep and that does not look at the buffer is kept by reading a chunk.\<close>

lemma ingest_keeps:
  assumes "\<And>s f. I s \<Longrightarrow> I (wake (s\<lparr>sc_frames := sc_frames s @ [f]\<rparr>))"
    "\<And>s r. I (s\<lparr>sc_raw := r\<rparr>) = I s" "\<And>s b. I (s\<lparr>sc_buffer := b\<rparr>) = I s" "I s"
  shows "I (sse_ingest nv chunk s)"
proof -
  have "I s \<Longrightarrow> I (ingest_loop nv s)" for s
  proof (induction nv s rule: ingest_loop.induct)
    case (1 nv s)
    have "I (parseBlock nv block s)" if "I s" for block s using parseBlock_cases [of nv block s] assms(1) that by auto
    with 1 show ?case by (subst ingest_loop.simps) (simp add: assms(3) split: option.split)
  qed
  then show ?thesis using assms(2-4) by (simp add: sse_ingest_def)
qed

lemma waits_update [simp]:
  "waits i c (s\<lparr>sc_raw := r\<rparr>) = waits i c s" "waits i c (s\<lparr>sc_buffer := b\<rparr>) = waits i c s"
  "waits i c (s\<lparr>sc_destroyed := x\<rparr>) = waits i c s"
  by (simp_all add: waits_def cong: promise.case_cong)

lemma waiters_known_update [simp]:
  "waiters_known (s\<lparr>sc_raw := r\<rparr>) = waiters_known s" "waiters_known (s\<lparr>sc_buffer := b\<rparr>) = waiters_known s"
  by (simp_all add: waiters_known_def)

lemma waits_step: "waits i c s \<Longrightarrow> waits i c (sse_step nv s e)"
proof (cases e)
  case (Chunk chunk)
  assume "waits i c s"
  then show ?thesis unfolding Chunk using ingest_keeps [of "waits i c" s nv chunk] by (simp add: waits_wake)
next
  case (WaitFor d)
  assume "waits i c s"
  then show ?thesis unfolding WaitFor by (auto simp: waitForFrames_def waits_def Let_def split: promise.splits)
next
  case (TimerExpires j)
  assume "waits i c s"
  then show ?thesis unfolding TimerExpires
    by (auto simp: timer_expires_def waits_def settle_promise_def split: promise.splits option.splits)
next
  case Close
  assume "waits i c s"
  then show ?thesis unfolding Close by (simp add: sse_close_def)
qed

lemma waiters_known_step: "waiters_known s \<Longrightarrow> waiters_known (sse_step nv s e)"
  using ingest_keeps [of waiters_known] waiters_known_wake
  by (cases e) (auto simp: waitForFrames_def timer_expires_def settle_promise_def sse_close_def Let_def waiters_known_def split: option.split)

interpretation sse_waits: machine_invariant "sse_step nv" "waits i c" for nv i c
  by unfold_locales (rule waits_step)

interpretation sse_waiters: machine_invariant "sse_step nv" waiters_known for nv
  by unfold_locales (rule waiters_known_step)

lemma settled_wake: "sc_promises s i \<noteq> Unsettled \<Longrightarrow> sc_promises (wake (s\<lparr>sc_frames := fs\<rparr>)) i = sc_promises s i"
  by (simp add: wake_def checks_promises)

lemma settled_step:
  assumes "sc_promises s i = p" "p \<noteq> Unsettled" "i < sc_calls s"
  shows "sc_promises (sse_step nv s e) i = p \<and> i < sc_calls (sse_step nv s e)"
proof (cases e)
  case (Chunk chunk)
  have "sc_promises (sse_ingest nv chunk s) i = p \<and> i < sc_calls (sse_ingest nv chunk s)"
    using assms by (intro ingest_keeps [of "\<lambda>s. sc_promises s i = p \<and> i < sc_calls s"]) (auto simp: settled_wake)
  then show ?thesis using assms Chunk by simp
qed (use assms in \<open>auto simp: waitForFrames_def timer_expires_def settle_promise_def sse_close_def Let_def split: option.split\<close>)

lemma settled_run:
  "sc_promises s i = p \<Longrightarrow> p \<noteq> Unsettled \<Longrightarrow> i < sc_calls s \<Longrightarrow> sc_promises (run (sse_step nv) s es) i = p"
  by (induction es arbitrary: s) (simp_all add: settled_step)

lemma rejected_wake:
  "\<forall>m. sc_promises s i \<noteq> Rejected m \<Longrightarrow> \<forall>m. sc_promises (wake (s\<lparr>sc_frames := fs\<rparr>)) i \<noteq> Rejected m"
  by (simp add: wake_def checks_promises)

lemma rejected_step:
  assumes "\<forall>m. sc_promises s i \<noteq> Rejected m" "e \<noteq> TimerExpires i"
  shows "\<forall>m. sc_promises (sse_step nv s e) i \<noteq> Rejected m"
proof (cases e)
  case (Chunk chunk)
  have "\<forall>m. sc_promises (sse_ingest nv chunk s) i \<noteq> Rejected m"
    using assms(1) by (intro ingest_keeps [of "\<lambda>s. \<forall>m. sc_promises s i \<noteq> Rejected m"]) (simp_all add: rejected_wake)
  then show ?thesis using assms Chunk by simp
qed (use assms in \<open>auto simp: waitForFrames_def timer_expires_def settle_promise_def sse_close_def Let_def split: option.split\<close>)

lemma rejected_run:
  "\<forall>m. sc_promises s i \<noteq> Rejected m \<Longrightarrow> TimerExpires i \<notin> set es \<Longrightarrow> \<forall>m. sc_promises (run (sse_step nv) s es) i \<noteq> Rejected m"
  by (induction es arbitrary: s) (auto simp: rejected_step)

lemma waits_call: "waiters_known s \<Longrightarrow> waits (sc_calls s) c (waitForFrames c s)"
  by (auto simp: waits_def waiters_known_def waitForFrames_def Let_def)

lemma timer_settles: "waits i c s \<Longrightarrow> sc_promises (sse_step nv s (TimerExpires i)) i \<noteq> Unsettled"
  by (auto simp: waits_def timer_expires_def settle_promise_def split: promise.splits)

section \<open>The reader and the hub\<close>

lemma ingest_frames: "prefix (sc_frames s) (sc_frames (sse_ingest nv chunk s))"
  by (rule ingest_keeps [of "\<lambda>t. prefix (sc_frames s) (sc_frames t)"]) (auto intro: prefix_order.trans)

text \<open>C6.
  The reader of the tests sees the hub's stream as it is. Take any requests and disconnects at the broadcast
  service and a connection \<open>r\<close>, and let the network cut the text written to that connection into chunks in any way:
  at every moment the frames read so far are the first of the events heard on the connection, each with no event name
  and with the event's own JSON value as its data, and once everything has come they are all of them and
  the buffer is empty.
\<close>

theorem sse_reader_hears_hub:
  assumes "zod sp" "\<forall>q. LF \<notin> set (ns q)"
    and ok: "\<forall>ev \<in> set (heard env r 0 None ins). json_ok ns nv (JObj (event_obj ev))"
    and all: "concat (wire (hub_bus (run (hub_step sp ns env) hub_init ins)) r) = concat cs @ rest"
    and s: "sse_connect 200 = Inr s" and s': "s' = run (sse_step nv) s (map Chunk cs)"
  shows "prefix (sc_frames s') (map frame_of (heard env r 0 None ins)) \<and> sc_raw s' = concat cs \<and>
    (rest = [] \<longrightarrow> sc_frames s' = map frame_of (heard env r 0 None ins) \<and> sc_buffer s' = [])"
proof -
  let ?evs = "heard env r 0 None ins"
  have s0: "s = new_client" using s by (simp add: sse_connect_def)
  have s'': "s' = fold (sse_ingest nv) cs new_client" unfolding s' s0 by (rule run_chunks) (simp add: new_client_def)
  have "concat cs @ rest = concat (session ns env r 0 None ins)"
    using hub_service.delivery [OF hub_service.intro [OF assms(1)]] all by simp
  then have "sc_buffer (arrived (concat cs @ rest) new_client) = concat (session ns env r 0 None ins)"
    by (simp add: arrived_def new_client_def)
  from ingest_loop_session [OF ok assms(2) this]
  have "sc_frames (sse_ingest nv (concat cs @ rest) new_client) = map frame_of ?evs" "sc_buffer (sse_ingest nv (concat cs @ rest) new_client) = []"
    by (simp_all add: ingest_alt) (simp add: arrived_def new_client_def)
  then have all': "sc_frames (sse_ingest nv rest s') = map frame_of ?evs" "sc_buffer (sse_ingest nv rest s') = []"
    by (simp_all only: s'' ingest_chunks)
  have raw: "sc_raw (fold (sse_ingest nv) ds t) = sc_raw t @ concat ds" for ds t by (induction ds arbitrary: t) simp_all
  have "prefix (sc_frames s') (sc_frames (sse_ingest nv rest s'))" by (rule ingest_frames)
  moreover have "sc_frames s' = map frame_of ?evs \<and> sc_buffer s' = []" if "rest = []"
  proof -
    have "sse_ingest nv [] (sse_ingest nv c t) = sse_ingest nv c t" for c t using ingest_append [of nv "[]" c t] by simp
    moreover have "sse_ingest nv [] new_client = new_client"
      by (simp add: ingest_alt arrived_def new_client_def ingest_loop.simps)
    ultimately have "sse_ingest nv [] s' = s'" unfolding s'' by (cases cs rule: rev_cases) simp_all
    then show ?thesis using all' that by simp
  qed
  ultimately show ?thesis using all' raw by (simp add: s'' new_client_def)
qed

text \<open>A reader that no service token identifies is turned away, and says so; every other one is connected.\<close>

fun status_of :: "response \<Rightarrow> nat" where
  "status_of (Json status body) = status"
| "status_of EventStream = 200"

lemma reader_connects:
  "sse_connect (status_of (snd (get_events env r req b))) =
     (if identifyService env req = None then Inl ''SSE connect failed: 401'' else Inr new_client)"
proof -
  have "show_nat 401 = ''401''" by code_simp
  then show ?thesis by (simp add: get_events_def error_response_def sse_connect_def split: option.split)
qed

definition sample_heard :: "Hub_Types.IslandEvent" where
  "sample_heard = ingest_event PostAirportArrival ''u1'' [(''guest_id'', JStr ''g1''), (''gate'', JStr ''A'')]"

lemma heard_sample: "heard sample_env 0 0 None sample_inputs = [sample_heard]"
  by (simp add: sample_inputs_def stream_request_def arrival_post_def identify_sample_fe identify_sample_be
      reads_sample_arrival base_event_def sample_heard_def)

lemma json_ok_sample: "json_ok int_printer (\<lambda>_. NaN) (JObj (event_obj sample_heard))"
  by (simp add: sample_heard_def base_event_def event_obj_def obj_rest_def)

lemma show_nat_no_LF: "LF \<notin> set (show_nat n)"
proof (induction n rule: show_nat.induct)
  case (1 n)
  have digit: "LF \<noteq> char_of (48 + k)" if "k < 10" for k :: nat
  proof
    assume "LF = char_of (48 + k)"
    then have "of_char (char_of (48 + k) :: char) = (of_char LF :: nat)" by simp
    then show False using that by (simp add: LF_def)
  qed
  with 1 show ?case by (subst show_nat.simps) auto
qed

lemma concat_singletons: "concat (map (\<lambda>c. [c]) xs) = xs"
  by (induction xs) simp_all

theorem sse_reader_hears_hub_witness:
  "sc_frames (run (sse_step (\<lambda>_. NaN)) new_client (map Chunk (map (\<lambda>c. [c])
      (concat (wire (hub_bus (run (hub_step zod_reference int_printer sample_env) hub_init sample_inputs)) 0)))))
    = [frame_of sample_heard]"
proof -
  let ?text = "concat (wire (hub_bus (run (hub_step zod_reference int_printer sample_env) hub_init sample_inputs)) 0)"
  have ok: "\<forall>ev \<in> set (heard sample_env 0 0 None sample_inputs). json_ok int_printer (\<lambda>_. NaN) (JObj (event_obj ev))"
    unfolding heard_sample using json_ok_sample by simp
  have chunks: "?text = concat (map (\<lambda>c. [c]) ?text) @ []" by (simp only: concat_singletons append_Nil2)
  have no_LF: "\<forall>q. LF \<notin> set (int_printer q)" by (simp add: int_printer_def show_int_def show_nat_no_LF) (simp add: LF_def)
  have connected: "sse_connect 200 = Inr new_client" by (simp add: sse_connect_def)
  show ?thesis
    using sse_reader_hears_hub [OF zref.zod_axioms no_LF ok chunks connected refl] by (simp only: heard_sample list.map simp_thms)
qed

text \<open>Waiting for frames. Whatever a client has gone through before, a call of \<^verbatim>\<open>waitForFrames\<close> that is followed by
  any chunks, other calls and timers is resolved only when there are at least as many frames as were asked
  for; unless its own timer fires it is resolved exactly then, whatever the chunks; once its timer has fired it is
  settled; and a settled call never changes.
\<close>

lemma sse_wait_settles:
  assumes s: "s = run (sse_step nv) new_client es" and s': "s' = run (sse_step nv) s (WaitFor c # fs)"
  shows "(TimerExpires (sc_calls s) \<notin> set fs \<longrightarrow>
      sc_promises s' (sc_calls s) = (if c \<le> int (length (sc_frames s')) then Resolved else Unsettled)) \<and>
    (TimerExpires (sc_calls s) \<in> set fs \<longrightarrow> sc_promises s' (sc_calls s) \<noteq> Unsettled) \<and>
    (sc_promises s' (sc_calls s) = Resolved \<longrightarrow> c \<le> int (length (sc_frames s'))) \<and>
    (sc_promises s' (sc_calls s) \<noteq> Unsettled \<longrightarrow>
      sc_promises (run (sse_step nv) s' gs) (sc_calls s) = sc_promises s' (sc_calls s))"
proof -
  let ?i = "sc_calls s" and ?t = "waitForFrames c s"
  have "waiters_known new_client" by (simp add: waiters_known_def new_client_def)
  then have known: "waiters_known s" unfolding s by (rule sse_waiters.run_inv)
  have w: "waits ?i c (run (sse_step nv) ?t ds)" for ds using waits_call [OF known] by (rule sse_waits.run_inv)
  from w [of fs] have w': "waits ?i c s'" by (simp add: s')
  have "sc_promises s' ?i \<noteq> Rejected m" if "TimerExpires ?i \<notin> set fs" for m
    using rejected_run [OF _ that, of ?t nv] known s' by (auto simp: waitForFrames_def waiters_known_def Let_def)
  moreover have "sc_promises s' ?i \<noteq> Unsettled" if fired: "TimerExpires ?i \<in> set fs"
  proof -
    obtain ds hs where fs: "fs = ds @ TimerExpires ?i # hs" using split_list [OF fired] by blast
    let ?u = "sse_step nv (run (sse_step nv) ?t ds) (TimerExpires ?i)"
    have "sc_promises ?u ?i \<noteq> Unsettled" using w by (rule timer_settles)
    moreover have "?i < sc_calls ?u" using waits_step [OF w] unfolding waits_def by blast
    ultimately have "sc_promises (run (sse_step nv) ?u hs) ?i \<noteq> Unsettled" by (metis settled_run)
    then show ?thesis by (simp add: s' fs run_append)
  qed
  moreover have "sc_promises (run (sse_step nv) s' gs) ?i = sc_promises s' ?i" if "sc_promises s' ?i \<noteq> Unsettled"
    using settled_run [OF refl that] w' by (simp add: waits_def)
  ultimately show ?thesis using w' by (cases "sc_promises s' ?i") (auto simp: waits_def)
qed

lemma sse_wait_settles_example:
  "sc_promises (run (sse_step (\<lambda>_. NaN)) new_client [WaitFor 1, TimerExpires 0]) 0 \<noteq> Unsettled"
proof -
  have "new_client = run (sse_step (\<lambda>_. NaN)) new_client []" by simp
  moreover have "sc_calls new_client = 0" by (simp add: new_client_def)
  ultimately show ?thesis 
    using sse_wait_settles [where es = "[]" and c = 1 and fs = "[TimerExpires 0]", OF _ refl] by simp
qed

end
