(* ===== verification/Ui_Shell.thy ===== *)
theory Ui_Shell
  imports Ui_Cards
begin

text \<open>
  The pages as they are drawn: the selection page with its two faces, the map page with its markers, its
  session box, its connection badge and the shell of the panel, and the page after quitting. A screen is a
  list of elements, each with the events of \<open>app_event\<close> that it offers; styling is left out, and the
  carousel around the guest cards is the machine of \<open>Ui_Carousel\<close>.
\<close>

section \<open>Elements\<close>

datatype element =
    Heading string
  | Paragraph string
  | Alert string
  | Button string app_event
  | PasscodeForm "element list"
  | PasscodeField string string bool
  | SubmitButton string
  | GuestTile guest_card_view string
  | FlipBox string "element list" "element list"
  | Marker marker_view
  | SessionBox hud_view "element list"
  | StatusBadge string
  | PanelBox bool "string \<times> string option \<times> string option" "element list" "widget list"

text \<open>The events a user can cause with an element; a form is submitted with whatever has been typed.\<close>

fun is_submission :: "app_event \<Rightarrow> bool" where
  "is_submission (SubmitPasscode raw) = True"
| "is_submission _ = False"

fun offers :: "element \<Rightarrow> app_event \<Rightarrow> bool" where
  "offers (Button label event) e = (e = event)"
| "offers (PasscodeForm els) e = (is_submission e \<or> list_ex (\<lambda>el. offers el e) els)"
| "offers (PasscodeField label placeholder invalid) e = (e = TypePasscode)"
| "offers (GuestTile tile label) e = (e = ChooseGuest (gk_onSelect tile))"
| "offers (FlipBox transform front back) e = (list_ex (\<lambda>el. offers el e) front \<or> list_ex (\<lambda>el. offers el e) back)"
| "offers (Marker m) e = (e = ClickZone (mv_onClick m))"
| "offers (SessionBox v els) e = list_ex (\<lambda>el. offers el e) els"
| "offers (PanelBox isOpen header els content) e = list_ex (\<lambda>el. offers el e) els"
| "offers _ e = False"

definition on_screen :: "element list \<Rightarrow> app_event \<Rightarrow> bool" where
  "on_screen els e = list_ex (\<lambda>el. offers el e) els"

section \<open>The selection page\<close>

definition SelectionPanel :: "string \<Rightarrow> string \<Rightarrow> string \<Rightarrow> app_event \<Rightarrow> element list \<Rightarrow> element list" where
  "SelectionPanel title description flipLabel onFlip children =
     [Heading title, Paragraph description, Button flipLabel onFlip] @ children"

definition GuestSelectionFront :: "element list" where
  "GuestSelectionFront =
     SelectionPanel ''Welcome to Purrlington!'' ''Choose a guest passport, then enter the resort as that character.''
       ''Admin'' (FlipTo True) (map (\<lambda>card. GuestTile card ''Choose this guest'') selection_cards)"

text \<open>The card of the login; \<open>error\<close> is the message of the form for its only field.\<close>

definition AdminLoginCard :: "string option \<Rightarrow> element list" where
  "AdminLoginCard error =
     [Heading ''Admin'', Paragraph ''Observer mode'',
      PasscodeForm
        (PasscodeField ''Admin passcode'' ''Enter passcode'' (truthy_str error)
         # (if truthy_str error then [Alert (nullish error [])] else [])),
      SubmitButton ''Enter as admin'']"

definition AdminBack :: "string option \<Rightarrow> element list" where
  "AdminBack error =
     [Button ''Back'' (FlipTo False), Heading ''Admin access'', Paragraph ''Enter observer mode without selecting a guest.'']
     @ AdminLoginCard error"

text \<open>Both faces are always drawn; the rotation of the box decides which one is turned to the user.\<close>

definition FlipCard :: "bool \<Rightarrow> element list \<Rightarrow> element list \<Rightarrow> element" where
  "FlipCard flipped front back = FlipBox (if flipped then ''rotateY(180deg)'' else ''rotateY(0deg)'') front back"

definition MadeByCredit :: element where
  "MadeByCredit = Paragraph (''Made with '' @ [CHR 0xE2, CHR 0x99, CHR 0xA1] @ '' by Sigmoid'')"

definition selection_page_view :: "app_page \<Rightarrow> element list" where
  "selection_page_view s = [FlipCard (ap_flipped s) GuestSelectionFront (AdminBack (ap_error s)), MadeByCredit]"

section \<open>The map page\<close>

definition HudActions :: "string \<Rightarrow> element list" where
  "HudActions switchLabel = [Button switchLabel SwitchSession, Button ''Quit'' ClickQuit]"

definition session_box :: "AppSession option \<Rightarrow> element list" where
  "session_box session = (case GuestHud session of None \<Rightarrow> [] | Some v \<Rightarrow> [SessionBox v (HudActions (hv_switchLabel v))])"

definition ZONE_IDS :: "ZoneId list" where
  "ZONE_IDS = [AirportZone, HotelZone, BeachZone, CrabZone, ParrotZone, BroadcastZone]"

text \<open>
  The markers of the zones; the farm, the oracle and Kiki on the same layer are the machines of \<open>Ui_Controls\<close> and
  \<open>Ui_Quest_View\<close>.
\<close>

definition ZoneLayer :: "rat \<Rightarrow> rat \<Rightarrow> panel_data \<Rightarrow> (ZoneId \<Rightarrow> bool) \<Rightarrow> element list" where
  "ZoneLayer mapW mapH d isActive = map (\<lambda>z. Marker (ZoneIndicator mapW mapH z d (isActive z))) ZONE_IDS"

text \<open>The shell of the panel is drawn whether it is open or moved out of sight, with its close button.\<close>

definition panel_shell :: "(rat \<Rightarrow> string) \<Rightarrow> ZoneId option \<Rightarrow> bool \<Rightarrow> panel_data \<Rightarrow> element" where
  "panel_shell numstr zone isOpen d =
     PanelBox isOpen (ZonePanelShell zone (pd_isAdmin d)) [Button [] ClickClose] (ZonePanel numstr zone d)"

definition IslandTitle :: element where
  "IslandTitle = Heading ''Purrlington''"

definition map_page_view ::
  "(rat \<Rightarrow> string) \<Rightarrow> rat \<Rightarrow> rat \<Rightarrow> ConnectionStatus \<Rightarrow> (ZoneId \<Rightarrow> bool) \<Rightarrow> panel_data \<Rightarrow> app_page \<Rightarrow> element list" where
  "map_page_view numstr mapW mapH status isActive d s =
     ZoneLayer mapW mapH d isActive @ session_box (useSession (ap_session s)) @
     [IslandTitle, StatusBadge (connection_label status), panel_shell numstr (ap_activeZone s) (panelOpen s) d]"

definition quit_page_view :: "element list" where
  "quit_page_view = [Paragraph (''You'' @ [CHR 0x27] @ ''ve checked out.''), Paragraph ''Close this tab to leave.'']"

definition app_screen ::
  "(rat \<Rightarrow> string) \<Rightarrow> rat \<Rightarrow> rat \<Rightarrow> ConnectionStatus \<Rightarrow> (ZoneId \<Rightarrow> bool) \<Rightarrow> panel_data \<Rightarrow> app_page \<Rightarrow> element list" where
  "app_screen numstr mapW mapH status isActive d s =
     (case router (ap_path s) of
        GuestSelectionPage \<Rightarrow> selection_page_view s
      | GuardedMap \<Rightarrow> map_page_view numstr mapW mapH status isActive d s
      | QuitPageElement \<Rightarrow> quit_page_view)"

section \<open>What the screen offers\<close>

lemma on_screen_simps [simp]:
  "on_screen [] e = False" "on_screen (el # els) e \<longleftrightarrow> offers el e \<or> on_screen els e"
  "on_screen (els @ fs) e \<longleftrightarrow> on_screen els e \<or> on_screen fs e"
  by (simp_all add: on_screen_def)

lemma offers_lists [simp]:
  "offers (PasscodeForm els) e \<longleftrightarrow> is_submission e \<or> on_screen els e"
  "offers (FlipBox t front back) e \<longleftrightarrow> on_screen front e \<or> on_screen back e"
  "offers (SessionBox v els) e \<longleftrightarrow> on_screen els e"
  "offers (PanelBox b h els c) e \<longleftrightarrow> on_screen els e"
  by (simp_all add: on_screen_def)

declare offers.simps(2,5,7,8) [simp del]

lemma on_screen_map: "on_screen (map f xs) e \<longleftrightarrow> (\<exists>x \<in> set xs. offers (f x) e)"
  by (auto simp: on_screen_def list_ex_iff)

lemma selection_offers:
  "on_screen (selection_page_view s) e \<longleftrightarrow>
     (\<exists>b. e = FlipTo b) \<or> (\<exists>g \<in> set guests. e = ChooseGuest g) \<or> e = TypePasscode \<or> is_submission e"
proof -
  have "(\<exists>tile \<in> set selection_cards. e = ChooseGuest (gk_onSelect tile)) \<longleftrightarrow> (\<exists>g \<in> set guests. e = ChooseGuest g)"
    using arg_cong [OF selection_cards_choose, of set] by (auto simp: image_iff)
  moreover have "(\<exists>b. e = FlipTo b) \<longleftrightarrow> e = FlipTo True \<or> e = FlipTo False" by (metis (full_types))
  ultimately show ?thesis
    by (auto simp: selection_page_view_def FlipCard_def GuestSelectionFront_def SelectionPanel_def AdminBack_def AdminLoginCard_def
        MadeByCredit_def on_screen_map)
qed

lemma map_offers:
  "on_screen (map_page_view numstr mapW mapH status isActive d s) e \<longleftrightarrow>
     (\<exists>z. e = ClickZone z) \<or> e = ClickClose \<or> (useSession (ap_session s) \<noteq> None \<and> (e = SwitchSession \<or> e = ClickQuit))"
proof -
  have z: "(\<exists>z \<in> set ZONE_IDS. e = ClickZone z) \<longleftrightarrow> (\<exists>z. e = ClickZone z)"
    by (auto simp: ZONE_IDS_def) (metis ZoneId.exhaust)
  have "mv_onClick (ZoneIndicator mapW mapH z d b) = z" for z b by (simp add: ZoneIndicator_def split: prod.split)
  moreover have "GuestHud session = None \<longleftrightarrow> session = None" for session by (cases session rule: GuestHud.cases) simp_all
  ultimately show ?thesis
    by (auto simp: map_page_view_def ZoneLayer_def session_box_def HudActions_def IslandTitle_def panel_shell_def on_screen_map z
        split: option.split)
qed

text \<open>
  Nothing happens off the screen: in every state that the application can be in, an event changes
  the page only when an element on the screen offers it, or when it comes from the browser itself (the
  address bar, a reload) or is the key that closes an open panel.
\<close>

lemma screen_complete:
  assumes "pages_inv env s" "app_step env s e \<noteq> s" "\<forall>path. e \<noteq> Navigate path" "e \<noteq> Reload"
  shows "on_screen (app_screen numstr mapW mapH status isActive d s) e \<or> (e = PressKey ''Escape'' \<and> panelOpen s)"
proof -
  have same: "app_handler env s e \<noteq> s"
  proof
    assume "app_handler env s e = s"
    moreover have "render s = s" using assms(1) by (auto simp: pages_inv_def page_defs split: Path.split)
    ultimately show False using assms(2) by (simp add: app_step_def)
  qed
  show ?thesis
  proof (cases "ap_path s")
    case RootPath
    with same assms(3,4) show ?thesis by (cases e) (auto simp: app_screen_def router_def selection_offers split: if_splits)
  next
    case MapPath
    with same assms(3,4) show ?thesis
      by (cases e; cases "useSession (ap_session s)")
        (auto simp: app_screen_def router_def map_offers shell_onKeyDown_def split: if_splits)
  next
    case QuitPath
    with same assms(3,4) show ?thesis by (cases e) auto
  qed
qed

text \<open>The login form is turned to the user exactly when the card is flipped, though both faces can be reached by keyboard.\<close>

definition facing :: "element \<Rightarrow> element list" where
  "facing el = (case el of FlipBox transform front back \<Rightarrow> if transform = ''rotateY(180deg)'' then back else front | _ \<Rightarrow> [])"

lemma facing_flip: "facing (FlipCard flipped front back) = (if flipped then back else front)"
  by (simp add: facing_def FlipCard_def)

text \<open>A refused login is seen: the field is marked and the message is on the screen, until something is typed.\<close>

lemma login_error_shown:
  assumes "ap_path s = RootPath" "s' = app_step env s (SubmitPasscode raw)" "ap_path s' = RootPath"
  shows "\<exists>msg. msg \<noteq> [] \<and> PasscodeForm [PasscodeField ''Admin passcode'' ''Enter passcode'' True, Alert msg] \<in> set (AdminLoginCard (ap_error s')) \<and>
    ap_error (app_step env s' TypePasscode) = None"
proof -
  have "\<exists>msg. msg \<noteq> [] \<and> ap_error s' = Some msg"
    using assms by (auto simp: app_step_def submit_login_def AdminLoginSchema_def admin_handleSubmit_def handleAdminLogin_def page_defs
        loginAdmin_def adminSessionState_def split: if_splits)
  then show ?thesis using assms(3) by (auto simp: AdminLoginCard_def truthy_str_def app_step_def page_defs)
qed

section \<open>Pieces of the panels\<close>

text \<open>\<^verbatim>\<open>not-landed-gate.tsx\<close> and \<^verbatim>\<open>not-checked-in-gate.tsx\<close>.\<close>

definition not_landed_gate :: "element list" where
  "not_landed_gate =
     [Paragraph (''You haven'' @ [CHR 0x27] @ ''t landed yet''), Paragraph ''Clear the airport queue first to unlock this zone.'']"

definition not_checked_in_gate :: "element list" where
  "not_checked_in_gate = [Paragraph ''Not checked in yet'', Paragraph ''Book a hotel room first to access beach activities.'']"

text \<open>\<^verbatim>\<open>chat-composer.tsx\<close> and \<^verbatim>\<open>chat-load-error-state.tsx\<close>.\<close>

record composer_view =
  cw_value :: string
  cw_disabled :: bool
  cw_placeholder :: string
  cw_send :: button

definition ChatComposer :: "bool \<Rightarrow> string \<Rightarrow> composer_view" where
  "ChatComposer disabled text =
     \<lparr>cw_value = text, cw_disabled = disabled,
      cw_placeholder = ''Ask about the island, your next stop, or what to do today'' @ dots,
      cw_send = \<lparr>bt_disabled = send_button_disabled disabled text, bt_label = Some ''Send''\<rparr>\<rparr>"

definition chat_load_error :: "string \<Rightarrow> bool \<Rightarrow> string \<times> string \<times> button" where
  "chat_load_error message disabled =
     (''The parrot went off course'', message, \<lparr>bt_disabled = disabled, bt_label = Some ''Retry''\<rparr>)"

text \<open>\<^verbatim>\<open>parrot-stat-card.tsx\<close> and the tiles of \<^verbatim>\<open>parrot-quality-row.tsx\<close>.\<close>

definition ParrotStatCard :: "string \<Rightarrow> string \<Rightarrow> string option \<Rightarrow> string list" where
  "ParrotStatCard label text hint = [label, text] @ (if truthy_str hint then [nullish hint []] else [])"

definition quality_tile :: "(rat \<Rightarrow> string) \<Rightarrow> QualityItem \<Rightarrow> bool \<times> string list" where
  "quality_tile numstr item = (qi_flagged item, [qi_label item, numstr (qi_total item), numstr (qi_conversations item) @ '' convos''])"

text \<open>The face of \<^verbatim>\<open>activity-card.tsx\<close>: its texts and the width of its bar in percent.\<close>

record activity_face =
  fa_testid :: string
  fa_name :: string
  fa_description :: "string option"
  fa_width :: rat
  fa_remaining :: string

definition activity_face_of :: "(rat \<Rightarrow> string) \<Rightarrow> Activity \<Rightarrow> bool \<Rightarrow> activity_face" where
  "activity_face_of numstr activity isBooked =
     \<lparr>fa_testid = ''activity-card-'' @ ac_activity_id activity,
      fa_name = ac_activity_name activity,
      fa_description = (if truthy_str (ac_description activity) then ac_description activity else None),
      fa_width = round64 (activity_filled activity * 100),
      fa_remaining = av_text (ActivityCard numstr activity isBooked)\<rparr>"

text \<open>The bar never leaves its frame, rounding included, while the places left are between none and all.\<close>

lemma bar_width_bounds:
  assumes "0 \<le> ac_remaining a" "ac_remaining a \<le> ac_capacity a" "round64 (ac_capacity a) = ac_capacity a"
  shows "0 \<le> fa_width (activity_face_of numstr a isBooked) \<and> fa_width (activity_face_of numstr a isBooked) \<le> 100"
proof -
  have one: "round64 1 = 1" "round64 100 = 100" using round64_exact_pos [of 1] round64_exact_pos [of 100] by simp_all
  have "0 \<le> activity_filled a \<and> activity_filled a \<le> 1"
  proof (cases "0 < ac_capacity a")
    case True
    have "round64 (ac_capacity a - ac_remaining a) \<le> ac_capacity a"
      using round64_mono [of "ac_capacity a - ac_remaining a" "ac_capacity a"] assms by simp
    then have "round64 (round64 (ac_capacity a - ac_remaining a) / ac_capacity a) \<le> round64 1"
      using True by (intro round64_mono) simp
    moreover have "0 \<le> round64 (ac_capacity a - ac_remaining a) / ac_capacity a" using True assms(2) by (simp add: round64_nonneg)
    ultimately show ?thesis using True one round64_nonneg by (simp add: activity_filled_def)
  qed (simp add: activity_filled_def)
  then show ?thesis
    using round64_mono [of "activity_filled a * 100" 100] round64_nonneg [of "activity_filled a * 100"] one
    by (simp add: activity_face_of_def)
qed

section \<open>Starting the application (main.tsx)\<close>

text \<open>The mocked beach is started before the first drawing, and only when the configuration asks for it.\<close>

datatype start_action = StartWorker | DrawApp

definition prepare :: "ui_env \<Rightarrow> start_action list" where
  "prepare env = (if ev_mock env then [StartWorker] else [])"

definition main_start :: "ui_env \<Rightarrow> start_action list" where
  "main_start env = prepare env @ [DrawApp]"

end
