(* ===== verification/Ui_Quest_View.thy ===== *)
theory Ui_Quest_View
  imports Ui_Quest Ui_Lib
begin

text \<open>
  What the two components of Kiki's quest put on the screen: the buttons with what a click on them
  does, the contents of the oracle's panel, Kiki's place on the map and the confetti. The step relation
  of the quest is shown to be these buttons together with the timers, and the timers to come to rest.
\<close>

section \<open>Timers\<close>

text \<open>The two effects of \<^verbatim>\<open>kiki-burger-quest.tsx\<close>, as far as a timer of theirs fires.\<close>

inductive timer_step :: "quest \<Rightarrow> quest \<Rightarrow> bool" where
  walk_timer: "qs_phase s = NeedsMeows \<Longrightarrow> timer_step s (startWalkToOctopus s)"
| octopus_timer: "qs_phase s = WalkingToOctopus \<Longrightarrow> timer_step s (s\<lparr>qs_phase := AtOctopus, qs_oracleOpen := True\<rparr>)"
| return_timer: "qs_phase s = EarnedMeows \<Longrightarrow> timer_step s (startWalkToCrab s)"
| crab_timer: "qs_phase s = WalkingToCrab \<Longrightarrow> timer_step s (s\<lparr>qs_phase := ReadyToBuy\<rparr>)"
| confetti_timer: "qs_showConfetti s \<Longrightarrow> timer_step s (s\<lparr>qs_showConfetti := False\<rparr>)"

text \<open>How many timers can still fire.\<close>

fun phase_timers :: "QuestPhase \<Rightarrow> nat" where
  "phase_timers NeedsMeows = 2"
| "phase_timers WalkingToOctopus = 1"
| "phase_timers EarnedMeows = 2"
| "phase_timers WalkingToCrab = 1"
| "phase_timers _ = 0"

definition timers_left :: "quest \<Rightarrow> nat" where
  "timers_left s = phase_timers (qs_phase s) + (if qs_showConfetti s then 1 else 0)"

text \<open>The state after all of them.\<close>

definition settle :: "quest \<Rightarrow> quest" where
  "settle s =
     (let s' = s\<lparr>qs_showConfetti := False\<rparr>
      in case qs_phase s of
           NeedsMeows \<Rightarrow> (startWalkToOctopus s')\<lparr>qs_phase := AtOctopus, qs_oracleOpen := True\<rparr>
         | WalkingToOctopus \<Rightarrow> s'\<lparr>qs_phase := AtOctopus, qs_oracleOpen := True\<rparr>
         | EarnedMeows \<Rightarrow> (startWalkToCrab s')\<lparr>qs_phase := ReadyToBuy\<rparr>
         | WalkingToCrab \<Rightarrow> s'\<lparr>qs_phase := ReadyToBuy\<rparr>
         | _ \<Rightarrow> s')"

lemma timer_counts: "timer_step s t \<Longrightarrow> timers_left s = Suc (timers_left t)"
  by (induction rule: timer_step.induct) (simp_all add: timers_left_def quest_defs)

lemma timer_settle: "timer_step s t \<Longrightarrow> settle t = settle s"
  by (induction rule: timer_step.induct) (simp_all add: settle_def quest_defs Let_def split: QuestPhase.split)

lemma timer_idle: "timers_left s = 0 \<Longrightarrow> settle s = s"
  by (cases "qs_phase s") (simp_all add: timers_left_def settle_def split: if_splits)

lemma timer_fires: "timers_left s \<noteq> 0 \<Longrightarrow> \<exists>t. timer_step s t"
  by (cases "qs_phase s") (auto simp: timers_left_def split: if_splits intro: timer_step.intros)

lemma timers_left_bound: "timers_left s \<le> 3"
  by (cases "qs_phase s") (simp_all add: timers_left_def)

text \<open>A relation whose steps count down to zero, and where the steps keep the end.\<close>

locale countdown =
  fixes step :: "'s \<Rightarrow> 's \<Rightarrow> bool"
    and left :: "'s \<Rightarrow> nat"
    and rest :: "'s \<Rightarrow> 's"
  assumes counts: "step s t \<Longrightarrow> left s = Suc (left t)"
    and same_rest: "step s t \<Longrightarrow> rest t = rest s"
    and at_rest: "left s = 0 \<Longrightarrow> rest s = s"
    and fires: "left s \<noteq> 0 \<Longrightarrow> \<exists>t. step s t"
begin

lemma terminates: "wfp (\<lambda>t s. step s t)"
  by (rule wfp_if_convertible_to_nat [of _ left]) (simp add: counts)

lemma stopped_iff: "(\<nexists>t. step s t) \<longleftrightarrow> left s = 0"
  using counts [of s] fires [of s] by auto

lemma rest_kept: "step\<^sup>*\<^sup>* s t \<Longrightarrow> rest t = rest s"
  by (induction rule: rtranclp_induct) (simp_all add: same_rest)

lemma takes_all: "\<exists>t. (step ^^ left s) s t \<and> left t = 0"
proof (induction "left s" arbitrary: s)
  case 0
  then show ?case by (intro exI [of _ s]) (simp flip: 0)
next
  case (Suc n)
  then obtain u where u: "step s u" using fires [of s] by auto
  with Suc counts [OF u] obtain t where "(step ^^ n) u t" "left t = 0" by fastforce
  with u Suc(2) show ?case by (metis relpowp_Suc_I2)
qed

lemma comes_to_rest: "(step ^^ left s) s (rest s)"
  using takes_all [of s] at_rest rest_kept [of s] by (metis relpowp_imp_rtranclp)

lemma rest_iff: "step\<^sup>*\<^sup>* s t \<and> (\<nexists>u. step t u) \<longleftrightarrow> t = rest s"
proof
  assume t: "t = rest s"
  from takes_all obtain u where u: "(step ^^ left s) s u" "left u = 0" by blast
  with rest_kept [of s u] at_rest [of u] t have "u = t" by (auto dest: relpowp_imp_rtranclp)
  with u stopped_iff show "step\<^sup>*\<^sup>* s t \<and> (\<nexists>u. step t u)" by (auto dest: relpowp_imp_rtranclp)
qed (metis at_rest rest_kept stopped_iff)

end

interpretation timers: countdown timer_step timers_left settle
  by unfold_locales (simp_all add: timer_counts timer_settle timer_idle timer_fires)

section \<open>Buttons\<close>

record quest_button =
  qb_label :: string
  qb_disabled :: bool
  qb_click :: quest

definition qbutton :: "string \<Rightarrow> quest \<Rightarrow> quest_button" where
  "qbutton label after = \<lparr>qb_label = label, qb_disabled = False, qb_click = after\<rparr>"

definition kiki_buttons :: "quest \<Rightarrow> quest_button list" where
  "kiki_buttons s =
     (if canRequestBurger s then [qbutton ''Request burger'' (requestBurger s)] else []) @
     (if canRetryTask s then [qbutton ''Try task again'' (retryTask s)] else []) @
     (if canPayForBurger s then [qbutton ''Pay 100 meows'' (buyBurger s)] else [])"

fun color_str :: "OracleColor \<Rightarrow> string" where
  "color_str BlueC = ''blue''"
| "color_str RedC = ''red''"
| "color_str VioletC = ''violet''"
| "color_str AmberC = ''amber''"

definition COLOR_STYLES :: "(OracleColor \<times> string) list" where
  "COLOR_STYLES =
     [(BlueC, ''bg-sky-400 text-sky-950''), (RedC, ''bg-red-500 text-red-50''),
      (VioletC, ''bg-violet-500 text-violet-50''), (AmberC, ''bg-amber-300 text-amber-950'')]"

text \<open>\<^verbatim>\<open>toUpperCase\<close> on the letters of ASCII.\<close>

definition upper_char :: "char \<Rightarrow> char" where
  "upper_char c = (if 97 \<le> (of_char c :: nat) \<and> (of_char c :: nat) \<le> 122 then char_of (of_char c - 32 :: nat) else c)"

definition colorLabel :: "OracleColor \<Rightarrow> string" where
  "colorLabel color = map upper_char (take 1 (color_str color)) @ drop 1 (color_str color)"

definition blue_buttons :: "quest \<Rightarrow> quest_button list" where
  "blue_buttons s =
     concat (map (\<lambda>question. map (\<lambda>(optionIndex, option). qbutton option (setAnswer (oq_id question) optionIndex s))
       (enumerate 0 (oq_options question))) BLUE_TRIAL_QUESTIONS) @
     [qbutton ''Back'' (resetToChoice s),
      \<lparr>qb_label = ''Ask the oracle'', qb_disabled = answeredCount s < length BLUE_TRIAL_QUESTIONS,
       qb_click = finishBlueTrial s\<rparr>]"

definition red_buttons :: "quest \<Rightarrow> quest_button list" where
  "red_buttons s =
     map (\<lambda>color. qbutton (colorLabel color) (chooseColor color s)) (map fst COLOR_STYLES) @
     [qbutton ''Back'' (resetToChoice s), qbutton ''Reset sequence'' (s\<lparr>qs_sequenceInput := []\<rparr>)]"

definition oracle_buttons :: "quest \<Rightarrow> quest_button list" where
  "oracle_buttons s =
     (if \<not> qs_oracleOpen s then []
      else qbutton ''Close octopus oracle'' (closePanel s) #
        (case qs_mode s of
           ChoiceMode \<Rightarrow> [qbutton ''Blue pill'' (s\<lparr>qs_mode := BlueMode\<rparr>), qbutton ''Red pill'' (s\<lparr>qs_mode := RedMode\<rparr>)]
         | BlueMode \<Rightarrow> blue_buttons s
         | RedMode \<Rightarrow> red_buttons s
         | ResultMode \<Rightarrow>
             (if qs_result s = None then []
              else [qbutton ''Try another pill'' (resetToChoice s), qbutton ''Return to island'' (closePanel s)])))"

text \<open>The states that a click on a button that is not disabled leads to.\<close>

definition live :: "quest_button list \<Rightarrow> quest set" where
  "live bs = qb_click ` set (filter (\<lambda>b. \<not> qb_disabled b) bs)"

definition clicks :: "quest \<Rightarrow> quest set" where
  "clicks s = live (kiki_buttons s @ oracle_buttons s)"

section \<open>The contents of the panel\<close>

record option_view =
  ov_text :: string
  ov_selected :: bool

datatype oracle_page =
    Pills
  | MemoryTrial string "(string \<times> option_view list) list"
  | ReflexTrial "(string \<times> string) list" "string list"
  | Verdict bool string string

definition question_view :: "quest \<Rightarrow> nat \<times> OracleQuestion \<Rightarrow> string \<times> option_view list" where
  "question_view s = (\<lambda>(questionIndex, question).
     (show_nat (questionIndex + 1) @ ''. '' @ oq_question question,
      map (\<lambda>(optionIndex, option).
            \<lparr>ov_text = option, ov_selected = (map_of (qs_answers s) (oq_id question) = Some optionIndex)\<rparr>)
        (enumerate 0 (oq_options question))))"

definition oracle_content :: "quest \<Rightarrow> oracle_page option" where
  "oracle_content s =
     (if \<not> qs_oracleOpen s then None
      else case qs_mode s of
        ChoiceMode \<Rightarrow> Some Pills
      | BlueMode \<Rightarrow> Some (MemoryTrial (show_nat (answeredCount s) @ ''/3 answered'')
          (map (question_view s) (enumerate 0 BLUE_TRIAL_QUESTIONS)))
      | RedMode \<Rightarrow> Some (ReflexTrial
          (map (\<lambda>(index, color). (show_nat (index + 1), the (map_of COLOR_STYLES color))) (enumerate 0 RED_TRIAL_SEQUENCE))
          (if qs_sequenceInput s = [] then [''No pearls chosen yet''] else map colorLabel (qs_sequenceInput s)))
      | ResultMode \<Rightarrow> map_option (\<lambda>r. Verdict (rs_passed r) (rs_title r) (rs_message r)) (qs_result s))"

section \<open>Kiki and the confetti\<close>

record kiki_sprite =
  kv_left :: rat
  kv_top :: rat
  kv_width :: rat
  kv_facingRight :: bool
  kv_speech :: string
  kv_purse :: string

definition kiki_view :: "rat \<Rightarrow> rat \<Rightarrow> quest \<Rightarrow> kiki_sprite" where
  "kiki_view mapW mapH s =
     (let scaleX = round64 (mapW / MAP_W);
          scaleY = round64 (mapH / MAP_H);
          scale = min scaleX scaleY
      in \<lparr>kv_left = round64 (of_int (fst (qs_position s)) * scaleX),
          kv_top = round64 (of_int (snd (qs_position s)) * scaleY),
          kv_width = max 130 (round64 (230 * scale)),
          kv_facingRight = qs_facingRight s,
          kv_speech = phaseMessage (qs_phase s) (qs_meows s),
          kv_purse = show_int (qs_meows s) @ '' meows''\<rparr>)"

definition CONFETTI_COLORS :: "string list" where
  "CONFETTI_COLORS =
     [''#f472b6'', ''#fde047'', ''#34d399'', ''#60a5fa'', ''#fb7185'', ''#facc15'', ''#2dd4bf'', ''#c084fc'', ''#fb923c'',
      ''#38bdf8'', ''#f9a8d4'', ''#a3e635'', ''#f97316'']"

record ConfettiPiece =
  cp_left :: string
  cp_top :: string
  cp_delay :: string
  cp_duration :: string
  cp_color :: string
  cp_rotate :: string
  cp_width :: string
  cp_height :: string
  cp_drift :: string

definition confetti_piece :: "nat \<Rightarrow> ConfettiPiece" where
  "confetti_piece index =
     \<lparr>cp_left = show_nat ((index * 37) mod 100) @ ''%'',
      cp_top = show_nat ((index * 23) mod 96) @ ''%'',
      cp_delay = show_nat ((index * 29) mod 260) @ ''ms'',
      cp_duration = show_nat (2600 + (index * 41) mod 420) @ ''ms'',
      cp_color = CONFETTI_COLORS ! (index mod length CONFETTI_COLORS),
      cp_rotate = show_nat ((index * 47) mod 360) @ ''deg'',
      cp_width = show_nat (10 + (index mod 4) * 4) @ ''px'',
      cp_height = show_nat (16 + (index mod 5) * 5) @ ''px'',
      cp_drift = (if index mod 2 = 0 then ''1'' else ''-1'') @ show_nat (18 + (index mod 7) * 7) @ ''px''\<rparr>"

definition CONFETTI_PIECES :: "ConfettiPiece list" where
  "CONFETTI_PIECES = map confetti_piece [0..<120]"

definition confetti_shown :: "quest \<Rightarrow> ConfettiPiece list" where
  "confetti_shown s = (if qs_showConfetti s then CONFETTI_PIECES else [])"

section \<open>What the screen relies on\<close>

text \<open>
  Trials start empty, no pearl beyond the fourth is taken, a verdict has its text, an answer is one of
  the options of its question and each question has at most one.
\<close>

definition answer_ok :: "string \<times> nat \<Rightarrow> bool" where
  "answer_ok a = list_ex (\<lambda>question. oq_id question = fst a \<and> snd a < length (oq_options question)) BLUE_TRIAL_QUESTIONS"

definition screen_inv :: "quest \<Rightarrow> bool" where
  "screen_inv s =
     ((qs_mode s = ResultMode \<longrightarrow> qs_result s \<noteq> None) \<and>
      (qs_mode s \<in> {ChoiceMode, BlueMode} \<longrightarrow> qs_sequenceInput s = []) \<and>
      (qs_mode s \<in> {ChoiceMode, RedMode} \<longrightarrow> qs_answers s = []) \<and>
      (qs_mode s = RedMode \<longrightarrow> length (qs_sequenceInput s) < length RED_TRIAL_SEQUENCE) \<and>
      distinct (map fst (qs_answers s)) \<and> list_all answer_ok (qs_answers s) \<and>
      qs_position s \<in> {CRAB_POSITION, OCTOPUS_POSITION})"

lemma distinct_map_filter: "distinct (map f xs) \<Longrightarrow> distinct (map f (filter P xs))"
  by (induction xs) auto

lemma setAnswer_screen:
  assumes "screen_inv s" "qs_mode s = BlueMode" "question \<in> set BLUE_TRIAL_QUESTIONS" "i < length (oq_options question)"
  shows "screen_inv (setAnswer (oq_id question) i s)"
proof -
  have "answer_ok (oq_id question, i)" using assms(3,4) by (auto simp: answer_ok_def list_ex_iff)
  with assms(1,2) show ?thesis
    by (auto simp: screen_inv_def setAnswer_def list_all_iff intro: distinct_map_filter)
qed

lemma quest_step_screen: "quest_step s t \<Longrightarrow> screen_inv s \<Longrightarrow> screen_inv t"
proof (induction rule: quest_step.induct)
  case (give_answer s question i)
  then show ?case by (blast intro: setAnswer_screen)
next
  case (finish_blue s)
  then show ?case by (auto simp: screen_inv_def finishBlueTrial_def handleTrialResult_def Let_def split: prod.split)
next
  case (choose_color s color)
  then show ?case by (auto simp: screen_inv_def chooseColor_def handleTrialResult_def Let_def)
qed (auto simp: screen_inv_def quest_defs Let_def RED_TRIAL_SEQUENCE_def)

lemma screen_start: "s = initial_quest \<Longrightarrow> screen_inv s"
  by (simp add: screen_inv_def initial_quest_def)

interpretation screen: relation_invariant "\<lambda>s. s = initial_quest" quest_step screen_inv
  by unfold_locales (blast intro: screen_start quest_step_screen)+

text \<open>The oracle is asked only when every question has an answer.\<close>

lemma answered_all:
  assumes "screen_inv s" "answeredCount s \<ge> length BLUE_TRIAL_QUESTIONS" "question \<in> set BLUE_TRIAL_QUESTIONS"
  shows "map_of (qs_answers s) (oq_id question) \<noteq> None"
proof -
  let ?ids = "oq_id ` set BLUE_TRIAL_QUESTIONS"
  have sub: "fst ` set (qs_answers s) \<subseteq> ?ids"
  proof
    fix k
    assume "k \<in> fst ` set (qs_answers s)"
    then obtain a where "a \<in> set (qs_answers s)" "k = fst a" by blast
    with assms(1) have "answer_ok a" by (simp add: screen_inv_def list_all_iff)
    with \<open>k = fst a\<close> show "k \<in> ?ids" unfolding answer_ok_def list_ex_iff by force
  qed
  have "card (fst ` set (qs_answers s)) = answeredCount s"
    using assms(1) distinct_card [of "map fst (qs_answers s)"] by (simp add: screen_inv_def answeredCount_def)
  moreover have "card ?ids \<le> length BLUE_TRIAL_QUESTIONS" using card_length [of "map oq_id BLUE_TRIAL_QUESTIONS"] by simp
  moreover have "card (fst ` set (qs_answers s)) \<le> card ?ids" by (rule card_mono [OF _ sub]) simp
  ultimately have "card (fst ` set (qs_answers s)) = card ?ids" using assms(2) by linarith
  with sub have "fst ` set (qs_answers s) = ?ids" by (intro card_subset_eq) simp_all
  with assms(3) show ?thesis by (auto simp: map_of_eq_None_iff)
qed

section \<open>The steps are the buttons and the timers\<close>

lemma enabled_button [simp]: "qb_disabled (qbutton l t) = False" "qb_click (qbutton l t) = t"
  by (simp_all add: qbutton_def)

lemma live_simps [simp]:
  "live [] = {}"
  "live (b # bs) = (if qb_disabled b then live bs else insert (qb_click b) (live bs))"
  "live (bs @ bs') = live bs \<union> live bs'"
  "live (map (\<lambda>x. qbutton (l x) (f x)) xs) = f ` set xs"
  by (auto simp: live_def image_iff)

lemma clicks_live: "clicks s = live (kiki_buttons s) \<union> live (oracle_buttons s)"
  by (simp add: clicks_def)

lemma live_options:
  "live (concat (map (\<lambda>question. map (\<lambda>(optionIndex, option). qbutton option (f question optionIndex))
     (enumerate 0 (os question))) qs)) = {f question i | question i. question \<in> set qs \<and> i < length (os question)}"
proof (induction qs)
  case (Cons q qs)
  have "live (map (\<lambda>(optionIndex, option). qbutton option (f q optionIndex)) (enumerate 0 (os q))) = f q ` {..<length (os q)}"
    (is "?l = ?r")
  proof -
    have "?l = f q ` fst ` set (enumerate 0 (os q))" by (auto simp: live_def image_image case_prod_beta)
    also have "fst ` set (enumerate 0 (os q)) = {..<length (os q)}"
      by (metis add_0 atLeast0LessThan atLeast_upt map_fst_enumerate set_map)
    finally show ?thesis .
  qed
  with Cons show ?case by auto
qed simp

lemma live_blue:
  "live (blue_buttons s) = {setAnswer (oq_id question) i s | question i. question \<in> set BLUE_TRIAL_QUESTIONS \<and> i < length (oq_options question)}
     \<union> {resetToChoice s} \<union> (if answeredCount s \<ge> length BLUE_TRIAL_QUESTIONS then {finishBlueTrial s} else {})"
  using live_options [of "\<lambda>question i. setAnswer (oq_id question) i s" oq_options BLUE_TRIAL_QUESTIONS]
  by (auto simp: blue_buttons_def)

lemma all_colors: "set (map fst COLOR_STYLES) = UNIV"
proof -
  have "color \<in> set (map fst COLOR_STYLES)" for color by (cases color) (simp_all add: COLOR_STYLES_def)
  then show ?thesis by blast
qed

lemma live_red:
  "live (red_buttons s) = range (\<lambda>color. chooseColor color s) \<union> {resetToChoice s, s\<lparr>qs_sequenceInput := []\<rparr>}"
proof -
  have "live (map (\<lambda>color. qbutton (colorLabel color) (chooseColor color s)) (map fst COLOR_STYLES)) = range (\<lambda>color. chooseColor color s)"
    by (simp only: live_simps all_colors)
  then show ?thesis by (simp add: red_buttons_def)
qed

lemma live_kiki:
  "t \<in> live (kiki_buttons s) \<longleftrightarrow> canRequestBurger s \<and> t = requestBurger s \<or> canRetryTask s \<and> t = retryTask s \<or>
     canPayForBurger s \<and> t = buyBurger s"
  by (simp add: kiki_buttons_def)

lemma live_oracle:
  "\<not> qs_oracleOpen s \<Longrightarrow> live (oracle_buttons s) = {}"
  "qs_oracleOpen s \<Longrightarrow> qs_mode s = ChoiceMode \<Longrightarrow>
     live (oracle_buttons s) = {closePanel s, s\<lparr>qs_mode := BlueMode\<rparr>, s\<lparr>qs_mode := RedMode\<rparr>}"
  "qs_oracleOpen s \<Longrightarrow> qs_mode s = BlueMode \<Longrightarrow> live (oracle_buttons s) = insert (closePanel s) (live (blue_buttons s))"
  "qs_oracleOpen s \<Longrightarrow> qs_mode s = RedMode \<Longrightarrow> live (oracle_buttons s) = insert (closePanel s) (live (red_buttons s))"
  "qs_oracleOpen s \<Longrightarrow> qs_mode s = ResultMode \<Longrightarrow> qs_result s \<noteq> None \<Longrightarrow> live (oracle_buttons s) = {closePanel s, resetToChoice s}"
  by (auto simp: oracle_buttons_def)

lemma close_live: "qs_oracleOpen s \<Longrightarrow> closePanel s \<in> live (oracle_buttons s)"
  by (simp add: oracle_buttons_def)

lemma back_live: "qs_oracleOpen s \<Longrightarrow> qs_mode s \<noteq> ChoiceMode \<Longrightarrow> screen_inv s \<Longrightarrow> resetToChoice s \<in> live (oracle_buttons s)"
  by (cases "qs_mode s") (simp_all add: live_oracle live_blue live_red screen_inv_def)

lemma step_is_button_or_timer:
  assumes "quest_step s t" "screen_inv s"
  shows "t \<in> clicks s \<or> timer_step s t"
  using assms
proof (induction rule: quest_step.induct)
  case (give_answer s question i)
  then show ?case by (auto simp: clicks_live live_oracle live_blue)
next
  case (finish_blue s)
  then show ?case by (simp add: clicks_live live_oracle live_blue)
next
  case (choose_color s color)
  then show ?case by (simp add: clicks_live live_oracle live_red)
next
  case (reset_sequence s)
  then show ?case by (simp add: clicks_live live_oracle live_red)
qed (simp_all add: clicks_live live_kiki live_oracle close_live back_live timer_step.intros)

lemma button_is_step:
  assumes "t \<in> clicks s"
  shows "quest_step s t"
proof -
  from assms consider "t \<in> live (kiki_buttons s)" | "t \<in> live (oracle_buttons s)" by (auto simp: clicks_live)
  then show ?thesis
  proof cases
    case 1
    then show ?thesis by (auto simp: live_kiki intro: quest_step.intros)
  next
    case 2
    then have panel: "qs_oracleOpen s" by (auto simp: oracle_buttons_def split: if_splits)
    show ?thesis
    proof (cases "qs_mode s")
      case BlueMode
      with 2 panel show ?thesis by (auto simp: live_oracle live_blue split: if_splits intro: quest_step.intros)
    next
      case RedMode
      with 2 panel show ?thesis by (auto simp: live_oracle live_red intro: quest_step.intros)
    qed (use 2 panel in \<open>auto simp: oracle_buttons_def split: if_splits intro: quest_step.intros\<close>)
  qed
qed

lemma timer_is_step: "timer_step s t \<Longrightarrow> quest_step s t"
  by (induction rule: timer_step.induct) (blast intro: quest_step.intros)+

section \<open>Confetti and Kiki\<close>

text \<open>
  The drift is written as a sign that is \<^verbatim>\<open>1\<close> or \<^verbatim>\<open>-1\<close> in front of the digits, so a piece drifts by more than
  a hundred pixels to the side.
\<close>

lemma confetti_drift:
  "cp_drift (confetti_piece 0) = ''118px''" "cp_drift (confetti_piece 1) = ''-125px''" "cp_drift (confetti_piece 6) = ''160px''"
  by code_simp+

text \<open>At the canonical size Kiki stands at the crab or at the octopus.\<close>

lemma kiki_canonical:
  assumes "screen_inv s"
  shows "(kv_left (kiki_view MAP_W MAP_H s), kv_top (kiki_view MAP_W MAP_H s)) \<in> {(1220, 1250), (2825, 450)}"
proof -
  have n: "round64 (numeral n) = numeral n" if "(numeral n :: int) \<le> 2 ^ 53" for n
    using round64_exact_pos [of "numeral n"] that by simp
  have "round64 1 = 1" using round64_exact_pos [of 1] by simp
  with n assms show ?thesis
    by (auto simp: screen_inv_def kiki_view_def MAP_W_def MAP_H_def CRAB_POSITION_def OCTOPUS_POSITION_def)
qed

section \<open>Properties\<close>



text \<open>
  C36. The timers come to rest: there is no endless run of timers, at most three fire one after the other,
  and whatever their order the state in which no timer is left is the same one, \<open>settle s\<close>.
\<close>

theorem quest_timers_settle:
  "wfp (\<lambda>t s. timer_step s t) \<and> timers_left s \<le> 3 \<and> (timer_step ^^ timers_left s) s (settle s) \<and>
   (timer_step\<^sup>*\<^sup>* s t \<and> (\<nexists>u. timer_step t u) \<longleftrightarrow> t = settle s)"
  using timers.terminates timers_left_bound timers.comes_to_rest timers.rest_iff by blast

end
