(* ===== verification/Ui_Carousel.thy ===== *)
theory Ui_Carousel
  imports Prelude Ui_Guests
begin

text \<open>
  The carousel of the selection page (\<^verbatim>\<open>components/ui/carousel.tsx\<close>). The scrolling itself is done by a
  library, the record \<open>E\<close> of the calls the component makes with the documented behaviour of a looping
  carousel as locale \<open>embla_ring\<close>; it reports a new position by an event, and the component then reads
  again which of its two buttons are enabled. A ring of positions is one such library.
\<close>

record 'e embla =
  em_canScrollPrev :: "'e \<Rightarrow> bool"
  em_canScrollNext :: "'e \<Rightarrow> bool"
  em_scrollPrev :: "'e \<Rightarrow> 'e"
  em_scrollNext :: "'e \<Rightarrow> 'e"

text \<open>
  The API once the library has one, the two flags, and the listeners: one for \<^verbatim>\<open>select\<close>, and the number
  registered for \<^verbatim>\<open>reInit\<close>, which the cleanup of the effect does not remove.
\<close>

record 'e carousel =
  cl_api :: "'e option"
  cl_canScrollPrev :: bool
  cl_canScrollNext :: bool
  cl_onSelect :: bool
  cl_onReInit :: nat

definition initial_carousel :: "'e carousel" where
  "initial_carousel = \<lparr>cl_api = None, cl_canScrollPrev = False, cl_canScrollNext = False, cl_onSelect = False, cl_onReInit = 0\<rparr>"

definition carousel_onSelect :: "'e embla \<Rightarrow> 'e carousel \<Rightarrow> 'e carousel" where
  "carousel_onSelect E s =
     (case cl_api s of
        None \<Rightarrow> s
      | Some api \<Rightarrow> s\<lparr>cl_canScrollPrev := em_canScrollPrev E api, cl_canScrollNext := em_canScrollNext E api\<rparr>)"

definition carousel_scrollPrev :: "'e embla \<Rightarrow> 'e carousel \<Rightarrow> 'e carousel" where
  "carousel_scrollPrev E s = s\<lparr>cl_api := map_option (em_scrollPrev E) (cl_api s)\<rparr>"

definition carousel_scrollNext :: "'e embla \<Rightarrow> 'e carousel \<Rightarrow> 'e carousel" where
  "carousel_scrollNext E s = s\<lparr>cl_api := map_option (em_scrollNext E) (cl_api s)\<rparr>"

definition carousel_handleKeyDown :: "'e embla \<Rightarrow> string \<Rightarrow> 'e carousel \<Rightarrow> 'e carousel" where
  "carousel_handleKeyDown E key s =
     (if key = ''ArrowLeft'' then carousel_scrollPrev E s
      else if key = ''ArrowRight'' then carousel_scrollNext E s
      else s)"

definition carousel_effect :: "'e embla \<Rightarrow> 'e carousel \<Rightarrow> 'e carousel" where
  "carousel_effect E s =
     (case cl_api s of
        None \<Rightarrow> s
      | Some _ \<Rightarrow> (carousel_onSelect E s)\<lparr>cl_onSelect := True, cl_onReInit := cl_onReInit s + 1\<rparr>)"

definition carousel_cleanup :: "'e carousel \<Rightarrow> 'e carousel" where
  "carousel_cleanup s = s\<lparr>cl_onSelect := False\<rparr>"

datatype 'e carousel_event =
    ApiReady 'e
  | ArrowKey string
  | ClickPrevious
  | ClickNext
  | EmblaSelect
  | EmblaReInit
  | CarouselCleanup

fun carousel_step :: "'e embla \<Rightarrow> 'e carousel \<Rightarrow> 'e carousel_event \<Rightarrow> 'e carousel" where
  "carousel_step E s (ApiReady api) = carousel_effect E (s\<lparr>cl_api := Some api\<rparr>)"
| "carousel_step E s (ArrowKey key) = carousel_handleKeyDown E key s"
| "carousel_step E s ClickPrevious = (if cl_canScrollPrev s then carousel_scrollPrev E s else s)"
| "carousel_step E s ClickNext = (if cl_canScrollNext s then carousel_scrollNext E s else s)"
| "carousel_step E s EmblaSelect = (if cl_onSelect s then carousel_onSelect E s else s)"
| "carousel_step E s EmblaReInit = (if 0 < cl_onReInit s then carousel_onSelect E s else s)"
| "carousel_step E s CarouselCleanup = carousel_cleanup s"

lemmas carousel_defs = carousel_onSelect_def carousel_scrollPrev_def carousel_scrollNext_def carousel_handleKeyDown_def
  carousel_effect_def carousel_cleanup_def

section \<open>A looping carousel\<close>

locale embla_ring =
  fixes E :: "'e embla"
    and slides :: nat
    and index :: "'e \<Rightarrow> nat"
  assumes slides_pos: "0 < slides"
    and index_bound: "index e < slides"
    and index_next: "index (em_scrollNext E e) = (index e + 1) mod slides"
    and index_prev: "index (em_scrollPrev E e) = (index e + (slides - 1)) mod slides"
    and can_next: "em_canScrollNext E e"
    and can_prev: "em_canScrollPrev E e"
begin

text \<open>Once the library is ready both buttons are enabled and stay so.\<close>

definition ready :: "'e carousel \<Rightarrow> bool" where
  "ready s = (cl_api s \<noteq> None \<and> cl_canScrollPrev s \<and> cl_canScrollNext s)"

lemma ready_start: "ready (carousel_step E s (ApiReady e))"
  by (simp add: ready_def carousel_defs can_next can_prev)

lemma ready_step: "ready s \<Longrightarrow> ready (carousel_step E s ev)"
  by (cases ev) (auto simp: ready_def carousel_defs can_next can_prev split: option.splits)

text \<open>A click and the arrow key of its direction do the same.\<close>

lemma keys_are_clicks:
  "ready s \<Longrightarrow> carousel_step E s (ArrowKey ''ArrowRight'') = carousel_step E s ClickNext"
  "ready s \<Longrightarrow> carousel_step E s (ArrowKey ''ArrowLeft'') = carousel_step E s ClickPrevious"
  by (simp_all add: ready_def carousel_defs)

definition slide :: "'e carousel \<Rightarrow> nat" where
  "slide s = index (the (cl_api s))"

lemma slide_next: "ready s \<Longrightarrow> slide (carousel_step E s ClickNext) = (slide s + 1) mod slides"
  by (auto simp: ready_def carousel_defs slide_def index_next)

lemma slide_prev: "ready s \<Longrightarrow> slide (carousel_step E s ClickPrevious) = (slide s + (slides - 1)) mod slides"
  by (auto simp: ready_def carousel_defs slide_def index_prev)

lemma run_next: "ready s \<Longrightarrow> slide (run (carousel_step E) s (replicate k ClickNext)) = (slide s + k) mod slides"
proof (induction k arbitrary: s)
  case 0
  then show ?case by (simp add: slide_def index_bound)
next
  case (Suc k)
  then show ?case using Suc.IH [OF ready_step [OF Suc.prems, of ClickNext]] slide_next [OF Suc.prems]
    by (simp add: mod_add_left_eq)
qed

text \<open>Back undoes forward.\<close>

lemma prev_next: "ready s \<Longrightarrow> slide (run (carousel_step E) s [ClickNext, ClickPrevious]) = slide s"
proof -
  assume r: "ready s"
  have "slide (run (carousel_step E) s [ClickNext, ClickPrevious]) = ((slide s + 1) mod slides + (slides - 1)) mod slides"
    using slide_prev [OF ready_step [OF r, of ClickNext]] slide_next [OF r] by simp
  also have "\<dots> = (slide s + 1 + (slides - 1)) mod slides" by (rule mod_add_left_eq)
  also have "slide s + 1 + (slides - 1) = slide s + slides" using slides_pos by simp
  finally show ?thesis by (simp add: slide_def index_bound)
qed

text \<open>Every slide comes to the front after fewer clicks than there are slides.\<close>

lemma every_slide: "ready s \<Longrightarrow> j < slides \<Longrightarrow> \<exists>k < slides. slide (run (carousel_step E) s (replicate k ClickNext)) = j"
proof -
  assume r: "ready s" and j: "j < slides"
  have b: "slide s < slides" by (simp add: slide_def index_bound)
  show ?thesis
  proof (cases "slide s \<le> j")
    case True
    then show ?thesis using run_next [OF r, of "j - slide s"] j by (intro exI [of _ "j - slide s"]) simp
  next
    case False
    then have "slide s + (slides - slide s + j) = j + slides" using b by simp
    then have "slide (run (carousel_step E) s (replicate (slides - slide s + j) ClickNext)) = j"
      using run_next [OF r, of "slides - slide s + j"] j by simp
    moreover have "slides - slide s + j < slides" using False b by simp
    ultimately show ?thesis by blast
  qed
qed

end

text \<open>The ring of the guests of the selection page.\<close>

definition guest_ring :: "nat embla" where
  "guest_ring =
     \<lparr>em_canScrollPrev = (\<lambda>_. True), em_canScrollNext = (\<lambda>_. True),
      em_scrollPrev = (\<lambda>i. i + (length guests - 1)), em_scrollNext = (\<lambda>i. i + 1)\<rparr>"

interpretation ring: embla_ring guest_ring "length guests" "\<lambda>i. i mod length guests"
proof unfold_locales
  show "0 < length guests" by (simp add: guests_def)
  then show "i mod length guests < length guests" for i by simp
qed (simp_all add: guest_ring_def mod_simps)

end
