(* ===== verification/Spec2Isabelle.thy ===== *)
theory Spec2Isabelle
  imports Island_Rooms Island_Traffic Island_Trace Sse_Client Ui_Shell Ui_Quest_View Ui_Carousel
begin

text \<open>
  Purrlington Island: a verification of the TypeScript parts of the resort.

  \<^bold>\<open>The program.\<close> A web application (\<^verbatim>\<open>frontend/\<close>) talks through a gateway to small services. Two of them
  are written in TypeScript: the broadcast service (\<^verbatim>\<open>services/broadcast\<close>), which takes events from the
  others and streams them to listeners, and the hotel (\<^verbatim>\<open>services/hotel\<close>), which books rooms, asks the
  airport whether a guest has landed and posts its events to the broadcast service. The application
  reads the stream, keeps a feed for every channel and shows it in the zones of the map; its hooks
  call the services; a traffic generator plays synthetic guests.

  \<^bold>\<open>The theories.\<close>

  \<^item> \<open>Prelude\<close>, \<open>Js\<close>, \<open>Json\<close>, \<open>Json_Pretty\<close>, \<open>Zod\<close>, \<open>Binary64\<close>: what the parts share. List operations and the interfaces of
    event-driven machines (\<open>machine_invariant\<close>, \<open>machine_refinement\<close>, \<open>relation_invariant\<close>); the values of
    the language, \<^verbatim>\<open>JSON.stringify\<close> and \<^verbatim>\<open>JSON.parse\<close> with their round trip, that the parser's fuel never
    decides its answer, and that it reads every rendition of a value, indented ones included; schemas as data with the
    documented contract of the validation library (locale \<open>zod\<close>); rounding to binary64 numbers (locale
    \<open>rounding\<close>, and that a random number never rounds an index out of range).
  \<^item> \<open>Hub_Types\<close> (\<^verbatim>\<open>types.ts\<close>, \<^verbatim>\<open>schemas.ts\<close>, \<^verbatim>\<open>validate.ts\<close>), \<open>Hub_Auth\<close> (\<^verbatim>\<open>adminAuth.ts\<close>, \<^verbatim>\<open>serviceAuth.ts\<close>), \<open>Hub_Bus\<close>
    (\<^verbatim>\<open>eventBus.ts\<close>), \<open>Hub_Routes\<close> (\<^verbatim>\<open>routes/\<close>, \<^verbatim>\<open>app.ts\<close>, \<^verbatim>\<open>requestLogger.ts\<close>): the broadcast service, as a machine over
    requests and disconnects. \<open>Hub_Service\<close> relates it to an abstract publish/subscribe bus and to the
    transcript of one connection; \<open>Hub_Props\<close> states delivery, confidentiality, least privilege,
    all-or-nothing ingest, the admin guard, strict payloads and framing. \<open>Sse_Client\<close> (\<^verbatim>\<open>__tests__/sse-client.ts\<close>) is
    the reader of the stream: that chunks do not matter, that it hears exactly what the hub wrote, and when those who
    wait for frames are answered.
  \<^item> \<open>Hotel_Db\<close> (\<^verbatim>\<open>prisma/\<close>), \<open>Hotel_Clients\<close> (\<^verbatim>\<open>airport/\<close>, \<^verbatim>\<open>broadcast/\<close>, \<^verbatim>\<open>common/\<close>), \<open>Hotel_Service\<close> (\<^verbatim>\<open>reservation/\<close>,
    \<^verbatim>\<open>main.ts\<close>), \<open>Hotel_Rooms\<close> (\<^verbatim>\<open>rooms/\<close>, \<^verbatim>\<open>simulation/\<close>): the hotel. The generated database client is a record of
    calls with the contract of locale \<open>prisma\<close>; \<open>Hotel_Mem\<close> interprets it on tables in memory.
    \<open>Hotel_Http\<close> (the controllers' routes, \<^verbatim>\<open>create-reservation.dto.ts\<close>, the bodies of the answers) puts HTTP
    requests in front of the service as the web application sees it, \<open>Hotel_App\<close> (\<^verbatim>\<open>app.module.ts\<close>, \<^verbatim>\<open>health/\<close>) has
    every answer with its status behind the access log that gives a request its correlation id. \<open>Hotel_Ledger\<close> relates the service to an abstract ledger of stays, \<open>Hotel_Race\<close> interleaves two
    bookings, \<open>Hotel_Props\<close> states that rooms are never double booked by requests handled one at a time,
    what bookings and cancellations do on every branch, the occupancy, and the calendar.
  \<^item> \<open>Ui_Events\<close> (\<^verbatim>\<open>types/broadcast.ts\<close>, \<^verbatim>\<open>stores/events-store.ts\<close>, \<^verbatim>\<open>features/map\<close>, \<^verbatim>\<open>broadcast/lib\<close>), \<open>Ui_Broadcast\<close>
    (\<^verbatim>\<open>use-broadcast.ts\<close>), \<open>Ui_Api\<close> (\<^verbatim>\<open>lib/api-client.ts\<close>, \<^verbatim>\<open>config/env.ts\<close>), \<open>Ui_Clients\<close> (\<^verbatim>\<open>features/*/types.ts\<close>,
    \<^verbatim>\<open>features/*/api\<close>), \<open>Ui_Session\<close> (\<^verbatim>\<open>stores/session-*.ts\<close>), \<open>Ui_Hooks\<close> (\<^verbatim>\<open>features/*/hooks\<close>), \<open>Ui_Parrot\<close>
    (\<^verbatim>\<open>use-parrot-chat.ts\<close>), \<open>Ui_Mock\<close> (\<^verbatim>\<open>mocks/handlers/beach.ts\<close>), \<open>Ui_Quest\<close> (\<^verbatim>\<open>features/kiki-burger-quest\<close>,
    \<^verbatim>\<open>features/octopus-oracle\<close>; their screen is \<open>Ui_Quest_View\<close>), \<open>Ui_Guests\<close> (\<^verbatim>\<open>data/\<close>, \<^verbatim>\<open>lib/guest.ts\<close>), \<open>Ui_Lib\<close> (\<^verbatim>\<open>lib/avatar.ts\<close>, \<^verbatim>\<open>format.ts\<close>,
    \<^verbatim>\<open>simulation-time.ts\<close>, map sizes), \<open>Ui_Simulation\<close> (\<^verbatim>\<open>features/simulation\<close>): the web application.
    \<open>Ui_Props\<close> states that the feed keeps the newest hundred deliveries, that the stream never gets
    stuck and backs off as scheduled, that the session survives a reload, that admin actions need an
    admin session, that every answer is validated, the turns of the chat, conservation of places in the
    mocked beach, the quest's invariant, completion and dead end, the generator's three loops, valid
    bookings and rate limit, the hash as a fold over 32-bit words, and the calendar's round trip.
  \<^item> \<open>Ui_Theme\<close> (\<^verbatim>\<open>components/theme-provider.tsx\<close>), \<open>Ui_Pages\<close> (\<^verbatim>\<open>app/router.tsx\<close>, \<^verbatim>\<open>features/guest-selection\<close>, the pages
    and the session box of \<^verbatim>\<open>features/map\<close>), \<open>Ui_Panels\<close> (the panels of the zones and their lists), \<open>Ui_Summaries\<close>
    (the admin's views), \<open>Ui_Controls\<close> (composers, forms, the flash of a marker, the farm's shop): what a user
    meets. A page is a machine over clicks, keys, the address bar and the effects of its components; a
    panel is a function from the session, the feed and the answers of the hooks to the widgets it shows,
    without markup. \<open>Ui_App_Props\<close> states who can be on which page and which panel shows what to whom;
    the lemmas of the components show that the root element carries the theme of the provider and when
    a theme survives a reload, that a composer loses no text, that a flash ends, that the farm's
    countdown asks again, and what the summaries count.
  \<^item> \<open>Ui_Cards\<close> (the cards, fields and bubbles inside the panels, the indented payloads of the parrot's
    tools), \<open>Ui_Carousel\<close> (\<^verbatim>\<open>components/ui/carousel.tsx\<close> over the contract \<open>embla_ring\<close> of the scrolling library),
    \<open>Ui_Cache\<close> (the contract \<open>query_client\<close> of the query library's cache, and what hooks make of it). Their
    lemmas show that a card prints what the schema has read, where the dates of the form go wrong, and
    that every guest can be scrolled to the front. \<open>Ui_Quest_View\<close> shows that the steps of the quest are
    the enabled buttons and the timers, and that the timers come to rest. \<open>Ui_Shell\<close> draws the pages from these
    pieces, with the events that each element offers, and shows that nothing happens off the screen.
  \<^item> \<open>Island\<close>, \<open>Island_Booking\<close>, \<open>Island_Reload\<close>, \<open>Island_Rooms\<close>, \<open>Island_Traffic\<close>, \<open>Island_Trace\<close> and this theory: the parts
    together, from a post at the broadcast service to the screen, from the hotel's form through its HTTP surface and
    tables back to the panel, what a reload shows after it, from the tables to the admin's view of the rooms,
    the synthetic guests at the hotel, the correlation id across the services, the hotel's contracts with its
    neighbours, and the beach events that never arrive.

  \<^bold>\<open>Conventions.\<close> A struct is a record with a field prefix of its own, an enum or a union a datatype. A
  component is a step function over its events, or a step relation where timers and users decide what
  comes next; a thrown error is \<open>Inl\<close>, null and undefined are \<open>None\<close>. Identifiers that are drawn
  (\<^verbatim>\<open>uuid()\<close>), random numbers, the clock, the process environment, the printing of numbers, and the
  libraries (validation, HTTP, database client, date arithmetic) are arguments. Strings have
  characters below 256.

  \<^bold>\<open>Bounds and fuel.\<close> \<^verbatim>\<open>JSON.parse\<close> runs on fuel of twice the length of its text plus two; any more gives the
  same answer on every text (\<open>JSON_parse_fuel\<close>); every other recursion is structural or has a
  measure. Numbers that are rounded use \<open>round64\<close>, exact below \<open>2 ^ 53\<close>; the bitwise operators of the
  hash are those of 32-bit integers.

  \<^bold>\<open>Not modelled.\<close> Markup, styling and artwork, the user interface kit under \<^verbatim>\<open>components/ui\<close> but
  for the carousel, the start of the servers, dependency injection and the opening of the database connection, the texts of the validation library's messages,
  the cache inside the query library beyond its contract, the second run of effects in React's development
  mode, the worker script of the mocking library, test suites but for the stream reader, and the services in Go, Kotlin and
  Python. The requests of one step of the traffic generator are taken together; the interleaving of
  steps is kept.
\<close>

section \<open>The parts together\<close>

text \<open>C1.
  From a post to the screen. Take any sequence of requests and disconnects at the broadcast service,
  and a browser that reads the connection \<open>r\<close> it has opened there: for every channel, what the
  application keeps is the newest hundred of exactly the events that were accepted while the connection
  was open and whose channel its identity was granted, in order, each with every field it was published
  with, mirrored and fanned out as the feed specifies. Nothing is lost or altered by the printing of an
  event, its frame, the reading of the frame and the schema of the application.
\<close>

theorem island_end_to_end:
  assumes "zod sp" "bc_gatewayUrl cfg \<noteq> []"
    and ok: "\<forall>ev \<in> set (heard env r 0 None ins). json_ok ns nv (JObj (event_obj ev))"
    and chunks: "chunks = wire (hub_bus (run (hub_step sp ns env) hub_init ins)) r"
  shows "es_events (uc_store (run (broadcast_step sp nv cfg) (initial_broadcast cfg)
      ([Mount, OnOpen] @ messages u (List.map_filter sse_message chunks)))) c
    = take MAX_EVENTS (feed c (ingests u (heard env r 0 None ins)))"
proof -
  let ?s = "run (broadcast_step sp nv cfg) (initial_broadcast cfg) [Mount, OnOpen]"
  have s: "uc_connection ?s \<noteq> None" "uc_store ?s = initial_events"
    using assms(2) by (simp_all add: broadcast_step_def initial_broadcast_def mount_def connect_def onopen_def)
  have "chunks = session ns env r 0 None ins"
    unfolding chunks by (rule hub_service.delivery) (rule hub_service.intro [OF assms(1)])
  then have "messages u (List.map_filter sse_message chunks) = messages u (map (\<lambda>ev. json_text ns (JObj (event_obj ev))) (heard env r 0 None ins))"
    using session_messages [OF ok] by simp
  then have "uc_store (run (broadcast_step sp nv cfg) ?s (messages u (List.map_filter sse_message chunks)))
      = run store_step initial_events (ingests u (heard env r 0 None ins))"
    using run_messages [OF assms(1) ok s(1), of cfg u 0] s(2) by (simp add: messages_def ingests_def)
  moreover have "es_events initial_events c = take MAX_EVENTS []"
    by (simp add: initial_events_def createEmptyChannelEvents_def)
  ultimately show ?thesis
    using run_store_events [of initial_events c "[]"] by (simp only: run_append feed_def)
qed

theorem island_end_to_end_witness:
  "es_events (uc_store (run (broadcast_step zod_reference (\<lambda>_. NaN) sample_gateway) (initial_broadcast sample_gateway)
      ([Mount, OnOpen] @ messages (\<lambda>_ _. ''m'') (List.map_filter sse_message
        (wire (hub_bus (run (hub_step zod_reference int_printer sample_env) hub_init sample_inputs)) 0))))) AirportCh
    = [shown_event sample_heard]"
proof -
  have "\<forall>ev \<in> set (heard sample_env 0 0 None sample_inputs). json_ok int_printer (\<lambda>_. NaN) (JObj (event_obj ev))"
    unfolding heard_sample using json_ok_sample by simp
  from island_end_to_end [OF zref.zod_axioms _ this refl, of sample_gateway "\<lambda>_ _. ''m''" AirportCh]
  show ?thesis
    by (simp add: heard_sample ingests_def feed_def sample_gateway_def)
      (simp add: shown_event_def sample_heard_def base_event_def MAX_EVENTS_def ADMIN_ANNOUNCEMENT_EVENT_TYPE_def)
qed

text \<open>C26.
  The events of the beach do not reach the beach. Every event that the broadcast service makes of a
  beach post, whatever its body, leaves the feed of the beach zone, the cached activities and their
  refreshing untouched: the zone shows the hotel's channel, and the payload the service forwards has no
  property that the application reads as an availability.
\<close>

theorem beach_events_lost:
  assumes "zod sp" "ingest_reads env rt req = Some ob" "rt = PostBeachFull \<or> rt = PostBeachAvailable"
    and ev: "ev = ingest_event rt uuid ob" and "json_ok ns nv (JObj (event_obj ev))"
    and s': "s' = handleMessage sp nv u (json_text ns (JObj (event_obj ev))) s"
  shows "useZoneEvents BeachZone (uc_store s') = useZoneEvents BeachZone (uc_store s) \<and>
    uc_activities s' = uc_activities s \<and> uc_invalidated s' = uc_invalidated s \<and>
    es_events (uc_store s') BeachCh = prependEvent (es_events (uc_store s) BeachCh) (shown_event ev)"
proof -
  have "s' = ingestBroadcastEvent u (shown_event ev) s"
    unfolding s' by (rule handle_hub_event [OF assms(1,5)])
  moreover have "getBeachAvailabilityPayload (shown_event ev) = None"
    unfolding ev by (rule beach_no_payload [OF assms(2,3)])
  moreover have "be_channel (shown_event ev) = BeachCh" "be_event_type (shown_event ev) \<noteq> ADMIN_ANNOUNCEMENT_EVENT_TYPE"
    using assms(3) by (auto simp: ev shown_event_def base_event_def ADMIN_ANNOUNCEMENT_EVENT_TYPE_def)
  ultimately show ?thesis
    by (simp add: ingestBroadcastEvent_def ingestEvent_def useZoneEvents_def Let_def)
qed

theorem beach_events_lost_witness:
  "useZoneEvents BeachZone (uc_store (handleMessage zod_reference (\<lambda>_. NaN) (\<lambda>_. ''m'')
      (json_text int_printer (JObj (event_obj (ingest_event PostBeachFull ''u'' [(''activity'', JStr ''Kayaking'')]))))
      (initial_broadcast sample_gateway))) = []"
proof -
  have reads: "ingest_reads sample_env PostBeachFull (request_with [] (JObj [(''activity'', JStr ''Kayaking'')]))
      = Some [(''activity'', JStr ''Kayaking'')]"
    by (simp add: ingest_reads_def admin_refused_def request_with_def BeachEventSchema_def BaseFields_def)
  have ok: "json_ok int_printer (\<lambda>_. NaN) (JObj (event_obj (ingest_event PostBeachFull ''u'' [(''activity'', JStr ''Kayaking'')])))"
    by (simp add: base_event_def event_obj_def obj_rest_def)
  from beach_events_lost [OF zref.zod_axioms reads _ refl ok refl, of "\<lambda>_. ''m''" "initial_broadcast sample_gateway"]
  show ?thesis by (simp add: useZoneEvents_def initial_broadcast_def initial_events_def createEmptyChannelEvents_def)
qed

text \<open>C25.
  The contracts of the hotel's neighbours. What the hotel posts is accepted by the route of the
  broadcast service that it posts to and becomes an event of the same name with the hotel's message,
  guest and stay; and every answer of the reservation controller passes the schema by which the web
  application reads it, losing only the list of the party.
\<close>

theorem hotel_contracts:
  assumes "(''POST'', getEndpointForEvent ty, Hub_Routes.Ingest rt) \<in> set createApp"
    and "rq_body req = JObj (hotel_event_obj e)" and "safe_days r" and "cr_status k = CANCELLED"
  shows "(\<exists>ob. ingest_reads env rt req = Some ob \<and>
      ingest_event rt uuid ob = \<lparr>ie_id = uuid, ie_channel = Hotel, ie_event_type = ie_event_type (ingest_event rt uuid ob),
        ie_message = he_message e, ie_sender = ''hotel'', ie_guest_id = Some (he_guest_id e), ie_guest_name = None,
        ie_data = Some [(''reservation_id'', JStr (he_reservation_id e)), (''room_type'', JStr (room_type_str (he_room_type e))),
          (''guest_count'', jint (he_guest_count e)), (''check_in_day'', jint (he_check_in_day e)),
          (''check_out_day'', jint (he_check_out_day e))]\<rparr> \<and>
      event_type_str (ie_event_type (ingest_event rt uuid ob)) = hotel_event_str ty) \<and>
    zod_reads ReservationSchema (JObj (reservation_json r))
      = Some (JObj (filter (\<lambda>kv. fst kv \<noteq> ''party_guest_ids'') (reservation_json r))) \<and>
    zod_reads CancelReservationResponseSchema (JObj (cancellation_json k)) = Some (JObj (cancellation_json k))"
proof -
  from assms(1) have rt: "ty = ReservationConfirmed \<and> rt = PostHotelConfirm \<or> ty = ReservationCancelled \<and> rt = PostHotelCancel"
    by (cases ty) (auto simp: createApp_def)
  then have "ingest_reads env rt req = Some
     [(''message'', JStr (he_message e)), (''guest_id'', JStr (he_guest_id e)), (''reservation_id'', JStr (he_reservation_id e)),
      (''room_type'', JStr (room_type_str (he_room_type e))), (''guest_count'', jint (he_guest_count e)),
      (''check_in_day'', jint (he_check_in_day e)), (''check_out_day'', jint (he_check_out_day e))]"
    using hotel_event_read [OF _ assms(2)] by blast
  with rt reservation_accepted [OF assms(3)] cancellation_accepted [OF assms(4)] show ?thesis
    by (auto simp: base_event_def obj_rest_def)
qed

theorem hotel_contracts_witness:
  "zod_reads CancelReservationResponseSchema (JObj (cancellation_json \<lparr>cr_id = ''r1'', cr_status = CANCELLED\<rparr>)) \<noteq> None"
proof -
  let ?e = "\<lparr>he_message = ''m'', he_reservation_id = ''r1'', he_guest_id = ''g1'', he_room_type = SUITE, he_guest_count = 2,
    he_check_in_day = 3, he_check_out_day = 5\<rparr>"
  let ?r = "\<lparr>rr_id = ''r1'', rr_guest_id = ''g1'', rr_room_id = ''room'', rr_room_type = SUITE, rr_guest_count = 2,
    rr_party_guest_ids = [], rr_check_in_day = 3, rr_check_out_day = 5, rr_status = CONFIRMED\<rparr>"
  have "(''POST'', getEndpointForEvent ReservationConfirmed, Hub_Routes.Ingest PostHotelConfirm) \<in> set createApp"
    by (simp add: createApp_def)
  from hotel_contracts [OF this, of "request_with [] (JObj (hotel_event_obj ?e))" ?e ?r "\<lparr>cr_id = ''r1'', cr_status = CANCELLED\<rparr>" sample_env "''u''"]
  show ?thesis by (simp add: request_with_def safe_days_def)
qed

end
